(* ===== verification/Go_Prelude.thy ===== *)
theory Go_Prelude
  imports Main "HOL-Library.Word" "HOL-Library.Sublist" "HOL-Library.Signed_Division"
begin

text \<open>
  Shared vocabulary of the development: error values and the results of fallible Go
  functions, machine integers, the functions of the Go packages \<open>strings\<close> and
  \<open>strconv\<close> that the driver calls, and the generic lemmas the components share.
\<close>

named_theorems rpc_defs \<open>definitions of the RPC handlers and the operations they are made of\<close>
named_theorems text_simps \<open>equations for the text functions\<close>

section \<open>Machine integers\<close>

type_synonym i64 = "64 word"
type_synonym i32 = "32 word"

text \<open>Go compares and divides \<open>int32\<close> and \<open>int64\<close> as two's complement numbers;
  division truncates towards zero.\<close>

definition go_less :: "'a::len word \<Rightarrow> 'a word \<Rightarrow> bool" where
  "go_less a b \<longleftrightarrow> sint a < sint b"

definition go_leq :: "'a::len word \<Rightarrow> 'a word \<Rightarrow> bool" where
  "go_leq a b \<longleftrightarrow> sint a \<le> sint b"

definition go_div :: "'a::len word \<Rightarrow> 'a word \<Rightarrow> 'a word" where
  "go_div a b = word_of_int (sint a sdiv sint b)"

text \<open>A conversion between integer widths keeps the low bits, extending the sign.\<close>

definition go_conv :: "'a::len word \<Rightarrow> 'b::len word" where
  "go_conv a = word_of_int (sint a)"

lemma sint_word_of_int_in_range:
  assumes "- (2 ^ (LENGTH('a) - 1)) \<le> i" and "i < 2 ^ (LENGTH('a) - 1)"
  shows "sint (word_of_int i :: 'a::len word) = i"
  using assms by (simp add: signed_take_bit_int_eq_self_iff sint_sbintrunc')

lemma sint64_of_int:
  "- (2 ^ 63) \<le> i \<Longrightarrow> i < 2 ^ 63 \<Longrightarrow> sint (word_of_int i :: i64) = i"
  by (rule sint_word_of_int_in_range) simp_all

lemma sint32_of_int:
  "- (2 ^ 31) \<le> i \<Longrightarrow> i < 2 ^ 31 \<Longrightarrow> sint (word_of_int i :: i32) = i"
  by (rule sint_word_of_int_in_range) simp_all

lemma sint64_range: "- (2 ^ 63) \<le> sint (a :: i64)" "sint (a :: i64) < 2 ^ 63"
  using sint_ge [of a] sint_lt [of a] by simp_all

lemma sint32_range: "- (2 ^ 31) \<le> sint (a :: i32)" "sint (a :: i32) < 2 ^ 31"
  using sint_ge [of a] sint_lt [of a] by simp_all

lemma word_of_int_sint_add: "(a :: 'a::len word) + b = word_of_int (sint a + sint b)"
  by (simp add: wi_hom_add [symmetric])

lemma word_of_int_sint_mult: "(a :: 'a::len word) * b = word_of_int (sint a * sint b)"
  by (simp add: wi_hom_mult [symmetric])

lemma sint64_add:
  assumes "- (2 ^ 63) \<le> sint a + sint b" and "sint a + sint b < 2 ^ 63"
  shows "sint ((a :: i64) + b) = sint a + sint b"
  unfolding word_of_int_sint_add [of a b] by (rule sint64_of_int [OF assms])

lemma sint64_diff:
  assumes "- (2 ^ 63) \<le> sint a - sint b" and "sint a - sint b < 2 ^ 63"
  shows "sint ((a :: i64) - b) = sint a - sint b"
proof -
  have "a - b = word_of_int (sint a - sint b)" by (simp add: wi_hom_sub [symmetric])
  then show ?thesis using sint64_of_int [OF assms] by simp
qed

lemma sint64_mult:
  assumes "- (2 ^ 63) \<le> sint a * sint b" and "sint a * sint b < 2 ^ 63"
  shows "sint ((a :: i64) * b) = sint a * sint b"
  unfolding word_of_int_sint_mult [of a b] by (rule sint64_of_int [OF assms])

lemma sint32_mult:
  assumes "- (2 ^ 31) \<le> sint a * sint b" and "sint a * sint b < 2 ^ 31"
  shows "sint ((a :: i32) * b) = sint a * sint b"
  unfolding word_of_int_sint_mult [of a b] by (rule sint32_of_int [OF assms])

lemma sint_go_conv_i32_i64 [simp]: "sint (go_conv (a :: i32) :: i64) = sint a"
  unfolding go_conv_def using sint32_range [of a] by (intro sint64_of_int) simp_all

lemma sdiv_nonneg: "0 \<le> a \<Longrightarrow> 0 < b \<Longrightarrow> (a :: int) sdiv b = a div b"
  by (cases "a = 0") (simp_all add: signed_divide_int_def)

section \<open>Errors\<close>

text \<open>The status codes of gRPC, in their numeric order.\<close>

datatype code =
    OK | Canceled | Unknown | InvalidArgument | DeadlineExceeded | NotFound | AlreadyExists
  | PermissionDenied | ResourceExhausted | FailedPrecondition | Aborted | OutOfRange
  | Unimplemented | Internal | Unavailable | DataLoss | Unauthenticated

text \<open>
  What the code can find out about an error value: whether it carries a gRPC status
  (\<open>status.FromError\<close>), wraps a \<open>unix.Errno\<close> or an \<open>exec.ExitError\<close> (\<open>errors.As\<close>),
  is a context error, or is one of the SDK's sentinels (\<open>errors.Is\<close>).
\<close>

datatype err_kind =
    KPlain | KStatus code | KErrno nat | KExit int | KContext
  | KNotFound | KForbidden | KConflict | KBadRequest

datatype go_error = GoError (err_kind: err_kind) (err_text: string)

definition status_error :: "code \<Rightarrow> string \<Rightarrow> go_error" where
  "status_error c m = GoError (KStatus c) m"

text \<open>\<open>status.Errorf\<close> with \<open>codes.OK\<close> yields a nil error.\<close>

definition status_errorf :: "code \<Rightarrow> string \<Rightarrow> go_error option" where
  "status_errorf c m = (if c = OK then None else Some (status_error c m))"

definition plain_error :: "string \<Rightarrow> go_error" where
  "plain_error m = GoError KPlain m"

text \<open>\<open>fmt.Errorf\<close> with \<open>%w\<close>: the text changes, what the error wraps does not. The model applies it
  where the error is one of the kernel, of a parser, of a client library or of a context, which show \<open>err_text\<close> as their text. Around an error with a gRPC status Go would also write the prefix of
  \<open>error_text\<close>; the retry loop wraps its last error only if that has no status.\<close>

definition wrap_error :: "string \<Rightarrow> go_error \<Rightarrow> go_error" where
  "wrap_error prefix_text e = GoError (err_kind e) (prefix_text @ err_text e)"

definition status_code :: "go_error \<Rightarrow> code option" where
  "status_code e = (case err_kind e of KStatus c \<Rightarrow> Some c | _ \<Rightarrow> None)"

definition errors_is :: "err_kind \<Rightarrow> go_error \<Rightarrow> bool" where
  "errors_is k e \<longleftrightarrow> err_kind e = k"

text \<open>The text of \<open>Error()\<close>: an error that carries a status shows its code as well.\<close>

definition code_text :: "code \<Rightarrow> string" where
  "code_text c =
     (case c of
        OK \<Rightarrow> ''OK'' | Canceled \<Rightarrow> ''Canceled'' | Unknown \<Rightarrow> ''Unknown''
      | InvalidArgument \<Rightarrow> ''InvalidArgument'' | DeadlineExceeded \<Rightarrow> ''DeadlineExceeded''
      | NotFound \<Rightarrow> ''NotFound'' | AlreadyExists \<Rightarrow> ''AlreadyExists''
      | PermissionDenied \<Rightarrow> ''PermissionDenied'' | ResourceExhausted \<Rightarrow> ''ResourceExhausted''
      | FailedPrecondition \<Rightarrow> ''FailedPrecondition'' | Aborted \<Rightarrow> ''Aborted''
      | OutOfRange \<Rightarrow> ''OutOfRange'' | Unimplemented \<Rightarrow> ''Unimplemented''
      | Internal \<Rightarrow> ''Internal'' | Unavailable \<Rightarrow> ''Unavailable'' | DataLoss \<Rightarrow> ''DataLoss''
      | Unauthenticated \<Rightarrow> ''Unauthenticated'')"

definition error_text :: "go_error \<Rightarrow> string" where
  "error_text e =
     (case status_code e of
        Some c \<Rightarrow> ''rpc error: code = '' @ code_text c @ '' desc = '' @ err_text e
      | None \<Rightarrow> err_text e)"

lemma status_code_status_error [simp]: "status_code (status_error c m) = Some c"
  by (simp add: status_code_def status_error_def)

lemma status_error_inject [simp]: "status_error c m = status_error c' m' \<longleftrightarrow> c = c' \<and> m = m'"
  by (simp add: status_error_def)

lemma err_text_status_error [simp]: "err_text (status_error c m) = m"
  by (simp add: status_error_def)

lemma err_kind_status_error [simp]: "err_kind (status_error c m) = KStatus c"
  by (simp add: status_error_def)

lemma err_kind_wrap [simp]: "err_kind (wrap_error p e) = err_kind e"
  by (simp add: wrap_error_def)

lemma status_code_Some: "status_code e = Some c \<longleftrightarrow> err_kind e = KStatus c"
  by (auto simp: status_code_def split: err_kind.splits)

text \<open>The result of a Go function that returns a value and an error, from a state.\<close>

type_synonym ('s, 'a) go = "'s \<Rightarrow> (go_error + 'a) \<times> 's"
type_synonym 's go_err = "'s \<Rightarrow> go_error option \<times> 's"

section \<open>Text\<close>

fun contains :: "string \<Rightarrow> string \<Rightarrow> bool" where
  "contains [] sub = (sub = [])"
| "contains (c # cs) sub = (prefix sub (c # cs) \<or> contains cs sub)"

fun split_on :: "char \<Rightarrow> string \<Rightarrow> string list" where
  "split_on sep [] = [[]]"
| "split_on sep (c # cs) =
     (if c = sep then [] # split_on sep cs
      else (case split_on sep cs of [] \<Rightarrow> [[c]] | p # ps \<Rightarrow> (c # p) # ps))"

fun join_with :: "string \<Rightarrow> string list \<Rightarrow> string" where
  "join_with sep [] = []"
| "join_with sep [p] = p"
| "join_with sep (p # q # ps) = p @ sep @ join_with sep (q # ps)"

text \<open>The verb \<open>%q\<close>, for text without characters to escape.\<close>

definition quoted :: "string \<Rightarrow> string" where
  "quoted t = CHR 0x22 # t @ [CHR 0x22]"

definition is_space :: "char \<Rightarrow> bool" where
  "is_space c \<longleftrightarrow> c \<in> {CHR '' '', CHR 0x09, CHR 0x0A, CHR 0x0B, CHR 0x0C, CHR 0x0D}"

text \<open>\<open>strings.Fields\<close>: the maximal runs of non-space characters.\<close>

fun string_fields_acc :: "string \<Rightarrow> string \<Rightarrow> string list" where
  "string_fields_acc cur [] = (if cur = [] then [] else [rev cur])"
| "string_fields_acc cur (c # cs) =
     (if is_space c then (if cur = [] then string_fields_acc [] cs else rev cur # string_fields_acc [] cs)
      else string_fields_acc (c # cur) cs)"

definition string_fields :: "string \<Rightarrow> string list" where
  "string_fields s = string_fields_acc [] s"

definition trim_space :: "string \<Rightarrow> string" where
  "trim_space s = rev (dropWhile is_space (rev (dropWhile is_space s)))"

definition trim_prefix :: "string \<Rightarrow> string \<Rightarrow> string" where
  "trim_prefix s p = (if prefix p s then drop (length p) s else s)"

lemma contains_iff_sublist: "contains s sub \<longleftrightarrow> sublist sub s"
  by (induction s) (auto simp: sublist_Cons_right)

lemma contains_single [simp]: "contains s [c] \<longleftrightarrow> c \<in> set s"
  by (induction s) auto

lemma split_on_nonempty [simp]: "split_on sep s \<noteq> []"
  by (induction s) (auto split: list.splits)

lemma split_on_no_sep: "sep \<notin> set s \<Longrightarrow> split_on sep s = [s]"
  by (induction s) auto

lemma split_on_append_sep: "split_on sep (s @ sep # t) = split_on sep s @ split_on sep t"
proof (induction s)
  case Nil
  then show ?case by simp
next
  case (Cons c s)
  then show ?case by (cases "split_on sep s") auto
qed

lemma split_on_parts: "p \<in> set (split_on sep s) \<Longrightarrow> sep \<notin> set p"
proof (induction s arbitrary: p)
  case Nil
  then show ?case by simp
next
  case (Cons c s)
  then show ?case by (cases "split_on sep s") (auto split: if_splits)
qed

lemma join_split_on: "join_with [sep] (split_on sep s) = s"
proof (induction s)
  case Nil
  then show ?case by simp
next
  case (Cons c s)
  then obtain p ps where "split_on sep s = p # ps" by (cases "split_on sep s") auto
  with Cons show ?case by (cases ps) auto
qed

section \<open>Numerals\<close>

definition digit_char :: "nat \<Rightarrow> char" where
  "digit_char d = char_of (48 + d)"

definition is_digit :: "char \<Rightarrow> bool" where
  "is_digit c \<longleftrightarrow> (48::nat) \<le> of_char c \<and> of_char c \<le> (57::nat)"

definition digit_val :: "char \<Rightarrow> nat" where
  "digit_val c = of_char c - 48"

fun nat_text :: "nat \<Rightarrow> string" where
  "nat_text n = (if n < 10 then [digit_char n] else nat_text (n div 10) @ [digit_char (n mod 10)])"

declare nat_text.simps [simp del]

definition itoa :: "int \<Rightarrow> string" where
  "itoa i = (if i < 0 then CHR ''-'' # nat_text (nat (- i)) else nat_text (nat i))"

definition digits_val :: "string \<Rightarrow> nat" where
  "digits_val s = foldl (\<lambda>acc c. 10 * acc + digit_val c) 0 s"

text \<open>\<open>strconv.Atoi\<close>: an optional sign and at least one decimal digit, within \<open>int\<close>.\<close>

definition atoi :: "string \<Rightarrow> int option" where
  "atoi s =
     (let neg = (s \<noteq> [] \<and> hd s = CHR ''-'');
          body = (if s \<noteq> [] \<and> (hd s = CHR ''-'' \<or> hd s = CHR ''+'') then tl s else s);
          v = (if neg then - int (digits_val body) else int (digits_val body))
      in if body \<noteq> [] \<and> list_all is_digit body \<and> - (2 ^ 63) \<le> v \<and> v < 2 ^ 63
         then Some v else None)"

lemma digit_char_digit:
  assumes "d < 10"
  shows "is_digit (digit_char d)" "digit_val (digit_char d) = d"
  using assms by (simp_all add: is_digit_def digit_char_def digit_val_def)

lemma nat_text_nonempty [simp]: "nat_text n \<noteq> []"
  by (subst nat_text.simps) simp

lemma nat_text_digits: "list_all is_digit (nat_text n)"
proof (induction n rule: nat_text.induct)
  case (1 n)
  then show ?case by (subst nat_text.simps) (simp add: digit_char_digit)
qed

lemma digits_val_nat_text: "digits_val (nat_text n) = n"
proof (induction n rule: nat_text.induct)
  case (1 n)
  then show ?case
    by (subst nat_text.simps) (auto simp: digits_val_def digit_char_digit)
qed

lemma not_digit_sign [simp]: "\<not> is_digit (CHR ''-'')" "\<not> is_digit (CHR ''+'')"
  by (simp_all add: is_digit_def)

lemma hd_nat_text: "is_digit (hd (nat_text n))"
  using nat_text_digits [of n] nat_text_nonempty [of n] by (cases "nat_text n") auto

lemma atoi_itoa_nat: "int n < 2 ^ 63 \<Longrightarrow> atoi (itoa (int n)) = Some (int n)"
  using hd_nat_text [of n]
  by (auto simp: atoi_def itoa_def nat_text_digits digits_val_nat_text Let_def)

end
