(* ===== verification/Retry.thy ===== *)
theory Retry
  imports Go_Prelude
begin

text \<open>
  The retry loop of \<open>pkg/controller/controller.go\<close> (\<open>retryOnTransient\<close>, \<open>isTransientError\<close>):
  an operation is repeated on transient gRPC errors with exponential backoff. The wait between
  two attempts returns the context's error when the context ends first. The operation is
  any state transformer that returns an error or nil. The lemmas give the invariant rule of
  the loop, what its result says about the operation, the number of calls and the delays.
\<close>

section \<open>The loop\<close>

definition is_transient_error :: "go_error option \<Rightarrow> bool" where
  "is_transient_error err =
     (case err of
        None \<Rightarrow> False
      | Some e \<Rightarrow>
          (case status_code e of
             Some c \<Rightarrow> c \<in> {Unavailable, DeadlineExceeded, ResourceExhausted, Aborted, Internal}
           | None \<Rightarrow> False))"

definition next_delay :: "i64 \<Rightarrow> i64 \<Rightarrow> i64" where
  "next_delay max_delay delay =
     (let d = delay * 2 in if go_less max_delay d then max_delay else d)"

text \<open>
  The error after the last attempt. \<open>status.FromError\<close> succeeds on a nil error with the
  code \<open>OK\<close>, for which \<open>status.Errorf\<close> is nil again.
\<close>

definition retry_exhausted :: "string \<Rightarrow> int \<Rightarrow> go_error option \<Rightarrow> go_error option" where
  "retry_exhausted operation max_retries last_err =
     (let text = ''operation '' @ operation @ '' failed after '' @ itoa max_retries @ '' retries: ''
      in case last_err of
           None \<Rightarrow> status_errorf OK text
         | Some e \<Rightarrow>
             (case status_code e of
                Some c \<Rightarrow> status_errorf c (text @ err_text e)
              | None \<Rightarrow> Some (wrap_error text e)))"

record retry_policy =
  max_retries :: int
  initial_delay :: i64
  max_delay :: i64

function retry_from ::
  "(i64 \<Rightarrow> 's go_err) \<Rightarrow> retry_policy \<Rightarrow> string \<Rightarrow> 's go_err \<Rightarrow> int \<Rightarrow> i64 \<Rightarrow> go_error option \<Rightarrow> 's go_err"
where
  "retry_from sleep pol operation fn attempt delay last_err s =
     (if attempt \<le> max_retries pol then
        (case (if 0 < attempt then sleep delay s else (None, s)) of
           (Some e, s1) \<Rightarrow> (Some e, s1)
         | (None, s1) \<Rightarrow>
             (let delay' = (if 0 < attempt then next_delay (max_delay pol) delay else delay)
              in case fn s1 of
                   (None, s2) \<Rightarrow> (None, s2)
                 | (Some e, s2) \<Rightarrow>
                     if \<not> is_transient_error (Some e) then (Some e, s2)
                     else retry_from sleep pol operation fn (attempt + 1) delay' (Some e) s2))
      else (retry_exhausted operation (max_retries pol) last_err, s))"
  by pat_completeness auto
termination
  by (relation "measure (\<lambda>(sleep, pol, n, fn, attempt, d, l, s). nat (max_retries pol + 1 - attempt))") auto

declare retry_from.simps [simp del]

definition retry_on_transient ::
  "(i64 \<Rightarrow> 's go_err) \<Rightarrow> retry_policy \<Rightarrow> string \<Rightarrow> 's go_err \<Rightarrow> 's go_err" where
  "retry_on_transient sleep pol operation fn s =
     retry_from sleep pol operation fn 0 (initial_delay pol) None s"

section \<open>Lemmas\<close>

lemma is_transient_error_iff:
  "is_transient_error (Some e) \<longleftrightarrow>
     (\<exists>c. status_code e = Some c \<and>
        c \<in> {Unavailable, DeadlineExceeded, ResourceExhausted, Aborted, Internal})"
  by (auto simp: is_transient_error_def split: option.splits)

lemma retry_exhausted_transient:
  "is_transient_error (Some e) \<Longrightarrow> \<exists>e'. retry_exhausted n k (Some e) = Some e' \<and> status_code e' = status_code e"
  by (auto simp: is_transient_error_iff retry_exhausted_def status_errorf_def Let_def)

text \<open>One iteration of the loop, for the proofs below.\<close>

lemma retry_from_unfold:
  "retry_from sleep pol n fn attempt delay last_err s =
     (if attempt \<le> max_retries pol then
        (case (if 0 < attempt then sleep delay s else (None, s)) of
           (Some e, s1) \<Rightarrow> (Some e, s1)
         | (None, s1) \<Rightarrow>
             (case fn s1 of
                (None, s2) \<Rightarrow> (None, s2)
              | (Some e, s2) \<Rightarrow>
                  if \<not> is_transient_error (Some e) then (Some e, s2)
                  else retry_from sleep pol n fn (attempt + 1)
                         (if 0 < attempt then next_delay (max_delay pol) delay else delay) (Some e) s2))
      else (retry_exhausted n (max_retries pol) last_err, s))"
  by (subst retry_from.simps) (simp only: Let_def)

text \<open>
  The rule of the loop. \<open>P\<close> is kept by the operation and by every wait for a delay in \<open>D\<close>;
  then it holds at the end, and a nil result comes from a call of the operation in a state
  that satisfies \<open>P\<close>.
\<close>

lemma retry_from_rule:
  assumes sl: "\<And>d s. D d \<Longrightarrow> P s \<Longrightarrow> P (snd (sleep d s))"
    and fn: "\<And>s. P s \<Longrightarrow> P (snd (fn s))"
    and dly: "\<And>d. D d \<Longrightarrow> D (next_delay (max_delay pol) d)"
  shows "\<lbrakk> P s; D delay; attempt \<le> max_retries pol \<or> is_transient_error last_err;
           retry_from sleep pol n fn attempt delay last_err s = (r, s') \<rbrakk>
         \<Longrightarrow> P s' \<and> (r = None \<longrightarrow> (\<exists>s0. P s0 \<and> fn s0 = (None, s')))"
proof (induction "nat (max_retries pol + 1 - attempt)" arbitrary: attempt delay last_err s)
  case 0
  then have gt: "\<not> attempt \<le> max_retries pol" by simp
  then obtain e where e: "last_err = Some e" "is_transient_error (Some e)"
    using "0.prems"(3) by (cases last_err) (auto simp: is_transient_error_def)
  then obtain e' where "retry_exhausted n (max_retries pol) (Some e) = Some e'"
    using retry_exhausted_transient by blast
  with "0.prems" gt e show ?case by (auto simp: retry_from_unfold [of _ _ _ _ attempt])
next
  case (Suc k)
  then have le: "attempt \<le> max_retries pol" by simp
  obtain r1 s1 where s1: "(if 0 < attempt then sleep delay s else (None, s)) = (r1, s1)"
    by fastforce
  have P1: "P s1" using s1 sl Suc.prems(1,2) by (auto split: if_splits) (metis snd_conv)
  obtain r2 s2 where s2: "fn s1 = (r2, s2)" by fastforce
  have P2: "P s2" using fn [OF P1] s2 by simp
  show ?case
  proof (cases "r1 = None \<and> is_transient_error r2")
    case True
    then obtain e where e: "r2 = Some e" by (cases r2) (auto simp: is_transient_error_def)
    let ?d = "if 0 < attempt then next_delay (max_delay pol) delay else delay"
    have "retry_from sleep pol n fn (attempt + 1) ?d (Some e) s2 = (r, s')"
      using Suc.prems(4) le s1 s2 True e by (simp add: retry_from_unfold [of _ _ _ _ attempt])
    then show ?thesis
      using Suc.hyps(2) True e dly [OF Suc.prems(2)] Suc.prems(2) P2
      by (intro Suc.hyps(1) [of "attempt + 1" s2 ?d "Some e"]) auto
  next
    case False
    then show ?thesis
      using Suc.prems(4) le s1 s2 P1 P2
      by (auto simp: retry_from_unfold [of _ _ _ _ attempt] split: option.splits if_splits)
  qed
qed

lemma retry_rule:
  assumes "\<And>d s. D d \<Longrightarrow> P s \<Longrightarrow> P (snd (sleep d s))"
    and "\<And>s. P s \<Longrightarrow> P (snd (fn s))"
    and "\<And>d. D d \<Longrightarrow> D (next_delay (max_delay pol) d)"
    and "P s" and "D (initial_delay pol)" and "0 \<le> max_retries pol"
    and "retry_on_transient sleep pol n fn s = (r, s')"
  shows "P s'" and "r = None \<Longrightarrow> \<exists>s0. P s0 \<and> fn s0 = (None, s')"
  using retry_from_rule [of D P sleep fn pol s "initial_delay pol" 0 None n r s'] assms
  by (auto simp: retry_on_transient_def)

text \<open>The common case: everything keeps \<open>P\<close>.\<close>

lemma retry_keeps:
  assumes "\<And>d s. P s \<Longrightarrow> P (snd (sleep d s))"
    and "\<And>s. P s \<Longrightarrow> P (snd (fn s))"
    and "P s" and "0 \<le> max_retries pol"
    and "retry_on_transient sleep pol n fn s = (r, s')"
  shows "P s'" and "r = None \<Longrightarrow> \<exists>s0. P s0 \<and> fn s0 = (None, s')"
  using retry_rule [of "\<lambda>_. True" P sleep fn pol s n r s'] assms by simp_all

text \<open>A negative number of retries: the loop body never runs and the result is nil.\<close>

lemma retry_negative:
  "max_retries pol < 0 \<Longrightarrow> retry_on_transient sleep pol n fn s = (None, s)"
  by (simp add: retry_on_transient_def retry_from_unfold retry_exhausted_def status_errorf_def)

text \<open>The first attempt decides unless it fails with a transient error.\<close>

lemma retry_first:
  assumes "0 \<le> max_retries pol" and "fn s = (r, s1)" and "\<not> is_transient_error r"
  shows "retry_on_transient sleep pol n fn s = (r, s1)"
  using assms by (cases r) (simp_all add: retry_on_transient_def retry_from_unfold [of _ _ _ _ 0])

section \<open>The backoff\<close>

lemma next_delay_bounds:
  assumes "0 < sint d" and "sint d \<le> sint m" and "sint m < 2 ^ 62"
  shows "sint (next_delay m d) = min (2 * sint d) (sint m)"
proof -
  have "sint (d * 2) = sint d * 2"
    using assms by (subst sint64_mult) simp_all
  then show ?thesis by (auto simp: next_delay_def go_less_def Let_def min_def)
qed

text \<open>A ghost counter that every call of the operation advances by one.\<close>

lemma retry_from_count:
  assumes sl: "\<And>d s. cnt (snd (sleep d s)) = cnt s"
    and fn: "\<And>s. cnt (snd (fn s)) = Suc (cnt s)"
  shows "cnt (snd (retry_from sleep pol n fn attempt delay last_err s))
           \<le> cnt s + nat (max_retries pol + 1 - attempt)"
proof (induction "nat (max_retries pol + 1 - attempt)" arbitrary: attempt delay last_err s)
  case 0
  then show ?case by (simp add: retry_from_unfold [of _ _ _ _ attempt])
next
  case (Suc k)
  then have le: "attempt \<le> max_retries pol" by simp
  obtain r1 s1 where s1: "(if 0 < attempt then sleep delay s else (None, s)) = (r1, s1)"
    by fastforce
  have c1: "cnt s1 = cnt s" using s1 sl by (auto split: if_splits) (metis snd_conv)
  obtain r2 s2 where s2: "fn s1 = (r2, s2)" by fastforce
  have c2: "cnt s2 = Suc (cnt s)" using fn [of s1] s2 c1 by simp
  have IH: "cnt (snd (retry_from sleep pol n fn (attempt + 1) d l s2)) \<le> cnt s2 + k" for d l
  proof -
    have "k = nat (max_retries pol + 1 - (attempt + 1))" using Suc.hyps(2) by linarith
    then show ?thesis using Suc.hyps(1) [of "attempt + 1" d l s2] by simp
  qed
  show ?case
    using le s1 s2 c1 c2 IH unfolding Suc.hyps(2) [symmetric]
    by (auto simp: retry_from_unfold [of _ _ _ _ attempt] split: option.split)
qed

end
