(* ===== verification/Capacity.thy ===== *)
theory Capacity
  imports Go_Prelude
begin

text \<open>
  The file \<open>pkg/controller/capacity.go\<close>: the size of a disk, in MiB, from the capacity range
  of a CSI request. The arithmetic is Go's on \<open>int64\<close> with a conversion to \<open>int32\<close>; the
  lemmas give the result for every request that fits, and what happens to one that does not.
\<close>

record capacity_range =
  required_bytes :: i64
  limit_bytes :: i64

definition mib :: i64 where
  "mib = 1024 * 1024"

text \<open>The bytes a range asks for; \<open>CreateVolume\<close>, the expand handlers and this file share it.\<close>

definition range_bytes :: "capacity_range option \<Rightarrow> i64" where
  "range_bytes cr =
     (case cr of
        None \<Rightarrow> 0
      | Some r \<Rightarrow> if required_bytes r = 0 then limit_bytes r else required_bytes r)"

definition bytes_to_mb :: "i64 \<Rightarrow> i32" where
  "bytes_to_mb b = go_conv (go_div (b + mib - 1) mib)"

definition capacity_from_range :: "capacity_range option \<Rightarrow> go_error + i64 \<times> i32" where
  "capacity_from_range cr =
     (let b = range_bytes cr
      in if b = 0 then
           Inl (status_error InvalidArgument
                  ''capacity range must specify required_bytes or limit_bytes'')
         else Inr (b, bytes_to_mb b))"

definition capacity_mb_to_bytes :: "i32 \<Rightarrow> i64" where
  "capacity_mb_to_bytes mb = go_conv mb * 1024 * 1024"

section \<open>Lemmas\<close>

lemma sint_mib [simp]: "sint mib = 1048576"
  by (simp add: mib_def)

lemma sint_capacity_mb_to_bytes: "sint (capacity_mb_to_bytes mb) = sint mb * 1048576"
proof -
  have r: "- (2 ^ 31) \<le> sint mb" "sint mb < 2 ^ 31" by (rule sint32_range)+
  have "sint ((go_conv mb :: i64) * 1024) = sint mb * 1024"
    using r by (subst sint64_mult) simp_all
  then show ?thesis
    unfolding capacity_mb_to_bytes_def using r by (subst sint64_mult) simp_all
qed

lemma sint_add_mib_minus:
  assumes "0 < sint b" and "sint b \<le> 2 ^ 63 - 2 ^ 20"
  shows "sint (b + mib - 1) = sint b + 1048575"
proof -
  have "b + mib - 1 = b + (mib - 1)" by simp
  also have "sint \<dots> = sint b + sint (mib - 1)"
    using assms by (intro sint64_add) (simp_all add: mib_def)
  finally show ?thesis by (simp add: mib_def)
qed

text \<open>The largest request whose MiB count fits \<open>int32\<close>: one byte short of 2 PiB less 1 MiB.\<close>

definition max_bytes :: int where
  "max_bytes = (2 ^ 31 - 1) * 2 ^ 20"

lemma sint_bytes_to_mb:
  assumes "0 < sint b" and "sint b \<le> max_bytes"
  shows "sint (bytes_to_mb b) = (sint b + 1048575) div 1048576"
proof -
  have b: "sint b \<le> 2251799812636672" using assms(2) by (simp add: max_bytes_def)
  have a: "sint (b + mib - 1) = sint b + 1048575"
    using assms b by (intro sint_add_mib_minus) simp_all
  have q: "0 \<le> (sint b + 1048575) div 1048576" "(sint b + 1048575) div 1048576 < 2 ^ 31"
    using assms(1) b by simp_all
  have "sint (go_div (b + mib - 1) mib) = (sint b + 1048575) div 1048576"
    unfolding go_div_def a using assms(1) q by (simp add: sdiv_nonneg sint64_of_int)
  then show ?thesis
    unfolding bytes_to_mb_def go_conv_def using q by (simp add: sint32_of_int)
qed

text \<open>Beyond that the number of MiB is taken to 32 bits, as a two's complement.\<close>

lemma sint32_wrapped: "sint (word_of_int n :: i32) = (n + 2 ^ 31) mod 2 ^ 32 - 2 ^ 31"
  by (simp add: sint_sbintrunc' signed_take_bit_eq_take_bit_shift take_bit_eq_mod)

lemma sint_bytes_to_mb_wrapped:
  assumes "0 < sint b" and "sint b \<le> 2 ^ 63 - 2 ^ 20"
  shows "sint (bytes_to_mb b) = ((sint b + 2 ^ 20 - 1) div 2 ^ 20 + 2 ^ 31) mod 2 ^ 32 - 2 ^ 31"
proof -
  let ?n = "(sint b + 1048575) div 1048576"
  have a: "sint (b + mib - 1) = sint b + 1048575"
    using assms by (intro sint_add_mib_minus) simp_all
  have n: "0 \<le> ?n" "?n < 2 ^ 63" using assms by simp_all
  have "sint (go_div (b + mib - 1) mib) = ?n"
    unfolding go_div_def a using assms(1) n by (simp add: sdiv_nonneg sint64_of_int)
  then have "bytes_to_mb b = word_of_int ?n" by (simp add: bytes_to_mb_def go_conv_def)
  then show ?thesis using sint32_wrapped [of ?n] by (simp add: add.commute)
qed

text \<open>The round trip through MiB: never less than asked for, and less than one MiB more.\<close>

lemma bytes_to_mb_bounds:
  assumes "0 < sint b" and "sint b \<le> max_bytes"
  shows "sint b \<le> sint (capacity_mb_to_bytes (bytes_to_mb b))"
    and "sint (capacity_mb_to_bytes (bytes_to_mb b)) < sint b + 1048576"
    and "0 < sint (bytes_to_mb b)"
  using assms(1) by (simp_all add: sint_capacity_mb_to_bytes sint_bytes_to_mb [OF assms])

lemma bytes_to_mb_exact:
  assumes "0 < sint mb"
  shows "bytes_to_mb (capacity_mb_to_bytes mb) = mb"
proof -
  have r: "sint mb < 2 ^ 31" by (rule sint32_range)
  have "sint (bytes_to_mb (capacity_mb_to_bytes mb)) = (sint mb * 1048576 + 1048575) div 1048576"
    using assms r
    by (subst sint_bytes_to_mb) (simp_all add: sint_capacity_mb_to_bytes max_bytes_def)
  also have "\<dots> = sint mb" by simp
  finally show ?thesis by (simp add: signed_word_eqI)
qed

lemma capacity_from_range_cases:
  "capacity_from_range cr = Inl e \<longleftrightarrow>
     range_bytes cr = 0 \<and>
     e = status_error InvalidArgument ''capacity range must specify required_bytes or limit_bytes''"
  "capacity_from_range cr = Inr (b, mb) \<longleftrightarrow> range_bytes cr \<noteq> 0 \<and> b = range_bytes cr \<and> mb = bytes_to_mb b"
  by (auto simp: capacity_from_range_def Let_def)

end
