(* ===== verification/Validation.thy ===== *)
theory Validation
  imports Go_Prelude
begin

text \<open>
  The package \<open>pkg/common\<close>: validation of request fields and paths, and the removal of a
  path below the kubelet's directory. The lexical path functions of Go's
  \<open>path/filepath\<close> that it calls (\<open>Clean\<close>, \<open>Rel\<close>, \<open>IsAbs\<close>, \<open>Dir\<close>, \<open>Join\<close>) are modelled on
  lists of path components. The lemmas show what a validated path looks like once cleaned,
  and when the relative path handed to \<open>os.Root\<close> stays inside the root.
\<close>

section \<open>Lexical paths\<close>

definition is_abs :: "string \<Rightarrow> bool" where
  "is_abs p \<longleftrightarrow> p \<noteq> [] \<and> hd p = CHR ''/''"

text \<open>One pass over the components; the kept ones are accumulated in reverse.\<close>

fun clean_comps :: "bool \<Rightarrow> string list \<Rightarrow> string list \<Rightarrow> string list" where
  "clean_comps rooted kept [] = rev kept"
| "clean_comps rooted kept (c # cs) =
     (if c = '''' \<or> c = ''.'' then clean_comps rooted kept cs
      else if c = ''..'' then
        (case kept of
           k # ks \<Rightarrow> if k = ''..'' then clean_comps rooted (''..'' # kept) cs
                     else clean_comps rooted ks cs
         | [] \<Rightarrow> if rooted then clean_comps rooted [] cs else clean_comps rooted [''..''] cs)
      else clean_comps rooted (c # kept) cs)"

definition path_comps :: "string \<Rightarrow> string list" where
  "path_comps p = clean_comps (is_abs p) [] (split_on (CHR ''/'') p)"

definition path_of_comps :: "bool \<Rightarrow> string list \<Rightarrow> string" where
  "path_of_comps rooted cs =
     (if rooted then CHR ''/'' # join_with ''/'' cs
      else if cs = [] then ''.'' else join_with ''/'' cs)"

definition filepath_clean :: "string \<Rightarrow> string" where
  "filepath_clean p = path_of_comps (is_abs p) (path_comps p)"

definition filepath_dir :: "string \<Rightarrow> string" where
  "filepath_dir p = filepath_clean (rev (dropWhile (\<lambda>c. c \<noteq> CHR ''/'') (rev p)))"

definition filepath_join :: "string \<Rightarrow> string \<Rightarrow> string" where
  "filepath_join a b =
     (if a = '''' \<and> b = '''' then ''''
      else if a = '''' then filepath_clean b
      else if b = '''' then filepath_clean a
      else filepath_clean (a @ ''/'' @ b))"

fun strip_common :: "string list \<Rightarrow> string list \<Rightarrow> string list \<times> string list" where
  "strip_common (b # bs) (t # ts) = (if b = t then strip_common bs ts else (b # bs, t # ts))"
| "strip_common bs ts = (bs, ts)"

text \<open>The components of the relative path, or \<open>None\<close> where \<open>filepath.Rel\<close> fails.\<close>

definition rel_comps :: "string \<Rightarrow> string \<Rightarrow> string list option" where
  "rel_comps base targ =
     (if is_abs base \<noteq> is_abs targ then None
      else (case strip_common (path_comps base) (path_comps targ) of
              (bs, ts) \<Rightarrow>
                if bs \<noteq> [] \<and> hd bs = ''..'' then None
                else Some (replicate (length bs) ''..'' @ ts)))"

definition filepath_rel :: "string \<Rightarrow> string \<Rightarrow> string option" where
  "filepath_rel base targ = map_option (path_of_comps False) (rel_comps base targ)"

section \<open>The operations of the package\<close>

definition validate_required_field :: "string \<Rightarrow> string \<Rightarrow> go_error option" where
  "validate_required_field value field_name =
     (if value = '''' then Some (status_error InvalidArgument (field_name @ '' is required''))
      else None)"

text \<open>The map's entries in the order the iteration visits them, which Go leaves open.\<close>

fun validate_required_fields :: "(string \<times> string) list \<Rightarrow> go_error option" where
  "validate_required_fields [] = None"
| "validate_required_fields ((field_name, value) # rest) =
     (case validate_required_field value field_name of
        Some e \<Rightarrow> Some e
      | None \<Rightarrow> validate_required_fields rest)"

definition validate_path :: "string \<Rightarrow> string \<Rightarrow> go_error option" where
  "validate_path path field_name =
     (if path = '''' then Some (status_error InvalidArgument (field_name @ '' is required''))
      else if contains path ''..'' then
        Some (status_error InvalidArgument
                (field_name @ '' contains invalid path traversal sequence''))
      else if \<not> is_abs path then
        Some (status_error InvalidArgument (field_name @ '' must be an absolute path''))
      else None)"

definition kubelet_root_dir :: string where
  "kubelet_root_dir = ''/var/lib/kubelet''"

text \<open>The operations of \<open>os.Root\<close>, on the state of the machine they act on.\<close>

record 'k root_ops =
  open_root :: "string \<Rightarrow> 'k go_err"
  root_remove :: "string \<Rightarrow> string \<Rightarrow> 'k go_err"
  root_close :: "string \<Rightarrow> 'k go_err"

text \<open>\<open>errors.Join\<close>: nil only if both are.\<close>

definition errors_join :: "go_error option \<Rightarrow> go_error option \<Rightarrow> go_error option" where
  "errors_join a b =
     (case a of
        None \<Rightarrow> b
      | Some e \<Rightarrow> (case b of None \<Rightarrow> Some e
                    | Some f \<Rightarrow> Some (GoError (err_kind e) (err_text e @ [CHR 0x0A] @ err_text f))))"

definition remove_within_root :: "'k root_ops \<Rightarrow> string \<Rightarrow> string \<Rightarrow> 'k go_err" where
  "remove_within_root ro root_dir path k =
     (case open_root ro root_dir k of
        (Some e, k1) \<Rightarrow> (Some (wrap_error (''open root '' @ root_dir @ '': '') e), k1)
      | (None, k1) \<Rightarrow>
          (case (case filepath_rel root_dir (filepath_clean path) of
                   None \<Rightarrow> (Some (plain_error (''resolve '' @ path @ '' within '' @ root_dir)), k1)
                 | Some rel \<Rightarrow> root_remove ro root_dir rel k1) of
             (err, k2) \<Rightarrow>
               (case root_close ro root_dir k2 of
                  (cerr, k3) \<Rightarrow> (errors_join err cerr, k3))))"

definition remove_within_kubelet_root :: "'k root_ops \<Rightarrow> string \<Rightarrow> 'k go_err" where
  "remove_within_kubelet_root ro path = remove_within_root ro kubelet_root_dir path"

section \<open>Lemmas\<close>

lemma validate_required_field_None [simp]:
  "validate_required_field v n = None \<longleftrightarrow> v \<noteq> ''''"
  by (simp add: validate_required_field_def)

lemma validate_required_field_code:
  "validate_required_field v n = Some e \<Longrightarrow> status_code e = Some InvalidArgument"
  by (auto simp: validate_required_field_def split: if_splits)

lemma validate_required_fields_None:
  "validate_required_fields fs = None \<longleftrightarrow> (\<forall>(n, v) \<in> set fs. v \<noteq> '''')"
  by (induction fs rule: validate_required_fields.induct)
     (auto simp: validate_required_field_def)

lemma validate_path_None:
  "validate_path p n = None \<longleftrightarrow> is_abs p \<and> \<not> sublist ''..'' p"
  by (auto simp: validate_path_def contains_iff_sublist is_abs_def)

lemma validate_path_code:
  "validate_path p n = Some e \<Longrightarrow> status_code e = Some InvalidArgument"
  by (auto simp: validate_path_def split: if_splits)

text \<open>A part of a string split at a separator is a contiguous piece of it.\<close>

lemma split_on_sublist: "p \<in> set (split_on sep s) \<Longrightarrow> sublist p s"
proof (induction s arbitrary: p)
  case Nil
  then show ?case by simp
next
  case (Cons c s)
  obtain q qs where q: "split_on sep s = q # qs" by (cases "split_on sep s") auto
  have "prefix q s"
    using q by (induction s arbitrary: q qs) (auto split: if_splits list.splits)
  with Cons q show ?case
    by (auto simp: sublist_Cons_right split: if_splits)
qed

text \<open>Without \<open>..\<close> the pass only drops the empty and the \<open>.\<close> components.\<close>

lemma clean_comps_plain:
  "''..'' \<notin> set cs \<Longrightarrow>
     clean_comps r kept cs = rev kept @ filter (\<lambda>c. c \<noteq> '''' \<and> c \<noteq> ''.'') cs"
  by (induction cs arbitrary: kept) auto

text \<open>The pass, one kind of component at a time.\<close>

lemma clean_comps_skip: "c = '''' \<or> c = ''.'' \<Longrightarrow> clean_comps r kept (c # cs) = clean_comps r kept cs"
  by simp

lemma clean_comps_name:
  "c \<noteq> '''' \<Longrightarrow> c \<noteq> ''.'' \<Longrightarrow> c \<noteq> ''..'' \<Longrightarrow> clean_comps r kept (c # cs) = clean_comps r (c # kept) cs"
  by simp

definition go_up :: "bool \<Rightarrow> string list \<Rightarrow> string list" where
  "go_up r kept =
     (case kept of
        k # ks \<Rightarrow> if k = ''..'' then ''..'' # kept else ks
      | [] \<Rightarrow> if r then [] else [''..''])"

lemma clean_comps_up: "clean_comps r kept (''..'' # cs) = clean_comps r (go_up r kept) cs"
  by (simp add: go_up_def split: list.split)

lemma clean_comps_invariant:
  assumes name: "\<And>c kept. P kept \<Longrightarrow> c \<noteq> '''' \<Longrightarrow> c \<noteq> ''.'' \<Longrightarrow> c \<noteq> ''..'' \<Longrightarrow> Q c \<Longrightarrow> P (c # kept)"
    and up: "\<And>kept. P kept \<Longrightarrow> P (go_up r kept)"
  shows "P kept \<Longrightarrow> \<forall>c \<in> set cs. Q c \<Longrightarrow> P (rev (clean_comps r kept cs))"
proof (induction cs arbitrary: kept)
  case Nil
  then show ?case by simp
next
  case (Cons c cs)
  from Cons.prems have q: "Q c" "\<forall>c \<in> set cs. Q c" by simp_all
  consider "c = '''' \<or> c = ''.''" | "c = ''..''" | "c \<noteq> ''''" "c \<noteq> ''.''" "c \<noteq> ''..''"
    by blast
  then show ?case
  proof cases
    case 1
    then show ?thesis
      unfolding clean_comps_skip [OF 1] using Cons.IH [OF Cons.prems(1) q(2)] by blast
  next
    case 2
    show ?thesis
      unfolding 2 clean_comps_up using Cons.IH [OF up [OF Cons.prems(1)] q(2)] .
  next
    case 3
    show ?thesis
      unfolding clean_comps_name [OF 3] using Cons.IH [OF name [OF Cons.prems(1) 3 q(1)] q(2)] .
  qed
qed

lemma clean_comps_rooted_no_dotdot:
  assumes "''..'' \<notin> set kept"
  shows "''..'' \<notin> set (clean_comps True kept cs)"
proof -
  have "''..'' \<notin> set (rev (clean_comps True kept cs))"
  proof (rule clean_comps_invariant [where Q = "\<lambda>_. True"])
    show "''..'' \<notin> set (go_up True k)" if "''..'' \<notin> set k" for k
      using that by (cases k) (auto simp: go_up_def)
  qed (use assms in simp_all)
  then show ?thesis by simp
qed

definition normal_comp :: "string \<Rightarrow> bool" where
  "normal_comp c \<longleftrightarrow> c \<noteq> '''' \<and> c \<noteq> ''.'' \<and> CHR ''/'' \<notin> set c"

lemma normal_comp_dotdot: "normal_comp ''..''"
  by (simp add: normal_comp_def)

lemma clean_comps_normal:
  assumes "\<forall>c \<in> set kept. normal_comp c" and "\<forall>c \<in> set cs. CHR ''/'' \<notin> set c"
  shows "\<forall>c \<in> set (clean_comps r kept cs). normal_comp c"
proof -
  have "\<forall>c \<in> set (rev (clean_comps r kept cs)). normal_comp c"
  proof (rule clean_comps_invariant [where Q = "\<lambda>c. CHR ''/'' \<notin> set c"])
    show "\<forall>c \<in> set (go_up r k). normal_comp c" if "\<forall>c \<in> set k. normal_comp c" for k
      using that normal_comp_dotdot by (cases k) (simp_all add: go_up_def)
  qed (use assms in \<open>simp_all add: normal_comp_def\<close>)
  then show ?thesis by simp
qed

lemma path_comps_normal:
  "c \<in> set (path_comps p) \<Longrightarrow> normal_comp c"
  unfolding path_comps_def
  using clean_comps_normal [of "[]" "split_on (CHR ''/'') p" "is_abs p"]
  by (auto dest: split_on_parts)

lemma split_on_join:
  "\<forall>c \<in> set cs. sep \<notin> set c \<Longrightarrow> cs \<noteq> [] \<Longrightarrow> split_on sep (join_with [sep] cs) = cs"
  by (induction "[sep]" cs rule: join_with.induct)
     (simp_all add: split_on_no_sep split_on_append_sep)

lemma filter_normal:
  "\<forall>c \<in> set cs. c \<noteq> '''' \<and> c \<noteq> ''.'' \<Longrightarrow> filter (\<lambda>c. c \<noteq> '''' \<and> c \<noteq> ''.'') cs = cs"
  by (induction cs) auto

text \<open>For an absolute path, cleaning keeps the components, and they hold no \<open>..\<close>.\<close>

lemma path_comps_abs_no_dotdot: "is_abs p \<Longrightarrow> ''..'' \<notin> set (path_comps p)"
  unfolding path_comps_def by (simp add: clean_comps_rooted_no_dotdot)

lemma is_abs_clean: "is_abs p \<Longrightarrow> is_abs (filepath_clean p)"
  by (simp add: filepath_clean_def path_of_comps_def is_abs_def)

lemma path_comps_clean_abs:
  assumes "is_abs p"
  shows "path_comps (filepath_clean p) = path_comps p"
proof -
  let ?cs = "path_comps p"
  have nd: "''..'' \<notin> set ?cs" using assms by (rule path_comps_abs_no_dotdot)
  have norm: "\<forall>c \<in> set ?cs. c \<noteq> '''' \<and> c \<noteq> ''.'' \<and> CHR ''/'' \<notin> set c"
    using path_comps_normal by (simp add: normal_comp_def)
  have split: "split_on (CHR ''/'') (filepath_clean p) =
      '''' # (if ?cs = [] then [''''] else ?cs)"
    using assms norm by (auto simp: filepath_clean_def path_of_comps_def split_on_join)
  have abs: "is_abs (filepath_clean p)" using assms by (rule is_abs_clean)
  show ?thesis
    unfolding path_comps_def [of "filepath_clean p"] split
    using nd norm by (subst clean_comps_plain) (auto simp: filter_normal)
qed

lemma filepath_clean_idem_abs: "is_abs p \<Longrightarrow> filepath_clean (filepath_clean p) = filepath_clean p"
  using path_comps_clean_abs [of p] is_abs_clean [of p]
  by (simp add: filepath_clean_def [of "filepath_clean p"]) (simp add: filepath_clean_def)

lemma strip_common_prefix: "prefix bs ts \<Longrightarrow> strip_common bs ts = ([], drop (length bs) ts)"
  by (induction bs ts rule: strip_common.induct) (auto simp: prefix_def)

lemma strip_common_not_prefix: "\<not> prefix bs ts \<Longrightarrow> fst (strip_common bs ts) \<noteq> []"
  by (induction bs ts rule: strip_common.induct) auto

lemma strip_common_subset:
  "set (fst (strip_common bs ts)) \<subseteq> set bs" "set (snd (strip_common bs ts)) \<subseteq> set ts"
  by (induction bs ts rule: strip_common.induct) auto

text \<open>The relative path climbs out of the base exactly when the target is not below it.\<close>

lemma rel_comps_abs:
  assumes "is_abs base" and "is_abs targ"
  shows "\<exists>cs. rel_comps base targ = Some cs \<and>
     (if prefix (path_comps base) (path_comps targ)
      then ''..'' \<notin> set cs \<and> path_comps base @ cs = path_comps targ
      else cs \<noteq> [] \<and> hd cs = ''..'')"
proof -
  obtain bs ts where st: "strip_common (path_comps base) (path_comps targ) = (bs, ts)"
    by (cases "strip_common (path_comps base) (path_comps targ)")
  have "''..'' \<notin> set bs"
    using strip_common_subset(1) [of "path_comps base" "path_comps targ"] st
      path_comps_abs_no_dotdot [OF assms(1)] by auto
  then have hd: "\<not> (bs \<noteq> [] \<and> hd bs = ''..'')" by (cases bs) auto
  show ?thesis
  proof (cases "prefix (path_comps base) (path_comps targ)")
    case True
    then have "bs = []" and "ts = drop (length (path_comps base)) (path_comps targ)"
      using st by (simp_all add: strip_common_prefix)
    with True st assms path_comps_abs_no_dotdot [OF assms(2)] show ?thesis
      by (auto simp: rel_comps_def prefix_def)
  next
    case False
    with st have "bs \<noteq> []" using strip_common_not_prefix by fastforce
    with False st assms hd show ?thesis by (cases bs) (auto simp: rel_comps_def)
  qed
qed

end
