(* ===== verification/Base_Properties.thy ===== *)
theory Base_Properties
  imports Retry Capacity Validation
begin

text \<open>
  Properties of the parts every handler shares: the retry loop with its exponential backoff, the
  arithmetic on sizes, and the removal of paths below the kubelet's directory.
\<close>

section \<open>The retry loop\<close>

text \<open>
  Ghost state around an operation and its waits: how often the operation was called, and the
  delays that were waited for. It has no effect on the run (\<open>retry_from_ghost\<close>).
\<close>

definition counted :: "'s go_err \<Rightarrow> ('s \<times> nat \<times> i64 list) go_err" where
  "counted fn st = (case st of (s, n, ds) \<Rightarrow> (case fn s of (r, s') \<Rightarrow> (r, (s', Suc n, ds))))"

definition logged :: "(i64 \<Rightarrow> 's go_err) \<Rightarrow> i64 \<Rightarrow> ('s \<times> nat \<times> i64 list) go_err" where
  "logged sleep d st = (case st of (s, n, ds) \<Rightarrow> (case sleep d s of (r, s') \<Rightarrow> (r, (s', n, ds @ [d]))))"

text \<open>The delay before the retry number \<open>i\<close>, counted from 0.\<close>

definition backoff :: "retry_policy \<Rightarrow> nat \<Rightarrow> int" where
  "backoff pol i = min (2 ^ i * sint (initial_delay pol)) (sint (max_delay pol))"

lemma next_delay_backoff:
  assumes "0 < sint (initial_delay pol)" "sint (max_delay pol) < 2 ^ 62" "sint (initial_delay pol) \<le> sint (max_delay pol)"
    and "sint d = backoff pol i"
  shows "sint (next_delay (max_delay pol) d) = backoff pol (Suc i)"
proof -
  have "0 < sint d" "sint d \<le> sint (max_delay pol)"
    using assms by (auto simp: backoff_def)
  from next_delay_bounds [OF this assms(2)] show ?thesis
    using assms by (auto simp: backoff_def min_def)
qed

lemma retry_from_ghost:
  "retry_from (logged sleep) pol name (counted fn) attempt delay last_err (s, n, ds) = (r, (s', n', ds')) \<Longrightarrow>
     retry_from sleep pol name fn attempt delay last_err s = (r, s')"
proof (induction "nat (max_retries pol + 1 - attempt)" arbitrary: attempt delay last_err s n ds)
  case 0
  then show ?case by (simp add: retry_from_unfold [of _ _ _ _ attempt])
next
  case (Suc k)
  then have le: "attempt \<le> max_retries pol" and k: "k = nat (max_retries pol + 1 - (attempt + 1))" by simp_all
  note IH = Suc.hyps(1) [OF k]
  show ?case
    using Suc.prems le
    by (auto simp: retry_from_unfold [of _ _ _ _ attempt] logged_def counted_def case_prod_beta
        split: option.splits if_splits dest!: IH)
qed

lemma retry_from_backoff:
  assumes pol: "0 < sint (initial_delay pol)" "sint (max_delay pol) < 2 ^ 62"
      "sint (initial_delay pol) \<le> sint (max_delay pol)"
  shows "\<lbrakk> 0 \<le> attempt; sint delay = backoff pol (length ds); length ds = nat (attempt - 1); n = nat attempt;
           attempt \<le> max_retries pol + 1;
           \<forall>i < length ds. sint (ds ! i) = backoff pol i;
           retry_from (logged sleep) pol name (counted fn) attempt delay last_err (s, n, ds) = (r, (s', n', ds')) \<rbrakk>
         \<Longrightarrow> n' \<le> nat (max_retries pol + 1) \<and> length ds' \<le> nat (max_retries pol) \<and>
             (\<forall>i < length ds'. sint (ds' ! i) = backoff pol i)"
proof (induction "nat (max_retries pol + 1 - attempt)" arbitrary: attempt delay last_err s n ds)
  case 0
  then show ?case by (auto simp: retry_from_unfold [of _ _ _ _ attempt])
next
  case (Suc k)
  then have le: "attempt \<le> max_retries pol" and k: "k = nat (max_retries pol + 1 - (attempt + 1))" by simp_all
  define ds1 where ds1: "ds1 = (if 0 < attempt then ds @ [delay] else ds)"
  define r1 where "r1 = (if 0 < attempt then fst (sleep delay s) else None)"
  define s1 where "s1 = (if 0 < attempt then snd (sleep delay s) else s)"
  have w: "(if 0 < attempt then logged sleep delay (s, n, ds) else (None, (s, n, ds))) = (r1, (s1, n, ds1))"
    by (simp add: logged_def case_prod_beta r1_def s1_def ds1)
  have len: "length ds1 = nat attempt"
    using ds1 Suc.prems(1,3) by auto
  have log: "\<forall>i < length ds1. sint (ds1 ! i) = backoff pol i"
    using ds1 Suc.prems(2,6) by (auto simp: nth_append less_Suc_eq)
  obtain r2 s2 where f: "counted fn (s1, n, ds1) = (r2, (s2, Suc n, ds1))"
    by (cases "fn s1") (auto simp: counted_def)
  define d where "d = (if 0 < attempt then next_delay (max_delay pol) delay else delay)"
  have d: "sint d = backoff pol (length ds1)"
    using next_delay_backoff [OF pol Suc.prems(2)] Suc.prems(2) ds1 by (auto simp: d_def)
  show ?case
  proof (cases "r1 = None \<and> is_transient_error r2")
    case True
    then obtain e where e: "r2 = Some e" by (cases r2) (auto simp: is_transient_error_def)
    have "retry_from (logged sleep) pol name (counted fn) (attempt + 1) d (Some e) (s2, Suc n, ds1) = (r, (s', n', ds'))"
      using Suc.prems(7) le w f True e by (simp add: retry_from_unfold [of _ _ _ _ attempt] d_def)
    then show ?thesis
      using Suc.prems(1,4) le d len log by (intro Suc.hyps(1) [OF k]) auto
  next
    case False
    then have "n' \<le> Suc n" "ds' = ds1"
      using Suc.prems(7) le w f
      by (auto simp: retry_from_unfold [of _ _ _ _ attempt] split: option.splits if_splits)
    then show ?thesis using log len Suc.prems(1,4) le by auto
  qed
qed

text \<open>
  C14: The retry loop calls its operation at most once more than the configured number of
  retries, waits between calls for exactly the delays of the exponential backoff, doubled from
  the initial delay up to the maximum, and returns what it returns without the bookkeeping.
\<close>

theorem retry_backs_off:
  assumes "0 < sint (initial_delay pol)" "sint (initial_delay pol) \<le> sint (max_delay pol)" "sint (max_delay pol) < 2 ^ 62"
    and "0 \<le> max_retries pol"
    and "retry_on_transient (logged sleep) pol name (counted fn) (s, 0, []) = (r, (s', calls, delays))"
  shows "calls \<le> nat (max_retries pol + 1) \<and> length delays \<le> nat (max_retries pol) \<and>
    (\<forall>i < length delays. sint (delays ! i) = min (2 ^ i * sint (initial_delay pol)) (sint (max_delay pol))) \<and>
    retry_on_transient sleep pol name fn s = (r, s')"
proof -
  have b: "sint (initial_delay pol) = backoff pol (length [])" using assms(2) by (simp add: backoff_def)
  from retry_from_backoff [OF assms(1,3,2) _ b _ _ _ _ assms(5) [unfolded retry_on_transient_def]]
    retry_from_ghost [OF assms(5) [unfolded retry_on_transient_def]] assms(4)
  show ?thesis by (simp add: backoff_def retry_on_transient_def)
qed

definition ref_policy :: retry_policy where
  "ref_policy = \<lparr>max_retries = 4, initial_delay = 1000000000, max_delay = 5000000000\<rparr>"

definition always_unavailable :: "unit go_err" where
  "always_unavailable s = (Some (status_error Unavailable ''down''), s)"

lemma retry_backs_off_witness:
  "\<exists>r delays. retry_on_transient (logged (\<lambda>d s. (None, s))) ref_policy ''op'' (counted always_unavailable) ((), 0, []) =
       (r, ((), 5, delays)) \<and> map sint delays = [1000000000, 2000000000, 4000000000, 5000000000]"
proof -
  have "(case retry_on_transient (logged (\<lambda>d s. (None, s))) ref_policy ''op'' (counted always_unavailable) ((), 0, []) of
      (r, (u, n, ds)) \<Rightarrow> n = 5 \<and> length ds = 4)"
    by code_simp
  then obtain r ds where run: "retry_on_transient (logged (\<lambda>d s. (None, s))) ref_policy ''op'' (counted always_unavailable) ((), 0, []) =
      (r, ((), 5, ds))" and len: "length ds = 4"
    by (auto split: prod.splits)
  have "(5::nat) \<le> nat (max_retries ref_policy + 1) \<and>
      (\<forall>i < length ds. sint (ds ! i) = min (2 ^ i * sint (initial_delay ref_policy)) (sint (max_delay ref_policy)))"
    using retry_backs_off [OF _ _ _ _ run] by (simp add: ref_policy_def)
  then have nth: "sint (ds ! i) = min (2 ^ i * 1000000000) 5000000000" if "i < 4" for i
    using len that by (simp add: ref_policy_def)
  have "map sint ds = [sint (ds ! 0), sint (ds ! 1), sint (ds ! 2), sint (ds ! 3)]"
    using len by (auto simp: list_eq_iff_nth_eq less_Suc_eq numeral_eq_Suc)
  with run show ?thesis by (simp add: nth)
qed

lemma retry_from_result:
  "\<lbrakk> attempt \<le> max_retries pol \<or> (\<exists>e0 s0. last_err = Some e0 \<and> is_transient_error (Some e0) \<and> fn s0 = (Some e0, s));
     retry_from sleep pol name fn attempt delay last_err s = (r, s') \<rbrakk> \<Longrightarrow>
   (\<exists>s0. fn s0 = (r, s') \<and> \<not> is_transient_error r) \<or>
   (\<exists>d s0 e. sleep d s0 = (r, s') \<and> r = Some e) \<or>
   (\<exists>e e0 s0. r = Some e \<and> fn s0 = (Some e0, s') \<and> is_transient_error (Some e0) \<and> status_code e = status_code e0)"
proof (induction "nat (max_retries pol + 1 - attempt)" arbitrary: attempt delay last_err s)
  case 0
  then have "\<not> attempt \<le> max_retries pol" by simp
  with "0.prems"(1) obtain e0 s0 where e0: "last_err = Some e0" "is_transient_error (Some e0)" "fn s0 = (Some e0, s)"
    by blast
  have "retry_from sleep pol name fn attempt delay last_err s = (retry_exhausted name (max_retries pol) last_err, s)"
    by (subst retry_from_unfold) (simp add: \<open>\<not> attempt \<le> max_retries pol\<close>)
  with "0.prems"(2) e0(1) have r: "r = retry_exhausted name (max_retries pol) (Some e0)" "s' = s" by simp_all
  from retry_exhausted_transient [OF e0(2)] r obtain e where "r = Some e" "status_code e = status_code e0" by metis
  with e0 r show ?case by blast
next
  case (Suc k)
  then have le: "attempt \<le> max_retries pol" and k: "k = nat (max_retries pol + 1 - (attempt + 1))" by simp_all
  define r1 where "r1 = (if 0 < attempt then fst (sleep delay s) else None)"
  define s1 where "s1 = (if 0 < attempt then snd (sleep delay s) else s)"
  have w: "(if 0 < attempt then sleep delay s else (None, s)) = (r1, s1)" by (simp add: r1_def s1_def)
  obtain r2 s2 where f: "fn s1 = (r2, s2)" by fastforce
  show ?case
  proof (cases "r1 = None \<and> is_transient_error r2")
    case True
    then obtain e where e: "r2 = Some e" by (cases r2) (auto simp: is_transient_error_def)
    have "retry_from sleep pol name fn (attempt + 1) (if 0 < attempt then next_delay (max_delay pol) delay else delay)
        (Some e) s2 = (r, s')"
      using Suc.prems(2) le w f True e by (simp add: retry_from_unfold [of _ _ _ _ attempt])
    then show ?thesis using True f e by (intro Suc.hyps(1) [OF k]) auto
  next
    case False
    show ?thesis
    proof (cases r1)
      case None
      with False Suc.prems(2) le w f have "r = r2" "s' = s2" "\<not> is_transient_error r"
        by (auto simp: retry_from_unfold [of _ _ _ _ attempt] is_transient_error_def split: option.splits if_splits)
      with f show ?thesis by blast
    next
      case (Some e)
      with Suc.prems(2) le w have r: "r = Some e" "s' = s1" by (auto simp: retry_from_unfold [of _ _ _ _ attempt])
      from Some have "sleep delay s = (Some e, s1)"
        by (auto simp: r1_def s1_def prod_eq_iff split: if_splits)
      with r show ?thesis by blast
    qed
  qed
qed

text \<open>
  C15: What the retry loop returns is the result of its last call, if that was nil or an error not
  worth a retry, or the error of the request context from a wait, or after the last attempt an
  error with the gRPC code of the last call's transient error: nil means that a call succeeded.
\<close>

theorem retry_reports_last_call:
  assumes "0 \<le> max_retries pol" and "retry_on_transient sleep pol name fn s = (r, s')"
  shows "(\<exists>s0. fn s0 = (r, s') \<and> \<not> is_transient_error r) \<or>
    (\<exists>d s0 e. sleep d s0 = (r, s') \<and> r = Some e) \<or>
    (\<exists>e e0 s0. r = Some e \<and> fn s0 = (Some e0, s') \<and> is_transient_error (Some e0) \<and> status_code e = status_code e0)"
  using retry_from_result [OF disjI1 [OF assms(1)] assms(2) [unfolded retry_on_transient_def]] .

definition twice_unavailable :: "nat go_err" where
  "twice_unavailable n = (if n < 2 then Some (status_error Unavailable ''down'') else None, Suc n)"

lemma retry_reports_last_call_witness: "\<exists>s0. twice_unavailable s0 = (None, 3)"
proof -
  have run: "retry_on_transient (\<lambda>d s. (None, s)) ref_policy ''op'' twice_unavailable 0 = (None, 3)" by code_simp
  show ?thesis using retry_reports_last_call [OF _ run] by (simp add: ref_policy_def)
qed

section \<open>Sizes\<close>

text \<open>
  C21: A capacity range whose size lies between one byte and 2 PiB less 1 MiB gives its bytes and a
  number of MiB that, converted back, is the smallest multiple of 1 MiB not below them; the MiB
  survive the trip to bytes and back.
\<close>

theorem capacity_round_trip:
  assumes "0 < sint (range_bytes cr)" and "sint (range_bytes cr) \<le> (2 ^ 31 - 1) * 2 ^ 20"
  shows "\<exists>mb. capacity_from_range cr = Inr (range_bytes cr, mb) \<and>
    sint (range_bytes cr) \<le> sint (capacity_mb_to_bytes mb) \<and>
    sint (capacity_mb_to_bytes mb) < sint (range_bytes cr) + 2 ^ 20 \<and>
    bytes_to_mb (capacity_mb_to_bytes mb) = mb"
proof -
  have b: "sint (range_bytes cr) \<le> max_bytes" using assms(2) by (simp add: max_bytes_def)
  have "range_bytes cr \<noteq> 0" using assms(1) by auto
  with bytes_to_mb_bounds [OF assms(1) b] show ?thesis
    by (simp add: capacity_from_range_def Let_def bytes_to_mb_exact)
qed

lemma capacity_round_trip_witness:
  "\<exists>mb. capacity_from_range (Some \<lparr>required_bytes = 1048577, limit_bytes = 0\<rparr>) = Inr (1048577, mb) \<and>
     1048577 \<le> sint (capacity_mb_to_bytes mb)"
proof -
  let ?r = "Some \<lparr>required_bytes = 1048577, limit_bytes = 0\<rparr>"
  have r: "range_bytes ?r = 1048577" by code_simp
  show ?thesis using capacity_round_trip [of ?r] unfolding r by auto
qed

lemma limit_beyond:
  assumes "0 < sint l" "sint l \<le> max_bytes" "\<not> (2 ^ 20 :: int) dvd sint l"
  shows "sint l < sint (capacity_mb_to_bytes (bytes_to_mb l))"
proof -
  have "sint l \<noteq> k * 2 ^ 20" for k using assms(3) by auto
  from this [of "sint (bytes_to_mb l)"] have "sint (capacity_mb_to_bytes (bytes_to_mb l)) \<noteq> sint l"
    by (simp add: sint_capacity_mb_to_bytes)
  with bytes_to_mb_bounds(1) [OF assms(1,2)] show ?thesis by simp
qed

text \<open>
  C37: The size of a disk is a 32-bit number of MiB. A request of up to 8 EiB less 1 MiB that needs \<open>n\<close>
  MiB, rounded up, silently becomes a disk of \<open>n\<close> MiB taken to 32 bits: for more than 2 PiB less 1 MiB,
  where \<open>n\<close> has no 32-bit value, a smaller disk than asked for. And a request that only gives a limit
  becomes, if the limit is no multiple of 1 MiB, a disk beyond that limit.
\<close>

theorem size_leaves_the_range:
  "(0 < sint (range_bytes cr) \<and> sint (range_bytes cr) \<le> 2 ^ 63 - 2 ^ 20 \<longrightarrow>
      (\<exists>mb n. capacity_from_range cr = Inr (range_bytes cr, mb) \<and> n = (sint (range_bytes cr) + 2 ^ 20 - 1) div 2 ^ 20 \<and>
         sint mb = (n + 2 ^ 31) mod 2 ^ 32 - 2 ^ 31 \<and>
         (max_bytes < sint (range_bytes cr) \<longrightarrow> sint (capacity_mb_to_bytes mb) < sint (range_bytes cr)))) \<and>
   (0 < sint l \<and> sint l \<le> max_bytes \<and> \<not> (2 ^ 20 :: int) dvd sint l \<longrightarrow>
      (\<exists>mb. capacity_from_range (Some \<lparr>required_bytes = 0, limit_bytes = l\<rparr>) = Inr (l, mb) \<and>
         sint l < sint (capacity_mb_to_bytes mb)))"
proof (intro conjI impI)
  let ?b = "range_bytes cr" and ?mb = "bytes_to_mb (range_bytes cr)"
  assume b: "0 < sint ?b \<and> sint ?b \<le> 2 ^ 63 - 2 ^ 20"
  let ?n = "(sint ?b + 2 ^ 20 - 1) div 2 ^ 20 :: int"
  have mb: "sint ?mb = (?n + 2 ^ 31) mod 2 ^ 32 - 2 ^ 31"
    using sint_bytes_to_mb_wrapped [of ?b] b by simp
  have "sint (capacity_mb_to_bytes ?mb) < sint ?b" if "max_bytes < sint ?b"
  proof -
    have "sint ?mb < 2 ^ 31" by (rule sint32_range)
    moreover have "2 ^ 31 \<le> ?n" using that by (simp add: max_bytes_def)
    ultimately have "sint ?mb + 1 \<le> ?n" by simp
    then have "(sint ?mb + 1) * 2 ^ 20 \<le> ?n * 2 ^ 20" by simp
    then show ?thesis by (simp add: sint_capacity_mb_to_bytes)
  qed
  moreover have "?b \<noteq> 0" using b by auto
  ultimately show "\<exists>mb n. capacity_from_range cr = Inr (?b, mb) \<and> n = ?n \<and>
      sint mb = (n + 2 ^ 31) mod 2 ^ 32 - 2 ^ 31 \<and>
      (max_bytes < sint ?b \<longrightarrow> sint (capacity_mb_to_bytes mb) < sint ?b)"
    using mb by (intro exI [of _ ?mb] exI [of _ ?n]) (simp add: capacity_from_range_def Let_def)
next
  assume l: "0 < sint l \<and> sint l \<le> max_bytes \<and> \<not> (2 ^ 20 :: int) dvd sint l"
  then have "l \<noteq> 0" by auto
  with limit_beyond [of l] l
  show "\<exists>mb. capacity_from_range (Some \<lparr>required_bytes = 0, limit_bytes = l\<rparr>) = Inr (l, mb) \<and>
      sint l < sint (capacity_mb_to_bytes mb)"
    by (simp add: capacity_from_range_def range_bytes_def Let_def)
qed

lemma size_leaves_the_range_witness:
  "(\<exists>mb. capacity_from_range (Some \<lparr>required_bytes = 2 ^ 52 + 2 ^ 20, limit_bytes = 0\<rparr>) = Inr (2 ^ 52 + 2 ^ 20, mb) \<and>
      sint mb = 1) \<and>
   (\<exists>mb. capacity_from_range (Some \<lparr>required_bytes = 0, limit_bytes = 1\<rparr>) = Inr (1, mb) \<and>
      1 < sint (capacity_mb_to_bytes mb))"
proof -
  have r: "range_bytes (Some \<lparr>required_bytes = 2 ^ 52 + 2 ^ 20, limit_bytes = 0\<rparr>) = 4503599628419072"
    by (simp add: range_bytes_def)
  show ?thesis
    using size_leaves_the_range [of "Some \<lparr>required_bytes = 2 ^ 52 + 2 ^ 20, limit_bytes = 0\<rparr>" 1, unfolded r]
    by (auto simp: max_bytes_def)
qed

section \<open>Paths\<close>

text \<open>The components of a path as they are written, without the empty ones and the dots.\<close>

definition written_comps :: "string \<Rightarrow> string list" where
  "written_comps p = filter (\<lambda>c. c \<noteq> '''' \<and> c \<noteq> ''.'') (split_on (CHR ''/'') p)"

lemma validated_comps:
  assumes "validate_path p n = None"
  shows "path_comps p = written_comps p"
proof -
  have "''..'' \<notin> set (split_on (CHR ''/'') p)"
    using assms split_on_sublist by (auto simp: validate_path_None)
  then show ?thesis by (simp add: path_comps_def written_comps_def clean_comps_plain)
qed

text \<open>
  C24: The removal below the kubelet's directory, on any machine whose \<open>os.Root\<close> refuses names that
  start with \<open>..\<close>, as documented: for a path that \<open>ValidatePath\<close> accepts, \<open>RemoveWithinKubeletRoot\<close>
  opens the root at \<open>/var/lib/kubelet\<close>, and if that succeeds removes through it the one name whose
  components follow those of the root in the path as it is written, if the path lies below the root,
  and otherwise nothing: then it fails. The root is closed in each case.
\<close>

theorem removal_stays_below_root:
  assumes "validate_path path field_name = None"
    and os_root: "\<And>cs k. cs \<noteq> [] \<Longrightarrow> hd cs = ''..'' \<Longrightarrow>
      \<exists>e. root_remove ro ''/var/lib/kubelet'' (path_of_comps False cs) k = (Some e, k)"
    and "open_root ro ''/var/lib/kubelet'' k = (oe, k1)"
  shows "case oe of
      Some e \<Rightarrow> \<exists>e'. remove_within_kubelet_root ro path k = (Some e', k1)
    | None \<Rightarrow>
        (if prefix [''var'', ''lib'', ''kubelet''] (written_comps path)
         then \<exists>cs err k2. written_comps path = [''var'', ''lib'', ''kubelet''] @ cs \<and> ''..'' \<notin> set cs \<and>
           root_remove ro ''/var/lib/kubelet'' (path_of_comps False cs) k1 = (err, k2) \<and>
           remove_within_kubelet_root ro path k =
             (errors_join err (fst (root_close ro ''/var/lib/kubelet'' k2)), snd (root_close ro ''/var/lib/kubelet'' k2))
         else \<exists>e. remove_within_kubelet_root ro path k = (Some e, snd (root_close ro ''/var/lib/kubelet'' k1)))"
proof (cases oe)
  case (Some e)
  with assms(3) show ?thesis
    by (simp add: remove_within_kubelet_root_def remove_within_root_def kubelet_root_dir_def)
next
  case None
  have p: "is_abs path" using assms(1) by (simp add: validate_path_None)
  have r: "is_abs ''/var/lib/kubelet''" "path_comps ''/var/lib/kubelet'' = [''var'', ''lib'', ''kubelet'']"
    by code_simp+
  obtain cs where cs: "filepath_rel ''/var/lib/kubelet'' (filepath_clean path) = Some (path_of_comps False cs)"
    and w: "if prefix [''var'', ''lib'', ''kubelet''] (written_comps path)
      then ''..'' \<notin> set cs \<and> [''var'', ''lib'', ''kubelet''] @ cs = written_comps path
      else cs \<noteq> [] \<and> hd cs = ''..''"
    using rel_comps_abs [OF r(1) is_abs_clean [OF p]] unfolding r(2) path_comps_clean_abs [OF p] validated_comps [OF assms(1)]
    by (auto simp: filepath_rel_def)
  obtain err k2 where rm: "root_remove ro ''/var/lib/kubelet'' (path_of_comps False cs) k1 = (err, k2)" by fastforce
  have run: "remove_within_kubelet_root ro path k =
      (errors_join err (fst (root_close ro ''/var/lib/kubelet'' k2)), snd (root_close ro ''/var/lib/kubelet'' k2))"
    using assms(3) None cs rm
    by (simp add: remove_within_kubelet_root_def remove_within_root_def kubelet_root_dir_def case_prod_beta)
  show ?thesis
  proof (cases "prefix [''var'', ''lib'', ''kubelet''] (written_comps path)")
    case True
    with w have "written_comps path = [''var'', ''lib'', ''kubelet''] @ cs" "''..'' \<notin> set cs" by simp_all
    with None True rm run show ?thesis by (simp only: option.case if_True) blast
  next
    case False
    with w have "cs \<noteq> []" "hd cs = ''..''" by simp_all
    from os_root [OF this, of k1] rm obtain e where "err = Some e" "k2 = k1" by auto
    with run None False show ?thesis by (auto simp: errors_join_def split: option.split)
  qed
qed

text \<open>A machine that is the list of the names removed from it.\<close>

definition ref_removals :: "string list root_ops" where
  "ref_removals =
     \<lparr>open_root = (\<lambda>_ k. (None, k)),
      root_remove = (\<lambda>_ n k. if prefix ''..'' n then (Some (plain_error ''path escapes from parent''), k) else (None, n # k)),
      root_close = (\<lambda>_ k. (None, k))\<rparr>"

lemma removal_stays_below_root_witness:
  "remove_within_kubelet_root ref_removals ''/var/lib/kubelet/./a//b'' [] = (None, [''a/b'']) \<and>
   (\<exists>e. remove_within_kubelet_root ref_removals ''/etc/passwd'' [] = (Some e, []))"
proof -
  have o: "open_root ref_removals ''/var/lib/kubelet'' [] = (None, [])" by (simp add: ref_removals_def)
  have os: "\<exists>e. root_remove ref_removals ''/var/lib/kubelet'' (path_of_comps False cs) k = (Some e, k)"
    if "cs \<noteq> []" "hd cs = ''..''" for cs k
    using that by (cases cs; cases "tl cs") (auto simp: ref_removals_def path_of_comps_def)
  have v: "validate_path ''/var/lib/kubelet/./a//b'' ''path'' = None" "validate_path ''/etc/passwd'' ''path'' = None"
    by code_simp+
  have c: "written_comps ''/var/lib/kubelet/./a//b'' = [''var'', ''lib'', ''kubelet'', ''a'', ''b'']"
    "written_comps ''/etc/passwd'' = [''etc'', ''passwd'']" by code_simp+
  have j: "path_of_comps False [''a'', ''b''] = ''a/b''" by code_simp
  show ?thesis
    using removal_stays_below_root [OF v(1) os o] removal_stays_below_root [OF v(2) os o] unfolding c
    by (auto simp: j ref_removals_def errors_join_def)
qed

end
