(* ===== verification/Csi.thy ===== *)
theory Csi
  imports Capacity
begin

text \<open>
  The messages of the Container Storage Interface the handlers read and write: the volume
  capability with its access mode and access type, and the volume of a response. A Go map that
  is nil reads like an empty one, so both are \<open>Map.empty\<close>; a pointer that may be nil is an option.
\<close>

datatype access_mode =
    UnknownMode | SingleNodeWriter | SingleNodeReaderOnly | MultiNodeReaderOnly
  | MultiNodeSingleWriter | MultiNodeMultiWriter | SingleNodeSingleWriter | SingleNodeMultiWriter

definition access_mode_text :: "access_mode \<Rightarrow> string" where
  "access_mode_text m =
     (case m of
        UnknownMode \<Rightarrow> ''UNKNOWN''
      | SingleNodeWriter \<Rightarrow> ''SINGLE_NODE_WRITER''
      | SingleNodeReaderOnly \<Rightarrow> ''SINGLE_NODE_READER_ONLY''
      | MultiNodeReaderOnly \<Rightarrow> ''MULTI_NODE_READER_ONLY''
      | MultiNodeSingleWriter \<Rightarrow> ''MULTI_NODE_SINGLE_WRITER''
      | MultiNodeMultiWriter \<Rightarrow> ''MULTI_NODE_MULTI_WRITER''
      | SingleNodeSingleWriter \<Rightarrow> ''SINGLE_NODE_SINGLE_WRITER''
      | SingleNodeMultiWriter \<Rightarrow> ''SINGLE_NODE_MULTI_WRITER'')"

datatype access_type = BlockAccess | MountAccess (mount_fs_type: string)

record volume_capability =
  cap_access_type :: "access_type option"
  cap_access_mode :: "access_mode option"

definition cap_is_block :: "volume_capability \<Rightarrow> bool" where
  "cap_is_block cap \<longleftrightarrow> cap_access_type cap = Some BlockAccess"

text \<open>The file system type of a mount capability, or the given default.\<close>

definition cap_fs_type :: "string \<Rightarrow> volume_capability option \<Rightarrow> string" where
  "cap_fs_type default_type cap =
     (case cap of
        None \<Rightarrow> default_type
      | Some c \<Rightarrow>
          (case cap_access_type c of
             Some (MountAccess t) \<Rightarrow> if t \<noteq> '''' then t else default_type
           | _ \<Rightarrow> default_type))"

definition zone_key :: string where
  "zone_key = ''topology.kubernetes.io/zone''"

record csi_volume =
  vol_id :: string
  vol_capacity :: i64
  vol_context :: "string \<rightharpoonup> string"
  vol_topology :: "(string \<rightharpoonup> string) list"

end
