(* ===== verification/Metrics.thy ===== *)
theory Metrics
  imports Go_Prelude
begin

text \<open>
  The package \<open>pkg/metrics\<close>: the Prometheus collectors of the \<open>Manager\<close> and the operations
  that update them. A counter or histogram with labels is the function from label values to
  its count (a histogram keeps how many observations it has), a gauge the function to its value; the
  theory \<open>Collectors\<close> has the vectors themselves and their refinement to these. The lemmas give the accounting law of the
  counters: every recorded operation is observed once and counted once as a success or a
  failure.
\<close>

section \<open>The manager\<close>

record op_metrics =
  op_total :: "string \<times> string \<Rightarrow> nat"
  op_duration :: "string \<Rightarrow> nat"
  op_errors :: "string \<times> string \<Rightarrow> nat"

record metrics =
  volume_ops :: op_metrics
  node_ops :: op_metrics
  api_calls :: op_metrics
  auth_ops :: op_metrics
  volumes_total :: "string \<Rightarrow> int"
  volume_size_bytes :: "string \<rightharpoonup> int"
  attachments_total :: "string \<Rightarrow> int"

definition initialize_op_metrics :: op_metrics where
  "initialize_op_metrics = \<lparr>op_total = (\<lambda>_. 0), op_duration = (\<lambda>_. 0), op_errors = (\<lambda>_. 0)\<rparr>"

definition initialize_metrics :: metrics where
  "initialize_metrics =
     \<lparr>volume_ops = initialize_op_metrics, node_ops = initialize_op_metrics,
      api_calls = initialize_op_metrics, auth_ops = initialize_op_metrics,
      volumes_total = (\<lambda>_. 0), volume_size_bytes = Map.empty, attachments_total = (\<lambda>_. 0)\<rparr>"

section \<open>Recording\<close>

definition count_up :: "'k \<Rightarrow> ('k \<Rightarrow> nat) \<Rightarrow> 'k \<Rightarrow> nat" where
  "count_up k f = f(k := Suc (f k))"

definition op_success :: "string \<Rightarrow> op_metrics \<Rightarrow> op_metrics" where
  "op_success operation m =
     m\<lparr>op_duration := count_up operation (op_duration m),
       op_total := count_up (operation, ''success'') (op_total m)\<rparr>"

definition op_failure :: "string \<Rightarrow> string \<Rightarrow> op_metrics \<Rightarrow> op_metrics" where
  "op_failure operation error_type m =
     m\<lparr>op_duration := count_up operation (op_duration m),
       op_total := count_up (operation, ''failure'') (op_total m),
       op_errors := count_up (operation, error_type) (op_errors m)\<rparr>"

definition record_volume_operation :: "string \<Rightarrow> metrics \<Rightarrow> metrics" where
  "record_volume_operation operation m = m\<lparr>volume_ops := op_success operation (volume_ops m)\<rparr>"

definition record_volume_operation_error :: "string \<Rightarrow> string \<Rightarrow> metrics \<Rightarrow> metrics" where
  "record_volume_operation_error operation error_type m =
     m\<lparr>volume_ops := op_failure operation error_type (volume_ops m)\<rparr>"

definition record_node_operation :: "string \<Rightarrow> metrics \<Rightarrow> metrics" where
  "record_node_operation operation m = m\<lparr>node_ops := op_success operation (node_ops m)\<rparr>"

definition record_node_operation_error :: "string \<Rightarrow> string \<Rightarrow> metrics \<Rightarrow> metrics" where
  "record_node_operation_error operation error_type m =
     m\<lparr>node_ops := op_failure operation error_type (node_ops m)\<rparr>"

definition record_api_call :: "string \<Rightarrow> metrics \<Rightarrow> metrics" where
  "record_api_call method m = m\<lparr>api_calls := op_success method (api_calls m)\<rparr>"

definition record_api_call_error :: "string \<Rightarrow> string \<Rightarrow> metrics \<Rightarrow> metrics" where
  "record_api_call_error method error_type m =
     m\<lparr>api_calls := op_failure method error_type (api_calls m)\<rparr>"

definition record_auth_operation :: "string \<Rightarrow> metrics \<Rightarrow> metrics" where
  "record_auth_operation operation m = m\<lparr>auth_ops := op_success operation (auth_ops m)\<rparr>"

definition record_auth_operation_error :: "string \<Rightarrow> string \<Rightarrow> metrics \<Rightarrow> metrics" where
  "record_auth_operation_error operation error_type m =
     m\<lparr>auth_ops := op_failure operation error_type (auth_ops m)\<rparr>"

definition update_attachment_state :: "string \<Rightarrow> int \<Rightarrow> metrics \<Rightarrow> metrics" where
  "update_attachment_state state delta m =
     m\<lparr>attachments_total := (attachments_total m)(state := attachments_total m state + delta)\<rparr>"

definition set_attachment_state :: "string \<Rightarrow> int \<Rightarrow> metrics \<Rightarrow> metrics" where
  "set_attachment_state state v m = m\<lparr>attachments_total := (attachments_total m)(state := v)\<rparr>"

definition update_volume_state :: "string \<Rightarrow> int \<Rightarrow> metrics \<Rightarrow> metrics" where
  "update_volume_state state delta m =
     m\<lparr>volumes_total := (volumes_total m)(state := volumes_total m state + delta)\<rparr>"

definition set_volume_size :: "string \<Rightarrow> int \<Rightarrow> metrics \<Rightarrow> metrics" where
  "set_volume_size volume_id size_bytes m =
     m\<lparr>volume_size_bytes := (volume_size_bytes m)(volume_id \<mapsto> size_bytes)\<rparr>"

definition delete_volume_size :: "string \<Rightarrow> metrics \<Rightarrow> metrics" where
  "delete_volume_size volume_id m =
     m\<lparr>volume_size_bytes := (volume_size_bytes m)(volume_id := None)\<rparr>"

section \<open>Accounting\<close>

text \<open>
  The observations of an operation are its successes and its failures together: the law
  behind the error rates of the dashboards.
\<close>

definition balanced :: "op_metrics \<Rightarrow> bool" where
  "balanced m \<longleftrightarrow>
     (\<forall>o'. op_duration m o' = op_total m (o', ''success'') + op_total m (o', ''failure''))"

definition metrics_balanced :: "metrics \<Rightarrow> bool" where
  "metrics_balanced m \<longleftrightarrow>
     balanced (volume_ops m) \<and> balanced (node_ops m) \<and> balanced (api_calls m) \<and> balanced (auth_ops m)"

lemma balanced_init: "balanced initialize_op_metrics"
  by (simp add: balanced_def initialize_op_metrics_def)

lemma metrics_balanced_init: "metrics_balanced initialize_metrics"
  by (simp add: metrics_balanced_def initialize_metrics_def balanced_init)

lemma balanced_success: "balanced m \<Longrightarrow> balanced (op_success o' m)"
  by (auto simp: balanced_def op_success_def count_up_def)

lemma balanced_failure: "balanced m \<Longrightarrow> balanced (op_failure o' e m)"
  by (auto simp: balanced_def op_failure_def count_up_def)

lemmas metrics_defs =
  record_volume_operation_def record_volume_operation_error_def record_node_operation_def
  record_node_operation_error_def record_api_call_def record_api_call_error_def
  record_auth_operation_def record_auth_operation_error_def update_attachment_state_def
  set_attachment_state_def update_volume_state_def set_volume_size_def delete_volume_size_def

lemma metrics_balanced_step [simp]:
  "metrics_balanced m \<Longrightarrow> metrics_balanced (record_volume_operation o' m)"
  "metrics_balanced m \<Longrightarrow> metrics_balanced (record_volume_operation_error o' e m)"
  "metrics_balanced m \<Longrightarrow> metrics_balanced (record_node_operation o' m)"
  "metrics_balanced m \<Longrightarrow> metrics_balanced (record_node_operation_error o' e m)"
  "metrics_balanced m \<Longrightarrow> metrics_balanced (record_api_call o' m)"
  "metrics_balanced m \<Longrightarrow> metrics_balanced (record_api_call_error o' e m)"
  "metrics_balanced m \<Longrightarrow> metrics_balanced (record_auth_operation o' m)"
  "metrics_balanced m \<Longrightarrow> metrics_balanced (record_auth_operation_error o' e m)"
  "metrics_balanced m \<Longrightarrow> metrics_balanced (update_attachment_state o' d m)"
  "metrics_balanced m \<Longrightarrow> metrics_balanced (set_attachment_state o' d m)"
  "metrics_balanced m \<Longrightarrow> metrics_balanced (update_volume_state o' d m)"
  "metrics_balanced m \<Longrightarrow> metrics_balanced (set_volume_size o' d m)"
  "metrics_balanced m \<Longrightarrow> metrics_balanced (delete_volume_size o' m)"
  by (simp_all add: metrics_balanced_def metrics_defs balanced_success balanced_failure)

end
