(* ===== verification/World.thy ===== *)
theory World
  imports Metrics
begin

text \<open>
  The state the handlers run in: the system outside the driver (the cloud for the controller,
  the machine for the node service), the metrics manager the services share, and the clock.
  A \<open>runtime\<close> is what a handler sees of time and of its request context.
\<close>

record 'c world =
  sys :: 'c
  mtr :: metrics
  clock :: int

text \<open>
  Waiting for \<open>time.After\<close> or for the next tick of a ticker, against \<open>ctx.Done()\<close>: the result
  is the context's error if the context ends first. While a handler waits the outside system
  moves on. The clock advances by at least one nanosecond, and by as much more as the runtime
  says.
\<close>

record 'c runtime =
  rt_after :: "i64 \<Rightarrow> 'c \<Rightarrow> (go_error option \<times> nat) \<times> 'c"
  rt_tick :: "i64 \<Rightarrow> 'c \<Rightarrow> (go_error option \<times> nat) \<times> 'c"
  rt_ctx_err :: "'c \<Rightarrow> go_error option"

definition elapse :: "('c \<Rightarrow> (go_error option \<times> nat) \<times> 'c) \<Rightarrow> 'c world go_err" where
  "elapse f w =
     (case f (sys w) of
        ((err, n), c) \<Rightarrow> (err, w\<lparr>sys := c, clock := clock w + 1 + int n\<rparr>))"

definition sleep_for :: "'c runtime \<Rightarrow> i64 \<Rightarrow> 'c world go_err" where
  "sleep_for rt d = elapse (rt_after rt d)"

definition next_tick :: "'c runtime \<Rightarrow> i64 \<Rightarrow> 'c world go_err" where
  "next_tick rt period = elapse (rt_tick rt period)"

text \<open>A call of the outside system leaves metrics and clock alone.\<close>

definition on_sys :: "('c \<Rightarrow> 'r \<times> 'c) \<Rightarrow> 'c world \<Rightarrow> 'r \<times> 'c world" where
  "on_sys f w = (case f (sys w) of (r, c) \<Rightarrow> (r, w\<lparr>sys := c\<rparr>))"

definition on_metrics :: "(metrics \<Rightarrow> metrics) \<Rightarrow> 'c world \<Rightarrow> 'c world" where
  "on_metrics f w = w\<lparr>mtr := f (mtr w)\<rparr>"

section \<open>Lemmas\<close>

lemma on_metrics_simps [simp]:
  "sys (on_metrics f w) = sys w" "clock (on_metrics f w) = clock w" "mtr (on_metrics f w) = f (mtr w)"
  by (simp_all add: on_metrics_def)

lemma on_sys_eq:
  "on_sys f w = (r, w') \<longleftrightarrow> (\<exists>c. f (sys w) = (r, c) \<and> w' = w\<lparr>sys := c\<rparr>)"
  by (auto simp: on_sys_def split: prod.splits)

lemma on_sys_eq_sym:
  "(r, w') = on_sys f w \<longleftrightarrow> (\<exists>c. f (sys w) = (r, c) \<and> w' = w\<lparr>sys := c\<rparr>)"
  by (auto simp: on_sys_def split: prod.splits)

lemma on_sys_simps [simp]:
  "sys (snd (on_sys f w)) = snd (f (sys w))" "fst (on_sys f w) = fst (f (sys w))"
  "clock (snd (on_sys f w)) = clock w" "mtr (snd (on_sys f w)) = mtr w"
  by (simp_all add: on_sys_def split: prod.splits)

lemma elapse_eq:
  "elapse f w = (r, w') \<longleftrightarrow>
     (\<exists>n c. f (sys w) = ((r, n), c) \<and> w' = w\<lparr>sys := c, clock := clock w + 1 + int n\<rparr>)"
  by (auto simp: elapse_def split: prod.splits)

lemma elapse_eq_sym:
  "(r, w') = elapse f w \<longleftrightarrow>
     (\<exists>n c. f (sys w) = ((r, n), c) \<and> w' = w\<lparr>sys := c, clock := clock w + 1 + int n\<rparr>)"
  by (auto simp: elapse_def split: prod.splits)

lemma elapse_clock: "clock w < clock (snd (elapse f w))"
  by (simp add: elapse_def split: prod.splits)

lemma elapse_simps [simp]:
  "sys (snd (elapse f w)) = snd (f (sys w))" "mtr (snd (elapse f w)) = mtr w"
  by (simp_all add: elapse_def split: prod.splits)

text \<open>A runtime in which no time passes beyond the minimum and nothing else happens.\<close>

definition still_runtime :: "'c runtime" where
  "still_runtime =
     \<lparr>rt_after = (\<lambda>_ c. ((None, 0), c)), rt_tick = (\<lambda>_ c. ((None, 0), c)), rt_ctx_err = (\<lambda>_. None)\<rparr>"

end
