(* ===== verification/Storage.thy ===== *)
theory Storage
  imports World
begin

text \<open>
  The package \<open>pkg/evroc\<close> (\<open>storage.go\<close>, \<open>status.go\<close>): the resources of the evroc API as far as
  the driver reads them, the name inside a resource reference, the interface
  \<open>StorageBackend\<close> through which the controller reaches the cloud, and the contract the
  controller relies on, as a locale that the implementations interpret.
\<close>

section \<open>Resources\<close>

text \<open>The types of the evroc Go SDK: the fields the driver reads or writes.\<close>

datatype disk_unit = KB | MB | GB | TB | OtherUnit string

record disk_size =
  size_amount :: i32
  size_unit :: disk_unit

record disk =
  disk_id :: string
  disk_labels :: "(string \<rightharpoonup> string) option"
  disk_spec_size :: "disk_size option"
  disk_zone :: string
  disk_status_size :: "disk_size option"

record attachment =
  att_id :: string
  att_labels :: "(string \<rightharpoonup> string) option"
  att_disk_ref :: string
  att_vm_ref :: string
  att_serial :: "string option"
  att_conditions :: "(string \<times> string) list"

text \<open>\<open>ExtractResourceName\<close>: what follows the last slash of a reference.\<close>

definition extract_resource_name :: "string \<Rightarrow> string" where
  "extract_resource_name ref =
     (if \<not> contains ref ''/'' then ref
      else (let parts = split_on (CHR ''/'') ref
            in if 0 < length parts then parts ! (length parts - 1) else ref))"

section \<open>The interface\<close>

record 'c storage_backend =
  ensure_disk_created :: "string \<Rightarrow> i32 \<Rightarrow> string \<Rightarrow> string \<Rightarrow> ('c world, bool) go"
  ensure_disk_deleted :: "string \<Rightarrow> 'c world go_err"
  get_disk_and_validate_ownership :: "string \<Rightarrow> ('c world, disk) go"
  list_disks :: "('c world, disk list) go"
  get_attachment :: "string \<Rightarrow> string \<Rightarrow> ('c world, attachment) go"
  list_attachments :: "('c world, attachment list) go"
  count_node_attachments :: "string \<Rightarrow> ('c world, nat) go"
  ensure_attachment_created :: "string \<Rightarrow> string \<Rightarrow> 'c world go_err"
  wait_for_attachment_serial :: "string \<Rightarrow> string \<Rightarrow> ('c world, string) go"
  ensure_attachment_deleted :: "string \<Rightarrow> string \<Rightarrow> 'c world go_err"
  ensure_disk_resized :: "string \<Rightarrow> i32 \<Rightarrow> 'c world go_err"

text \<open>The calls of the interface, to speak of any sequence of them.\<close>

datatype storage_call =
    EnsureDiskCreated string i32 string string
  | EnsureDiskDeleted string
  | GetDiskAndValidateOwnership string
  | ListDisks
  | GetAttachment string string
  | ListAttachments
  | CountNodeAttachments string
  | EnsureAttachmentCreated string string
  | WaitForAttachmentSerial string string
  | EnsureAttachmentDeleted string string
  | EnsureDiskResized string i32

fun storage_step :: "'c storage_backend \<Rightarrow> storage_call \<Rightarrow> 'c world \<Rightarrow> 'c world" where
  "storage_step sb (EnsureDiskCreated n mb sc z) w = snd (ensure_disk_created sb n mb sc z w)"
| "storage_step sb (EnsureDiskDeleted n) w = snd (ensure_disk_deleted sb n w)"
| "storage_step sb (GetDiskAndValidateOwnership n) w = snd (get_disk_and_validate_ownership sb n w)"
| "storage_step sb ListDisks w = snd (list_disks sb w)"
| "storage_step sb (GetAttachment d v) w = snd (get_attachment sb d v w)"
| "storage_step sb ListAttachments w = snd (list_attachments sb w)"
| "storage_step sb (CountNodeAttachments v) w = snd (count_node_attachments sb v w)"
| "storage_step sb (EnsureAttachmentCreated d v) w = snd (ensure_attachment_created sb d v w)"
| "storage_step sb (WaitForAttachmentSerial d v) w = snd (wait_for_attachment_serial sb d v w)"
| "storage_step sb (EnsureAttachmentDeleted d v) w = snd (ensure_attachment_deleted sb d v w)"
| "storage_step sb (EnsureDiskResized n mb) w = snd (ensure_disk_resized sb n mb w)"

text \<open>The calls that attach or detach; the contract below says that no other call changes attachments.\<close>

fun changes_attachments :: "storage_call \<Rightarrow> bool" where
  "changes_attachments (EnsureAttachmentCreated _ _) = True"
| "changes_attachments (EnsureAttachmentDeleted _ _) = True"
| "changes_attachments _ = False"

definition storage_run :: "'c storage_backend \<Rightarrow> storage_call list \<Rightarrow> 'c world \<Rightarrow> 'c world" where
  "storage_run sb calls w = fold (storage_step sb) calls w"

lemma storage_run_invariant:
  assumes "\<And>c w. P w \<Longrightarrow> P (storage_step sb c w)"
  shows "P w \<Longrightarrow> P (storage_run sb calls w)"
  unfolding storage_run_def using assms by (induction calls arbitrary: w) simp_all

section \<open>Names inside references\<close>

definition no_slash :: "string \<Rightarrow> bool" where
  "no_slash s \<longleftrightarrow> CHR ''/'' \<notin> set s"

lemma extract_no_slash: "no_slash s \<Longrightarrow> extract_resource_name s = s"
  by (simp add: extract_resource_name_def no_slash_def)

lemma extract_path:
  assumes "no_slash s"
  shows "extract_resource_name (p @ CHR ''/'' # s) = s"
  using assms
  by (simp add: extract_resource_name_def no_slash_def split_on_append_sep split_on_no_sep nth_append)

lemma no_slash_extract: "no_slash (extract_resource_name s)"
proof (cases "CHR ''/'' \<in> set s")
  case False
  then show ?thesis by (simp add: extract_resource_name_def no_slash_def)
next
  case True
  have "split_on (CHR ''/'') s ! (length (split_on (CHR ''/'') s) - 1) \<in> set (split_on (CHR ''/'') s)"
    by (rule nth_mem) (cases "split_on (CHR ''/'') s"; simp)
  from split_on_parts [OF this] True show ?thesis
    by (simp add: extract_resource_name_def no_slash_def Let_def)
qed

lemma extract_idem: "extract_resource_name (extract_resource_name s) = extract_resource_name s"
  by (rule extract_no_slash) (rule no_slash_extract)

lemma extract_append:
  "extract_resource_name (s @ t) =
     (if no_slash t then (if no_slash s then s @ t else extract_resource_name s @ t)
      else extract_resource_name t)"
proof (cases "CHR ''/'' \<in> set t")
  case True
  then obtain u v where t: "t = u @ CHR ''/'' # v" and v: "CHR ''/'' \<notin> set v"
    by (meson split_list_last)
  then have "extract_resource_name (s @ t) = v" "extract_resource_name t = v"
    using extract_path [of v "s @ u"] extract_path [of v u] by (simp_all add: no_slash_def)
  with True show ?thesis by (simp add: no_slash_def)
next
  case t: False
  show ?thesis
  proof (cases "CHR ''/'' \<in> set s")
    case True
    then obtain u v where s: "s = u @ CHR ''/'' # v" and v: "CHR ''/'' \<notin> set v"
      by (meson split_list_last)
    then have "extract_resource_name (s @ t) = v @ t" "extract_resource_name s = v"
      using extract_path [of "v @ t" u] extract_path [of v u] t by (simp_all add: no_slash_def)
    with True t show ?thesis by (simp add: no_slash_def)
  next
    case False
    with t show ?thesis by (simp add: no_slash_def extract_no_slash)
  qed
qed

section \<open>The contract of a backend\<close>

text \<open>
  \<open>att\<close> reads off the outside system the attachments of this driver, as pairs of a disk name
  and a VM name; \<open>has_disk\<close> says that a disk of this driver exists and does not have another
  size than the given one; \<open>no_disk\<close> that a disk is gone. The laws bound what each operation
  may do to them, whether it succeeds or fails.
\<close>

locale storage_contract =
  fixes sb :: "'c storage_backend"
    and att :: "'c \<Rightarrow> (string \<times> string) set"
    and has_disk :: "'c \<Rightarrow> string \<Rightarrow> i32 \<Rightarrow> bool"
    and no_disk :: "'c \<Rightarrow> string \<Rightarrow> bool"
  assumes create_disk_ok:
      "ensure_disk_created sb n mb sc z w = (Inr b, w') \<Longrightarrow> has_disk (sys w') n mb"
    and create_disk_att: "att (sys (snd (ensure_disk_created sb n mb sc z w))) = att (sys w)"
    and create_disk_frame:
      "m \<noteq> n \<Longrightarrow> has_disk (sys (snd (ensure_disk_created sb n mb sc z w))) m k = has_disk (sys w) m k"
    and delete_disk_ok: "ensure_disk_deleted sb n w = (None, w') \<Longrightarrow> no_disk (sys w') n"
    and delete_disk_att: "att (sys (snd (ensure_disk_deleted sb n w))) = att (sys w)"
    and delete_disk_frame:
      "m \<noteq> n \<Longrightarrow> has_disk (sys (snd (ensure_disk_deleted sb n w))) m k = has_disk (sys w) m k"
    and list_attachments_ok:
      "list_attachments sb w = (Inr items, w') \<Longrightarrow> (d, v) \<in> att (sys w) \<Longrightarrow>
         \<exists>a \<in> set items. extract_resource_name (att_disk_ref a) = d
                         \<and> extract_resource_name (att_vm_ref a) = v"
    and list_attachments_att: "att (sys (snd (list_attachments sb w))) = att (sys w)"
    and count_ok:
      "count_node_attachments sb v w = (Inr cnt, w') \<Longrightarrow>
         finite {d. (d, v) \<in> att (sys w)} \<and> card {d. (d, v) \<in> att (sys w)} \<le> cnt"
    and count_att: "att (sys (snd (count_node_attachments sb v w))) = att (sys w)"
    and attach_bound:
      "no_slash d \<Longrightarrow> no_slash v \<Longrightarrow>
         att (sys (snd (ensure_attachment_created sb d v w))) \<subseteq> insert (d, v) (att (sys w))"
    and serial_att: "att (sys (snd (wait_for_attachment_serial sb d v w))) = att (sys w)"
    and detach_bound: "att (sys (snd (ensure_attachment_deleted sb d v w))) \<subseteq> att (sys w)"
    and get_disk_att: "att (sys (snd (get_disk_and_validate_ownership sb n w))) = att (sys w)"
    and list_disks_att: "att (sys (snd (list_disks sb w))) = att (sys w)"
    and get_attachment_att: "att (sys (snd (get_attachment sb d v w))) = att (sys w)"
    and resize_att: "att (sys (snd (ensure_disk_resized sb n mb w))) = att (sys w)"
begin

lemma other_call_att: "\<not> changes_attachments c \<Longrightarrow> att (sys (storage_step sb c w)) = att (sys w)"
  by (cases c) (simp_all add: create_disk_att delete_disk_att list_attachments_att count_att serial_att
      get_disk_att list_disks_att get_attachment_att resize_att)

end

text \<open>
  The stronger contract of the backend that talks to the evroc API: a nil error from an attach
  means the pair is attached and the disk is attached nowhere else, a nil error from a detach
  that the pair is gone, and a serial is never empty.
\<close>

locale exact_storage_contract = storage_contract +
  assumes attach_ok:
      "no_slash d \<Longrightarrow> no_slash v \<Longrightarrow> ensure_attachment_created sb d v w = (None, w') \<Longrightarrow>
         (d, v) \<in> att (sys w')"
    and attach_single:
      "no_slash d \<Longrightarrow> no_slash v \<Longrightarrow> ensure_attachment_created sb d v w = (None, w') \<Longrightarrow>
         (d, v') \<in> att (sys w') \<Longrightarrow> v' = v"
    and detach_ok:
      "no_slash d \<Longrightarrow> no_slash v \<Longrightarrow> ensure_attachment_deleted sb d v w = (None, w') \<Longrightarrow>
         (d, v) \<notin> att (sys w')"
    and serial_ok: "wait_for_attachment_serial sb d v w = (Inr s, w') \<Longrightarrow> s \<noteq> ''''"

end
