(* ===== verification/Sha256.thy ===== *)
theory Sha256
  imports Go_Prelude
begin

unbundle bit_operations_syntax

text \<open>
  The hash of Go's package \<open>crypto/sha256\<close> (FIPS 180-4), on byte strings, and its rendering
  with the verb \<open>%x\<close>. The driver derives the names of long attachments from it.
\<close>

section \<open>The hash\<close>

definition rotr :: "nat \<Rightarrow> i32 \<Rightarrow> i32" where
  "rotr n x = drop_bit n x OR push_bit (32 - n) x"

text \<open>
  The constants of the standard: the first 32 bits after the binary point of the cube roots of
  the first 64 primes, and of the square roots of the first eight.
\<close>

definition first_primes :: "int list" where
  "first_primes =
    [2, 3, 5, 7, 11, 13, 17, 19, 23, 29, 31, 37, 41, 43, 47, 53,
     59, 61, 67, 71, 73, 79, 83, 89, 97, 101, 103, 107, 109, 113, 127, 131,
     137, 139, 149, 151, 157, 163, 167, 173, 179, 181, 191, 193, 197, 199, 211, 223,
     227, 229, 233, 239, 241, 251, 257, 263, 269, 271, 277, 281, 283, 293, 307, 311]"

text \<open>The largest number whose power does not exceed the given value, bit by bit from the top.\<close>

fun root_bits :: "nat \<Rightarrow> nat list \<Rightarrow> int \<Rightarrow> int \<Rightarrow> int" where
  "root_bits k [] r v = r"
| "root_bits k (b # bs) r v =
     (let r' = r + 2 ^ b in root_bits k bs (if r' ^ k \<le> v then r' else r) v)"

definition root_fraction :: "nat \<Rightarrow> int \<Rightarrow> i32" where
  "root_fraction k p = word_of_int (root_bits k (rev [0..<37]) 0 (p * 2 ^ (32 * k)))"

definition round_constants :: "i32 list" where
  "round_constants = map (root_fraction 3) first_primes"

text \<open>The eight working variables, and the message schedule kept latest first.\<close>

type_synonym hash_state = "i32 \<times> i32 \<times> i32 \<times> i32 \<times> i32 \<times> i32 \<times> i32 \<times> i32"

definition initial_hash :: hash_state where
  "initial_hash =
     (root_fraction 2 2, root_fraction 2 3, root_fraction 2 5, root_fraction 2 7,
      root_fraction 2 11, root_fraction 2 13, root_fraction 2 17, root_fraction 2 19)"

lemma root_fraction_samples:
  "root_fraction 2 2 = 0x6a09e667" "root_fraction 2 19 = 0x5be0cd19"
  "root_fraction 3 2 = 0x428a2f98" "root_fraction 3 311 = 0xc67178f2"
  by code_simp+

definition schedule_word :: "i32 list \<Rightarrow> i32" where
  "schedule_word ws =
     (let x = ws ! 14; y = ws ! 1
      in (rotr 17 y XOR rotr 19 y XOR drop_bit 10 y) + ws ! 6 +
         (rotr 7 x XOR rotr 18 x XOR drop_bit 3 x) + ws ! 15)"

fun extend_schedule :: "nat \<Rightarrow> i32 list \<Rightarrow> i32 list" where
  "extend_schedule 0 ws = ws"
| "extend_schedule (Suc n) ws = extend_schedule n (schedule_word ws # ws)"

fun hash_round :: "hash_state \<Rightarrow> i32 \<times> i32 \<Rightarrow> hash_state" where
  "hash_round (a, b, c, d, e, f, g, h) (k, w) =
     (let t1 = h + (rotr 6 e XOR rotr 11 e XOR rotr 25 e) + ((e AND f) XOR ((NOT e) AND g)) + k + w;
          t2 = (rotr 2 a XOR rotr 13 a XOR rotr 22 a) + ((a AND b) XOR (a AND c) XOR (b AND c))
      in (t1 + t2, a, b, c, d + t1, e, f, g))"

fun add_hash :: "hash_state \<Rightarrow> hash_state \<Rightarrow> hash_state" where
  "add_hash (a, b, c, d, e, f, g, h) (a', b', c', d', e', f', g', h') =
     (a + a', b + b', c + c', d + d', e + e', f + f', g + g', h + h')"

definition hash_block :: "hash_state \<Rightarrow> i32 list \<Rightarrow> hash_state" where
  "hash_block s block =
     add_hash s (foldl hash_round s (zip round_constants (rev (extend_schedule 48 (rev block)))))"

section \<open>Bytes\<close>

definition be_bytes :: "nat \<Rightarrow> nat \<Rightarrow> nat list" where
  "be_bytes n v = map (\<lambda>i. (v div 256 ^ (n - 1 - i)) mod 256) [0..<n]"

definition pad_message :: "nat list \<Rightarrow> nat list" where
  "pad_message bs =
     bs @ [128] @ replicate ((119 - length bs mod 64) mod 64) 0 @ be_bytes 8 (8 * length bs)"

fun be_words :: "nat list \<Rightarrow> i32 list" where
  "be_words (a # b # c # d # rest) =
     of_nat (((a * 256 + b) * 256 + c) * 256 + d) # be_words rest"
| "be_words _ = []"

function chunks :: "nat \<Rightarrow> 'a list \<Rightarrow> 'a list list" where
  "chunks n xs = (if xs = [] \<or> n = 0 then [] else take n xs # chunks n (drop n xs))"
  by pat_completeness auto
termination
  by (relation "measure (\<lambda>(n, xs). length xs)") auto

declare chunks.simps [simp del]

definition hash_bytes :: "hash_state \<Rightarrow> nat list" where
  "hash_bytes s =
     (case s of (a, b, c, d, e, f, g, h) \<Rightarrow>
        concat (map (\<lambda>w. be_bytes 4 (unat w)) [a, b, c, d, e, f, g, h]))"

definition sha256_bytes :: "nat list \<Rightarrow> nat list" where
  "sha256_bytes bs = hash_bytes (foldl hash_block initial_hash (chunks 16 (be_words (pad_message bs))))"

definition sha256 :: "string \<Rightarrow> nat list" where
  "sha256 s = sha256_bytes (map of_char s)"

definition hex_digit :: "nat \<Rightarrow> char" where
  "hex_digit d = ''0123456789abcdef'' ! d"

definition hex_text :: "nat list \<Rightarrow> string" where
  "hex_text bs = concat (map (\<lambda>b. [hex_digit (b div 16), hex_digit (b mod 16)]) bs)"

section \<open>Sizes\<close>

lemma length_be_bytes [simp]: "length (be_bytes n v) = n"
  by (simp add: be_bytes_def)

lemma length_hash_bytes [simp]: "length (hash_bytes s) = 32"
  by (simp add: hash_bytes_def split: prod.split)

lemma length_sha256 [simp]: "length (sha256 s) = 32"
  by (simp add: sha256_def sha256_bytes_def)

lemma length_hex_text [simp]: "length (hex_text bs) = 2 * length bs"
  by (induction bs) (simp_all add: hex_text_def)

lemma sha256_byte: "b \<in> set (sha256 s) \<Longrightarrow> b < 256"
  by (auto simp: sha256_def sha256_bytes_def hash_bytes_def be_bytes_def split: prod.splits)

lemma hex_digit_hex: "d < 16 \<Longrightarrow> hex_digit d \<in> set ''0123456789abcdef''"
  unfolding hex_digit_def by (rule nth_mem) simp

lemma hex_text_hex:
  assumes "\<forall>b \<in> set bs. b < 256" and "c \<in> set (hex_text bs)"
  shows "c \<in> set ''0123456789abcdef''"
proof -
  obtain b where b: "b \<in> set bs" and c: "c = hex_digit (b div 16) \<or> c = hex_digit (b mod 16)"
    using assms(2) by (auto simp: hex_text_def)
  have "b div 16 < 16" "b mod 16 < 16" using assms(1) b by (simp_all add: less_mult_imp_div_less)
  with c show ?thesis using hex_digit_hex by metis
qed

end
