(* ===== verification/Sdk_Backend.thy ===== *)
theory Sdk_Backend
  imports Storage Sha256
begin

text \<open>
  The package \<open>pkg/evroc/sdk\<close>: the \<open>StorageBackend\<close> that talks to the evroc API. The API
  client of the evroc Go SDK is a parameter, the record \<open>compute_client\<close>; its documented
  behaviour, as far as the driver relies on it, is the locale \<open>compute_api\<close> of the theory
  \<open>Sdk_Contract\<close>. Here are the operations of the backend, in the order of the source.
\<close>

section \<open>The API client\<close>

record label_filter =
  filter_labels :: "(string \<times> string) list"

record 'c compute_client =
  disks_get :: "string \<Rightarrow> ('c, disk) go"
  disks_create :: "disk \<Rightarrow> ('c, disk) go"
  disks_delete :: "string \<Rightarrow> 'c go_err"
  disks_patch :: "string \<Rightarrow> disk \<Rightarrow> ('c, disk) go"
  disks_list :: "label_filter \<Rightarrow> ('c, disk list) go"
  atts_get :: "string \<Rightarrow> ('c, attachment) go"
  atts_create :: "attachment \<Rightarrow> ('c, attachment) go"
  atts_delete :: "string \<Rightarrow> 'c go_err"
  atts_list :: "label_filter \<Rightarrow> ('c, attachment list) go"
  atts_wait_ready :: "string \<Rightarrow> i64 \<Rightarrow> ('c, attachment) go"
  atts_wait_deleted :: "string \<Rightarrow> i64 \<Rightarrow> 'c go_err"
  vms_get :: "string \<Rightarrow> ('c, (string \<rightharpoonup> string) option) go"
  disk_ref :: "string \<Rightarrow> string"
  vm_ref :: "string \<Rightarrow> string"

record 'c sdk_backend =
  client :: "'c compute_client"
  sdk_identifier :: string
  vm_owner_label :: string
  attachment_poll_timeout :: i64
  disk_resize_poll_timeout :: i64
  disk_resize_poll_interval :: i64

definition managed_by_label :: string where
  "managed_by_label = ''managed-by''"

definition attachment_disk_label :: string where
  "attachment_disk_label = ''compute.evroc.com/disk-attachment-disk''"

text \<open>\<open>labelFilter.Apply\<close>; the labels come in the order the map iteration visits them.\<close>

definition label_filter_apply :: "label_filter \<Rightarrow> (string \<rightharpoonup> string) \<Rightarrow> (string \<rightharpoonup> string)" where
  "label_filter_apply f v =
     (if length (filter_labels f) = 0 then v
      else v(''labelSelector'' \<mapsto>
               join_with '','' (map (\<lambda>(k, val). k @ ''='' @ val) (filter_labels f))))"

definition managed_by_labels :: "'c sdk_backend \<Rightarrow> (string \<rightharpoonup> string)" where
  "managed_by_labels b = [managed_by_label \<mapsto> sdk_identifier b]"

definition managed_by_filter :: "'c sdk_backend \<Rightarrow> label_filter" where
  "managed_by_filter b = \<lparr>filter_labels = [(managed_by_label, sdk_identifier b)]\<rparr>"

definition disk_attachments_filter :: "'c sdk_backend \<Rightarrow> string \<Rightarrow> label_filter" where
  "disk_attachments_filter b disk_name =
     \<lparr>filter_labels = [(managed_by_label, sdk_identifier b), (attachment_disk_label, disk_name)]\<rparr>"

section \<open>Helpers\<close>

definition attachment_name :: "string \<Rightarrow> string \<Rightarrow> string" where
  "attachment_name disk_name vm_name =
     (let full_name = disk_name @ ''-to-'' @ vm_name
      in if 63 < length full_name then take 61 (''hsda-'' @ hex_text (sha256 full_name))
         else full_name)"

definition is_not_found_or_forbidden :: "go_error \<Rightarrow> bool" where
  "is_not_found_or_forbidden e \<longleftrightarrow> errors_is KNotFound e \<or> errors_is KForbidden e"

definition sdk_user_labels :: "(string \<rightharpoonup> string) option \<Rightarrow> (string \<rightharpoonup> string)" where
  "sdk_user_labels ul = (case ul of None \<Rightarrow> Map.empty | Some m \<Rightarrow> m)"

text \<open>Reading a key a Go map does not hold gives the empty string.\<close>

definition label_value :: "(string \<rightharpoonup> string) \<Rightarrow> string \<Rightarrow> string" where
  "label_value m k = (case m k of None \<Rightarrow> '''' | Some v \<Rightarrow> v)"

definition unit_text :: "disk_unit \<Rightarrow> string" where
  "unit_text u = (case u of KB \<Rightarrow> ''KB'' | MB \<Rightarrow> ''MB'' | GB \<Rightarrow> ''GB'' | TB \<Rightarrow> ''TB'' | OtherUnit s \<Rightarrow> s)"

definition classify_sdk_error :: "go_error option \<Rightarrow> string" where
  "classify_sdk_error err =
     (case err of
        None \<Rightarrow> ''''
      | Some e \<Rightarrow>
          if errors_is KNotFound e then ''not_found''
          else if errors_is KForbidden e then ''permission_denied''
          else if errors_is KConflict e then ''conflict''
          else if errors_is KBadRequest e then ''bad_request''
          else if contains (err_text e) ''timeout'' \<or> contains (err_text e) ''Timeout'' then ''timeout''
          else ''internal'')"

definition sdk_error_to_grpc :: "go_error \<Rightarrow> go_error" where
  "sdk_error_to_grpc e =
     (if errors_is KNotFound e then status_error NotFound (err_text e)
      else if errors_is KForbidden e then status_error PermissionDenied (err_text e)
      else if errors_is KConflict e then status_error AlreadyExists (err_text e)
      else if errors_is KBadRequest e then status_error InvalidArgument (err_text e)
      else status_error Internal (err_text e))"

definition record_api_success :: "string \<Rightarrow> 'c world \<Rightarrow> 'c world" where
  "record_api_success method = on_metrics (record_api_call method)"

definition record_api_error :: "string \<Rightarrow> go_error \<Rightarrow> 'c world \<Rightarrow> 'c world" where
  "record_api_error method e = on_metrics (record_api_call_error method (classify_sdk_error (Some e)))"

definition record_api_error_with_type :: "string \<Rightarrow> string \<Rightarrow> 'c world \<Rightarrow> 'c world" where
  "record_api_error_with_type method error_type = on_metrics (record_api_call_error method error_type)"

definition validate_ownership ::
  "'c sdk_backend \<Rightarrow> (string \<rightharpoonup> string) \<Rightarrow> string \<Rightarrow> string \<Rightarrow> string \<Rightarrow> string \<Rightarrow> 'c world go_err"
where
  "validate_ownership b labels resource_type resource_name operation metrics_method w =
     (let managed_by = label_value labels managed_by_label
      in if managed_by = sdk_identifier b then (None, w)
         else
           (let w1 = record_api_error_with_type metrics_method ''forbidden'' w
            in if operation = ''delete'' then
                 (Some (status_error PermissionDenied
                    (''refusing to delete '' @ resource_type @ '' '' @ resource_name @ '' created by '' @
                     managed_by @ '' (not created by this CSI driver: '' @ sdk_identifier b @ '')'')), w1)
               else
                 (Some (status_error NotFound
                    (resource_type @ '' '' @ resource_name @
                     '' exists but not managed by this CSI driver (managed by: '' @ managed_by @ '')'')), w1)))"

definition validate_existing_disk ::
  "'c sdk_backend \<Rightarrow> disk \<Rightarrow> string \<Rightarrow> i32 \<Rightarrow> 'c world go_err"
where
  "validate_existing_disk b d name size_mb w =
     (let managed_by = label_value (sdk_user_labels (disk_labels d)) managed_by_label
      in if managed_by \<noteq> sdk_identifier b then
           (Some (status_error AlreadyExists
              (''disk '' @ name @ '' already exists but was created by '' @ managed_by @
               '', not by this CSI driver ('' @ sdk_identifier b @ '')'')),
            record_api_error_with_type ''CreateDisk'' ''already_exists'' w)
         else
           (case disk_spec_size d of
              Some sz \<Rightarrow>
                if size_amount sz \<noteq> size_mb \<or> unit_text (size_unit sz) \<noteq> ''MB'' then
                  (Some (status_error AlreadyExists
                     (''disk '' @ name @ '' already exists but with different size: '' @
                      itoa (sint (size_amount sz)) @ unit_text (size_unit sz) @ '' vs '' @
                      itoa (sint size_mb) @ ''MB'')),
                   record_api_error_with_type ''CreateDisk'' ''already_exists'' w)
                else (None, w)
            | None \<Rightarrow> (None, w)))"

definition validate_vm_ownership :: "'c sdk_backend \<Rightarrow> string \<Rightarrow> 'c world go_err" where
  "validate_vm_ownership b vm_name w =
     (if vm_owner_label b = '''' then (None, w)
      else
        (case on_sys (vms_get (client b) vm_name) w of
           (Inl e, w1) \<Rightarrow> (Some (sdk_error_to_grpc e), record_api_error ''GetVirtualMachine'' e w1)
         | (Inr labels, w1) \<Rightarrow>
             (let vm_owner = label_value (sdk_user_labels labels) (vm_owner_label b)
              in if vm_owner \<noteq> sdk_identifier b then
                   (Some (status_error NotFound
                      (''VM '' @ vm_name @ '' does not belong to this cluster ('' @ vm_owner_label b @
                       ''='' @ quoted vm_owner @ '', want '' @ quoted (sdk_identifier b) @ '')'')),
                    record_api_error_with_type ''CreateAttachment'' ''forbidden'' w1)
                 else (None, w1))))"

definition disk_size_to_mb :: "i32 \<Rightarrow> disk_unit \<Rightarrow> i32" where
  "disk_size_to_mb amount u =
     (case u of
        MB \<Rightarrow> amount
      | GB \<Rightarrow> amount * 1024
      | TB \<Rightarrow> amount * 1024 * 1024
      | KB \<Rightarrow> go_div amount 1024
      | OtherUnit _ \<Rightarrow> amount)"

definition disk_status_matches_size :: "disk \<Rightarrow> i32 \<Rightarrow> bool" where
  "disk_status_matches_size d size_mb =
     (case disk_status_size d of
        None \<Rightarrow> False
      | Some sz \<Rightarrow> disk_size_to_mb (size_amount sz) (size_unit sz) = size_mb)"

section \<open>Operations\<close>

text \<open>The requests put together with the SDK's builders.\<close>

definition disk_request :: "'c sdk_backend \<Rightarrow> string \<Rightarrow> i32 \<Rightarrow> string \<Rightarrow> disk" where
  "disk_request b name size_mb zone =
     \<lparr>disk_id = name, disk_labels = Some (managed_by_labels b),
      disk_spec_size = Some \<lparr>size_amount = size_mb, size_unit = MB\<rparr>,
      disk_zone = zone, disk_status_size = None\<rparr>"

definition attachment_request :: "'c sdk_backend \<Rightarrow> string \<Rightarrow> string \<Rightarrow> string \<Rightarrow> attachment" where
  "attachment_request b att_name vmref diskref =
     \<lparr>att_id = att_name, att_labels = Some (managed_by_labels b), att_disk_ref = diskref,
      att_vm_ref = vmref, att_serial = None, att_conditions = []\<rparr>"

definition accept_existing_disk ::
  "'c sdk_backend \<Rightarrow> disk \<Rightarrow> string \<Rightarrow> i32 \<Rightarrow> ('c world, bool) go"
where
  "accept_existing_disk b d name size_mb w =
     (case validate_existing_disk b d name size_mb w of
        (Some e, w1) \<Rightarrow> (Inl e, w1)
      | (None, w1) \<Rightarrow> (Inr False, record_api_success ''CreateDisk'' w1))"

definition sdk_ensure_disk_created ::
  "'c sdk_backend \<Rightarrow> string \<Rightarrow> i32 \<Rightarrow> string \<Rightarrow> string \<Rightarrow> ('c world, bool) go"
where
  "sdk_ensure_disk_created b name size_mb storage_class zone w =
     (case on_sys (disks_get (client b) name) w of
        (Inr existing, w1) \<Rightarrow> accept_existing_disk b existing name size_mb w1
      | (Inl _, w1) \<Rightarrow>
          (case on_sys (disks_create (client b) (disk_request b name size_mb zone)) w1 of
             (Inr _, w2) \<Rightarrow> (Inr True, record_api_success ''CreateDisk'' w2)
           | (Inl e, w2) \<Rightarrow>
               if errors_is KConflict e then
                 (case on_sys (disks_get (client b) name) w2 of
                    (Inl get_err, w3) \<Rightarrow>
                      (Inl (sdk_error_to_grpc get_err), record_api_error ''CreateDisk'' get_err w3)
                  | (Inr conflict_disk, w3) \<Rightarrow> accept_existing_disk b conflict_disk name size_mb w3)
               else (Inl (sdk_error_to_grpc e), record_api_error ''CreateDisk'' e w2)))"

definition confirm_disk_deleted :: "'c sdk_backend \<Rightarrow> string \<Rightarrow> 'c world go_err" where
  "confirm_disk_deleted b name w =
     (case on_sys (disks_get (client b) name) w of
        (Inl e, w1) \<Rightarrow>
          if errors_is KNotFound e then (None, record_api_success ''DeleteDisk'' w1)
          else (Some (sdk_error_to_grpc e), record_api_error ''DeleteDisk'' e w1)
      | (Inr _, w1) \<Rightarrow>
          (Some (status_error Unavailable (''disk '' @ name @ '' is still deleting'')),
           record_api_error_with_type ''DeleteDisk'' ''unavailable'' w1))"

definition sdk_ensure_disk_deleted :: "'c sdk_backend \<Rightarrow> string \<Rightarrow> 'c world go_err" where
  "sdk_ensure_disk_deleted b name w =
     (case on_sys (disks_get (client b) name) w of
        (Inl e, w1) \<Rightarrow>
          if errors_is KNotFound e then (None, record_api_success ''DeleteDisk'' w1)
          else (Some (sdk_error_to_grpc e), record_api_error ''DeleteDisk'' e w1)
      | (Inr existing, w1) \<Rightarrow>
          (case validate_ownership b (sdk_user_labels (disk_labels existing)) ''disk'' name
                  ''delete'' ''DeleteDisk'' w1 of
             (Some e, w2) \<Rightarrow> (Some e, w2)
           | (None, w2) \<Rightarrow>
               (case on_sys (disks_delete (client b) name) w2 of
                  (Some e, w3) \<Rightarrow>
                    if errors_is KNotFound e then (None, record_api_success ''DeleteDisk'' w3)
                    else (Some (sdk_error_to_grpc e), record_api_error ''DeleteDisk'' e w3)
                | (None, w3) \<Rightarrow> confirm_disk_deleted b name w3)))"

definition sdk_get_disk_and_validate_ownership :: "'c sdk_backend \<Rightarrow> string \<Rightarrow> ('c world, disk) go" where
  "sdk_get_disk_and_validate_ownership b name w =
     (case on_sys (disks_get (client b) name) w of
        (Inl e, w1) \<Rightarrow> (Inl (sdk_error_to_grpc e), record_api_error ''GetDisk'' e w1)
      | (Inr d, w1) \<Rightarrow>
          (case validate_ownership b (sdk_user_labels (disk_labels d)) ''disk'' name ''get'' ''GetDisk'' w1 of
             (Some e, w2) \<Rightarrow> (Inl e, w2)
           | (None, w2) \<Rightarrow> (Inr d, record_api_success ''GetDisk'' w2)))"

definition sdk_list_disks :: "'c sdk_backend \<Rightarrow> ('c world, disk list) go" where
  "sdk_list_disks b w =
     (case on_sys (disks_list (client b) (managed_by_filter b)) w of
        (Inl e, w1) \<Rightarrow> (Inl (sdk_error_to_grpc e), record_api_error ''ListDisks'' e w1)
      | (Inr items, w1) \<Rightarrow> (Inr items, record_api_success ''ListDisks'' w1))"

definition sdk_get_attachment :: "'c sdk_backend \<Rightarrow> string \<Rightarrow> string \<Rightarrow> ('c world, attachment) go" where
  "sdk_get_attachment b disk_name vm_name w =
     (let att_name = attachment_name disk_name vm_name
      in case on_sys (atts_get (client b) att_name) w of
           (Inl e, w1) \<Rightarrow> (Inl (sdk_error_to_grpc e), record_api_error ''GetAttachment'' e w1)
         | (Inr a, w1) \<Rightarrow>
             (case validate_ownership b (sdk_user_labels (att_labels a)) ''attachment'' att_name
                     ''get'' ''GetAttachment'' w1 of
                (Some e, w2) \<Rightarrow> (Inl e, w2)
              | (None, w2) \<Rightarrow> (Inr a, record_api_success ''GetAttachment'' w2)))"

definition sdk_list_attachments :: "'c sdk_backend \<Rightarrow> ('c world, attachment list) go" where
  "sdk_list_attachments b w =
     (case on_sys (atts_list (client b) (managed_by_filter b)) w of
        (Inl e, w1) \<Rightarrow> (Inl (sdk_error_to_grpc e), record_api_error ''ListAttachments'' e w1)
      | (Inr items, w1) \<Rightarrow> (Inr items, record_api_success ''ListAttachments'' w1))"

definition sdk_count_node_attachments :: "'c sdk_backend \<Rightarrow> string \<Rightarrow> ('c world, nat) go" where
  "sdk_count_node_attachments b vm_name w =
     (case sdk_list_attachments b w of
        (Inl e, w1) \<Rightarrow> (Inl e, w1)
      | (Inr items, w1) \<Rightarrow>
          (Inr (length (filter (\<lambda>a. extract_resource_name (att_vm_ref a) = vm_name) items)), w1))"

text \<open>\<open>ensureNoOtherAttachmentsUseThisDisk\<close>: at most one stale attachment is removed.\<close>

definition remove_stale_attachment :: "'c sdk_backend \<Rightarrow> string \<Rightarrow> 'c world go_err" where
  "remove_stale_attachment b name w =
     (case on_sys (atts_delete (client b) name) w of
        (del, w1) \<Rightarrow>
          (case (case del of Some e \<Rightarrow> if errors_is KNotFound e then None else Some e | None \<Rightarrow> None) of
             Some e \<Rightarrow> (Some (sdk_error_to_grpc e), record_api_error ''DeleteAttachment'' e w1)
           | None \<Rightarrow>
               (case on_sys (atts_wait_deleted (client b) name (attachment_poll_timeout b)) w1 of
                  (Some e, w2) \<Rightarrow>
                    (Some (status_error Unavailable
                       (''stale attachment '' @ name @ '' was not deleted: '' @ err_text e)),
                     record_api_error ''DeleteAttachment'' e w2)
                | (None, w2) \<Rightarrow> (None, w2))))"

definition ensure_no_other_attachments_use_this_disk ::
  "'c sdk_backend \<Rightarrow> string \<Rightarrow> string \<Rightarrow> 'c world go_err"
where
  "ensure_no_other_attachments_use_this_disk b disk_name vm_name w =
     (case on_sys (atts_list (client b) (disk_attachments_filter b disk_name)) w of
        (Inl e, w1) \<Rightarrow> (Some (sdk_error_to_grpc e), record_api_error ''ListAttachments'' e w1)
      | (Inr items, w1) \<Rightarrow>
          (let found = filter (\<lambda>a. extract_resource_name (att_disk_ref a) = disk_name) items
           in if 1 < length found then
                (Some (status_error FailedPrecondition
                   (''disk '' @ disk_name @ '' has '' @ itoa (int (length found)) @ '' attachments (VMs ['' @
                    join_with '' '' (map (\<lambda>a. extract_resource_name (att_vm_ref a)) found) @
                    '']); it must hold at most one before it can be attached to VM '' @ vm_name)),
                 record_api_error_with_type ''CreateAttachment'' ''failed_precondition'' w1)
              else
                (case found of
                   [] \<Rightarrow> (None, w1)
                 | a # _ \<Rightarrow>
                     if extract_resource_name (att_vm_ref a) = vm_name then (None, w1)
                     else remove_stale_attachment b (att_id a) w1)))"

definition create_attachment :: "'c sdk_backend \<Rightarrow> string \<Rightarrow> string \<Rightarrow> 'c world go_err" where
  "create_attachment b disk_name vm_name w =
     (let att_name = attachment_name disk_name vm_name;
          diskref = disk_ref (client b) disk_name;
          vmref = vm_ref (client b) vm_name
      in case on_sys (atts_create (client b) (attachment_request b att_name vmref diskref)) w of
           (Inr _, w1) \<Rightarrow> (None, record_api_success ''CreateAttachment'' w1)
         | (Inl e, w1) \<Rightarrow>
             if errors_is KConflict e then
               (case on_sys (atts_get (client b) att_name) w1 of
                  (Inl get_err, w2) \<Rightarrow>
                    (Some (status_error Aborted
                       (''attachment '' @ att_name @ '' conflicted but could not be verified: '' @
                        err_text get_err)), w2)
                | (Inr existing, w2) \<Rightarrow>
                    (case validate_ownership b (sdk_user_labels (att_labels existing)) ''attachment''
                            att_name ''get'' ''CreateAttachment'' w2 of
                       (Some oe, w3) \<Rightarrow> (Some oe, w3)
                     | (None, w3) \<Rightarrow>
                         if extract_resource_name (att_disk_ref existing) \<noteq> disk_name
                            \<or> extract_resource_name (att_vm_ref existing) \<noteq> vm_name then
                           (Some (status_error FailedPrecondition
                              (''attachment '' @ att_name @ '' exists but does not target disk '' @
                               disk_name @ '' on VM '' @ vm_name)), w3)
                         else (None, record_api_success ''CreateAttachment'' w3)))
             else (Some (sdk_error_to_grpc e), record_api_error ''CreateAttachment'' e w1))"

definition sdk_ensure_attachment_created :: "'c sdk_backend \<Rightarrow> string \<Rightarrow> string \<Rightarrow> 'c world go_err" where
  "sdk_ensure_attachment_created b disk_name vm_name w =
     (case sdk_get_disk_and_validate_ownership b disk_name w of
        (Inl e, w1) \<Rightarrow> (Some e, w1)
      | (Inr _, w1) \<Rightarrow>
          (case validate_vm_ownership b vm_name w1 of
             (Some e, w2) \<Rightarrow> (Some e, w2)
           | (None, w2) \<Rightarrow>
               (case ensure_no_other_attachments_use_this_disk b disk_name vm_name w2 of
                  (Some e, w3) \<Rightarrow> (Some e, w3)
                | (None, w3) \<Rightarrow> create_attachment b disk_name vm_name w3)))"

definition sdk_wait_for_attachment_serial :: "'c sdk_backend \<Rightarrow> string \<Rightarrow> string \<Rightarrow> ('c world, string) go" where
  "sdk_wait_for_attachment_serial b disk_name vm_name w =
     (let att_name = attachment_name disk_name vm_name
      in case on_sys (atts_wait_ready (client b) att_name (attachment_poll_timeout b)) w of
           (Inl e, w1) \<Rightarrow>
             (Inl (status_error Unavailable (''attachment not ready after waiting: '' @ err_text e)), w1)
         | (Inr a, w1) \<Rightarrow>
             (case att_serial a of
                None \<Rightarrow>
                  (Inl (status_error Unavailable (''attachment ready but serial is empty for '' @ att_name)), w1)
              | Some s \<Rightarrow>
                  if s = '''' then
                    (Inl (status_error Unavailable (''attachment ready but serial is empty for '' @ att_name)), w1)
                  else (Inr s, w1)))"

definition sdk_ensure_attachment_deleted :: "'c sdk_backend \<Rightarrow> string \<Rightarrow> string \<Rightarrow> 'c world go_err" where
  "sdk_ensure_attachment_deleted b disk_name vm_name w =
     (let att_name = attachment_name disk_name vm_name
      in case on_sys (atts_get (client b) att_name) w of
           (Inl e, w1) \<Rightarrow>
             if errors_is KNotFound e then (None, record_api_success ''DeleteAttachment'' w1)
             else (Some (sdk_error_to_grpc e), record_api_error ''DeleteAttachment'' e w1)
         | (Inr existing, w1) \<Rightarrow>
             (case validate_ownership b (sdk_user_labels (att_labels existing)) ''attachment'' att_name
                     ''delete'' ''DeleteAttachment'' w1 of
                (Some e, w2) \<Rightarrow> (Some e, w2)
              | (None, w2) \<Rightarrow>
                  (case on_sys (atts_delete (client b) att_name) w2 of
                     (Some e, w3) \<Rightarrow>
                       if errors_is KNotFound e then (None, record_api_success ''DeleteAttachment'' w3)
                       else (Some (sdk_error_to_grpc e), record_api_error ''DeleteAttachment'' e w3)
                   | (None, w3) \<Rightarrow>
                       (case on_sys (atts_wait_deleted (client b) att_name (attachment_poll_timeout b)) w3 of
                          (Some e, w4) \<Rightarrow>
                            (Some (status_error Unavailable
                               (''attachment '' @ att_name @ '' was not deleted: '' @ err_text e)),
                             record_api_error ''DeleteAttachment'' e w4)
                        | (None, w4) \<Rightarrow> (None, record_api_success ''DeleteAttachment'' w4)))))"

text \<open>
  The polling loop after a resize. Every iteration waits for a tick, which advances the clock,
  and gives up once the deadline has passed, so the loop ends whatever the API answers. The model is that
  of a positive interval: \<open>time.NewTicker\<close> panics on any other, which a configuration that was loaded
  does not have (theorem \<open>loaded_config_usable\<close>).
\<close>

function poll_disk_resize ::
  "'c runtime \<Rightarrow> 'c sdk_backend \<Rightarrow> string \<Rightarrow> i32 \<Rightarrow> int \<Rightarrow> 'c world go_err"
where
  "poll_disk_resize rt b name size_mb deadline w =
     (case next_tick rt (disk_resize_poll_interval b) w of
        (Some ctx_err, w1) \<Rightarrow>
          (Some (status_error DeadlineExceeded
             (''context cancelled while waiting for disk '' @ name @ '' to resize to '' @
              itoa (sint size_mb) @ ''MB: '' @ err_text ctx_err)), w1)
      | (None, w1) \<Rightarrow>
          if deadline < clock w1 then
            (Some (status_error DeadlineExceeded
               (''disk '' @ name @ '' did not report size '' @ itoa (sint size_mb) @ ''MB'')),
             record_api_error ''ResizeDisk'' (plain_error ''timeout'') w1)
          else
            (case on_sys (disks_get (client b) name) w1 of
               (Inl _, w2) \<Rightarrow> poll_disk_resize rt b name size_mb deadline w2
             | (Inr d, w2) \<Rightarrow>
                 if disk_status_matches_size d size_mb then (None, w2)
                 else poll_disk_resize rt b name size_mb deadline w2))"
  by pat_completeness auto
termination
proof (relation "measure (\<lambda>(rt, b, name, size_mb, deadline, w). nat (deadline + 1 - clock w))", goal_cases)
  case 1
  show ?case by simp
qed (auto simp: next_tick_def elapse_eq_sym on_sys_eq_sym)

declare poll_disk_resize.simps [simp del]

definition wait_for_disk_resize :: "'c runtime \<Rightarrow> 'c sdk_backend \<Rightarrow> string \<Rightarrow> i32 \<Rightarrow> 'c world go_err" where
  "wait_for_disk_resize rt b name size_mb w =
     poll_disk_resize rt b name size_mb (clock w + sint (disk_resize_poll_timeout b)) w"

text \<open>\<open>EnsureDiskResized\<close> from the update of the spec on.\<close>

definition resize_disk :: "'c runtime \<Rightarrow> 'c sdk_backend \<Rightarrow> disk \<Rightarrow> string \<Rightarrow> i32 \<Rightarrow> 'c world go_err" where
  "resize_disk rt b d name size_mb w =
     (case on_sys (disks_patch (client b) name
              (d\<lparr>disk_spec_size := Some \<lparr>size_amount = size_mb, size_unit = MB\<rparr>\<rparr>)) w of
        (Inl e, w1) \<Rightarrow>
          (Some (if errors_is KConflict e then status_error Aborted (err_text e) else sdk_error_to_grpc e),
           record_api_error ''ResizeDisk'' e w1)
      | (Inr _, w1) \<Rightarrow>
          (case wait_for_disk_resize rt b name size_mb w1 of
             (Some e, w2) \<Rightarrow> (Some e, w2)
           | (None, w2) \<Rightarrow> (None, record_api_success ''ResizeDisk'' w2)))"

definition sdk_ensure_disk_resized :: "'c runtime \<Rightarrow> 'c sdk_backend \<Rightarrow> string \<Rightarrow> i32 \<Rightarrow> 'c world go_err" where
  "sdk_ensure_disk_resized rt b name size_mb w =
     (case sdk_get_disk_and_validate_ownership b name w of
        (Inl e, w1) \<Rightarrow> (Some e, w1)
      | (Inr d, w1) \<Rightarrow>
          if disk_status_matches_size d size_mb then (None, record_api_success ''ResizeDisk'' w1)
          else
            (case disk_status_size d of
               Some sz \<Rightarrow>
                 (let current_mb = disk_size_to_mb (size_amount sz) (size_unit sz)
                  in if go_less size_mb current_mb then
                       (Some (status_error OutOfRange
                          (''disk '' @ name @ '' cannot be shrunk from '' @ itoa (sint current_mb) @
                           ''MB to '' @ itoa (sint size_mb) @ ''MB: shrinking is not supported'')),
                        record_api_error_with_type ''ResizeDisk'' ''out_of_range'' w1)
                     else resize_disk rt b d name size_mb w1)
             | None \<Rightarrow> resize_disk rt b d name size_mb w1))"

text \<open>\<open>SDKStorageBackend\<close> as an implementation of the interface.\<close>

definition sdk_storage_backend :: "'c runtime \<Rightarrow> 'c sdk_backend \<Rightarrow> 'c storage_backend" where
  "sdk_storage_backend rt b =
     \<lparr>ensure_disk_created = sdk_ensure_disk_created b,
      ensure_disk_deleted = sdk_ensure_disk_deleted b,
      get_disk_and_validate_ownership = sdk_get_disk_and_validate_ownership b,
      list_disks = sdk_list_disks b,
      get_attachment = sdk_get_attachment b,
      list_attachments = sdk_list_attachments b,
      count_node_attachments = sdk_count_node_attachments b,
      ensure_attachment_created = sdk_ensure_attachment_created b,
      wait_for_attachment_serial = sdk_wait_for_attachment_serial b,
      ensure_attachment_deleted = sdk_ensure_attachment_deleted b,
      ensure_disk_resized = sdk_ensure_disk_resized rt b\<rparr>"

end
