(* ===== verification/Sdk_Contract.thy ===== *)
theory Sdk_Contract
  imports Sdk_Backend
begin

text \<open>
  What the backend relies on of the evroc API, as the locale \<open>compute_api\<close>, and what it
  guarantees in return. \<open>vd\<close> and \<open>va\<close> read off the cloud the disks and the attachments that
  exist, without the parts the cloud reconciles by itself (status, serial, conditions).
  The main results: no sequence of backend calls changes or deletes a resource of another
  driver, and the backend meets the contract the controller is proved against
  (\<open>exact_storage_contract\<close>).
\<close>

definition disk_core :: "disk \<Rightarrow> disk" where
  "disk_core d = d\<lparr>disk_status_size := None\<rparr>"

definition att_core :: "attachment \<Rightarrow> attachment" where
  "att_core a = a\<lparr>att_serial := None, att_conditions := []\<rparr>"

lemma disk_core_simps [simp]:
  "disk_id (disk_core d) = disk_id d" "disk_labels (disk_core d) = disk_labels d"
  "disk_spec_size (disk_core d) = disk_spec_size d" "disk_zone (disk_core d) = disk_zone d"
  "disk_core (disk_core d) = disk_core d"
  by (simp_all add: disk_core_def)

lemma att_core_simps [simp]:
  "att_id (att_core a) = att_id a" "att_labels (att_core a) = att_labels a"
  "att_disk_ref (att_core a) = att_disk_ref a" "att_vm_ref (att_core a) = att_vm_ref a"
  "att_core (att_core a) = att_core a"
  by (simp_all add: att_core_def)

definition filter_matches :: "label_filter \<Rightarrow> (string \<rightharpoonup> string) option \<Rightarrow> bool" where
  "filter_matches f labels \<longleftrightarrow> (\<forall>(k, v) \<in> set (filter_labels f). sdk_user_labels labels k = Some v)"

text \<open>The driver's own test of ownership, and the label itself.\<close>

definition managed :: "'c sdk_backend \<Rightarrow> (string \<rightharpoonup> string) option \<Rightarrow> bool" where
  "managed b labels \<longleftrightarrow> label_value (sdk_user_labels labels) managed_by_label = sdk_identifier b"

definition labelled :: "'c sdk_backend \<Rightarrow> (string \<rightharpoonup> string) option \<Rightarrow> bool" where
  "labelled b labels \<longleftrightarrow> sdk_user_labels labels managed_by_label = Some (sdk_identifier b)"

lemma labelled_managed: "labelled b labels \<Longrightarrow> managed b labels"
  by (simp add: labelled_def managed_def label_value_def)

lemma managed_labelled: "sdk_identifier b \<noteq> '''' \<Longrightarrow> managed b labels \<longleftrightarrow> labelled b labels"
  by (auto simp: labelled_def managed_def label_value_def split: option.splits)

text \<open>
  What \<open>validateExistingDisk\<close> takes for the driver's own disk of the wanted size. As in the code a
  disk without a size in its spec passes; a disk the driver creates always has one
  (\<open>create_disk_vd\<close> and \<open>created_disk\<close> below).
\<close>

definition acceptable :: "'c sdk_backend \<Rightarrow> i32 \<Rightarrow> disk \<Rightarrow> bool" where
  "acceptable b mb d \<longleftrightarrow> managed b (disk_labels d) \<and>
     (\<forall>sz. disk_spec_size d = Some sz \<longrightarrow> size_amount sz = mb \<and> unit_text (size_unit sz) = ''MB'')"

lemma acceptable_core [simp]: "acceptable b mb (disk_core d) = acceptable b mb d"
  by (simp add: acceptable_def)

text \<open>The resources of everybody else: those without the driver's label.\<close>

definition foreign_disks :: "('c \<Rightarrow> string \<rightharpoonup> disk) \<Rightarrow> 'c sdk_backend \<Rightarrow> 'c \<Rightarrow> string \<rightharpoonup> disk" where
  "foreign_disks vd b c n =
     (case vd c n of Some d \<Rightarrow> if managed b (disk_labels d) then None else Some d | None \<Rightarrow> None)"

definition foreign_attachments ::
  "('c \<Rightarrow> string \<rightharpoonup> attachment) \<Rightarrow> 'c sdk_backend \<Rightarrow> 'c \<Rightarrow> string \<rightharpoonup> attachment"
where
  "foreign_attachments va b c n =
     (case va c n of Some a \<Rightarrow> if managed b (att_labels a) then None else Some a | None \<Rightarrow> None)"

text \<open>The driver's own attachments as pairs of disk and VM, and its own disks that show no other size than the given one.\<close>

definition targets :: "string \<Rightarrow> string \<Rightarrow> attachment \<Rightarrow> bool" where
  "targets d v a \<longleftrightarrow> extract_resource_name (att_disk_ref a) = d \<and> extract_resource_name (att_vm_ref a) = v"

lemma targets_core [simp]: "targets d v (att_core a) = targets d v a"
  by (simp add: targets_def)

definition own_attachments ::
  "('c \<Rightarrow> string \<rightharpoonup> attachment) \<Rightarrow> 'c sdk_backend \<Rightarrow> 'c \<Rightarrow> (string \<times> string) set"
where
  "own_attachments va b c =
     {(d, v). \<exists>a. va c (attachment_name d v) = Some a \<and> labelled b (att_labels a) \<and> targets d v a}"

definition own_disk :: "('c \<Rightarrow> string \<rightharpoonup> disk) \<Rightarrow> 'c sdk_backend \<Rightarrow> 'c \<Rightarrow> string \<Rightarrow> i32 \<Rightarrow> bool" where
  "own_disk vd b c n mb \<longleftrightarrow> (\<exists>d. vd c n = Some d \<and> acceptable b mb d)"

definition no_disk :: "('c \<Rightarrow> string \<rightharpoonup> disk) \<Rightarrow> 'c \<Rightarrow> string \<Rightarrow> bool" where
  "no_disk vd c n \<longleftrightarrow> vd c n = None"

section \<open>The API\<close>

text \<open>
  The laws of one call each. A read leaves the views as they are: what the cloud removes by itself
  becomes visible while the driver waits, in \<open>atts_wait_deleted\<close>.
\<close>

locale compute_api =
  fixes cl :: "'c compute_client"
    and vd :: "'c \<Rightarrow> string \<rightharpoonup> disk"
    and va :: "'c \<Rightarrow> string \<rightharpoonup> attachment"
  assumes reads_vd [simp]:
      "vd (snd (disks_get cl n c)) = vd c" "vd (snd (disks_list cl f c)) = vd c"
      "vd (snd (atts_get cl n c)) = vd c" "vd (snd (atts_list cl f c)) = vd c"
      "vd (snd (atts_wait_ready cl n t c)) = vd c" "vd (snd (vms_get cl n c)) = vd c"
    and reads_va [simp]:
      "va (snd (disks_get cl n c)) = va c" "va (snd (disks_list cl f c)) = va c"
      "va (snd (atts_get cl n c)) = va c" "va (snd (atts_list cl f c)) = va c"
      "va (snd (atts_wait_ready cl n t c)) = va c" "va (snd (vms_get cl n c)) = va c"
    and disk_writes_va [simp]:
      "va (snd (disks_create cl d c)) = va c" "va (snd (disks_delete cl n c)) = va c"
      "va (snd (disks_patch cl n d c)) = va c"
    and att_writes_vd [simp]:
      "vd (snd (atts_create cl a c)) = vd c" "vd (snd (atts_delete cl n c)) = vd c"
      "vd (snd (atts_wait_deleted cl n t c)) = vd c"
    and disks_get_ok: "fst (disks_get cl n c) = Inr d \<Longrightarrow> vd c n = Some (disk_core d)"
    and disks_get_absent: "fst (disks_get cl n c) = Inl e \<Longrightarrow> errors_is KNotFound e \<Longrightarrow> vd c n = None"
    and disks_create_cases:
      "vd (snd (disks_create cl d c)) = vd c \<and> (\<forall>d'. fst (disks_create cl d c) \<noteq> Inr d') \<or>
       vd c (disk_id d) = None \<and> vd (snd (disks_create cl d c)) = (vd c)(disk_id d \<mapsto> disk_core d)"
    and disks_delete_cases:
      "vd (snd (disks_delete cl n c)) = vd c \<or> vd (snd (disks_delete cl n c)) = (vd c)(n := None)"
    and disks_delete_absent:
      "fst (disks_delete cl n c) = Some e \<Longrightarrow> errors_is KNotFound e \<Longrightarrow> vd (snd (disks_delete cl n c)) n = None"
    and disks_patch_cases:
      "vd (snd (disks_patch cl n d c)) = vd c \<or> vd (snd (disks_patch cl n d c)) = (vd c)(n \<mapsto> disk_core d)"
    and atts_get_ok: "fst (atts_get cl n c) = Inr a \<Longrightarrow> va c n = Some (att_core a)"
    and atts_get_absent: "fst (atts_get cl n c) = Inl e \<Longrightarrow> errors_is KNotFound e \<Longrightarrow> va c n = None"
    and atts_create_cases:
      "va (snd (atts_create cl a c)) = va c \<and> (\<forall>a'. fst (atts_create cl a c) \<noteq> Inr a') \<or>
       (\<exists>a'. va c (att_id a) = None \<and> va (snd (atts_create cl a c)) = (va c)(att_id a \<mapsto> att_core a') \<and>
          att_disk_ref a' = att_disk_ref a \<and> att_vm_ref a' = att_vm_ref a \<and>
          sdk_user_labels (att_labels a) \<subseteq>\<^sub>m sdk_user_labels (att_labels a'))"
    and atts_delete_cases:
      "va (snd (atts_delete cl n c)) = va c \<or> va (snd (atts_delete cl n c)) = (va c)(n := None)"
    and atts_delete_absent:
      "fst (atts_delete cl n c) = Some e \<Longrightarrow> errors_is KNotFound e \<Longrightarrow> va (snd (atts_delete cl n c)) n = None"
    and atts_wait_deleted_cases:
      "va (snd (atts_wait_deleted cl n t c)) = va c \<or> va (snd (atts_wait_deleted cl n t c)) = (va c)(n := None)"
    and atts_wait_deleted_ok:
      "fst (atts_wait_deleted cl n t c) = None \<Longrightarrow> va (snd (atts_wait_deleted cl n t c)) n = None"
    and atts_list_sound:
      "fst (atts_list cl f c) = Inr items \<Longrightarrow> a \<in> set items \<Longrightarrow>
         va c (att_id a) = Some (att_core a) \<and> filter_matches f (att_labels a)"
    and atts_list_complete:
      "fst (atts_list cl f c) = Inr items \<Longrightarrow> va c n = Some a \<Longrightarrow> filter_matches f (att_labels a) \<Longrightarrow>
         \<exists>x \<in> set items. att_id x = n"
    and atts_list_distinct: "fst (atts_list cl f c) = Inr items \<Longrightarrow> distinct (map att_id items)"
    and atts_disk_label:
      "va c n = Some a \<Longrightarrow>
         sdk_user_labels (att_labels a) attachment_disk_label = Some (extract_resource_name (att_disk_ref a))"
    and disk_ref_name: "no_slash n \<Longrightarrow> extract_resource_name (disk_ref cl n) = n"
    and vm_ref_name: "no_slash n \<Longrightarrow> extract_resource_name (vm_ref cl n) = n"
    and atts_wait_ready_ok: "fst (atts_wait_ready cl n t c) = Inr a \<Longrightarrow> va c n = Some (att_core a)"

text \<open>
  The serials on top: \<open>sv\<close> reads off the cloud the serial it has recorded for an attachment, and
  the attachment \<open>WaitForReady\<close> returns shows the one recorded under its name.
\<close>

locale serial_api = compute_api +
  fixes sv :: "'a \<Rightarrow> string \<Rightarrow> string option"
  assumes wait_ready_serial:
      "fst (atts_wait_ready cl n t c) = Inr a \<Longrightarrow> sv (snd (atts_wait_ready cl n t c)) n = att_serial a"
begin

lemma serial_recorded:
  assumes "client b = cl" and "fst (sdk_wait_for_attachment_serial b d v w) = Inr s"
  shows "sv (sys (snd (sdk_wait_for_attachment_serial b d v w))) (attachment_name d v) = Some s"
proof -
  let ?n = "attachment_name d v"
  obtain a where a: "fst (atts_wait_ready cl ?n (attachment_poll_timeout b) (sys w)) = Inr a" "att_serial a = Some s"
    using assms
    by (auto simp: sdk_wait_for_attachment_serial_def Let_def case_prod_beta split: sum.splits option.splits if_splits)
  have "sys (snd (sdk_wait_for_attachment_serial b d v w)) = snd (atts_wait_ready cl ?n (attachment_poll_timeout b) (sys w))"
    using assms(1)
    by (simp add: sdk_wait_for_attachment_serial_def Let_def case_prod_beta split: sum.split option.split)
  with wait_ready_serial [OF a(1)] a(2) show ?thesis by simp
qed

end

text \<open>The backend of one driver on that API, with a non-empty identifier; time passing does
  not touch the resources.\<close>

locale sdk_env = compute_api +
  fixes rt :: "'c runtime" and b :: "'c sdk_backend"
  assumes client_cl [simp]: "client b = cl"
    and identifier_set: "sdk_identifier b \<noteq> ''''"
    and tick_vd [simp]: "vd (snd (rt_tick rt d c)) = vd c"
    and tick_va [simp]: "va (snd (rt_tick rt d c)) = va c"

section \<open>Bookkeeping\<close>

lemma record_sys [simp]:
  "sys (record_api_success m w) = sys w" "sys (record_api_error m e w) = sys w"
  "sys (record_api_error_with_type m ty w) = sys w"
  by (simp_all add: record_api_success_def record_api_error_def record_api_error_with_type_def)

lemma validate_ownership_sys [simp]: "sys (snd (validate_ownership b ls ty n opn mm w)) = sys w"
  by (simp add: validate_ownership_def Let_def)

lemma validate_ownership_None:
  "fst (validate_ownership b (sdk_user_labels l) ty n opn mm w) = None \<longleftrightarrow> managed b l"
  by (simp add: validate_ownership_def managed_def Let_def)

lemma validate_ownership_SomeD:
  "fst (validate_ownership b (sdk_user_labels l) ty n opn mm w) = Some e \<Longrightarrow> \<not> managed b l"
  by (metis option.distinct(1) validate_ownership_None)

lemma validate_ownership_NoneD:
  "fst (validate_ownership b (sdk_user_labels l) ty n opn mm w) = None \<Longrightarrow> managed b l"
  by (simp add: validate_ownership_None)

lemma accept_existing_disk_sys [simp]: "sys (snd (accept_existing_disk b d n mb w)) = sys w"
  by (simp add: accept_existing_disk_def validate_existing_disk_def Let_def split: option.split)

lemma accept_existing_disk_Inr:
  "fst (accept_existing_disk b d n mb w) = Inr c \<longleftrightarrow> \<not> c \<and> acceptable b mb d"
  by (auto simp: accept_existing_disk_def validate_existing_disk_def acceptable_def managed_def Let_def
      split: option.split)

lemma disk_request_simps [simp]:
  "disk_id (disk_request b n mb z) = n" "managed b (disk_labels (disk_request b n mb z))"
  "acceptable b mb (disk_request b n mb z)"
  by (simp_all add: acceptable_def managed_def disk_request_def managed_by_labels_def sdk_user_labels_def
       label_value_def unit_text_def)

text \<open>A disk that appears under a name was created with the label, the size and the zone of the request.\<close>

lemma created_disk:
  "disk_core (disk_request b n mb z) = disk_request b n mb z"
  "sdk_user_labels (disk_labels (disk_request b n mb z)) = [managed_by_label \<mapsto> sdk_identifier b]"
  "disk_spec_size (disk_request b n mb z) = Some \<lparr>size_amount = mb, size_unit = MB\<rparr>"
  "disk_zone (disk_request b n mb z) = z"
  by (simp_all add: disk_core_def disk_request_def sdk_user_labels_def managed_by_labels_def)

lemmas go_cases = case_prod_beta

section \<open>Disks\<close>

context sdk_env
begin

lemma create_disk_va [simp]: "va (sys (snd (sdk_ensure_disk_created b n mb sc z w))) = va (sys w)"
  by (simp add: sdk_ensure_disk_created_def go_cases split: sum.split)

lemma create_disk_vd:
  "vd (sys (snd (sdk_ensure_disk_created b n mb sc z w))) = vd (sys w) \<or>
   vd (sys w) n = None \<and>
   vd (sys (snd (sdk_ensure_disk_created b n mb sc z w))) = (vd (sys w))(n \<mapsto> disk_core (disk_request b n mb z))"
  using disks_create_cases [of "disk_request b n mb z" "snd (disks_get cl n (sys w))"]
  by (auto simp: sdk_ensure_disk_created_def go_cases split: sum.split)

lemma disks_get_acceptable:
  "fst (disks_get cl n c) = Inr d \<Longrightarrow> acceptable b mb d \<Longrightarrow> \<exists>d'. vd c n = Some d' \<and> acceptable b mb d'"
  by (auto dest!: disks_get_ok)

lemma create_disk_ok:
  assumes "fst (sdk_ensure_disk_created b n mb sc z w) = Inr c"
  shows "\<exists>d. vd (sys (snd (sdk_ensure_disk_created b n mb sc z w))) n = Some d \<and> acceptable b mb d"
proof (cases "fst (disks_get cl n (sys w))")
  case (Inr d)
  with assms show ?thesis
    by (auto simp: sdk_ensure_disk_created_def go_cases accept_existing_disk_Inr
        intro: disks_get_acceptable)
next
  case (Inl e)
  let ?c = "snd (disks_get cl n (sys w))"
  let ?r = "disks_create cl (disk_request b n mb z) ?c"
  show ?thesis
  proof (cases "fst ?r")
    case (Inr d)
    with assms Inl disks_create_cases [of "disk_request b n mb z" ?c] show ?thesis
      by (auto simp: sdk_ensure_disk_created_def go_cases)
  next
    case conflict: (Inl e')
    with assms Inl disks_get_acceptable [of n "snd ?r" _ mb] show ?thesis
      by (auto simp: sdk_ensure_disk_created_def go_cases accept_existing_disk_Inr
          split: sum.splits if_splits)
  qed
qed

lemma delete_disk_va [simp]: "va (sys (snd (sdk_ensure_disk_deleted b n w))) = va (sys w)"
  by (simp add: sdk_ensure_disk_deleted_def confirm_disk_deleted_def go_cases split: sum.split option.split)

lemma delete_disk_vd:
  "vd (sys (snd (sdk_ensure_disk_deleted b n w))) = vd (sys w) \<or>
   (\<exists>d. vd (sys w) n = Some d \<and> managed b (disk_labels d)) \<and>
   vd (sys (snd (sdk_ensure_disk_deleted b n w))) = (vd (sys w))(n := None)"
proof (cases "fst (disks_get cl n (sys w))")
  case (Inl e)
  then show ?thesis by (simp add: sdk_ensure_disk_deleted_def go_cases)
next
  case (Inr d)
  let ?c = "snd (disks_get cl n (sys w))"
  show ?thesis
    using disks_get_ok [OF Inr] disks_delete_cases [of n ?c] Inr
    by (auto simp: sdk_ensure_disk_deleted_def confirm_disk_deleted_def go_cases
          validate_ownership_None split: sum.split option.split)
qed

lemma delete_disk_ok:
  assumes "fst (sdk_ensure_disk_deleted b n w) = None"
  shows "vd (sys (snd (sdk_ensure_disk_deleted b n w))) n = None"
proof -
  let ?c = "snd (disks_get cl n (sys w))"
  let ?c' = "snd (disks_delete cl n ?c)"
  from assms show ?thesis
    by (auto simp: sdk_ensure_disk_deleted_def confirm_disk_deleted_def go_cases validate_ownership_None
        split: sum.splits option.splits if_splits dest: validate_ownership_SomeD
        intro: disks_get_absent disks_delete_absent disks_get_absent [of n ?c', simplified])
qed

lemma get_disk_views [simp]:
  "vd (sys (snd (sdk_get_disk_and_validate_ownership b n w))) = vd (sys w)"
  "va (sys (snd (sdk_get_disk_and_validate_ownership b n w))) = va (sys w)"
  by (simp_all add: sdk_get_disk_and_validate_ownership_def go_cases split: sum.split option.split)

lemma get_disk_ok:
  assumes "fst (sdk_get_disk_and_validate_ownership b n w) = Inr d"
  shows "vd (sys w) n = Some (disk_core d) \<and> managed b (disk_labels d)"
proof -
  from assms have "fst (disks_get cl n (sys w)) = Inr d"
      "fst (validate_ownership b (sdk_user_labels (disk_labels d)) ''disk'' n ''get'' ''GetDisk''
         (snd (on_sys (disks_get cl n) w))) = None"
    by (auto simp: sdk_get_disk_and_validate_ownership_def go_cases split: sum.splits option.splits)
  then show ?thesis by (simp add: disks_get_ok validate_ownership_None)
qed

lemma list_disks_views [simp]:
  "vd (sys (snd (sdk_list_disks b w))) = vd (sys w)"
  "va (sys (snd (sdk_list_disks b w))) = va (sys w)"
  by (simp_all add: sdk_list_disks_def go_cases split: sum.split)

section \<open>Attachments\<close>

lemma get_attachment_views [simp]:
  "vd (sys (snd (sdk_get_attachment b n v w))) = vd (sys w)"
  "va (sys (snd (sdk_get_attachment b n v w))) = va (sys w)"
  by (simp_all add: sdk_get_attachment_def go_cases Let_def split: sum.split option.split)

lemma list_attachments_views [simp]:
  "vd (sys (snd (sdk_list_attachments b w))) = vd (sys w)"
  "va (sys (snd (sdk_list_attachments b w))) = va (sys w)"
  by (simp_all add: sdk_list_attachments_def go_cases split: sum.split)

lemma count_views [simp]:
  "vd (sys (snd (sdk_count_node_attachments b v w))) = vd (sys w)"
  "va (sys (snd (sdk_count_node_attachments b v w))) = va (sys w)"
  by (simp_all add: sdk_count_node_attachments_def go_cases split: sum.split)

lemma wait_serial_views [simp]:
  "vd (sys (snd (sdk_wait_for_attachment_serial b d v w))) = vd (sys w)"
  "va (sys (snd (sdk_wait_for_attachment_serial b d v w))) = va (sys w)"
  by (simp_all add: sdk_wait_for_attachment_serial_def go_cases Let_def split: sum.split option.split)

lemma validate_vm_views [simp]:
  "vd (sys (snd (validate_vm_ownership b v w))) = vd (sys w)"
  "va (sys (snd (validate_vm_ownership b v w))) = va (sys w)"
  by (simp_all add: validate_vm_ownership_def go_cases Let_def split: sum.split)

lemma list_attachments_complete:
  assumes "fst (sdk_list_attachments b w) = Inr items" "va (sys w) n = Some a" "labelled b (att_labels a)"
  shows "\<exists>x \<in> set items. att_id x = n \<and> att_core x = a"
proof -
  have list: "fst (atts_list cl (managed_by_filter b) (sys w)) = Inr items"
    using assms(1) by (auto simp: sdk_list_attachments_def go_cases split: sum.splits)
  have "filter_matches (managed_by_filter b) (att_labels a)"
    using assms(3) by (simp add: filter_matches_def managed_by_filter_def labelled_def)
  from atts_list_complete [OF list assms(2) this] obtain x where "x \<in> set items" "att_id x = n" by blast
  with atts_list_sound [OF list this(1)] assms(2) show ?thesis by auto
qed

lemma remove_stale_vd [simp]: "vd (sys (snd (remove_stale_attachment b k w))) = vd (sys w)"
  by (simp add: remove_stale_attachment_def go_cases split: option.split)

lemma remove_stale_va:
  "va (sys (snd (remove_stale_attachment b k w))) = va (sys w) \<or>
   va (sys (snd (remove_stale_attachment b k w))) = (va (sys w))(k := None)"
  using atts_delete_cases [of k "sys w"]
    atts_wait_deleted_cases [of k "attachment_poll_timeout b" "snd (atts_delete cl k (sys w))"]
  by (auto simp: remove_stale_attachment_def go_cases split: option.split)

lemma remove_stale_ok:
  "fst (remove_stale_attachment b k w) = None \<Longrightarrow> va (sys (snd (remove_stale_attachment b k w))) k = None"
  by (auto simp: remove_stale_attachment_def go_cases split: option.splits if_splits
      intro: atts_wait_deleted_ok)

text \<open>Removing an own attachment, and adding one under a free name.\<close>

definition detached :: "(string \<rightharpoonup> attachment) \<Rightarrow> (string \<rightharpoonup> attachment) \<Rightarrow> bool" where
  "detached m m' \<longleftrightarrow> m' = m \<or> (\<exists>k a. m k = Some a \<and> labelled b (att_labels a) \<and> m' = m(k := None))"

lemma detached_refl [simp]: "detached m m"
  by (simp add: detached_def)

lemma detached_del: "m k = Some a \<Longrightarrow> labelled b (att_labels a) \<Longrightarrow> detached m (m(k := None))"
  by (auto simp: detached_def)

lemma no_other_vd [simp]:
  "vd (sys (snd (ensure_no_other_attachments_use_this_disk b d v w))) = vd (sys w)"
  by (simp add: ensure_no_other_attachments_use_this_disk_def go_cases Let_def split: sum.split list.split)

lemma found_sound:
  assumes "fst (atts_list cl (disk_attachments_filter b d) c) = Inr items" "a \<in> set items"
  shows "va c (att_id a) = Some (att_core a)" "labelled b (att_labels a)"
  using atts_list_sound [OF assms]
  by (auto simp: filter_matches_def disk_attachments_filter_def labelled_def)

lemma found_complete:
  assumes "fst (atts_list cl (disk_attachments_filter b d) c) = Inr items"
    and "va c n = Some a" "labelled b (att_labels a)" "extract_resource_name (att_disk_ref a) = d"
  shows "\<exists>x \<in> set items. att_id x = n \<and> att_core x = a"
proof -
  have "filter_matches (disk_attachments_filter b d) (att_labels a)"
    using assms(3,4) atts_disk_label [OF assms(2)]
    by (simp add: filter_matches_def disk_attachments_filter_def labelled_def)
  from atts_list_complete [OF assms(1,2) this] obtain x where "x \<in> set items" "att_id x = n" by blast
  with found_sound(1) [OF assms(1) this(1)] assms(2) show ?thesis by auto
qed

lemma no_other_va:
  "detached (va (sys w)) (va (sys (snd (ensure_no_other_attachments_use_this_disk b d v w))))"
proof (cases "fst (atts_list cl (disk_attachments_filter b d) (sys w))")
  case (Inl e)
  then show ?thesis
    by (simp add: ensure_no_other_attachments_use_this_disk_def go_cases detached_def)
next
  case (Inr items)
  let ?found = "filter (\<lambda>a. extract_resource_name (att_disk_ref a) = d) items"
  let ?w = "snd (on_sys (atts_list cl (disk_attachments_filter b d)) w)"
  show ?thesis
  proof (cases ?found)
    case Nil
    with Inr show ?thesis
      by (simp add: ensure_no_other_attachments_use_this_disk_def go_cases detached_def)
  next
    case (Cons a rest)
    have "a \<in> set ?found" unfolding Cons by simp
    then have "a \<in> set items" by simp
    from found_sound [OF Inr this] have "detached (va (sys w)) ((va (sys w))(att_id a := None))"
      by (auto intro: detached_del)
    with remove_stale_va [of "att_id a" ?w] Inr Cons show ?thesis
      by (auto simp: ensure_no_other_attachments_use_this_disk_def go_cases Let_def)
  qed
qed

lemma no_other_ok:
  assumes ok: "fst (ensure_no_other_attachments_use_this_disk b d v w) = None"
    and att: "va (sys (snd (ensure_no_other_attachments_use_this_disk b d v w))) n = Some a"
    and own: "labelled b (att_labels a)" "extract_resource_name (att_disk_ref a) = d"
  shows "extract_resource_name (att_vm_ref a) = v"
proof -
  let ?w = "snd (on_sys (atts_list cl (disk_attachments_filter b d)) w)"
  have before: "va (sys w) n = Some a"
    using att no_other_va [of w d v] by (auto simp: detached_def split: if_splits)
  obtain items where items: "fst (atts_list cl (disk_attachments_filter b d) (sys w)) = Inr items"
    using ok by (auto simp: ensure_no_other_attachments_use_this_disk_def go_cases split: sum.splits)
  let ?found = "filter (\<lambda>a. extract_resource_name (att_disk_ref a) = d) items"
  obtain x where x: "x \<in> set items" "att_id x = n" "att_core x = a"
    using found_complete [OF items before own] by blast
  from x own have "x \<in> set ?found" by (auto simp: att_core_def)
  moreover have "\<not> 1 < length ?found"
    using ok items by (auto simp: ensure_no_other_attachments_use_this_disk_def go_cases Let_def split: if_splits)
  ultimately have found: "?found = [x]" by (cases ?found; cases "tl ?found") auto
  show ?thesis
  proof (rule ccontr)
    assume ne: "\<not> ?thesis"
    then have neq: "extract_resource_name (att_vm_ref x) \<noteq> v" using x by (auto simp: att_core_def)
    with found items ok have "fst (remove_stale_attachment b (att_id x) ?w) = None"
      by (simp add: ensure_no_other_attachments_use_this_disk_def go_cases Let_def)
    from remove_stale_ok [OF this] found items neq att x(2) show False
      by (simp add: ensure_no_other_attachments_use_this_disk_def go_cases Let_def)
  qed
qed

lemma create_attachment_vd [simp]: "vd (sys (snd (create_attachment b d v w))) = vd (sys w)"
  by (simp add: create_attachment_def go_cases Let_def split: sum.split option.split)

lemma attachment_request_simps [simp]:
  "att_id (attachment_request b n v d) = n" "att_disk_ref (attachment_request b n v d) = d"
  "att_vm_ref (attachment_request b n v d) = v"
  by (simp_all add: attachment_request_def)

lemma labelled_request:
  "sdk_user_labels (att_labels (attachment_request b n v d)) \<subseteq>\<^sub>m sdk_user_labels l \<Longrightarrow> labelled b l"
  by (auto simp: attachment_request_def managed_by_labels_def sdk_user_labels_def labelled_def map_le_def
      split: option.splits)

definition attached_one ::
  "string \<Rightarrow> string \<Rightarrow> (string \<rightharpoonup> attachment) \<Rightarrow> (string \<rightharpoonup> attachment) \<Rightarrow> bool"
where
  "attached_one d v m m' \<longleftrightarrow> m' = m \<or>
     (\<exists>a. m (attachment_name d v) = None \<and> labelled b (att_labels a) \<and>
          (no_slash d \<longrightarrow> no_slash v \<longrightarrow> targets d v a) \<and> m' = m(attachment_name d v \<mapsto> a))"

lemma create_request_cases:
  assumes "r = atts_create cl (attachment_request b (attachment_name d v) (vm_ref cl v) (disk_ref cl d)) c"
  shows "va (snd r) = va c \<and> (\<forall>a'. fst r \<noteq> Inr a') \<or>
     (\<exists>a. va c (attachment_name d v) = None \<and> labelled b (att_labels a) \<and>
          (no_slash d \<longrightarrow> no_slash v \<longrightarrow> targets d v a) \<and> va (snd r) = (va c)(attachment_name d v \<mapsto> a))"
proof -
  let ?req = "attachment_request b (attachment_name d v) (vm_ref cl v) (disk_ref cl d)"
  from atts_create_cases [of ?req c] consider
      "va (snd r) = va c \<and> (\<forall>a'. fst r \<noteq> Inr a')"
    | a where "va c (attachment_name d v) = None" "va (snd r) = (va c)(attachment_name d v \<mapsto> att_core a)"
        "att_disk_ref a = disk_ref cl d" "att_vm_ref a = vm_ref cl v"
        "sdk_user_labels (att_labels ?req) \<subseteq>\<^sub>m sdk_user_labels (att_labels a)"
    unfolding assms attachment_request_simps by blast
  then show ?thesis
  proof cases
    case (2 a)
    then have "labelled b (att_labels (att_core a))" by (auto intro: labelled_request)
    moreover have "no_slash d \<longrightarrow> no_slash v \<longrightarrow> targets d v (att_core a)"
      using 2 by (simp add: targets_def disk_ref_name vm_ref_name)
    ultimately show ?thesis using 2 by blast
  qed simp
qed

lemma create_attachment_va: "attached_one d v (va (sys w)) (va (sys (snd (create_attachment b d v w))))"
proof -
  have "attached_one d v (va c) (va (snd (atts_create cl
      (attachment_request b (attachment_name d v) (vm_ref cl v) (disk_ref cl d)) c)))" for c
    using create_request_cases [OF refl, of d v c] unfolding attached_one_def by blast
  then show ?thesis
    by (simp add: create_attachment_def go_cases Let_def split: sum.split option.split)
qed

lemma create_attachment_ok:
  assumes "fst (create_attachment b d v w) = None" "no_slash d" "no_slash v"
  shows "\<exists>a. va (sys (snd (create_attachment b d v w))) (attachment_name d v) = Some a \<and>
           labelled b (att_labels a) \<and> targets d v a"
proof -
  define r where
    "r = atts_create cl (attachment_request b (attachment_name d v) (vm_ref cl v) (disk_ref cl d)) (sys w)"
  show ?thesis
  proof (cases "fst r")
    case (Inr x)
    with create_request_cases [OF r_def] assms(2,3) show ?thesis
      by (auto simp: create_attachment_def go_cases Let_def r_def)
  next
    case (Inl e)
    then obtain x where x: "fst (atts_get cl (attachment_name d v) (snd r)) = Inr x"
      using assms(1) by (auto simp: create_attachment_def go_cases Let_def r_def split: sum.splits if_splits)
    from Inl x assms(1) have "managed b (att_labels x)" "targets d v x"
      by (auto simp: create_attachment_def go_cases Let_def r_def validate_ownership_None targets_def
          split: option.splits if_splits)
    with atts_get_ok [OF x] Inl x identifier_set show ?thesis
      by (auto simp: create_attachment_def go_cases Let_def r_def managed_labelled
          split: sum.split option.split)
  qed
qed

lemma attach_vd [simp]: "vd (sys (snd (sdk_ensure_attachment_created b d v w))) = vd (sys w)"
  by (simp add: sdk_ensure_attachment_created_def go_cases split: sum.split option.split)

text \<open>An attach removes at most one own attachment and then adds at most one.\<close>

lemma attach_va:
  "\<exists>m. detached (va (sys w)) m \<and>
       attached_one d v m (va (sys (snd (sdk_ensure_attachment_created b d v w))))"
proof -
  have same: "attached_one d v m m" for m by (simp add: attached_one_def)
  define w1 where "w1 = snd (sdk_get_disk_and_validate_ownership b d w)"
  define w2 where "w2 = snd (validate_vm_ownership b v w1)"
  define w3 where "w3 = snd (ensure_no_other_attachments_use_this_disk b d v w2)"
  have va2: "va (sys w1) = va (sys w)" "va (sys w2) = va (sys w)" by (simp_all add: w1_def w2_def)
  have "va (sys (snd (sdk_ensure_attachment_created b d v w))) \<in>
      {va (sys w), va (sys w3), va (sys (snd (create_attachment b d v w3)))}"
    using va2 by (auto simp: sdk_ensure_attachment_created_def go_cases w1_def w2_def w3_def
        split: sum.split option.split)
  then show ?thesis
    using create_attachment_va [of d v w3] no_other_va [of w2 d v] same
    unfolding w3_def va2 by (auto intro: detached_refl)
qed

lemma attach_steps:
  assumes "fst (sdk_ensure_attachment_created b d v w) = None"
  obtains w2 w3 where "va (sys w2) = va (sys w)"
    "fst (ensure_no_other_attachments_use_this_disk b d v w2) = None"
    "w3 = snd (ensure_no_other_attachments_use_this_disk b d v w2)"
    "fst (create_attachment b d v w3) = None"
    "snd (sdk_ensure_attachment_created b d v w) = snd (create_attachment b d v w3)"
proof -
  let ?w2 = "snd (validate_vm_ownership b v (snd (sdk_get_disk_and_validate_ownership b d w)))"
  show ?thesis
    by (rule that [of ?w2, OF _ _ refl])
       (use assms in \<open>auto simp: sdk_ensure_attachment_created_def go_cases split: sum.splits option.splits\<close>)
qed

lemma attach_present:
  assumes "fst (sdk_ensure_attachment_created b d v w) = None" "no_slash d" "no_slash v"
  shows "\<exists>a. va (sys (snd (sdk_ensure_attachment_created b d v w))) (attachment_name d v) = Some a \<and>
           labelled b (att_labels a) \<and> targets d v a"
proof -
  obtain w2 w3 where "fst (create_attachment b d v w3) = None"
    "snd (sdk_ensure_attachment_created b d v w) = snd (create_attachment b d v w3)"
    using attach_steps [OF assms(1)] by metis
  with create_attachment_ok [OF this(1) assms(2,3)] show ?thesis by simp
qed

text \<open>After a successful attach every attachment of the driver for the disk is to that VM.\<close>

lemma attach_only:
  assumes "fst (sdk_ensure_attachment_created b d v w) = None" "no_slash d" "no_slash v"
    and "va (sys (snd (sdk_ensure_attachment_created b d v w))) n = Some a"
    and "labelled b (att_labels a)" "extract_resource_name (att_disk_ref a) = d"
  shows "extract_resource_name (att_vm_ref a) = v"
proof -
  obtain w2 w3 where w: "fst (ensure_no_other_attachments_use_this_disk b d v w2) = None"
    "w3 = snd (ensure_no_other_attachments_use_this_disk b d v w2)"
    "snd (sdk_ensure_attachment_created b d v w) = snd (create_attachment b d v w3)"
    using attach_steps [OF assms(1)] by metis
  have "va (sys w3) n = Some a \<or> targets d v a"
    using create_attachment_va [of d v w3] assms(2-4) w(3) by (auto simp: attached_one_def split: if_splits)
  then show ?thesis
  proof
    assume "va (sys w3) n = Some a"
    from no_other_ok [OF w(1) this [unfolded w(2)] assms(5,6)] show ?thesis .
  qed (simp add: targets_def)
qed

lemma detach_vd [simp]: "vd (sys (snd (sdk_ensure_attachment_deleted b d v w))) = vd (sys w)"
  by (simp add: sdk_ensure_attachment_deleted_def go_cases Let_def split: sum.split option.split)

lemma detach_va: "detached (va (sys w)) (va (sys (snd (sdk_ensure_attachment_deleted b d v w))))"
proof -
  let ?n = "attachment_name d v"
  let ?c = "snd (atts_get cl ?n (sys w))"
  let ?c1 = "snd (atts_delete cl ?n ?c)"
  show ?thesis
  proof (cases "fst (atts_get cl ?n (sys w))")
    case (Inl e)
    then show ?thesis by (simp add: sdk_ensure_attachment_deleted_def go_cases Let_def)
  next
    case (Inr a)
    show ?thesis
    proof (cases "managed b (att_labels a)")
      case True
      then have "detached (va (sys w)) ((va (sys w))(?n := None))"
        using atts_get_ok [OF Inr] identifier_set by (auto intro: detached_del simp: managed_labelled)
      with Inr True atts_delete_cases [of ?n ?c]
        atts_wait_deleted_cases [of ?n "attachment_poll_timeout b" ?c1] show ?thesis
        by (auto simp: sdk_ensure_attachment_deleted_def go_cases Let_def
            split: option.split dest: validate_ownership_SomeD)
    next
      case False
      with Inr show ?thesis
        by (auto simp: sdk_ensure_attachment_deleted_def go_cases Let_def split: option.split
            dest: validate_ownership_NoneD)
    qed
  qed
qed

lemma detach_gone:
  assumes "fst (sdk_ensure_attachment_deleted b d v w) = None"
  shows "va (sys (snd (sdk_ensure_attachment_deleted b d v w))) (attachment_name d v) = None"
proof -
  let ?n = "attachment_name d v"
  let ?c = "snd (atts_get cl ?n (sys w))"
  from assms show ?thesis
    using atts_get_absent [of ?n "sys w"] atts_delete_absent [of ?n ?c]
      atts_wait_deleted_ok [of ?n "attachment_poll_timeout b" "snd (atts_delete cl ?n ?c)"]
    by (auto simp: sdk_ensure_attachment_deleted_def go_cases Let_def
        split: sum.splits option.splits if_splits)
qed

section \<open>Resizing\<close>

lemma tick_views [simp]:
  "vd (sys (snd (next_tick rt p w))) = vd (sys w)" "va (sys (snd (next_tick rt p w))) = va (sys w)"
  by (simp_all add: next_tick_def)

lemma poll_views:
  "rt' = rt \<Longrightarrow> b' = b \<Longrightarrow> vd (sys (snd (poll_disk_resize rt' b' n mb dl w))) = vd (sys w) \<and>
     va (sys (snd (poll_disk_resize rt' b' n mb dl w))) = va (sys w)"
proof (induction rt' b' n mb dl w rule: poll_disk_resize.induct)
  case (1 rt' b' n mb dl w)
  note IH = 1(1) [OF prod.collapse _ _ prod.collapse]
    1(2) [OF prod.collapse _ _ prod.collapse]
  show ?case
    by (subst (1 2) poll_disk_resize.simps)
       (use 1(3,4) IH in \<open>auto simp: go_cases split: option.split sum.split\<close>)
qed

lemma resize_views [simp]:
  "va (sys (snd (sdk_ensure_disk_resized rt b n mb w))) = va (sys w)"
  using poll_views [OF refl refl]
  by (simp add: sdk_ensure_disk_resized_def resize_disk_def wait_for_disk_resize_def go_cases Let_def
      split: sum.split option.split)

lemma resize_disk_vd:
  "vd (sys (snd (resize_disk rt b d n mb w))) = vd (sys w) \<or>
   vd (sys (snd (resize_disk rt b d n mb w))) =
     (vd (sys w))(n \<mapsto> disk_core (d\<lparr>disk_spec_size := Some \<lparr>size_amount = mb, size_unit = MB\<rparr>\<rparr>))"
  using disks_patch_cases [of n "d\<lparr>disk_spec_size := Some \<lparr>size_amount = mb, size_unit = MB\<rparr>\<rparr>" "sys w"]
    poll_views [OF refl refl]
  by (auto simp: resize_disk_def wait_for_disk_resize_def go_cases split: sum.split option.split)

lemma resize_vd:
  "vd (sys (snd (sdk_ensure_disk_resized rt b n mb w))) = vd (sys w) \<or>
   (\<exists>d d'. vd (sys w) n = Some d \<and> managed b (disk_labels d) \<and> managed b (disk_labels d') \<and>
      vd (sys (snd (sdk_ensure_disk_resized rt b n mb w))) = (vd (sys w))(n \<mapsto> d'))"
proof (cases "fst (sdk_get_disk_and_validate_ownership b n w)")
  case (Inl e)
  then show ?thesis by (simp add: sdk_ensure_disk_resized_def go_cases)
next
  case (Inr d)
  let ?w = "snd (sdk_get_disk_and_validate_ownership b n w)"
  let ?d = "disk_core (d\<lparr>disk_spec_size := Some \<lparr>size_amount = mb, size_unit = MB\<rparr>\<rparr>)"
  have "vd (sys (snd (sdk_ensure_disk_resized rt b n mb w))) = vd (sys w) \<or>
        vd (sys (snd (sdk_ensure_disk_resized rt b n mb w))) = (vd (sys w))(n \<mapsto> ?d)"
    using Inr resize_disk_vd [of d n mb ?w]
    by (auto simp: sdk_ensure_disk_resized_def go_cases Let_def split: option.split)
  moreover have "managed b (disk_labels ?d)" "managed b (disk_labels (disk_core d))"
    using get_disk_ok [OF Inr] by simp_all
  ultimately show ?thesis using get_disk_ok [OF Inr] by blast
qed

section \<open>Ownership\<close>

lemma foreign_disks_same: "vd c' = vd c \<Longrightarrow> foreign_disks vd b c' = foreign_disks vd b c"
  by (simp add: fun_eq_iff foreign_disks_def)

lemma foreign_attachments_same: "va c' = va c \<Longrightarrow> foreign_attachments va b c' = foreign_attachments va b c"
  by (simp add: fun_eq_iff foreign_attachments_def)

lemma foreign_disks_step: "foreign_disks vd b (sys (storage_step (sdk_storage_backend rt b) call w)) = foreign_disks vd b (sys w)"
proof (cases call)
  case (EnsureDiskCreated n mb sc z)
  have "managed b (disk_labels (disk_core (disk_request b n mb z)))" by simp
  with create_disk_vd [of n mb sc z w] show ?thesis
    by (auto simp: EnsureDiskCreated sdk_storage_backend_def fun_eq_iff foreign_disks_def)
next
  case (EnsureDiskDeleted n)
  with delete_disk_vd [of n w] show ?thesis
    by (auto simp: sdk_storage_backend_def fun_eq_iff foreign_disks_def)
next
  case (EnsureDiskResized n mb)
  with resize_vd [of n mb w] show ?thesis
    by (auto simp: sdk_storage_backend_def fun_eq_iff foreign_disks_def)
qed (auto intro!: foreign_disks_same simp: sdk_storage_backend_def)

lemma foreign_detached: "detached (va c) (va c') \<Longrightarrow> foreign_attachments va b c' = foreign_attachments va b c"
  by (auto simp: detached_def fun_eq_iff foreign_attachments_def dest: labelled_managed)

lemma foreign_attachments_step:
  "foreign_attachments va b (sys (storage_step (sdk_storage_backend rt b) call w)) = foreign_attachments va b (sys w)"
proof (cases call)
  case (EnsureAttachmentCreated d v)
  obtain m where m: "detached (va (sys w)) m"
    "attached_one d v m (va (sys (snd (sdk_ensure_attachment_created b d v w))))"
    using attach_va by blast
  then show ?thesis
    by (auto simp: EnsureAttachmentCreated sdk_storage_backend_def fun_eq_iff foreign_attachments_def
        detached_def attached_one_def dest: labelled_managed)
next
  case (EnsureAttachmentDeleted d v)
  with foreign_detached [OF detach_va] show ?thesis by (simp add: sdk_storage_backend_def)
qed (auto intro!: foreign_attachments_same simp: sdk_storage_backend_def)

lemma foreign_disks_run:
  "foreign_disks vd b (sys (storage_run (sdk_storage_backend rt b) calls w)) = foreign_disks vd b (sys w)"
  by (rule storage_run_invariant [where P = "\<lambda>w'. foreign_disks vd b (sys w') = foreign_disks vd b (sys w)"])
     (simp_all add: foreign_disks_step)

lemma foreign_attachments_run:
  "foreign_attachments va b (sys (storage_run (sdk_storage_backend rt b) calls w)) = foreign_attachments va b (sys w)"
  by (rule storage_run_invariant [where P = "\<lambda>w'. foreign_attachments va b (sys w') = foreign_attachments va b (sys w)"])
     (simp_all add: foreign_attachments_step)

section \<open>The contract of the backend\<close>

lemma own_attachments_same: "va c' = va c \<Longrightarrow> own_attachments va b c' = own_attachments va b c"
  by (simp add: own_attachments_def)

lemma own_attachments_detached: "detached (va c) (va c') \<Longrightarrow> own_attachments va b c' \<subseteq> own_attachments va b c"
  by (auto simp: detached_def own_attachments_def split: if_splits)

lemma own_attachments_attach:
  assumes "no_slash d" "no_slash v"
  shows "own_attachments va b (sys (snd (sdk_ensure_attachment_created b d v w)))
           \<subseteq> insert (d, v) (own_attachments va b (sys w))"
proof -
  obtain m where m: "detached (va (sys w)) m"
    "attached_one d v m (va (sys (snd (sdk_ensure_attachment_created b d v w))))"
    using attach_va by blast
  let ?m = "va (sys (snd (sdk_ensure_attachment_created b d v w)))"
  have old: "va (sys w) n = Some a" if "m n = Some a" for n a
    using m(1) that by (auto simp: detached_def split: if_splits)
  have added: "m n = Some a \<or> targets d v a" if "?m n = Some a" for n a
    using m(2) that assms by (auto simp: attached_one_def split: if_splits)
  show ?thesis
  proof (rule subrelI)
    fix d' v' assume "(d', v') \<in> own_attachments va b (sys (snd (sdk_ensure_attachment_created b d v w)))"
    then obtain a where a: "?m (attachment_name d' v') = Some a" "labelled b (att_labels a)" "targets d' v' a"
      by (auto simp: own_attachments_def)
    from added [OF a(1)] show "(d', v') \<in> insert (d, v) (own_attachments va b (sys w))"
    proof
      assume "m (attachment_name d' v') = Some a"
      from old [OF this] a(2,3) show ?thesis by (auto simp: own_attachments_def)
    next
      assume "targets d v a"
      with a(3) show ?thesis by (simp add: targets_def)
    qed
  qed
qed

lemma listed_attachment:
  assumes "fst (sdk_list_attachments b w) = Inr items" "(d, v) \<in> own_attachments va b (sys w)"
  shows "\<exists>a \<in> set items. extract_resource_name (att_disk_ref a) = d \<and> extract_resource_name (att_vm_ref a) = v"
proof -
  from assms(2) obtain a where a: "va (sys w) (attachment_name d v) = Some a" "labelled b (att_labels a)"
    "targets d v a" by (auto simp: own_attachments_def)
  from list_attachments_complete [OF assms(1) a(1,2)] a(3) show ?thesis
    by (metis targets_core targets_def)
qed

lemma counted_attachments:
  assumes "fst (sdk_count_node_attachments b v w) = Inr cnt"
  shows "finite {d. (d, v) \<in> own_attachments va b (sys w)} \<and> card {d. (d, v) \<in> own_attachments va b (sys w)} \<le> cnt"
proof -
  obtain items where items: "fst (sdk_list_attachments b w) = Inr items"
    and cnt: "cnt = length (filter (\<lambda>a. extract_resource_name (att_vm_ref a) = v) items)"
    using assms by (auto simp: sdk_count_node_attachments_def go_cases split: sum.splits)
  let ?on_node = "filter (\<lambda>a. extract_resource_name (att_vm_ref a) = v) items"
  let ?names = "map (\<lambda>a. extract_resource_name (att_disk_ref a)) ?on_node"
  have sub: "{d. (d, v) \<in> own_attachments va b (sys w)} \<subseteq> set ?names"
    using listed_attachment [OF items] by fastforce
  have "card {d. (d, v) \<in> own_attachments va b (sys w)} \<le> card (set ?names)"
    by (rule card_mono [OF _ sub]) simp
  also have "\<dots> \<le> cnt" unfolding cnt using card_length [of ?names] by simp
  finally show ?thesis using finite_subset [OF sub] by simp
qed

end

sublocale sdk_env \<subseteq> contract: exact_storage_contract "sdk_storage_backend rt b" "own_attachments va b" "own_disk vd b" "no_disk vd"
proof (unfold_locales, goal_cases)
  case (1 n mb sc z w c w')
  then show ?case
    using create_disk_ok [of n mb sc z w c] by (simp add: sdk_storage_backend_def own_disk_def)
next
  case (2 n mb sc z w)
  show ?case by (rule own_attachments_same) (simp add: sdk_storage_backend_def)
next
  case (3 m n mb sc z w k)
  with create_disk_vd [of n mb sc z w] show ?case by (auto simp: sdk_storage_backend_def own_disk_def)
next
  case (4 n w w')
  then show ?case using delete_disk_ok [of n w] by (simp add: sdk_storage_backend_def no_disk_def)
next
  case (5 n w)
  show ?case by (rule own_attachments_same) (simp add: sdk_storage_backend_def)
next
  case (6 m n w k)
  with delete_disk_vd [of n w] show ?case by (auto simp: sdk_storage_backend_def own_disk_def)
next
  case (7 w items w' d v)
  then show ?case using listed_attachment [of w items d v] by (simp add: sdk_storage_backend_def)
next
  case (8 w)
  show ?case by (rule own_attachments_same) (simp add: sdk_storage_backend_def)
next
  case (9 v w cnt w')
  then show ?case using counted_attachments [of v w cnt] by (simp add: sdk_storage_backend_def)
next
  case (10 v w)
  show ?case by (rule own_attachments_same) (simp add: sdk_storage_backend_def)
next
  case (11 d v w)
  then show ?case using own_attachments_attach [of d v w] by (simp add: sdk_storage_backend_def)
next
  case (12 d v w)
  show ?case by (rule own_attachments_same) (simp add: sdk_storage_backend_def)
next
  case (13 d v w)
  show ?case using own_attachments_detached [OF detach_va] by (simp add: sdk_storage_backend_def)
next
  case (14 n w)
  show ?case by (rule own_attachments_same) (simp add: sdk_storage_backend_def)
next
  case (15 w)
  show ?case by (rule own_attachments_same) (simp add: sdk_storage_backend_def)
next
  case (16 d v w)
  show ?case by (rule own_attachments_same) (simp add: sdk_storage_backend_def)
next
  case (17 n mb w)
  show ?case by (rule own_attachments_same) (simp add: sdk_storage_backend_def)
next
  case (18 d v w w')
  then show ?case using attach_present [of d v w] by (simp add: sdk_storage_backend_def own_attachments_def)
next
  case (19 d v w w' v')
  then show ?case
    using attach_only [of d v w "attachment_name d v'"]
    by (auto simp: sdk_storage_backend_def own_attachments_def targets_def)
next
  case (20 d v w w')
  then show ?case using detach_gone [of d v w] by (simp add: sdk_storage_backend_def own_attachments_def)
next
  case (21 d v w s w')
  then show ?case
    by (auto simp: sdk_storage_backend_def sdk_wait_for_attachment_serial_def Let_def
        split: prod.splits sum.splits option.splits if_splits)
qed

context sdk_env
begin

lemma meets_contract:
  "exact_storage_contract (sdk_storage_backend rt b) (own_attachments va b) (own_disk vd b) (no_disk vd)"
  by (rule contract.exact_storage_contract_axioms)

end

end
