(* ===== verification/Controller.thy ===== *)
theory Controller
  imports Validation Retry Csi Sdk_Contract
begin

text \<open>
  The CSI controller service (\<open>pkg/controller/controller.go\<close>): its handlers over the
  \<open>StorageBackend\<close> interface, and their properties, proved against the contract
  \<open>storage_contract\<close> of the theory \<open>Storage\<close> and so for every backend that meets it.
\<close>

section \<open>The service\<close>

record 'c controller =
  storage :: "'c storage_backend"
  ctl_runtime :: "'c runtime"
  total_capacity_gb :: i64
  ctl_max_volumes :: i64
  metrics_collection_interval :: i64
  rest_api_retry :: retry_policy

text \<open>
  \<open>NewControllerService\<close>: a nil backend is a panic (\<open>None\<close>); the flag says that the goroutine
  of \<open>collectAttachmentMetrics\<close> is started.
\<close>

definition new_controller_service ::
  "'c storage_backend option \<Rightarrow> 'c runtime \<Rightarrow> i64 \<Rightarrow> i64 \<Rightarrow> i64 \<Rightarrow> int \<Rightarrow> i64 \<Rightarrow> i64 \<Rightarrow> bool \<Rightarrow>
     ('c controller \<times> bool) option"
where
  "new_controller_service sb rt total_gb max_volumes interval retries delay max_dly has_metrics =
     (case sb of
        None \<Rightarrow> None
      | Some b \<Rightarrow>
          Some (\<lparr>storage = b, ctl_runtime = rt, total_capacity_gb = total_gb,
                 ctl_max_volumes = max_volumes, metrics_collection_interval = interval,
                 rest_api_retry = \<lparr>max_retries = retries, initial_delay = delay, max_delay = max_dly\<rparr>\<rparr>,
                has_metrics \<and> go_less 0 interval))"

text \<open>One tick of the metrics collector; \<open>ready\<close> is the SDK's \<open>IsAttachmentReady\<close>.\<close>

definition collect_attachment_metrics :: "(attachment \<Rightarrow> bool) \<Rightarrow> 'c controller \<Rightarrow> 'c world \<Rightarrow> 'c world" where
  "collect_attachment_metrics ready s w =
     (case list_attachments (storage s) w of
        (Inl _, w1) \<Rightarrow> w1
      | (Inr items, w1) \<Rightarrow>
          on_metrics (set_attachment_state ''attached'' (int (length (filter ready items)))) w1)"

definition retry :: "'c controller \<Rightarrow> string \<Rightarrow> 'c world go_err \<Rightarrow> 'c world go_err" where
  "retry s operation fn = retry_on_transient (sleep_for (ctl_runtime s)) (rest_api_retry s) operation fn"

fun validate_volume_capabilities :: "volume_capability list \<Rightarrow> go_error option" where
  "validate_volume_capabilities [] = None"
| "validate_volume_capabilities (cap # caps) =
     (case cap_access_mode cap of
        None \<Rightarrow> Some (status_error InvalidArgument ''access mode is required'')
      | Some m \<Rightarrow>
          if m \<noteq> SingleNodeWriter \<and> m \<noteq> SingleNodeSingleWriter \<and> m \<noteq> SingleNodeReaderOnly then
            Some (status_error InvalidArgument
              (''unsupported access mode '' @ access_mode_text m @
               ''; only SINGLE_NODE_WRITER (RWO), SINGLE_NODE_SINGLE_WRITER (RWOPod), and SINGLE_NODE_READER_ONLY (ROX) are supported''))
          else if m = SingleNodeReaderOnly \<and> cap_is_block cap then
            Some (status_error InvalidArgument
              ''SINGLE_NODE_READER_ONLY (ReadOnlyMany) is only supported for filesystem volumes, not block volumes'')
          else validate_volume_capabilities caps)"

text \<open>An error that already carries a gRPC status is passed on, any other becomes \<open>Internal\<close>.\<close>

definition grpc_error :: "string \<Rightarrow> go_error \<Rightarrow> go_error" where
  "grpc_error what e =
     (case status_code e of
        Some _ \<Rightarrow> e
      | None \<Rightarrow> status_error Internal (what @ error_text e))"

section \<open>Creating and deleting volumes\<close>

record create_volume_request =
  cv_name :: string
  cv_capacity_range :: "capacity_range option"
  cv_capabilities :: "volume_capability list"
  cv_parameters :: "string \<rightharpoonup> string"
  cv_preferred :: "(string \<rightharpoonup> string) list option"

fun preferred_zone :: "(string \<rightharpoonup> string) list \<Rightarrow> string" where
  "preferred_zone [] = ''''"
| "preferred_zone (segments # rest) =
     (case segments zone_key of Some z \<Rightarrow> z | None \<Rightarrow> preferred_zone rest)"

definition request_zone :: "create_volume_request \<Rightarrow> string" where
  "request_zone req = (case cv_preferred req of None \<Rightarrow> '''' | Some topologies \<Rightarrow> preferred_zone topologies)"

definition request_storage_class :: "create_volume_request \<Rightarrow> string" where
  "request_storage_class req =
     (case cv_parameters req ''storageClass'' of
        None \<Rightarrow> ''persistent'' | Some c \<Rightarrow> if c = '''' then ''persistent'' else c)"

text \<open>The checks of \<open>CreateVolume\<close>, up to the size of the disk.\<close>

definition check_create_volume :: "create_volume_request \<Rightarrow> go_error + i32" where
  "check_create_volume req =
     (case validate_required_field (cv_name req) ''volume name'' of
        Some e \<Rightarrow> Inl e
      | None \<Rightarrow>
          if length (cv_capabilities req) = 0 then
            Inl (status_error InvalidArgument ''volume capabilities are required'')
          else
            (case validate_volume_capabilities (cv_capabilities req) of
               Some e \<Rightarrow> Inl e
             | None \<Rightarrow>
                 (case capacity_from_range (cv_capacity_range req) of
                    Inl e \<Rightarrow> Inl e
                  | Inr (b, mb) \<Rightarrow> Inr mb)))"

definition create_disk_once :: "'c controller \<Rightarrow> string \<Rightarrow> i32 \<Rightarrow> string \<Rightarrow> string \<Rightarrow> 'c world go_err" where
  "create_disk_once s vid mb storage_class zone w =
     (case ensure_disk_created (storage s) vid mb storage_class zone w of
        (Inl e, w1) \<Rightarrow> (Some e, w1)
      | (Inr created, w1) \<Rightarrow> (None, w1))"

definition create_volume :: "'c controller \<Rightarrow> create_volume_request \<Rightarrow> ('c world, csi_volume) go" where
  "create_volume s req w =
     (case check_create_volume req of
        Inl e \<Rightarrow> (Inl e, w)
      | Inr mb \<Rightarrow>
          (let vid = ''csi-'' @ cv_name req;
               zone = request_zone req
           in case retry s ''create disk'' (create_disk_once s vid mb (request_storage_class req) zone) w of
                (Some e, w1) \<Rightarrow>
                  (Inl (grpc_error ''failed to create disk: '' e),
                   on_metrics (update_volume_state ''error'' 1 \<circ>
                               record_volume_operation_error ''create'' ''internal'') w1)
              | (None, w1) \<Rightarrow>
                  (Inr \<lparr>vol_id = vid, vol_capacity = capacity_mb_to_bytes mb,
                        vol_context = cv_parameters req,
                        vol_topology = (if zone \<noteq> '''' then [[zone_key \<mapsto> zone]] else [])\<rparr>,
                   on_metrics (update_volume_state ''created'' 1 \<circ>
                               set_volume_size vid (sint (capacity_mb_to_bytes mb)) \<circ>
                               record_volume_operation ''create'') w1)))"

definition attached_nodes :: "string \<Rightarrow> attachment list \<Rightarrow> string list" where
  "attached_nodes vid items =
     map att_vm_ref (filter (\<lambda>a. extract_resource_name (att_disk_ref a) = vid) items)"

definition delete_volume :: "'c controller \<Rightarrow> string \<Rightarrow> ('c world, unit) go" where
  "delete_volume s vid w =
     (case validate_required_field vid ''volume ID'' of
        Some e \<Rightarrow> (Inl e, w)
      | None \<Rightarrow>
          (case list_attachments (storage s) w of
             (Inl e, w1) \<Rightarrow>
               (Inl (status_error Internal (''failed to check attachments before delete: '' @ error_text e)), w1)
           | (Inr items, w1) \<Rightarrow>
               (let nodes = attached_nodes vid items
                in if 0 < length nodes then
                     (Inl (status_error FailedPrecondition
                        (''volume '' @ vid @ '' has active attachments to nodes ['' @ join_with '' '' nodes @
                         '']; must be unpublished before deletion'')), w1)
                   else
                     (case retry s ''delete disk'' (ensure_disk_deleted (storage s) vid) w1 of
                        (Some e, w2) \<Rightarrow>
                          (Inl (status_error Internal (''failed to delete disk: '' @ error_text e)),
                           on_metrics (record_volume_operation_error ''delete'' ''internal'') w2)
                      | (None, w2) \<Rightarrow>
                          (Inr (),
                           on_metrics (update_volume_state ''created'' (-1) \<circ> delete_volume_size vid \<circ>
                                       record_volume_operation ''delete'') w2)))))"

section \<open>Publishing and unpublishing\<close>

text \<open>
  \<open>nodeLocks\<close>: a mutex per node, created when first asked for. To lock a mutex somebody
  holds is to wait; \<open>None\<close> stands for that.
\<close>

type_synonym node_locks = "string \<rightharpoonup> bool"

definition acquire_node_lock :: "string \<Rightarrow> node_locks \<Rightarrow> node_locks option" where
  "acquire_node_lock node locks = (if locks node = Some True then None else Some (locks(node \<mapsto> True)))"

definition release_node_lock :: "string \<Rightarrow> node_locks \<Rightarrow> node_locks" where
  "release_node_lock node locks = locks(node \<mapsto> False)"

text \<open>The deferred unlock runs on every return.\<close>

definition with_node_lock ::
  "string \<Rightarrow> ('w \<Rightarrow> 'r \<times> 'w) \<Rightarrow> node_locks \<times> 'w \<Rightarrow> ('r \<times> node_locks \<times> 'w) option"
where
  "with_node_lock node body st =
     (case acquire_node_lock node (fst st) of
        None \<Rightarrow> None
      | Some locks \<Rightarrow>
          (case body (snd st) of (r, w1) \<Rightarrow> Some (r, release_node_lock node locks, w1)))"

record publish_request =
  pb_volume_id :: string
  pb_node_id :: string
  pb_capability :: "volume_capability option"

definition check_publish_request :: "publish_request \<Rightarrow> go_error option" where
  "check_publish_request req =
     (case validate_required_field (pb_volume_id req) ''volume ID'' of
        Some e \<Rightarrow> Some e
      | None \<Rightarrow>
          (case validate_required_field (pb_node_id req) ''node ID'' of
             Some e \<Rightarrow> Some e
           | None \<Rightarrow>
               if pb_capability req = None then
                 Some (status_error InvalidArgument ''volume capability is required'')
               else None))"

definition check_attach_limit :: "'c controller \<Rightarrow> string \<Rightarrow> 'c world go_err" where
  "check_attach_limit s node w =
     (if go_less 0 (ctl_max_volumes s) then
        (case count_node_attachments (storage s) node w of
           (Inl e, w1) \<Rightarrow>
             (Some (status_error Internal (''failed to check volume attach limit: '' @ error_text e)), w1)
         | (Inr cnt, w1) \<Rightarrow>
             if sint (ctl_max_volumes s) \<le> int cnt then
               (Some (status_error ResourceExhausted
                  (''node '' @ node @ '' has reached maximum volume attach limit ('' @
                   itoa (sint (ctl_max_volumes s)) @ '' volumes)'')), w1)
             else (None, w1))
      else (None, w))"

definition attach_volume :: "'c controller \<Rightarrow> string \<Rightarrow> string \<Rightarrow> 'c world go_err" where
  "attach_volume s vid node w =
     (case retry s ''create attachment'' (ensure_attachment_created (storage s) vid node) w of
        (Some e, w1) \<Rightarrow>
          (Some (grpc_error ''failed to create disk attachment: '' e),
           on_metrics (record_volume_operation_error ''attach'' ''internal'') w1)
      | (None, w1) \<Rightarrow> (None, w1))"

definition publish_serial :: "'c controller \<Rightarrow> string \<Rightarrow> string \<Rightarrow> ('c world, string \<rightharpoonup> string) go" where
  "publish_serial s vid node w =
     (case wait_for_attachment_serial (storage s) vid node w of
        (Inl e, w1) \<Rightarrow> (Inl (status_error Unavailable (''failed to get serial: '' @ error_text e)), w1)
      | (Inr serial, w1) \<Rightarrow>
          (Inr [''serial'' \<mapsto> serial],
           on_metrics (update_attachment_state ''attached'' 1 \<circ> record_volume_operation ''attach'') w1))"

text \<open>What runs under the lock of the node.\<close>

definition publish_locked :: "'c controller \<Rightarrow> publish_request \<Rightarrow> ('c world, string \<rightharpoonup> string) go" where
  "publish_locked s req w =
     (case check_attach_limit s (pb_node_id req) w of
        (Some e, w1) \<Rightarrow> (Inl e, w1)
      | (None, w1) \<Rightarrow>
          (case attach_volume s (pb_volume_id req) (pb_node_id req) w1 of
             (Some e, w2) \<Rightarrow> (Inl e, w2)
           | (None, w2) \<Rightarrow> publish_serial s (pb_volume_id req) (pb_node_id req) w2))"

definition controller_publish_volume ::
  "'c controller \<Rightarrow> publish_request \<Rightarrow> node_locks \<times> 'c world \<Rightarrow>
     ((go_error + (string \<rightharpoonup> string)) \<times> node_locks \<times> 'c world) option"
where
  "controller_publish_volume s req st =
     (case check_publish_request req of
        Some e \<Rightarrow> Some (Inl e, st)
      | None \<Rightarrow> with_node_lock (pb_node_id req) (publish_locked s req) st)"

definition unpublish_locked :: "'c controller \<Rightarrow> string \<Rightarrow> string \<Rightarrow> ('c world, unit) go" where
  "unpublish_locked s vid node w =
     (case retry s ''delete attachment'' (ensure_attachment_deleted (storage s) vid node) w of
        (Some e, w1) \<Rightarrow>
          (Inl (status_error Internal (''failed to delete disk attachment: '' @ error_text e)),
           on_metrics (record_volume_operation_error ''detach'' ''internal'') w1)
      | (None, w1) \<Rightarrow>
          (Inr (),
           on_metrics (update_attachment_state ''attached'' (-1) \<circ> record_volume_operation ''detach'') w1))"

definition check_unpublish_request :: "string \<Rightarrow> string \<Rightarrow> go_error option" where
  "check_unpublish_request vid node =
     (case validate_required_field vid ''volume ID'' of
        Some e \<Rightarrow> Some e
      | None \<Rightarrow> validate_required_field node ''node ID'')"

definition controller_unpublish_volume ::
  "'c controller \<Rightarrow> string \<Rightarrow> string \<Rightarrow> node_locks \<times> 'c world \<Rightarrow>
     ((go_error + unit) \<times> node_locks \<times> 'c world) option"
where
  "controller_unpublish_volume s vid node st =
     (case check_unpublish_request vid node of
        Some e \<Rightarrow> Some (Inl e, st)
      | None \<Rightarrow> with_node_lock node (unpublish_locked s vid node) st)"

section \<open>Queries\<close>

definition validate_capabilities_rpc ::
  "'c controller \<Rightarrow> string \<Rightarrow> volume_capability list \<Rightarrow> ('c world, volume_capability list) go"
where
  "validate_capabilities_rpc s vid caps w =
     (case validate_required_field vid ''volume ID'' of
        Some e \<Rightarrow> (Inl e, w)
      | None \<Rightarrow>
          if length caps = 0 then
            (Inl (status_error InvalidArgument ''volume capabilities are required''), w)
          else
            (case get_disk_and_validate_ownership (storage s) vid w of
               (Inl e, w1) \<Rightarrow> (Inl (status_error NotFound (''volume '' @ vid @ '' does not exist'')), w1)
             | (Inr _, w1) \<Rightarrow>
                 (case validate_volume_capabilities caps of
                    Some e \<Rightarrow> (Inl e, w1)
                  | None \<Rightarrow> (Inr caps, w1))))"

text \<open>\<open>ListVolumes\<close>: the map from disk references to VM names, in the order of the list.\<close>

definition disk_to_vms :: "(attachment \<Rightarrow> bool) \<Rightarrow> attachment list \<Rightarrow> string \<Rightarrow> string list" where
  "disk_to_vms ready items disk_name =
     map (\<lambda>a. extract_resource_name (att_vm_ref a))
       (filter (\<lambda>a. ready a \<and> att_disk_ref a = disk_name) items)"

record volume_entry =
  entry_volume_id :: string
  entry_capacity :: i64
  entry_published :: "string list option"

definition disk_bytes :: "disk \<Rightarrow> i64" where
  "disk_bytes d =
     (case disk_spec_size d of None \<Rightarrow> 0 | Some sz \<Rightarrow> go_conv (size_amount sz) * 1024 * 1024)"

definition volume_entry_of :: "(string \<Rightarrow> string list) \<Rightarrow> disk \<Rightarrow> volume_entry" where
  "volume_entry_of vms d =
     \<lparr>entry_volume_id = disk_id d, entry_capacity = disk_bytes d,
      entry_published = (if 0 < length (vms (disk_id d)) then Some (vms (disk_id d)) else None)\<rparr>"

text \<open>One page of the entries and the token of the next page.\<close>

definition page_of :: "i32 \<Rightarrow> nat \<Rightarrow> 'e list \<Rightarrow> 'e list \<times> string" where
  "page_of max_entries start entries =
     (let total = length entries
      in if total \<le> start then ([], '''')
         else if go_less 0 max_entries \<and> int start + sint max_entries < int total then
           (let end_index = start + nat (sint max_entries)
            in (take (end_index - start) (drop start entries), itoa (int end_index)))
         else (drop start entries, ''''))"

definition list_volumes ::
  "(attachment \<Rightarrow> bool) \<Rightarrow> 'c controller \<Rightarrow> i32 \<Rightarrow> string \<Rightarrow> ('c world, volume_entry list \<times> string) go"
where
  "list_volumes ready s max_entries token w =
     (let start = (if token = '''' then Some 0 else atoi token)
      in case (case start of None \<Rightarrow> None | Some i \<Rightarrow> if i < 0 then None else Some (nat i)) of
           None \<Rightarrow> (Inl (status_error Aborted (''invalid starting_token: '' @ token)), w)
         | Some start_index \<Rightarrow>
             (case list_disks (storage s) w of
                (Inl e, w1) \<Rightarrow> (Inl (status_error Internal (''failed to list disks: '' @ error_text e)), w1)
              | (Inr disks, w1) \<Rightarrow>
                  (case list_attachments (storage s) w1 of
                     (Inl e, w2) \<Rightarrow>
                       (Inl (status_error Internal (''failed to list attachments: '' @ error_text e)), w2)
                   | (Inr items, w2) \<Rightarrow>
                       (Inr (page_of max_entries start_index
                               (map (volume_entry_of (disk_to_vms ready items)) disks)), w2))))"

definition used_bytes :: "disk list \<Rightarrow> i64" where
  "used_bytes disks = foldl (\<lambda>acc d. acc + disk_bytes d) 0 disks"

definition get_capacity :: "'c controller \<Rightarrow> ('c world, i64) go" where
  "get_capacity s w =
     (case list_disks (storage s) w of
        (Inl e, w1) \<Rightarrow> (Inl (status_error Internal (''failed to query disk usage: '' @ error_text e)), w1)
      | (Inr disks, w1) \<Rightarrow>
          (let available = total_capacity_gb s * 1024 * 1024 * 1024 - used_bytes disks
           in (Inr (if go_less available 0 then 0 else available), w1)))"

datatype controller_capability =
    CreateDeleteVolume | PublishUnpublishVolume | ListVolumesCap | ListVolumesPublishedNodes
  | GetCapacityCap | ExpandVolumeCap

definition controller_capabilities :: "controller_capability list" where
  "controller_capabilities =
     [CreateDeleteVolume, PublishUnpublishVolume, ListVolumesCap, ListVolumesPublishedNodes,
      GetCapacityCap, ExpandVolumeCap]"

text \<open>\<open>ControllerExpandVolume\<close>; the flag of the response asks for \<open>NodeExpandVolume\<close>.\<close>

definition controller_expand_volume ::
  "'c controller \<Rightarrow> string \<Rightarrow> capacity_range option \<Rightarrow> ('c world, i64 \<times> bool) go"
where
  "controller_expand_volume s vid cr w =
     (case validate_required_field vid ''volume ID'' of
        Some e \<Rightarrow> (Inl e, w)
      | None \<Rightarrow>
          (case capacity_from_range cr of
             Inl e \<Rightarrow> (Inl e, w)
           | Inr (b, mb) \<Rightarrow>
               (case retry s ''resize disk'' (ensure_disk_resized (storage s) vid mb) w of
                  (Some e, w1) \<Rightarrow>
                    (Inl (grpc_error ''failed to resize disk: '' e),
                     on_metrics (record_volume_operation_error ''resize'' ''internal'') w1)
                | (None, w1) \<Rightarrow> (Inr (b, True), w1))))"

end
