(* ===== verification/Ref_Cloud.thy ===== *)
theory Ref_Cloud
  imports Sdk_Contract "HOL-Library.AList"
begin

text \<open>
  A reference evroc cloud: a concrete client over association lists that meets the laws of
  \<open>compute_api\<close>. It stands for no code of the driver; it shows that the laws the driver is
  verified against can hold, and it is the cloud at which properties are instantiated.
\<close>

record cloud =
  c_disks :: "(string \<times> disk) list"
  c_atts :: "(string \<times> attachment) list"
  c_vms :: "(string \<times> (string \<rightharpoonup> string) option) list"

text \<open>What the API shows of a stored attachment: its name, and the disk label the cloud sets.\<close>

definition shown :: "string \<Rightarrow> attachment \<Rightarrow> attachment" where
  "shown n a = a\<lparr>att_id := n,
     att_labels := Some ((sdk_user_labels (att_labels a))
       (attachment_disk_label \<mapsto> extract_resource_name (att_disk_ref a)))\<rparr>"

definition api_error :: "err_kind \<Rightarrow> string \<Rightarrow> go_error" where
  "api_error k s = GoError k s"

definition cloud_get :: "(string \<times> 'a) list \<Rightarrow> string \<Rightarrow> go_error + 'a" where
  "cloud_get xs n = (case map_of xs n of None \<Rightarrow> Inl (api_error KNotFound ''not found'') | Some x \<Rightarrow> Inr x)"

definition has_disk_label :: "attachment \<Rightarrow> bool" where
  "has_disk_label a \<longleftrightarrow> sdk_user_labels (att_labels a) attachment_disk_label \<in>
     {None, Some (extract_resource_name (att_disk_ref a))}"

definition ref_client :: "cloud compute_client" where
  "ref_client =
     \<lparr>disks_get = (\<lambda>n c. (cloud_get (c_disks c) n, c)),
      disks_create = (\<lambda>d c. case map_of (c_disks c) (disk_id d) of
          Some _ \<Rightarrow> (Inl (api_error KConflict ''exists''), c)
        | None \<Rightarrow> (Inr d, c\<lparr>c_disks := (disk_id d, d\<lparr>disk_status_size := disk_spec_size d\<rparr>) # c_disks c\<rparr>)),
      disks_delete = (\<lambda>n c. case map_of (c_disks c) n of
          None \<Rightarrow> (Some (api_error KNotFound ''not found''), c)
        | Some _ \<Rightarrow> (None, c\<lparr>c_disks := AList.delete n (c_disks c)\<rparr>)),
      disks_patch = (\<lambda>n d c. case map_of (c_disks c) n of
          None \<Rightarrow> (Inl (api_error KNotFound ''not found''), c)
        | Some _ \<Rightarrow> (Inr d, c\<lparr>c_disks := (n, d\<lparr>disk_status_size := disk_spec_size d\<rparr>) # c_disks c\<rparr>)),
      disks_list = (\<lambda>f c. (Inr (filter (\<lambda>d. list_all (\<lambda>(k, v). sdk_user_labels (disk_labels d) k = Some v)
          (filter_labels f)) (map snd (AList.clearjunk (c_disks c)))), c)),
      atts_get = (\<lambda>n c. (case map_of (c_atts c) n of
          None \<Rightarrow> Inl (api_error KNotFound ''not found'') | Some a \<Rightarrow> Inr (shown n a), c)),
      atts_create = (\<lambda>a c. case map_of (c_atts c) (att_id a) of
          Some _ \<Rightarrow> (Inl (api_error KConflict ''exists''), c)
        | None \<Rightarrow>
            if has_disk_label a then
              (Inr a, c\<lparr>c_atts := (att_id a, a\<lparr>att_serial := Some ''serial''\<rparr>) # c_atts c\<rparr>)
            else (Inl (api_error KBadRequest ''bad label''), c)),
      atts_delete = (\<lambda>n c. case map_of (c_atts c) n of
          None \<Rightarrow> (Some (api_error KNotFound ''not found''), c)
        | Some _ \<Rightarrow> (None, c\<lparr>c_atts := AList.delete n (c_atts c)\<rparr>)),
      atts_list = (\<lambda>f c. (Inr (filter (\<lambda>a. list_all (\<lambda>(k, v). sdk_user_labels (att_labels a) k = Some v)
          (filter_labels f)) (map (\<lambda>(n, a). shown n a) (AList.clearjunk (c_atts c)))), c)),
      atts_wait_ready = (\<lambda>n _ c. (case map_of (c_atts c) n of
          None \<Rightarrow> Inl (api_error KNotFound ''not found'') | Some a \<Rightarrow> Inr (shown n a), c)),
      atts_wait_deleted = (\<lambda>n _ c. case map_of (c_atts c) n of
          None \<Rightarrow> (None, c) | Some _ \<Rightarrow> (Some (plain_error ''timed out''), c)),
      vms_get = (\<lambda>n c. (cloud_get (c_vms c) n, c)),
      disk_ref = (\<lambda>n. ''/compute/disks/'' @ n),
      vm_ref = (\<lambda>n. ''/compute/virtualMachines/'' @ n)\<rparr>"

definition ref_vd :: "cloud \<Rightarrow> string \<rightharpoonup> disk" where
  "ref_vd c n = map_option disk_core (map_of (c_disks c) n)"

definition ref_va :: "cloud \<Rightarrow> string \<rightharpoonup> attachment" where
  "ref_va c n = map_option (\<lambda>a. att_core (shown n a)) (map_of (c_atts c) n)"

definition ref_backend :: "cloud sdk_backend" where
  "ref_backend =
     \<lparr>client = ref_client, sdk_identifier = ''cluster-1'', vm_owner_label = '''',
      attachment_poll_timeout = 60000000000, disk_resize_poll_timeout = 60000000000,
      disk_resize_poll_interval = 2000000000\<rparr>"

section \<open>The laws\<close>

lemma shown_simps [simp]:
  "att_id (shown n a) = n" "att_disk_ref (shown n a) = att_disk_ref a" "att_vm_ref (shown n a) = att_vm_ref a"
  "sdk_user_labels (att_labels (shown n a)) attachment_disk_label = Some (extract_resource_name (att_disk_ref a))"
  by (simp_all add: shown_def sdk_user_labels_def)

lemma shown_labels: "has_disk_label a \<Longrightarrow> sdk_user_labels (att_labels a) \<subseteq>\<^sub>m sdk_user_labels (att_labels (shown n a))"
  by (auto simp: shown_def has_disk_label_def map_le_def sdk_user_labels_def)

lemma errors_is_api [simp]: "errors_is k (api_error k' s) \<longleftrightarrow> k' = k"
  by (auto simp: errors_is_def api_error_def)

lemma ref_disks_upd:
  "ref_vd (c\<lparr>c_disks := (n, d) # c_disks c\<rparr>) = (ref_vd c)(n \<mapsto> disk_core d)"
  "ref_vd (c\<lparr>c_disks := AList.delete n (c_disks c)\<rparr>) = (ref_vd c)(n := None)"
  "ref_vd (c\<lparr>c_atts := as\<rparr>) = ref_vd c"
  by (auto simp: fun_eq_iff ref_vd_def delete_conv)

lemma ref_atts_upd:
  "ref_va (c\<lparr>c_atts := (n, a) # c_atts c\<rparr>) = (ref_va c)(n \<mapsto> att_core (shown n a))"
  "ref_va (c\<lparr>c_atts := AList.delete n (c_atts c)\<rparr>) = (ref_va c)(n := None)"
  "ref_va (c\<lparr>c_disks := ds\<rparr>) = ref_va c"
  by (auto simp: fun_eq_iff ref_va_def delete_conv)

lemma clearjunk_lookup: "(n, a) \<in> set (AList.clearjunk xs) \<longleftrightarrow> map_of xs n = Some a"
  by (metis distinct_clearjunk map_of_clearjunk map_of_eq_Some_iff)

lemma core_updates [simp]:
  "disk_core (d\<lparr>disk_status_size := sz\<rparr>) = disk_core d"
  "att_core (shown n (a\<lparr>att_serial := sn\<rparr>)) = att_core (shown n a)"
  by (simp_all add: disk_core_def att_core_def shown_def)

lemmas ref_ops = ref_client_def cloud_get_def ref_disks_upd ref_atts_upd

lemma ref_list:
  assumes "fst (atts_list ref_client f c) = Inr items"
  shows "items = filter (\<lambda>a. filter_matches f (att_labels a))
     (map (\<lambda>(n, a). shown n a) (AList.clearjunk (c_atts c)))"
  using assms by (auto simp: ref_client_def filter_matches_def list_all_iff)

lemma ref_list_sound:
  assumes "fst (atts_list ref_client f c) = Inr items" "a \<in> set items"
  shows "ref_va c (att_id a) = Some (att_core a) \<and> filter_matches f (att_labels a)"
  using assms(2) unfolding ref_list [OF assms(1)] by (auto simp: clearjunk_lookup ref_va_def)

lemma ref_list_complete:
  assumes "fst (atts_list ref_client f c) = Inr items" "ref_va c n = Some a" "filter_matches f (att_labels a)"
  shows "\<exists>x \<in> set items. att_id x = n"
proof -
  from assms(2) obtain x where "map_of (c_atts c) n = Some x" "a = att_core (shown n x)"
    by (auto simp: ref_va_def)
  with assms(3) show ?thesis
    unfolding ref_list [OF assms(1)]
    by (intro bexI [of _ "shown n x"]) (auto simp: clearjunk_lookup image_iff intro!: bexI [of _ "(n, x)"])
qed

lemma ref_list_distinct:
  assumes "fst (atts_list ref_client f c) = Inr items"
  shows "distinct (map att_id items)"
proof -
  have ids: "map att_id (map (\<lambda>(n, a). shown n a) xs) = map fst xs" for xs
    by (induction xs) auto
  have "distinct (map att_id (map (\<lambda>(n, a). shown n a) (AList.clearjunk (c_atts c))))"
    unfolding ids by (rule distinct_clearjunk)
  then show ?thesis
    unfolding ref_list [OF assms] by (rule distinct_map_filter)
qed

lemma ref_create:
  "ref_va (snd (atts_create ref_client a c)) = ref_va c \<and> (\<forall>a'. fst (atts_create ref_client a c) \<noteq> Inr a') \<or>
   (\<exists>a'. ref_va c (att_id a) = None \<and> ref_va (snd (atts_create ref_client a c)) = (ref_va c)(att_id a \<mapsto> att_core a') \<and>
      att_disk_ref a' = att_disk_ref a \<and> att_vm_ref a' = att_vm_ref a \<and>
      sdk_user_labels (att_labels a) \<subseteq>\<^sub>m sdk_user_labels (att_labels a'))"
proof (cases "map_of (c_atts c) (att_id a) = None \<and> has_disk_label a")
  case True
  then show ?thesis
    by (intro disjI2 exI [of _ "shown (att_id a) a"]) (auto simp: ref_ops ref_va_def shown_labels)
next
  case False
  then show ?thesis by (auto simp: ref_ops split: option.split)
qed

lemma ref_names:
  assumes "no_slash n"
  shows "extract_resource_name (disk_ref ref_client n) = n" "extract_resource_name (vm_ref ref_client n) = n"
  using extract_path [OF assms, of "''/compute/disks''"] extract_path [OF assms, of "''/compute/virtualMachines''"]
  by (simp_all add: ref_client_def)

interpretation ref_cloud: sdk_env ref_client ref_vd ref_va still_runtime ref_backend
proof (unfold_locales, goal_cases)
  case (27 a c)
  show ?case by (rule ref_create)
next
  case (32 f c items a)
  then show ?case by (rule ref_list_sound)
next
  case (33 f c items n a)
  then show ?case by (rule ref_list_complete)
next
  case (34 f c items)
  then show ?case by (rule ref_list_distinct)
next
  case (36 n)
  then show ?case by (rule ref_names)
next
  case (37 n)
  then show ?case by (rule ref_names)
qed (auto simp: ref_ops ref_vd_def ref_va_def ref_backend_def still_runtime_def split: option.splits)

lemmas ref_cloud_env = ref_cloud.sdk_env_axioms

definition ref_sv :: "cloud \<Rightarrow> string \<Rightarrow> string option" where
  "ref_sv c n = Option.bind (map_of (c_atts c) n) att_serial"

interpretation ref_serials: serial_api ref_client ref_vd ref_va ref_sv
  by unfold_locales (auto simp: ref_client_def ref_sv_def shown_def split: option.splits)

section \<open>A sample cloud\<close>

text \<open>Three disks, one of somebody else, and one VM with the disk \<open>csi-b\<close> attached.\<close>

definition ref_disk :: "string \<Rightarrow> string \<Rightarrow> disk" where
  "ref_disk n owner =
     \<lparr>disk_id = n, disk_labels = Some [managed_by_label \<mapsto> owner],
      disk_spec_size = Some \<lparr>size_amount = 1024, size_unit = MB\<rparr>, disk_zone = '''',
      disk_status_size = Some \<lparr>size_amount = 1024, size_unit = MB\<rparr>\<rparr>"

definition ref_attachment :: "string \<Rightarrow> string \<Rightarrow> attachment" where
  "ref_attachment d v =
     \<lparr>att_id = attachment_name d v, att_labels = Some [managed_by_label \<mapsto> ''cluster-1''],
      att_disk_ref = disk_ref ref_client d, att_vm_ref = vm_ref ref_client v,
      att_serial = Some ''serial'', att_conditions = []\<rparr>"

definition ref_state :: cloud where
  "ref_state =
     \<lparr>c_disks = [(''csi-a'', ref_disk ''csi-a'' ''cluster-1''), (''csi-b'', ref_disk ''csi-b'' ''cluster-1''),
                 (''other'', ref_disk ''other'' ''cluster-2'')],
      c_atts = [(attachment_name ''csi-b'' ''vm-1'', ref_attachment ''csi-b'' ''vm-1'')],
      c_vms = [(''vm-1'', None), (''vm-2'', None)]\<rparr>"

definition ref_world :: "cloud world" where
  "ref_world = \<lparr>sys = ref_state, mtr = initialize_metrics, clock = 0\<rparr>"

end
