(* ===== verification/Controller_Contract.thy ===== *)
theory Controller_Contract
  imports Controller Ref_Cloud
begin

text \<open>
  The controller on a backend that meets its contract: what the handlers guarantee about the
  disks and attachments in the cloud, on success and on failure, and the attach limit as an
  invariant of every handler. The locales are interpreted on the SDK backend of \<open>Sdk_Backend\<close>.
\<close>

section \<open>The handlers, branch by branch\<close>

lemma retry_None_call:
  assumes "0 \<le> max_retries (rest_api_retry s)" and "retry s n fn w = (None, w')"
  obtains w0 where "fn w0 = (None, w')"
  using retry_keeps(2) [of "\<lambda>_. True" "sleep_for (ctl_runtime s)" fn w "rest_api_retry s" n None w'] assms
  by (auto simp: retry_def)

lemma validate_capabilities_code:
  "validate_volume_capabilities caps = Some e \<Longrightarrow> status_code e = Some InvalidArgument"
  by (induction caps) (auto split: option.splits if_splits)

text \<open>The capabilities the driver accepts: single-node modes, and no read-only block volumes.\<close>

definition supported_capability :: "volume_capability \<Rightarrow> bool" where
  "supported_capability cap \<longleftrightarrow>
     cap_access_mode cap \<in> Some ` {SingleNodeWriter, SingleNodeSingleWriter, SingleNodeReaderOnly} \<and>
     \<not> (cap_access_mode cap = Some SingleNodeReaderOnly \<and> cap_is_block cap)"

lemma validate_capabilities_None:
  "validate_volume_capabilities caps = None \<longleftrightarrow> list_all supported_capability caps"
  by (induction caps) (auto simp: supported_capability_def split: option.splits if_splits)

lemma check_create_volume_Inr:
  "check_create_volume req = Inr mb \<longleftrightarrow>
     cv_name req \<noteq> '''' \<and> cv_capabilities req \<noteq> [] \<and> list_all supported_capability (cv_capabilities req) \<and>
     range_bytes (cv_capacity_range req) \<noteq> 0 \<and> mb = bytes_to_mb (range_bytes (cv_capacity_range req))"
  by (auto simp: check_create_volume_def capacity_from_range_def Let_def validate_capabilities_None [symmetric]
      validate_required_field_def split: option.splits)

lemma check_create_volume_Inl:
  "check_create_volume req = Inl e \<Longrightarrow> status_code e = Some InvalidArgument"
  by (auto simp: check_create_volume_def capacity_from_range_def Let_def
      dest: validate_required_field_code validate_capabilities_code
      split: option.splits sum.splits if_splits)

lemma create_volume_Inr:
  assumes "fst (create_volume s req w) = Inr v"
  obtains mb w1 where "check_create_volume req = Inr mb"
    "retry s ''create disk'' (create_disk_once s (''csi-'' @ cv_name req) mb
       (request_storage_class req) (request_zone req)) w = (None, w1)"
    "sys (snd (create_volume s req w)) = sys w1"
    "vol_id v = ''csi-'' @ cv_name req" "vol_capacity v = capacity_mb_to_bytes mb"
  using assms by (auto simp: create_volume_def Let_def split: sum.splits prod.splits option.splits)

lemma delete_volume_Inr:
  assumes "fst (delete_volume s vid w) = Inr u"
  obtains items w1 w2 where "list_attachments (storage s) w = (Inr items, w1)" "attached_nodes vid items = []"
    "retry s ''delete disk'' (ensure_disk_deleted (storage s) vid) w1 = (None, w2)"
    "sys (snd (delete_volume s vid w)) = sys w2" "vid \<noteq> ''''"
  using assms by (auto simp: delete_volume_def Let_def split: sum.splits prod.splits option.splits if_splits)

lemma attached_nodes_Nil:
  "attached_nodes vid items = [] \<longleftrightarrow> (\<forall>a \<in> set items. extract_resource_name (att_disk_ref a) \<noteq> vid)"
  by (auto simp: attached_nodes_def filter_empty_conv)

lemma check_attach_limit_None:
  assumes "fst (check_attach_limit s node w) = None"
  shows "go_less 0 (ctl_max_volumes s) \<longrightarrow>
    (\<exists>cnt. fst (count_node_attachments (storage s) node w) = Inr cnt \<and> int cnt < sint (ctl_max_volumes s))"
  using assms by (auto simp: check_attach_limit_def split: sum.splits prod.splits if_splits)

text \<open>The attach limit of a node, on the set of attached pairs.\<close>

definition disks_on :: "(string \<times> string) set \<Rightarrow> string \<Rightarrow> string set" where
  "disks_on A node = {d. (d, node) \<in> A}"

definition within_limit :: "int \<Rightarrow> (string \<times> string) set \<Rightarrow> string \<Rightarrow> bool" where
  "within_limit m A node \<longleftrightarrow> finite (disks_on A node) \<and> int (card (disks_on A node)) \<le> m"

lemma within_limit_sub:
  assumes "within_limit m A node" and sub: "disks_on A' node \<subseteq> disks_on A node"
  shows "within_limit m A' node"
  using assms(1) finite_subset [OF sub] card_mono [OF _ sub] by (simp add: within_limit_def)

lemma disks_on_mono: "A' \<subseteq> A \<Longrightarrow> disks_on A' node \<subseteq> disks_on A node"
  by (auto simp: disks_on_def)

lemma within_limit_mono: "within_limit m A node \<Longrightarrow> A' \<subseteq> A \<Longrightarrow> within_limit m A' node"
  by (rule within_limit_sub) (auto simp: disks_on_def)

lemma disks_on_insert: "disks_on (insert (d, n) A) node = (if node = n then insert d (disks_on A node) else disks_on A node)"
  by (auto simp: disks_on_def)

section \<open>The controller on a backend\<close>

locale controller_env = storage_contract sb att has_disk no_disk
  for sb :: "'c storage_backend"
    and att :: "'c \<Rightarrow> (string \<times> string) set"
    and has_disk :: "'c \<Rightarrow> string \<Rightarrow> i32 \<Rightarrow> bool"
    and no_disk :: "'c \<Rightarrow> string \<Rightarrow> bool" +
  fixes s :: "'c controller"
  assumes storage_sb [simp]: "storage s = sb"
    and retries: "0 \<le> max_retries (rest_api_retry s)"
    and after_att: "att (snd (rt_after (ctl_runtime s) d c)) \<subseteq> att c"
begin

lemma retry_att:
  assumes "\<And>w. att (sys w) \<subseteq> X \<Longrightarrow> att (sys (snd (fn w))) \<subseteq> X" and "att (sys w) \<subseteq> X"
  shows "att (sys (snd (retry s n fn w))) \<subseteq> X"
proof -
  have "att (sys (snd (sleep_for (ctl_runtime s) d w))) \<subseteq> X" if "att (sys w) \<subseteq> X" for d w
    using after_att [of d "sys w"] that by (simp add: sleep_for_def)
  from retry_keeps(1) [of "\<lambda>w. att (sys w) \<subseteq> X", OF this assms retries prod.collapse [symmetric]]
  show ?thesis by (simp add: retry_def)
qed

lemma create_volume_ok:
  assumes "fst (create_volume s req w) = Inr v"
  shows "has_disk (sys (snd (create_volume s req w))) (''csi-'' @ cv_name req)
           (bytes_to_mb (range_bytes (cv_capacity_range req)))"
proof -
  obtain mb w1 where mb: "check_create_volume req = Inr mb"
    and r: "retry s ''create disk'' (create_disk_once s (''csi-'' @ cv_name req) mb
       (request_storage_class req) (request_zone req)) w = (None, w1)"
    and w1: "sys (snd (create_volume s req w)) = sys w1"
    using create_volume_Inr [OF assms] by metis
  obtain w0 where "create_disk_once s (''csi-'' @ cv_name req) mb
       (request_storage_class req) (request_zone req) w0 = (None, w1)"
    using retry_None_call [OF retries r] .
  then obtain b where "ensure_disk_created sb (''csi-'' @ cv_name req) mb
       (request_storage_class req) (request_zone req) w0 = (Inr b, w1)"
    by (auto simp: create_disk_once_def split: sum.splits prod.splits)
  from create_disk_ok [OF this] mb show ?thesis by (simp add: w1 check_create_volume_Inr)
qed

lemma create_volume_att: "att (sys (snd (create_volume s req w))) \<subseteq> att (sys w)"
proof -
  have "att (sys (snd (create_disk_once s vid mb sc z w'))) \<subseteq> X" if "att (sys w') \<subseteq> X" for X vid mb sc z w'
    using that create_disk_att [of vid mb sc z w']
    by (simp add: create_disk_once_def case_prod_beta split: sum.split)
  from retry_att [OF this subset_refl] show ?thesis
    by (simp add: create_volume_def Let_def case_prod_beta split: sum.split option.split)
qed

lemma delete_volume_ok:
  assumes "fst (delete_volume s vid w) = Inr u"
  shows "no_disk (sys (snd (delete_volume s vid w))) vid" "(vid, node) \<notin> att (sys w)"
proof -
  obtain items w1 w2 where l: "list_attachments (storage s) w = (Inr items, w1)"
    and n: "attached_nodes vid items = []"
    and r: "retry s ''delete disk'' (ensure_disk_deleted (storage s) vid) w1 = (None, w2)"
    and w2: "sys (snd (delete_volume s vid w)) = sys w2"
    using delete_volume_Inr [OF assms] by metis
  obtain w0 where "ensure_disk_deleted (storage s) vid w0 = (None, w2)"
    using retry_None_call [OF retries r] .
  then show "no_disk (sys (snd (delete_volume s vid w))) vid"
    using delete_disk_ok [of vid w0 w2] by (simp add: w2)
  show "(vid, node) \<notin> att (sys w)"
    using list_attachments_ok [of w items w1 vid node] l n by (auto simp: attached_nodes_Nil)
qed

text \<open>While a node holds the volume the disk is not touched: the handler ends after listing.\<close>

lemma delete_volume_attached:
  assumes "(vid, node) \<in> att (sys w)" "vid \<noteq> ''''"
  shows "snd (delete_volume s vid w) = snd (list_attachments sb w)"
    and "\<exists>e. fst (delete_volume s vid w) = Inl e \<and> status_code e \<in> {Some FailedPrecondition, Some Internal}"
proof -
  have "attached_nodes vid items \<noteq> []" if "fst (list_attachments sb w) = Inr items" for items
    using list_attachments_ok [of w items _ vid node] assms(1) that
    by (metis attached_nodes_Nil prod.collapse)
  with assms(2) show "snd (delete_volume s vid w) = snd (list_attachments sb w)"
      "\<exists>e. fst (delete_volume s vid w) = Inl e \<and> status_code e \<in> {Some FailedPrecondition, Some Internal}"
    by (simp_all add: delete_volume_def Let_def case_prod_beta validate_required_field_def split: sum.split)
qed

lemma delete_volume_att: "att (sys (snd (delete_volume s vid w))) \<subseteq> att (sys w)"
proof -
  have "att (sys (snd (ensure_disk_deleted sb vid w'))) \<subseteq> X" if "att (sys w') \<subseteq> X" for X w'
    using that delete_disk_att [of vid w'] by simp
  from retry_att [OF this] list_attachments_att [of w] show ?thesis
    by (simp add: delete_volume_def Let_def case_prod_beta split: sum.split option.split)
qed

lemma check_attach_limit_att: "att (sys (snd (check_attach_limit s node w))) = att (sys w)"
  using count_att [of node w] by (simp add: check_attach_limit_def case_prod_beta split: sum.split)

lemma check_attach_limit_room:
  assumes "fst (check_attach_limit s node w) = None" "go_less 0 (ctl_max_volumes s)"
  shows "finite (disks_on (att (sys w)) node)"
    and "int (card (disks_on (att (sys w)) node)) < sint (ctl_max_volumes s)"
proof -
  obtain cnt where cnt: "fst (count_node_attachments sb node w) = Inr cnt" "int cnt < sint (ctl_max_volumes s)"
    using check_attach_limit_None [OF assms(1)] assms(2) by auto
  then have "count_node_attachments sb node w = (Inr cnt, snd (count_node_attachments sb node w))"
    by (simp add: prod_eq_iff)
  from count_ok [OF this] cnt(2) show "finite (disks_on (att (sys w)) node)"
    "int (card (disks_on (att (sys w)) node)) < sint (ctl_max_volumes s)"
    unfolding disks_on_def by auto
qed

text \<open>Room for one more disk is what the check of the limit establishes.\<close>

lemma check_attach_limit_insert:
  assumes "fst (check_attach_limit s node w) = None" "go_less 0 (ctl_max_volumes s)"
  shows "within_limit (sint (ctl_max_volumes s)) (insert (d, node) (att (sys w))) node"
  using check_attach_limit_room [OF assms]
  by (simp add: within_limit_def disks_on_insert card_insert_if)

lemma attach_volume_att:
  assumes "no_slash vid" "no_slash node"
  shows "att (sys (snd (attach_volume s vid node w))) \<subseteq> insert (vid, node) (att (sys w))"
proof -
  have "att (sys (snd (ensure_attachment_created sb vid node w'))) \<subseteq> insert (vid, node) (att (sys w))"
    if "att (sys w') \<subseteq> insert (vid, node) (att (sys w))" for w'
    using attach_bound [OF assms, of w'] that by blast
  from retry_att [OF this subset_insertI] show ?thesis
    by (simp add: attach_volume_def case_prod_beta split: option.split)
qed

lemma publish_serial_att: "att (sys (snd (publish_serial s vid node w))) = att (sys w)"
  using serial_att [of vid node w] by (simp add: publish_serial_def case_prod_beta split: sum.split)

text \<open>A publish adds at most its own pair, and only if the node had room.\<close>

lemma publish_att:
  assumes "no_slash (pb_volume_id req)" "no_slash (pb_node_id req)"
  shows "att (sys (snd (publish_locked s req w))) \<subseteq> att (sys w) \<or>
     fst (check_attach_limit s (pb_node_id req) w) = None \<and>
     att (sys (snd (publish_locked s req w))) \<subseteq> insert (pb_volume_id req, pb_node_id req) (att (sys w))"
  using attach_volume_att [OF assms, of "snd (check_attach_limit s (pb_node_id req) w)"]
  by (simp add: publish_locked_def case_prod_beta check_attach_limit_att publish_serial_att split: option.split)

lemma publish_keeps_limit:
  assumes "no_slash (pb_volume_id req)" "no_slash (pb_node_id req)"
    and lim: "go_less 0 (ctl_max_volumes s)" and "within_limit (sint (ctl_max_volumes s)) (att (sys w)) node"
  shows "within_limit (sint (ctl_max_volumes s)) (att (sys (snd (publish_locked s req w)))) node"
  using publish_att [OF assms(1,2), of w]
proof
  assume "att (sys (snd (publish_locked s req w))) \<subseteq> att (sys w)"
  with assms(4) show ?thesis by (rule within_limit_mono)
next
  assume a: "fst (check_attach_limit s (pb_node_id req) w) = None \<and>
    att (sys (snd (publish_locked s req w))) \<subseteq> insert (pb_volume_id req, pb_node_id req) (att (sys w))"
  show ?thesis
  proof (cases "node = pb_node_id req")
    case True
    with a lim show ?thesis using check_attach_limit_insert within_limit_mono by blast
  next
    case False
    with a have "disks_on (att (sys (snd (publish_locked s req w)))) node \<subseteq> disks_on (att (sys w)) node"
      by (auto simp: disks_on_def)
    with assms(4) show ?thesis by (rule within_limit_sub)
  qed
qed

lemma unpublish_att: "att (sys (snd (unpublish_locked s vid node w))) \<subseteq> att (sys w)"
proof -
  have "att (sys (snd (ensure_attachment_deleted sb vid node w'))) \<subseteq> X" if "att (sys w') \<subseteq> X" for X w'
    using that detach_bound [of vid node w'] by blast
  from retry_att [OF this subset_refl] show ?thesis
    by (simp add: unpublish_locked_def case_prod_beta split: option.split)
qed

end

locale exact_controller_env = exact_storage_contract + controller_env
begin

lemma publish_ok:
  assumes "no_slash (pb_volume_id req)" "no_slash (pb_node_id req)"
    and "fst (publish_locked s req w) = Inr ctx"
  shows "(pb_volume_id req, pb_node_id req) \<in> att (sys (snd (publish_locked s req w)))"
    and "(pb_volume_id req, node) \<in> att (sys (snd (publish_locked s req w))) \<Longrightarrow> node = pb_node_id req"
    and "\<exists>serial. ctx = [''serial'' \<mapsto> serial] \<and> serial \<noteq> ''''"
proof -
  let ?d = "pb_volume_id req" and ?n = "pb_node_id req"
  obtain w1 w2 where a: "attach_volume s ?d ?n w1 = (None, w2)"
    and p: "publish_locked s req w = publish_serial s ?d ?n w2" "fst (publish_serial s ?d ?n w2) = Inr ctx"
    using assms(3) by (auto simp: publish_locked_def split: prod.splits option.splits)
  have "retry s ''create attachment'' (ensure_attachment_created (storage s) ?d ?n) w1 = (None, w2)"
    using a by (auto simp: attach_volume_def split: prod.splits option.splits)
  from retry_None_call [OF retries this] obtain w0 where w0: "ensure_attachment_created sb ?d ?n w0 = (None, w2)"
    by auto
  show "(?d, ?n) \<in> att (sys (snd (publish_locked s req w)))"
    using attach_ok [OF assms(1,2) w0] by (simp add: p(1) publish_serial_att)
  show "(?d, node) \<in> att (sys (snd (publish_locked s req w))) \<Longrightarrow> node = ?n"
    using attach_single [OF assms(1,2) w0] by (simp add: p(1) publish_serial_att)
  show "\<exists>serial. ctx = [''serial'' \<mapsto> serial] \<and> serial \<noteq> ''''"
    using p(2) serial_ok [of ?d ?n w2] by (auto simp: publish_serial_def split: prod.splits sum.splits)
qed

lemma unpublish_ok:
  assumes "no_slash vid" "no_slash node" "fst (unpublish_locked s vid node w) = Inr u"
  shows "(vid, node) \<notin> att (sys (snd (unpublish_locked s vid node w)))"
proof -
  obtain w1 where r: "retry s ''delete attachment'' (ensure_attachment_deleted (storage s) vid node) w = (None, w1)"
    and w1: "sys (snd (unpublish_locked s vid node w)) = sys w1"
    using assms(3) by (auto simp: unpublish_locked_def split: prod.splits option.splits)
  from retry_None_call [OF retries r] obtain w0 where "ensure_attachment_deleted sb vid node w0 = (None, w1)"
    by auto
  from detach_ok [OF assms(1,2) this] show ?thesis by (simp add: w1)
qed

end

text \<open>The controller of the driver: on the SDK backend, with its runtime.\<close>

locale sdk_controller = sdk_env +
  fixes s :: "'a controller"
  assumes storage_sdk: "storage s = sdk_storage_backend rt b"
    and retries_set: "0 \<le> max_retries (rest_api_retry s)"
    and after_va: "va (snd (rt_after (ctl_runtime s) d c)) = va c"
    and after_vd: "vd (snd (rt_after (ctl_runtime s) d c)) = vd c"

sublocale sdk_controller \<subseteq> ctl: exact_controller_env "sdk_storage_backend rt b"
  "own_attachments va b" "own_disk vd b" "no_disk vd" s
  by unfold_locales (auto simp: storage_sdk retries_set after_va intro!: equalityD1 own_attachments_same)

context sdk_controller
begin

lemma controller_exact:
  "exact_controller_env (sdk_storage_backend rt b) (own_attachments va b) (own_disk vd b) (no_disk vd) s"
  by unfold_locales

lemma controller_base:
  "controller_env (sdk_storage_backend rt b) (own_attachments va b) (own_disk vd b) (no_disk vd) s"
  by unfold_locales

end

text \<open>What \<open>CreateVolume\<close> and \<open>DeleteVolume\<close> do to the disks and attachments of the cloud, retries included.\<close>

context sdk_controller
begin

lemma retry_views:
  assumes "\<And>w. P (vd (sys w)) (va (sys w)) \<Longrightarrow> P (vd (sys (snd (fn w)))) (va (sys (snd (fn w))))"
    and "P (vd (sys w)) (va (sys w))"
  shows "P (vd (sys (snd (retry s n fn w)))) (va (sys (snd (retry s n fn w))))"
proof -
  have "P (vd (sys (snd (sleep_for (ctl_runtime s) d w)))) (va (sys (snd (sleep_for (ctl_runtime s) d w))))"
    if "P (vd (sys w)) (va (sys w))" for d w
    using that by (simp add: sleep_for_def after_vd after_va)
  from retry_keeps(1) [of "\<lambda>w. P (vd (sys w)) (va (sys w))", OF this assms retries_set prod.collapse [symmetric]]
  show ?thesis by (simp add: retry_def)
qed

lemma create_volume_disk:
  assumes "fst (create_volume s req w) = Inr v" and "check_create_volume req = Inr mb"
  shows "vd (sys (snd (create_volume s req w))) (vol_id v) =
     (case vd (sys w) (vol_id v) of
        None \<Rightarrow> Some (disk_request b (vol_id v) mb (request_zone req)) | Some d \<Rightarrow> Some d)"
proof -
  let ?n = "''csi-'' @ cv_name req"
  let ?once = "create_disk_once s ?n mb (request_storage_class req) (request_zone req)"
  let ?new = "disk_request b ?n mb (request_zone req)"
  obtain w1 where r: "retry s ''create disk'' ?once w = (None, w1)"
    and w1: "sys (snd (create_volume s req w)) = sys w1" and n: "vol_id v = ?n"
    using create_volume_Inr [OF assms(1)] assms(2) by (metis sum.inject(2))
  let ?P = "\<lambda>m (m' :: string \<rightharpoonup> attachment). m ?n = vd (sys w) ?n \<or> vd (sys w) ?n = None \<and> m ?n = Some ?new"
  have "?P (vd (sys (snd (retry s ''create disk'' ?once w)))) (va (sys (snd (retry s ''create disk'' ?once w))))"
  proof (rule retry_views)
    fix w' :: "'a world" assume "?P (vd (sys w')) (va (sys w'))"
    then show "?P (vd (sys (snd (?once w')))) (va (sys (snd (?once w'))))"
      using create_disk_vd [of ?n mb "request_storage_class req" "request_zone req" w']
      by (auto simp: create_disk_once_def storage_sdk sdk_storage_backend_def case_prod_beta created_disk split: sum.split)
  qed simp
  then have *: "?P (vd (sys w1)) (va (sys w1))" unfolding r snd_conv .
  have "\<exists>d. vd (sys w1) ?n = Some d"
    using ctl.create_volume_ok [OF assms(1)] w1 by (auto simp: own_disk_def)
  with * show ?thesis by (auto simp: w1 n split: option.split)
qed

lemma delete_volume_views:
  "va (sys (snd (delete_volume s vid w))) = va (sys w) \<and>
   (\<forall>m. m \<noteq> vid \<longrightarrow> vd (sys (snd (delete_volume s vid w))) m = vd (sys w) m)"
proof -
  let ?P = "\<lambda>m m'. m' = va (sys w) \<and> (\<forall>k. k \<noteq> vid \<longrightarrow> m k = vd (sys w) k)"
  have step: "?P (vd (sys (snd (sdk_ensure_disk_deleted b vid w')))) (va (sys (snd (sdk_ensure_disk_deleted b vid w'))))"
    if "?P (vd (sys w')) (va (sys w'))" for w' :: "'a world"
    using that delete_disk_vd [of vid w'] by auto
  let ?w = "snd (sdk_list_attachments b w)"
  have "snd (delete_volume s vid w) = w \<or> sys (snd (delete_volume s vid w)) \<in>
      {sys ?w, sys (snd (retry s ''delete disk'' (sdk_ensure_disk_deleted b vid) ?w))}"
    by (simp add: delete_volume_def storage_sdk sdk_storage_backend_def Let_def case_prod_beta
        split: sum.split option.split)
  moreover have l: "?P (vd (sys ?w)) (va (sys ?w))" by simp
  moreover have "?P (vd (sys (snd (retry s ''delete disk'' (sdk_ensure_disk_deleted b vid) ?w))))
      (va (sys (snd (retry s ''delete disk'' (sdk_ensure_disk_deleted b vid) ?w))))"
    by (rule retry_views [where P = ?P]) (rule step, assumption, rule l)
  ultimately show ?thesis by auto
qed

end

text \<open>The serials of the cloud, for the publish context.\<close>

locale serial_controller = sdk_controller + serial_api
begin

lemma publish_serial_recorded:
  assumes "fst (publish_locked s req w) = Inr [''serial'' \<mapsto> serial]"
  shows "sv (sys (snd (publish_locked s req w))) (attachment_name (pb_volume_id req) (pb_node_id req)) = Some serial"
proof -
  let ?d = "pb_volume_id req" and ?n = "pb_node_id req"
  obtain w2 where p: "publish_locked s req w = publish_serial s ?d ?n w2"
    using assms by (auto simp: publish_locked_def split: prod.splits option.splits)
  with assms have "fst (sdk_wait_for_attachment_serial b ?d ?n w2) = Inr serial"
    by (auto simp: publish_serial_def storage_sdk sdk_storage_backend_def case_prod_beta split: sum.splits
        dest: map_upd_eqD1)
  from serial_recorded [OF client_cl this] this show ?thesis
    by (simp add: p publish_serial_def storage_sdk sdk_storage_backend_def case_prod_beta)
qed

end

lemmas sdk_exact = sdk_controller.controller_exact
lemmas sdk_base = sdk_controller.controller_base

definition ref_controller :: "cloud controller" where
  "ref_controller =
     \<lparr>storage = sdk_storage_backend still_runtime ref_backend, ctl_runtime = still_runtime,
      total_capacity_gb = 1000, ctl_max_volumes = 2, metrics_collection_interval = 0,
      rest_api_retry = \<lparr>max_retries = 3, initial_delay = 1, max_delay = 10\<rparr>\<rparr>"

interpretation ref_ctl: sdk_controller ref_client ref_vd ref_va still_runtime ref_backend ref_controller
  by unfold_locales (simp_all add: ref_controller_def still_runtime_def)

lemmas ref_ctl_env = ref_ctl.sdk_controller_axioms

interpretation ref_serial_ctl: serial_controller ref_client ref_vd ref_va still_runtime ref_backend ref_controller ref_sv
  by unfold_locales

lemmas ref_serial_env = ref_serial_ctl.serial_controller_axioms

end
