(* ===== verification/Handlers.thy ===== *)
theory Handlers
  imports Controller
begin

text \<open>
  The handlers of the controller as steps of the world, and the rule for what any sequence of
  them keeps: the property has to be kept by every call of the backend, every wait and every
  update of the metrics. The locale \<open>kept_others\<close> asks this of the calls that do not attach or
  detach and covers every handler but publish and unpublish; \<open>kept\<close> extends it to all.
\<close>

section \<open>Whole runs of the controller\<close>

datatype rpc =
    RpcCreate create_volume_request
  | RpcDelete string
  | RpcPublish publish_request
  | RpcUnpublish string string
  | RpcValidate string "volume_capability list"
  | RpcList i32 string
  | RpcCapacity
  | RpcExpand string "capacity_range option"
  | CollectMetrics

fun rpc_step :: "(attachment \<Rightarrow> bool) \<Rightarrow> 'c controller \<Rightarrow> rpc \<Rightarrow> 'c world \<Rightarrow> 'c world" where
  "rpc_step ready s (RpcCreate req) w = snd (create_volume s req w)"
| "rpc_step ready s (RpcDelete vid) w = snd (delete_volume s vid w)"
| "rpc_step ready s (RpcPublish req) w =
     (if check_publish_request req = None then snd (publish_locked s req w) else w)"
| "rpc_step ready s (RpcUnpublish vid node) w =
     (if check_unpublish_request vid node = None then snd (unpublish_locked s vid node w) else w)"
| "rpc_step ready s (RpcValidate vid caps) w = snd (validate_capabilities_rpc s vid caps w)"
| "rpc_step ready s (RpcList m token) w = snd (list_volumes ready s m token w)"
| "rpc_step ready s RpcCapacity w = snd (get_capacity s w)"
| "rpc_step ready s (RpcExpand vid cr) w = snd (controller_expand_volume s vid cr w)"
| "rpc_step ready s CollectMetrics w = collect_attachment_metrics ready s w"

definition rpc_run :: "(attachment \<Rightarrow> bool) \<Rightarrow> 'c controller \<Rightarrow> rpc list \<Rightarrow> 'c world \<Rightarrow> 'c world" where
  "rpc_run ready s rpcs w = fold (rpc_step ready s) rpcs w"

text \<open>The handlers that take no node lock.\<close>

fun takes_no_lock :: "rpc \<Rightarrow> bool" where
  "takes_no_lock (RpcPublish _) = False"
| "takes_no_lock (RpcUnpublish _ _) = False"
| "takes_no_lock _ = True"

locale kept_others =
  fixes s :: "'c controller" and P :: "'c world \<Rightarrow> bool"
  assumes other_call: "\<not> changes_attachments c \<Longrightarrow> P w \<Longrightarrow> P (storage_step (storage s) c w)"
    and sleep: "P w \<Longrightarrow> P (snd (sleep_for (ctl_runtime s) d w))"
    and update: "P w \<Longrightarrow> (\<And>m. metrics_balanced m \<Longrightarrow> metrics_balanced (f m)) \<Longrightarrow> P (on_metrics f w)"
begin

lemmas calls = other_call [of "EnsureDiskCreated n mb sc z" for n mb sc z, simplified]
  other_call [of "EnsureDiskDeleted n" for n, simplified]
  other_call [of "GetDiskAndValidateOwnership n" for n, simplified] other_call [of ListDisks, simplified]
  other_call [of ListAttachments, simplified] other_call [of "CountNodeAttachments v" for v, simplified]
  other_call [of "WaitForAttachmentSerial d v" for d v, simplified]
  other_call [of "EnsureDiskResized n mb" for n mb, simplified]

lemma retried:
  assumes "\<And>w. P w \<Longrightarrow> P (snd (fn w))" and "P w"
  shows "P (snd (retry s n fn w))"
proof (cases "0 \<le> max_retries (rest_api_retry s)")
  case True
  from retry_keeps(1) [of P, OF sleep assms True prod.collapse [symmetric]] show ?thesis
    by (simp add: retry_def)
next
  case False
  with assms(2) show ?thesis by (simp add: retry_def retry_negative)
qed

lemma created: "P w \<Longrightarrow> P (snd (create_disk_once s vid mb sc z w))"
  using calls(1) [of w vid mb sc z] by (simp add: create_disk_once_def case_prod_beta split: sum.split)

lemma other_step: "takes_no_lock r \<Longrightarrow> P w \<Longrightarrow> P (rpc_step ready s r w)"
proof (induction r)
  case (RpcCreate req)
  then show ?case
    by (auto simp: create_volume_def Let_def case_prod_beta intro!: update retried created
        split: sum.split option.split)
next
  case (RpcDelete vid)
  then show ?case
    by (auto simp: delete_volume_def Let_def case_prod_beta intro!: update retried calls
        split: sum.split option.split)
next
  case (RpcValidate vid caps)
  then show ?case
    by (auto simp: validate_capabilities_rpc_def case_prod_beta intro!: calls split: sum.split option.split)
next
  case (RpcList m token)
  then show ?case
    by (auto simp: list_volumes_def Let_def case_prod_beta intro!: calls split: sum.split option.split)
next
  case RpcCapacity
  then show ?case by (auto simp: get_capacity_def Let_def case_prod_beta intro!: calls split: sum.split)
next
  case (RpcExpand vid cr)
  then show ?case
    by (auto simp: controller_expand_volume_def case_prod_beta intro!: update retried calls
        split: sum.split option.split)
next
  case CollectMetrics
  then show ?case
    by (auto simp: collect_attachment_metrics_def case_prod_beta intro!: update calls split: sum.split)
qed simp_all

end

locale kept = kept_others +
  assumes attach_call: "changes_attachments c \<Longrightarrow> P w \<Longrightarrow> P (storage_step (storage s) c w)"
begin

lemmas attach_calls = attach_call [of "EnsureAttachmentCreated d v" for d v, simplified]
  attach_call [of "EnsureAttachmentDeleted d v" for d v, simplified]

lemma step: "P w \<Longrightarrow> P (rpc_step ready s r w)"
proof (cases r)
  assume w: "P w"
  case (RpcPublish req)
  have limit: "P (snd (check_attach_limit s node w))" if "P w" for node w
    using that by (auto simp: check_attach_limit_def case_prod_beta intro!: calls split: sum.split)
  have attach: "P (snd (attach_volume s vid node w))" if "P w" for vid node w
    using that by (auto simp: attach_volume_def case_prod_beta intro!: update retried attach_calls split: option.split)
  have serial: "P (snd (publish_serial s vid node w))" if "P w" for vid node w
    using that by (auto simp: publish_serial_def case_prod_beta intro!: update calls split: sum.split)
  from RpcPublish w show ?thesis
    by (auto simp: publish_locked_def case_prod_beta intro!: limit attach serial split: option.split)
next
  assume w: "P w"
  case (RpcUnpublish vid node)
  then show ?thesis
    using w by (auto simp: unpublish_locked_def case_prod_beta intro!: update retried attach_calls split: option.split)
qed (simp_all add: other_step del: rpc_step.simps)

lemma run: "P w \<Longrightarrow> P (rpc_run ready s rpcs w)"
  unfolding rpc_run_def by (induction rpcs arbitrary: w) (simp_all add: step)

end

end
