(* ===== verification/Accounting.thy ===== *)
theory Accounting
  imports Controller_Contract Handlers
begin

text \<open>
  What the handlers of the controller record in the counters of the volume operations
  (\<open>RecordVolumeOperation\<close>, \<open>RecordVolumeOperationError\<close>), read off the outcome of each call, on a
  backend that leaves these counters alone (the locale \<open>uncounted_backend\<close>, met by the SDK backend,
  which counts its calls of the API only).
\<close>

section \<open>What a call records\<close>

definition outcome_text :: "go_error + 'a \<Rightarrow> string" where
  "outcome_text r = (case r of Inl _ \<Rightarrow> ''failure'' | Inr _ \<Rightarrow> ''success'')"

text \<open>
  The operation and the status a call counts under, if it counts at all: a request refused by its
  checks does not, nor one that fails before the operation is tried. A publish whose wait for the
  serial fails records nothing, and a resize records only its failure.
\<close>

fun rpc_record :: "'c controller \<Rightarrow> rpc \<Rightarrow> 'c world \<Rightarrow> (string \<times> string) option" where
  "rpc_record s (RpcCreate req) w =
     (case check_create_volume req of
        Inl _ \<Rightarrow> None
      | Inr _ \<Rightarrow> Some (''create'', outcome_text (fst (create_volume s req w))))"
| "rpc_record s (RpcDelete vid) w =
     (case fst (list_attachments (storage s) w) of
        Inl _ \<Rightarrow> None
      | Inr items \<Rightarrow>
          if vid = '''' \<or> attached_nodes vid items \<noteq> [] then None
          else Some (''delete'', outcome_text (fst (delete_volume s vid w))))"
| "rpc_record s (RpcPublish req) w =
     (if check_publish_request req \<noteq> None \<or> fst (check_attach_limit s (pb_node_id req) w) \<noteq> None then None
      else if fst (attach_volume s (pb_volume_id req) (pb_node_id req)
                     (snd (check_attach_limit s (pb_node_id req) w))) \<noteq> None then Some (''attach'', ''failure'')
      else (case fst (publish_locked s req w) of Inl _ \<Rightarrow> None | Inr _ \<Rightarrow> Some (''attach'', ''success'')))"
| "rpc_record s (RpcUnpublish vid node) w =
     (if check_unpublish_request vid node \<noteq> None then None
      else Some (''detach'', outcome_text (fst (unpublish_locked s vid node w))))"
| "rpc_record s (RpcExpand vid cr) w =
     (case fst (controller_expand_volume s vid cr w) of
        Inl _ \<Rightarrow> if vid = '''' \<or> range_bytes cr = 0 then None else Some (''resize'', ''failure'')
      | Inr _ \<Rightarrow> None)"
| "rpc_record s _ w = None"

text \<open>The records of a run, in the order of the calls.\<close>

fun run_records :: "(attachment \<Rightarrow> bool) \<Rightarrow> 'c controller \<Rightarrow> rpc list \<Rightarrow> 'c world \<Rightarrow> (string \<times> string) list" where
  "run_records ready s [] w = []"
| "run_records ready s (r # rs) w =
     (case rpc_record s r w of None \<Rightarrow> [] | Some x \<Rightarrow> [x]) @ run_records ready s rs (rpc_step ready s r w)"

text \<open>The effect of one record on the counters.\<close>

definition counted_as :: "(string \<times> string) option \<Rightarrow> op_metrics \<Rightarrow> op_metrics" where
  "counted_as r m =
     (case r of
        None \<Rightarrow> m
      | Some (o', st) \<Rightarrow> if st = ''success'' then op_success o' m else op_failure o' ''internal'' m)"

section \<open>The handlers\<close>

lemma volume_ops_steps [simp]:
  "volume_ops (record_volume_operation o' m) = op_success o' (volume_ops m)"
  "volume_ops (record_volume_operation_error o' e m) = op_failure o' e (volume_ops m)"
  "volume_ops (update_volume_state st k m) = volume_ops m" "volume_ops (set_volume_size v z m) = volume_ops m"
  "volume_ops (delete_volume_size v m) = volume_ops m" "volume_ops (update_attachment_state st k m) = volume_ops m"
  "volume_ops (set_attachment_state st k m) = volume_ops m"
  "volume_ops (record_api_call a m) = volume_ops m" "volume_ops (record_api_call_error a e m) = volume_ops m"
  by (simp_all add: metrics_defs)

lemma counted_as_simps [simp]:
  "counted_as None m = m" "counted_as (Some (o', ''success'')) m = op_success o' m"
  "counted_as (Some (o', ''failure'')) m = op_failure o' ''internal'' m"
  by (simp_all add: counted_as_def)

abbreviation vops :: "'c world \<Rightarrow> op_metrics" where
  "vops w \<equiv> volume_ops (mtr w)"

locale uncounted_backend =
  fixes s :: "'c controller"
  assumes backend_vops: "vops (storage_step (storage s) c w) = vops w"
begin

lemmas calls_vops [simp] =
  backend_vops [of "EnsureDiskCreated n mb sc z" for n mb sc z, simplified]
  backend_vops [of "EnsureDiskDeleted n" for n, simplified]
  backend_vops [of "GetDiskAndValidateOwnership n" for n, simplified] backend_vops [of ListDisks, simplified]
  backend_vops [of ListAttachments, simplified] backend_vops [of "CountNodeAttachments v" for v, simplified]
  backend_vops [of "EnsureAttachmentCreated d v" for d v, simplified]
  backend_vops [of "WaitForAttachmentSerial d v" for d v, simplified]
  backend_vops [of "EnsureAttachmentDeleted d v" for d v, simplified]
  backend_vops [of "EnsureDiskResized n mb" for n mb, simplified]

lemma retried_vops:
  assumes "\<And>w. vops (snd (fn w)) = vops w"
  shows "vops (snd (retry s n fn w)) = vops w"
proof (cases "0 \<le> max_retries (rest_api_retry s)")
  case True
  have "vops (snd (sleep_for (ctl_runtime s) d w')) = vops w'" for d w' by (simp add: sleep_for_def)
  then show ?thesis
    using retry_keeps(1) [of "\<lambda>w'. vops w' = vops w", OF _ _ refl True prod.collapse [symmetric]] assms
    by (simp add: retry_def)
next
  case False
  then show ?thesis by (simp add: retry_def retry_negative)
qed

lemma created_vops [simp]: "vops (snd (create_disk_once s vid mb sc z w)) = vops w"
  by (simp add: create_disk_once_def case_prod_beta split: sum.split)

lemmas retried_calls [simp] =
  retried_vops [of "create_disk_once s vid mb sc z" for vid mb sc z, OF created_vops]
  retried_vops [of "ensure_disk_deleted (storage s) n" for n, OF calls_vops(2)]
  retried_vops [of "ensure_attachment_created (storage s) d v" for d v, OF calls_vops(7)]
  retried_vops [of "ensure_attachment_deleted (storage s) d v" for d v, OF calls_vops(9)]
  retried_vops [of "ensure_disk_resized (storage s) n mb" for n mb, OF calls_vops(10)]

lemma limit_vops [simp]: "vops (snd (check_attach_limit s node w)) = vops w"
  by (simp add: check_attach_limit_def case_prod_beta split: sum.split)

lemma create_vops: "vops (snd (create_volume s req w)) = counted_as (rpc_record s (RpcCreate req) w) (vops w)"
  by (simp add: create_volume_def outcome_text_def Let_def case_prod_beta split: sum.split option.split)

lemma delete_vops: "vops (snd (delete_volume s vid w)) = counted_as (rpc_record s (RpcDelete vid) w) (vops w)"
  by (simp add: delete_volume_def validate_required_field_def outcome_text_def Let_def case_prod_beta
      split: sum.split option.split)

lemma attach_vops:
  "vops (snd (attach_volume s vid node w)) =
     (if fst (attach_volume s vid node w) = None then vops w else op_failure ''attach'' ''internal'' (vops w))"
  by (simp add: attach_volume_def case_prod_beta split: option.split)

lemma serial_vops:
  "vops (snd (publish_serial s vid node w)) =
     (case fst (publish_serial s vid node w) of Inl _ \<Rightarrow> vops w | Inr _ \<Rightarrow> op_success ''attach'' (vops w))"
  by (simp add: publish_serial_def case_prod_beta split: sum.split)

lemma publish_vops:
  "check_publish_request req = None \<Longrightarrow>
     vops (snd (publish_locked s req w)) = counted_as (rpc_record s (RpcPublish req) w) (vops w)"
  by (simp add: publish_locked_def case_prod_beta attach_vops serial_vops split: option.split sum.split)

lemma unpublish_vops:
  "check_unpublish_request vid node = None \<Longrightarrow>
     vops (snd (unpublish_locked s vid node w)) = counted_as (rpc_record s (RpcUnpublish vid node) w) (vops w)"
  by (simp add: unpublish_locked_def outcome_text_def case_prod_beta split: option.split)

lemma expand_vops:
  "vops (snd (controller_expand_volume s vid cr w)) = counted_as (rpc_record s (RpcExpand vid cr) w) (vops w)"
  by (simp add: controller_expand_volume_def capacity_from_range_def validate_required_field_def Let_def
      case_prod_beta split: option.split)

lemma step_vops: "vops (rpc_step ready s r w) = counted_as (rpc_record s r w) (vops w)"
proof (cases r)
  case (RpcValidate vid caps)
  then show ?thesis
    by (simp add: validate_capabilities_rpc_def case_prod_beta split: option.split sum.split)
next
  case (RpcList m token)
  then show ?thesis by (simp add: list_volumes_def Let_def case_prod_beta split: option.split sum.split)
next
  case RpcCapacity
  then show ?thesis by (simp add: get_capacity_def Let_def case_prod_beta split: sum.split)
next
  case CollectMetrics
  then show ?thesis by (simp add: collect_attachment_metrics_def case_prod_beta split: sum.split)
qed (simp_all add: create_vops delete_vops publish_vops unpublish_vops expand_vops del: rpc_record.simps,
     simp_all)

end

section \<open>The counters after a run\<close>

definition records_of :: "(string \<times> string) option \<Rightarrow> (string \<times> string) list" where
  "records_of r = (case r of None \<Rightarrow> [] | Some x \<Rightarrow> [x])"

lemma counted_as_counts:
  assumes "\<forall>x \<in> set (records_of r). snd x \<in> {''success'', ''failure''}"
  shows "op_total (counted_as r m) k = op_total m k + count_list (records_of r) k"
    "op_duration (counted_as r m) o' = op_duration m o' + count_list (map fst (records_of r)) o'"
    "op_errors (counted_as r m) (o', ''internal'') = op_errors m (o', ''internal'') + count_list (records_of r) (o', ''failure'')"
  using assms
  by (auto simp: counted_as_def records_of_def op_success_def op_failure_def count_up_def split: option.splits)

lemma record_status: "x \<in> set (records_of (rpc_record s r w)) \<Longrightarrow> snd x \<in> {''success'', ''failure''}"
  by (cases r) (auto simp: records_of_def outcome_text_def split: sum.splits option.splits if_splits)

context uncounted_backend
begin

lemma run_counts:
  "op_total (vops (rpc_run ready s rpcs w)) k = op_total (vops w) k + count_list (run_records ready s rpcs w) k \<and>
   op_duration (vops (rpc_run ready s rpcs w)) o' =
     op_duration (vops w) o' + count_list (map fst (run_records ready s rpcs w)) o' \<and>
   op_errors (vops (rpc_run ready s rpcs w)) (o', ''internal'') =
     op_errors (vops w) (o', ''internal'') + count_list (run_records ready s rpcs w) (o', ''failure'')"
proof (induction rpcs arbitrary: w)
  case Nil
  then show ?case by (simp add: rpc_run_def)
next
  case (Cons r rs)
  have run: "rpc_run ready s (r # rs) w = rpc_run ready s rs (rpc_step ready s r w)" by (simp add: rpc_run_def)
  have recs: "run_records ready s (r # rs) w = records_of (rpc_record s r w) @ run_records ready s rs (rpc_step ready s r w)"
    by (simp add: records_of_def)
  note c = counted_as_counts [of "rpc_record s r w"]
  show ?case
    using Cons.IH [of "rpc_step ready s r w"] c record_status [of _ s r w]
    unfolding run recs step_vops by (simp add: ball_triv)
qed

end

section \<open>The SDK backend\<close>

text \<open>The backend records its calls of the API and nothing else.\<close>

locale api_recorded =
  fixes P :: "metrics \<Rightarrow> bool"
  assumes api_ok: "P m \<Longrightarrow> P (record_api_call a m)"
    and api_failed: "P m \<Longrightarrow> P (record_api_call_error a e m)"
begin

lemma record_kept [simp]:
  "P (mtr w) \<Longrightarrow> P (mtr (record_api_success m w))"
  "P (mtr w) \<Longrightarrow> P (mtr (record_api_error m e w))"
  "P (mtr w) \<Longrightarrow> P (mtr (record_api_error_with_type m ty w))"
  by (simp_all add: record_api_success_def record_api_error_def record_api_error_with_type_def api_ok api_failed)

lemma validate_kept [simp]:
  "P (mtr w) \<Longrightarrow> P (mtr (snd (validate_ownership b ls ty n opn mm w)))"
  "P (mtr w) \<Longrightarrow> P (mtr (snd (accept_existing_disk b d n mb w)))"
  by (simp_all add: validate_ownership_def accept_existing_disk_def validate_existing_disk_def Let_def
      split: option.split)

lemma get_disk_kept: "P (mtr w) \<Longrightarrow> P (mtr (snd (sdk_get_disk_and_validate_ownership b n w)))"
  by (simp add: sdk_get_disk_and_validate_ownership_def case_prod_beta split: sum.split option.split)

lemma list_kept: "P (mtr w) \<Longrightarrow> P (mtr (snd (sdk_list_attachments b w)))"
  by (simp add: sdk_list_attachments_def case_prod_beta split: sum.split)

lemma poll_kept: "P (mtr w) \<Longrightarrow> P (mtr (snd (poll_disk_resize rt b n mb dl w)))"
proof (induction rt b n mb dl w rule: poll_disk_resize.induct)
  case (1 rt b n mb dl w)
  note IH = 1(1) [OF prod.collapse _ _ prod.collapse] 1(2) [OF prod.collapse _ _ prod.collapse]
  show ?case
    by (subst poll_disk_resize.simps)
       (use 1(3) IH in \<open>auto simp: case_prod_beta next_tick_def split: option.split sum.split\<close>)
qed

lemma attach_parts_kept:
  "P (mtr w) \<Longrightarrow> P (mtr (snd (validate_vm_ownership b v w)))"
  "P (mtr w) \<Longrightarrow> P (mtr (snd (ensure_no_other_attachments_use_this_disk b d v w)))"
  "P (mtr w) \<Longrightarrow> P (mtr (snd (create_attachment b d v w)))"
  by (simp_all add: validate_vm_ownership_def ensure_no_other_attachments_use_this_disk_def
      remove_stale_attachment_def create_attachment_def case_prod_beta Let_def
      split: sum.split option.split list.split)

lemma backend_kept:
  assumes "P (mtr w)"
  shows "P (mtr (storage_step (sdk_storage_backend rt b) c w))"
proof (cases c)
  case (EnsureDiskCreated n mb sc z)
  with assms show ?thesis
    by (simp add: sdk_storage_backend_def sdk_ensure_disk_created_def case_prod_beta split: sum.split)
next
  case (EnsureDiskDeleted n)
  with assms show ?thesis
    by (simp add: sdk_storage_backend_def sdk_ensure_disk_deleted_def confirm_disk_deleted_def case_prod_beta
        split: sum.split option.split)
next
  case (GetDiskAndValidateOwnership n)
  with assms show ?thesis by (simp add: sdk_storage_backend_def get_disk_kept)
next
  case ListDisks
  with assms show ?thesis
    by (simp add: sdk_storage_backend_def sdk_list_disks_def case_prod_beta split: sum.split)
next
  case (GetAttachment d v)
  with assms show ?thesis
    by (simp add: sdk_storage_backend_def sdk_get_attachment_def case_prod_beta Let_def
        split: sum.split option.split)
next
  case ListAttachments
  with assms show ?thesis by (simp add: sdk_storage_backend_def list_kept)
next
  case (CountNodeAttachments v)
  with assms list_kept [of w b] show ?thesis
    by (simp add: sdk_storage_backend_def sdk_count_node_attachments_def case_prod_beta split: sum.split)
next
  case (EnsureAttachmentCreated d v)
  with assms show ?thesis
    by (simp add: sdk_storage_backend_def sdk_ensure_attachment_created_def case_prod_beta get_disk_kept
        attach_parts_kept split: sum.split option.split)
next
  case (WaitForAttachmentSerial d v)
  with assms show ?thesis
    by (simp add: sdk_storage_backend_def sdk_wait_for_attachment_serial_def case_prod_beta Let_def
        split: sum.split option.split)
next
  case (EnsureAttachmentDeleted d v)
  with assms show ?thesis
    by (simp add: sdk_storage_backend_def sdk_ensure_attachment_deleted_def case_prod_beta Let_def
        split: sum.split option.split)
next
  case (EnsureDiskResized n mb)
  with assms show ?thesis
    by (simp add: sdk_storage_backend_def sdk_ensure_disk_resized_def resize_disk_def wait_for_disk_resize_def
        case_prod_beta Let_def get_disk_kept poll_kept split: sum.split option.split)
qed

end

interpretation balance_api: api_recorded metrics_balanced
  by unfold_locales simp_all

interpretation volume_ops_api: api_recorded "\<lambda>m. volume_ops m = v" for v
  by unfold_locales simp_all

lemma sdk_uncounted: "storage s = sdk_storage_backend rt b \<Longrightarrow> uncounted_backend s"
  by unfold_locales (simp add: volume_ops_api.backend_kept)

interpretation ref_counted: uncounted_backend ref_controller
  by (rule sdk_uncounted [of _ still_runtime ref_backend]) (simp add: ref_controller_def)

end
