(* ===== verification/Sdk_Properties.thy ===== *)
theory Sdk_Properties
  imports Accounting
begin

text \<open>
  Properties of the SDK backend and of the controller as a whole: what no sequence of calls can
  do to the resources of others, the accounting of the metrics, and the single operations of
  the backend.
\<close>

section \<open>Resources of others\<close>

sublocale sdk_controller \<subseteq> others: kept s
  "\<lambda>w. foreign_disks vd b (sys w) = D \<and> foreign_attachments va b (sys w) = A" for D A
proof (unfold_locales, goal_cases)
  case (1 c w)
  then show ?case by (simp add: storage_sdk foreign_disks_step foreign_attachments_step)
next
  case (2 w d)
  have "vd (sys (snd (sleep_for (ctl_runtime s) d w))) = vd (sys w)"
    "va (sys (snd (sleep_for (ctl_runtime s) d w))) = va (sys w)"
    by (simp_all add: sleep_for_def after_vd after_va)
  with 2 foreign_disks_same foreign_attachments_same show ?case by metis
next
  case (3 w f)
  then show ?case by simp
next
  case (4 c w)
  then show ?case by (simp add: storage_sdk foreign_disks_step foreign_attachments_step)
qed

context sdk_controller
begin

lemma others_run:
  "foreign_disks vd b (sys (rpc_run ready s rpcs w)) = foreign_disks vd b (sys w) \<and>
   foreign_attachments va b (sys (rpc_run ready s rpcs w)) = foreign_attachments va b (sys w)"
  by (rule others.run) simp

end

text \<open>C2: no sequence of CSI calls, successful or not, changes or deletes a disk or an attachment
  that does not carry the label of this driver.\<close>

theorem foreign_resources_untouched:
  assumes "sdk_controller cl vd va rt b s"
  shows "foreign_disks vd b (sys (rpc_run ready s rpcs w)) = foreign_disks vd b (sys w) \<and>
         foreign_attachments va b (sys (rpc_run ready s rpcs w)) = foreign_attachments va b (sys w)"
  by (rule sdk_controller.others_run [OF assms])

theorem foreign_resources_untouched_witness:
  "foreign_disks ref_vd ref_backend
     (sys (rpc_run (\<lambda>_. True) ref_controller [RpcDelete ''other'', RpcUnpublish ''other'' ''vm-1''] ref_world)) ''other''
   = Some (disk_core (ref_disk ''other'' ''cluster-2''))"
proof -
  have "foreign_disks ref_vd ref_backend (sys ref_world) ''other'' = Some (disk_core (ref_disk ''other'' ''cluster-2''))"
    by (simp add: foreign_disks_def ref_vd_def ref_world_def ref_state_def managed_def label_value_def
        sdk_user_labels_def ref_disk_def ref_backend_def disk_core_def managed_by_label_def)
  with foreign_resources_untouched [OF ref_ctl_env] show ?thesis by simp
qed

section \<open>Accounting\<close>

text \<open>C29: over any sequence of controller calls the counters of the volume operations grow by exactly
  the outcomes of the calls: the total of an operation and a status by the number of calls that
  ended so (\<open>rpc_record\<close>), the observations by their number, the errors of type \<open>internal\<close> by the
  failures; a resize counts only when it fails. And in all four groups of counters every operation
  stays observed as often as it succeeded and failed together.\<close>

theorem metrics_count_outcomes:
  assumes "storage s = sdk_storage_backend rt b"
  shows "(\<forall>k. op_total (volume_ops (mtr (rpc_run ready s rpcs w))) k =
            op_total (volume_ops (mtr w)) k + count_list (run_records ready s rpcs w) k) \<and>
    (\<forall>k. op_duration (volume_ops (mtr (rpc_run ready s rpcs w))) k =
            op_duration (volume_ops (mtr w)) k + count_list (map fst (run_records ready s rpcs w)) k) \<and>
    (\<forall>k. op_errors (volume_ops (mtr (rpc_run ready s rpcs w))) (k, ''internal'') =
            op_errors (volume_ops (mtr w)) (k, ''internal'') + count_list (run_records ready s rpcs w) (k, ''failure'')) \<and>
    (metrics_balanced (mtr w) \<longrightarrow> metrics_balanced (mtr (rpc_run ready s rpcs w)))"
proof -
  have "kept s (\<lambda>w. metrics_balanced (mtr w))"
    by unfold_locales (simp_all add: assms balance_api.backend_kept sleep_for_def)
  from kept.run [OF this] uncounted_backend.run_counts [OF sdk_uncounted [OF assms]] show ?thesis by simp
qed

definition ref_calls :: "rpc list" where
  "ref_calls = [RpcDelete ''other'', RpcDelete ''csi-a'']"

theorem metrics_count_outcomes_witness:
  "op_total (volume_ops (mtr (rpc_run (\<lambda>_. True) ref_controller ref_calls ref_world))) (''delete'', ''success'') = 1 \<and>
   op_total (volume_ops (mtr (rpc_run (\<lambda>_. True) ref_controller ref_calls ref_world))) (''delete'', ''failure'') = 1"
proof -
  have "run_records (\<lambda>_. True) ref_controller ref_calls ref_world =
      [(''delete'', ''failure''), (''delete'', ''success'')]"
    by code_simp
  moreover have "op_total (volume_ops (mtr ref_world)) k = 0" for k
    by (simp add: ref_world_def initialize_metrics_def initialize_op_metrics_def)
  moreover have "storage ref_controller = sdk_storage_backend still_runtime ref_backend"
    by (simp add: ref_controller_def)
  ultimately show ?thesis using metrics_count_outcomes [of ref_controller still_runtime ref_backend] by simp
qed

section \<open>Operations of the backend\<close>

text \<open>The name of an attachment fits the 63 characters the API allows, and is the readable
  \<open><disk>-to-<vm>\<close> whenever that fits.\<close>

lemma attachment_name_fits:
  "length (attachment_name d v) \<le> 63 \<and>
   (attachment_name d v = d @ ''-to-'' @ v) = (length (d @ ''-to-'' @ v) \<le> 63)"
proof -
  have "length (take 61 (''hsda-'' @ hex_text (sha256 (d @ ''-to-'' @ v)))) \<le> 61" by simp
  then show ?thesis
    by (auto simp: attachment_name_def Let_def dest!: arg_cong [where f = length])
qed

text \<open>An error of the API always becomes a gRPC status, and the controller retries it unless
  the API said not found, forbidden, conflict or bad request.\<close>

lemma api_errors_retried:
  "is_transient_error (Some (sdk_error_to_grpc e)) =
     (err_kind e \<notin> {KNotFound, KForbidden, KConflict, KBadRequest}) \<and>
   (\<exists>c. status_code (sdk_error_to_grpc e) = Some c \<and> c \<noteq> OK)"
  by (auto simp: sdk_error_to_grpc_def errors_is_def is_transient_error_iff)

text \<open>with an owner label configured, an attach succeeds only for a VM whose label has the
  identifier of this driver.\<close>

lemma attach_checks_vm_owner:
  assumes "fst (sdk_ensure_attachment_created b d v w) = None" and "vm_owner_label b \<noteq> ''''"
  shows "\<exists>c labels. fst (vms_get (client b) v c) = Inr labels \<and>
     label_value (sdk_user_labels labels) (vm_owner_label b) = sdk_identifier b"
proof -
  let ?w1 = "snd (sdk_get_disk_and_validate_ownership b d w)"
  have "fst (validate_vm_ownership b v ?w1) = None"
    using assms(1) by (auto simp: sdk_ensure_attachment_created_def case_prod_beta split: sum.splits option.splits)
  then have "\<exists>labels. fst (vms_get (client b) v (sys ?w1)) = Inr labels \<and>
      label_value (sdk_user_labels labels) (vm_owner_label b) = sdk_identifier b"
    using assms(2)
    by (auto simp: validate_vm_ownership_def case_prod_beta Let_def split: sum.splits if_splits)
  then show ?thesis by blast
qed

definition ref_owner_backend :: "cloud sdk_backend" where
  "ref_owner_backend = ref_backend\<lparr>vm_owner_label := ''owner''\<rparr>"

definition ref_owner_world :: "cloud world" where
  "ref_owner_world = ref_world\<lparr>sys := ref_state\<lparr>c_vms := [(''vm-1'', Some [''owner'' \<mapsto> ''cluster-1''])]\<rparr>\<rparr>"

lemma attach_checks_vm_owner_witness:
  "\<exists>c labels. fst (vms_get ref_client ''vm-1'' c) = Inr labels \<and>
     label_value (sdk_user_labels labels) ''owner'' = ''cluster-1''"
proof -
  have "fst (sdk_ensure_attachment_created ref_owner_backend ''csi-a'' ''vm-1'' ref_owner_world) = None"
    by code_simp
  from attach_checks_vm_owner [OF this] show ?thesis
    by (simp add: ref_owner_backend_def ref_backend_def)
qed

section \<open>Resizing\<close>

text \<open>
  A turn of the polling loop that goes on: the wait before it ends before the deadline, and the API
  then does not show the size that was asked for.
\<close>

definition resize_turn ::
  "'c runtime \<Rightarrow> 'c sdk_backend \<Rightarrow> string \<Rightarrow> i32 \<Rightarrow> int \<Rightarrow> 'c world \<Rightarrow> 'c world \<Rightarrow> bool"
where
  "resize_turn rt b n mb deadline w w' \<longleftrightarrow>
     (\<exists>w1 r. next_tick rt (disk_resize_poll_interval b) w = (None, w1) \<and> clock w1 \<le> deadline \<and>
        on_sys (disks_get (client b) n) w1 = (r, w') \<and>
        (\<forall>d sz. r = Inr d \<and> disk_status_size d = Some sz \<longrightarrow> disk_size_to_mb (size_amount sz) (size_unit sz) \<noteq> mb))"

text \<open>The API answers a look at the disk with a status that shows the size.\<close>

definition shows_size :: "'c sdk_backend \<Rightarrow> string \<Rightarrow> i32 \<Rightarrow> 'c world \<Rightarrow> 'c world \<Rightarrow> bool" where
  "shows_size b n mb w w' \<longleftrightarrow>
     (\<exists>d sz. on_sys (disks_get (client b) n) w = (Inr d, w') \<and> disk_status_size d = Some sz \<and>
        disk_size_to_mb (size_amount sz) (size_unit sz) = mb)"

lemma poll_result:
  assumes "poll_disk_resize rt b n mb dl w = (r, w')"
  shows "\<exists>w1. (resize_turn rt b n mb dl)\<^sup>*\<^sup>* w w1 \<and>
    (r = None \<longrightarrow> (\<exists>w2. next_tick rt (disk_resize_poll_interval b) w1 = (None, w2) \<and> clock w2 \<le> dl \<and> shows_size b n mb w2 w')) \<and>
    (\<forall>e. r = Some e \<longrightarrow> status_code e = Some DeadlineExceeded)"
  using assms
proof (induction rt b n mb dl w rule: poll_disk_resize.induct)
  case (1 rt b n mb dl w)
  obtain er w1 where t: "next_tick rt (disk_resize_poll_interval b) w = (er, w1)" by fastforce
  obtain g w2 where g: "on_sys (disks_get (client b) n) w1 = (g, w2)" by fastforce
  show ?case
  proof (cases "er = None \<and> \<not> dl < clock w1 \<and> (\<forall>d. g = Inr d \<longrightarrow> \<not> disk_status_matches_size d mb)")
    case True
    then have turn: "resize_turn rt b n mb dl w w2"
      using t g by (auto simp: resize_turn_def disk_status_matches_size_def)
    have "poll_disk_resize rt b n mb dl w2 = (r, w')"
      using 1(3) True t g by (subst (asm) poll_disk_resize.simps) (auto split: sum.splits)
    then have "\<exists>w1. (resize_turn rt b n mb dl)\<^sup>*\<^sup>* w2 w1 \<and>
      (r = None \<longrightarrow> (\<exists>w2. next_tick rt (disk_resize_poll_interval b) w1 = (None, w2) \<and> clock w2 \<le> dl \<and> shows_size b n mb w2 w')) \<and>
      (\<forall>e. r = Some e \<longrightarrow> status_code e = Some DeadlineExceeded)"
      using 1(1) [OF t [symmetric] _ _ g [symmetric]] 1(2) [OF t [symmetric] _ _ g [symmetric]] True
      by (cases g) auto
    with turn show ?thesis by (meson converse_rtranclp_into_rtranclp)
  next
    case False
    then show ?thesis
      using 1(3) t g
      by (intro exI [of _ w], subst (asm) poll_disk_resize.simps)
         (auto simp: shows_size_def disk_status_matches_size_def split: option.splits sum.splits if_splits)
  qed
qed

text \<open>
  C25: \<open>EnsureDiskResized\<close> reports success only if the API showed the disk with the requested size in
  its status, and this is the last it learned of the cloud: it was so on the first look, or the
  resize was accepted and after turns of the polling loop the last look before the deadline showed
  it. When the loop gives up, the error is \<open>DeadlineExceeded\<close>, which the controller retries.
\<close>

theorem resize_confirmed:
  "(\<forall>w'. sdk_ensure_disk_resized rt b n mb w = (None, w') \<longrightarrow>
      (\<exists>w1 w2. shows_size b n mb w1 w2 \<and> sys w' = sys w2 \<and>
         (w1 = w \<or>
          (\<exists>d d' v v' deadline. fst (disks_get (client b) n (sys w)) = Inr d \<and>
             on_sys (disks_patch (client b) n (d\<lparr>disk_spec_size := Some \<lparr>size_amount = mb, size_unit = MB\<rparr>\<rparr>))
               (snd (sdk_get_disk_and_validate_ownership b n w)) = (Inr d', v) \<and>
             deadline = clock w + sint (disk_resize_poll_timeout b) \<and>
             (resize_turn rt b n mb deadline)\<^sup>*\<^sup>* v v' \<and>
             next_tick rt (disk_resize_poll_interval b) v' = (None, w1) \<and> clock w1 \<le> deadline)))) \<and>
   (\<forall>e. fst (wait_for_disk_resize rt b n mb w) = Some e \<longrightarrow>
      status_code e = Some DeadlineExceeded \<and> is_transient_error (Some e))"
proof (intro conjI allI impI)
  fix w' assume ok: "sdk_ensure_disk_resized rt b n mb w = (None, w')"
  let ?g = "snd (sdk_get_disk_and_validate_ownership b n w)"
  obtain d where d: "fst (sdk_get_disk_and_validate_ownership b n w) = Inr d"
    using ok by (auto simp: sdk_ensure_disk_resized_def case_prod_beta split: sum.splits)
  then have get: "fst (disks_get (client b) n (sys w)) = Inr d"
    and g: "sys ?g = snd (disks_get (client b) n (sys w))" "clock ?g = clock w"
    by (auto simp: sdk_get_disk_and_validate_ownership_def case_prod_beta validate_ownership_def Let_def
        record_api_error_with_type_def record_api_success_def split: sum.splits option.splits if_splits)
  show "\<exists>w1 w2. shows_size b n mb w1 w2 \<and> sys w' = sys w2 \<and>
         (w1 = w \<or>
          (\<exists>d d' v v' deadline. fst (disks_get (client b) n (sys w)) = Inr d \<and>
             on_sys (disks_patch (client b) n (d\<lparr>disk_spec_size := Some \<lparr>size_amount = mb, size_unit = MB\<rparr>\<rparr>))
               ?g = (Inr d', v) \<and>
             deadline = clock w + sint (disk_resize_poll_timeout b) \<and>
             (resize_turn rt b n mb deadline)\<^sup>*\<^sup>* v v' \<and>
             next_tick rt (disk_resize_poll_interval b) v' = (None, w1) \<and> clock w1 \<le> deadline))"
  proof (cases "disk_status_matches_size d mb")
    case True
    then have "w' = record_api_success ''ResizeDisk'' ?g" "shows_size b n mb w (snd (on_sys (disks_get (client b) n) w))"
      using ok d get by (auto simp: sdk_ensure_disk_resized_def case_prod_beta shows_size_def
          disk_status_matches_size_def prod_eq_iff split: option.splits)
    with g(1) show ?thesis
      by (intro exI [of _ w] exI [of _ "snd (on_sys (disks_get (client b) n) w)"]) simp
  next
    case False
    have r: "resize_disk rt b d n mb ?g = (None, w')"
      using ok d False
      by (auto simp: sdk_ensure_disk_resized_def case_prod_beta Let_def split: option.splits if_splits)
    let ?dl = "clock w + sint (disk_resize_poll_timeout b)"
    obtain d' v where p: "on_sys (disks_patch (client b) n (d\<lparr>disk_spec_size := Some \<lparr>size_amount = mb, size_unit = MB\<rparr>\<rparr>)) ?g
        = (Inr d', v)"
      using r by (auto simp: resize_disk_def split: prod.splits sum.splits option.splits)
    then have v: "clock v = clock w" using g(2) by (auto simp: on_sys_eq)
    obtain w2 where w2: "poll_disk_resize rt b n mb ?dl v = (None, w2)" "sys w' = sys w2"
      using r p v by (auto simp: resize_disk_def wait_for_disk_resize_def split: prod.splits option.splits)
    from poll_result [OF w2(1)] obtain v' w1 where
      "(resize_turn rt b n mb ?dl)\<^sup>*\<^sup>* v v'" "next_tick rt (disk_resize_poll_interval b) v' = (None, w1)"
      "clock w1 \<le> ?dl" "shows_size b n mb w1 w2" by blast
    with get p w2(2) show ?thesis by blast
  qed
next
  fix e assume "fst (wait_for_disk_resize rt b n mb w) = Some e"
  then obtain w' where "poll_disk_resize rt b n mb (clock w + sint (disk_resize_poll_timeout b)) w = (Some e, w')"
    by (cases "wait_for_disk_resize rt b n mb w") (auto simp: wait_for_disk_resize_def)
  from poll_result [OF this] show code: "status_code e = Some DeadlineExceeded" by blast
  then show "is_transient_error (Some e)" by (simp add: is_transient_error_iff)
qed

theorem resize_confirmed_witness:
  "\<exists>w1 w2. shows_size ref_backend ''csi-a'' 2048 w1 w2"
proof -
  have "fst (sdk_ensure_disk_resized still_runtime ref_backend ''csi-a'' 2048 ref_world) = None"
    by code_simp
  then have "sdk_ensure_disk_resized still_runtime ref_backend ''csi-a'' 2048 ref_world =
      (None, snd (sdk_ensure_disk_resized still_runtime ref_backend ''csi-a'' 2048 ref_world))"
    by (simp add: prod_eq_iff)
  with resize_confirmed [of still_runtime ref_backend "''csi-a''" 2048 ref_world] show ?thesis by blast
qed

end
