(* ===== verification/Filesystem.thy ===== *)
theory Filesystem
  imports World Validation
begin

text \<open>
  The package \<open>pkg/filesystem\<close>: the interface \<open>Operations\<close> the node service works through, and
  its implementation \<open>UnixOperations\<close> over the kernel. System calls, the read of
  \<open>/proc/mounts\<close> and the commands run with \<open>os/exec\<close> are the record \<open>kernel\<close>, a parameter.
\<close>

section \<open>The interface\<close>

record fs_stats =
  total_bytes :: i64
  available_bytes :: i64
  used_bytes_of :: i64
  total_inodes :: i64
  available_inodes :: i64
  used_inodes :: i64

record 'k fs_ops =
  fs_wait_for_device :: "string \<Rightarrow> i64 \<Rightarrow> 'k world go_err"
  fs_is_device_formatted :: "string \<Rightarrow> ('k world, bool) go"
  fs_format_device :: "string \<Rightarrow> string \<Rightarrow> 'k world go_err"
  fs_repair_filesystem :: "string \<Rightarrow> string \<Rightarrow> 'k world go_err"
  fs_resize_filesystem :: "string \<Rightarrow> string \<Rightarrow> string \<Rightarrow> 'k world go_err"
  fs_is_block_device :: "string \<Rightarrow> ('k world, bool) go"
  fs_mount :: "string \<Rightarrow> string \<Rightarrow> string \<Rightarrow> i64 \<Rightarrow> string \<Rightarrow> 'k world go_err"
  fs_unmount :: "string \<Rightarrow> int \<Rightarrow> 'k world go_err"
  fs_is_mount_point :: "string \<Rightarrow> ('k world, bool) go"
  fs_find_device_for_path :: "string \<Rightarrow> ('k world, string) go"
  fs_mkdir_all :: "string \<Rightarrow> nat \<Rightarrow> 'k world go_err"
  fs_remove_all :: "string \<Rightarrow> 'k world go_err"
  fs_create_file :: "string \<Rightarrow> nat \<Rightarrow> 'k world go_err"
  fs_path_exists :: "string \<Rightarrow> ('k world, bool) go"
  fs_get_stats :: "string \<Rightarrow> ('k world, fs_stats) go"

section \<open>The kernel\<close>

record statfs =
  st_blocks :: i64
  st_bavail :: i64
  st_bsize :: i64
  st_files :: i64
  st_ffree :: i64

text \<open>
  \<open>k_stat\<close> gives the mode bits, \<open>k_os_stat\<close> whether the path is a directory. \<open>k_run\<close> runs a
  command with its arguments: the error of the run and its output (of both streams for
  \<open>CombinedOutput\<close>). A failed call carries its \<open>errno\<close>.
\<close>

record 'k kernel =
  k_stat :: "string \<Rightarrow> ('k, i32) go"
  k_os_stat :: "string \<Rightarrow> ('k, bool) go"
  k_run :: "string list \<Rightarrow> 'k \<Rightarrow> (go_error option \<times> string) \<times> 'k"
  k_mount :: "string \<Rightarrow> string \<Rightarrow> string \<Rightarrow> i64 \<Rightarrow> string \<Rightarrow> 'k go_err"
  k_unmount :: "string \<Rightarrow> int \<Rightarrow> 'k go_err"
  k_read_mounts :: "('k, string) go"
  k_mkdir_all :: "string \<Rightarrow> nat \<Rightarrow> 'k go_err"
  k_remove_all :: "string \<Rightarrow> 'k go_err"
  k_open_create :: "string \<Rightarrow> nat \<Rightarrow> 'k go_err"
  k_close :: "string \<Rightarrow> 'k go_err"
  k_statfs :: "string \<Rightarrow> ('k, statfs) go"

definition errno_ENOENT :: nat where "errno_ENOENT = 2"
definition errno_EIO :: nat where "errno_EIO = 5"
definition errno_EINVAL :: nat where "errno_EINVAL = 22"
definition errno_EUCLEAN :: nat where "errno_EUCLEAN = 117"

definition ms_rdonly :: i64 where "ms_rdonly = 1"
definition ms_remount :: i64 where "ms_remount = 32"
definition ms_bind :: i64 where "ms_bind = 4096"

definition s_ifblk :: i32 where "s_ifblk = 0x6000"

text \<open>The error of a wrapped call, as \<open>fmt.Errorf\<close> with \<open>%w\<close> gives it.\<close>

definition wrapped :: "string \<Rightarrow> go_error option \<times> 's \<Rightarrow> go_error option \<times> 's" where
  "wrapped text r = (map_option (wrap_error text) (fst r), snd r)"

section \<open>Devices\<close>

definition is_block_device :: "'k kernel \<Rightarrow> string \<Rightarrow> ('k world, bool) go" where
  "is_block_device kern path w =
     (case on_sys (k_stat kern path) w of
        (Inl e, w1) \<Rightarrow> if errors_is (KErrno errno_ENOENT) e then (Inr False, w1) else (Inl e, w1)
      | (Inr mode, w1) \<Rightarrow> (Inr (and mode s_ifblk \<noteq> 0), w1))"

lemma is_block_device_clock: "(r, w1) = is_block_device kern path w \<Longrightarrow> clock w1 = clock w"
  by (auto simp: is_block_device_def on_sys_eq split: prod.splits sum.splits if_splits)

text \<open>
  \<open>WaitForDevice\<close>: the loop runs while the clock is before the deadline, and every turn waits.
\<close>

function wait_for_device_until ::
  "'k runtime \<Rightarrow> 'k kernel \<Rightarrow> i64 \<Rightarrow> string \<Rightarrow> int \<Rightarrow> 'k world go_err"
where
  "wait_for_device_until rt kern interval path deadline w =
     (if clock w < deadline then
        (case is_block_device kern path w of
           (r, w1) \<Rightarrow>
             if r = Inr True then (None, w1)
             else
               (case sleep_for rt interval w1 of
                  (Some ctx_err, w2) \<Rightarrow> (Some ctx_err, w2)
                | (None, w2) \<Rightarrow> wait_for_device_until rt kern interval path deadline w2))
      else (Some (plain_error (''timeout waiting for device '' @ path)), w))"
  by pat_completeness auto

termination
proof (relation "measure (\<lambda>(rt, kern, i, p, deadline, w). nat (deadline - clock w))", goal_cases)
  case 1
  show ?case by simp
qed (auto simp: sleep_for_def elapse_eq_sym dest!: is_block_device_clock)

declare wait_for_device_until.simps [simp del]

definition wait_for_device :: "'k runtime \<Rightarrow> 'k kernel \<Rightarrow> i64 \<Rightarrow> string \<Rightarrow> i64 \<Rightarrow> 'k world go_err" where
  "wait_for_device rt kern interval path timeout w =
     wait_for_device_until rt kern interval path (clock w + sint timeout) w"

definition run_cmd :: "'k kernel \<Rightarrow> string list \<Rightarrow> 'k world \<Rightarrow> (go_error option \<times> string) \<times> 'k world" where
  "run_cmd kern args = on_sys (k_run kern args)"

definition is_device_formatted :: "'k kernel \<Rightarrow> string \<Rightarrow> ('k world, bool) go" where
  "is_device_formatted kern path w =
     (case run_cmd kern [''blkid'', ''-p'', ''-s'', ''TYPE'', ''-o'', ''value'', path] w of
        ((Some e, _), w1) \<Rightarrow>
          if err_kind e = KExit 2 then (Inr False, w1) else (Inl (wrap_error ''blkid failed: '' e), w1)
      | ((None, output), w1) \<Rightarrow> (Inr (trim_space output \<noteq> ''''), w1))"

definition format_device :: "'k kernel \<Rightarrow> string \<Rightarrow> string \<Rightarrow> 'k world go_err" where
  "format_device kern path fs_type w =
     (if fs_type \<noteq> ''ext4'' \<and> fs_type \<noteq> '''' then
        (Some (plain_error (''unsupported filesystem type: '' @ fs_type @ '' (only ext4 is supported)'')), w)
      else
        (case run_cmd kern [''mkfs.ext4'', ''-F'', ''-m0'', path] w of
           ((Some e, output), w1) \<Rightarrow>
             (Some (GoError (err_kind e) (''format failed: '' @ err_text e @ '', output: '' @ output)), w1)
         | ((None, _), w1) \<Rightarrow> (None, w1)))"

text \<open>The exit codes 0, 1 and 2 of \<open>fsck\<close> count as a repaired file system.\<close>

definition repair_filesystem :: "'k kernel \<Rightarrow> string \<Rightarrow> string \<Rightarrow> 'k world go_err" where
  "repair_filesystem kern path fs_type w =
     (if fs_type \<noteq> ''ext4'' \<and> fs_type \<noteq> '''' then
        (Some (plain_error (''unsupported filesystem type: '' @ fs_type @ '' (only ext4 is supported)'')), w)
      else
        (case run_cmd kern [''fsck.ext4'', ''-p'', ''-f'', path] w of
           ((err, output), w1) \<Rightarrow>
             (case (case err of
                      None \<Rightarrow> Inr 0
                    | Some e \<Rightarrow> (case err_kind e of KExit c \<Rightarrow> Inr c | _ \<Rightarrow> Inl e)) of
                Inl e \<Rightarrow> (Some (wrap_error ''fsck command failed: '' e), w1)
              | Inr exit_code \<Rightarrow>
                  if exit_code = 0 \<or> exit_code = 1 \<or> exit_code = 2 then (None, w1)
                  else (Some (plain_error
                    (''fsck failed with exit code '' @ itoa exit_code @ '': '' @ output)), w1))))"

definition resize_filesystem :: "'k kernel \<Rightarrow> string \<Rightarrow> string \<Rightarrow> string \<Rightarrow> 'k world go_err" where
  "resize_filesystem kern device mount_path fs_type w =
     (let t = (if fs_type = '''' then ''ext4'' else fs_type)
      in if t = ''ext4'' then
           (case run_cmd kern [''resize2fs'', device] w of
              ((Some e, output), w1) \<Rightarrow>
                (Some (GoError (err_kind e)
                   (''resize2fs '' @ device @ '' failed: '' @ err_text e @ '', output: '' @ output)), w1)
            | ((None, _), w1) \<Rightarrow> (None, w1))
         else if t = ''xfs'' then
           (if mount_path = '''' then
              (Some (plain_error ''xfs resize requires a mounted path, got empty mountPath''), w)
            else
              (case run_cmd kern [''xfs_growfs'', mount_path] w of
                 ((Some e, output), w1) \<Rightarrow>
                   (Some (GoError (err_kind e)
                      (''xfs_growfs '' @ mount_path @ '' failed: '' @ err_text e @ '', output: '' @ output)), w1)
               | ((None, _), w1) \<Rightarrow> (None, w1)))
         else
           (Some (plain_error
              (''unsupported filesystem type for resize: '' @ t @ '' (only ext4 and xfs are supported)'')), w))"

section \<open>Mounts\<close>

definition mount_op :: "'k kernel \<Rightarrow> string \<Rightarrow> string \<Rightarrow> string \<Rightarrow> i64 \<Rightarrow> string \<Rightarrow> 'k world go_err" where
  "mount_op kern source target fs_type flags options w =
     wrapped (''mount '' @ source @ '' to '' @ target @ '': '')
       (on_sys (k_mount kern source target fs_type flags options) w)"

definition unmount_op :: "'k kernel \<Rightarrow> string \<Rightarrow> int \<Rightarrow> 'k world go_err" where
  "unmount_op kern target flags w =
     (case on_sys (k_unmount kern target flags) w of
        (Some e, w1) \<Rightarrow>
          if errors_is (KErrno errno_EINVAL) e then (None, w1)
          else (Some (wrap_error (''unmount '' @ target @ '': '') e), w1)
      | (None, w1) \<Rightarrow> (None, w1))"

text \<open>The line of \<open>/proc/mounts\<close> for a target: its fields, the source first.\<close>

fun find_mount_line :: "string \<Rightarrow> string list \<Rightarrow> string list option" where
  "find_mount_line target [] = None"
| "find_mount_line target (line # rest) =
     (let fs = string_fields line
      in if 2 \<le> length fs \<and> fs ! 1 = target then Some fs else find_mount_line target rest)"

definition newline :: char where
  "newline = CHR 0x0A"

definition is_mount_point :: "'k kernel \<Rightarrow> string \<Rightarrow> ('k world, bool) go" where
  "is_mount_point kern path w =
     (case on_sys (k_read_mounts kern) w of
        (Inl e, w1) \<Rightarrow> (Inl (wrap_error ''read /proc/mounts: '' e), w1)
      | (Inr data, w1) \<Rightarrow> (Inr (find_mount_line path (split_on newline data) \<noteq> None), w1))"

definition mount_source :: "'k kernel \<Rightarrow> string \<Rightarrow> ('k world, string) go" where
  "mount_source kern target w =
     (case on_sys (k_read_mounts kern) w of
        (Inl e, w1) \<Rightarrow> (Inl (wrap_error ''read /proc/mounts: '' e), w1)
      | (Inr data, w1) \<Rightarrow>
          (case find_mount_line target (split_on newline data) of
             Some fs \<Rightarrow> (Inr (fs ! 0), w1)
           | None \<Rightarrow> (Inl (plain_error (''mount point '' @ target @ '' not found in /proc/mounts'')), w1)))"

definition max_bind_mount_hops :: nat where
  "max_bind_mount_hops = 10"

text \<open>The loop of \<open>FindDeviceForPath\<close>, with the number of hops left.\<close>

fun find_device_hops :: "'k kernel \<Rightarrow> string \<Rightarrow> nat \<Rightarrow> string \<Rightarrow> ('k world, string) go" where
  "find_device_hops kern path 0 current w =
     (Inl (plain_error (''could not resolve block device for path '' @ path @ '' (bind-mount chain too deep)'')), w)"
| "find_device_hops kern path (Suc hops) current w =
     (case mount_source kern current w of
        (Inl e, w1) \<Rightarrow> (Inl (wrap_error (''resolve device for path '' @ path @ '': '') e), w1)
      | (Inr source, w1) \<Rightarrow>
          (case is_block_device kern source w1 of
             (Inl e, w2) \<Rightarrow> (Inl (wrap_error (''check block device '' @ source @ '': '') e), w2)
           | (Inr True, w2) \<Rightarrow> (Inr source, w2)
           | (Inr False, w2) \<Rightarrow> find_device_hops kern path hops source w2))"

definition find_device_for_path :: "'k kernel \<Rightarrow> string \<Rightarrow> ('k world, string) go" where
  "find_device_for_path kern path w = find_device_hops kern path max_bind_mount_hops path w"

section \<open>Files and statistics\<close>

definition mkdir_all :: "'k kernel \<Rightarrow> string \<Rightarrow> nat \<Rightarrow> 'k world go_err" where
  "mkdir_all kern path perm w =
     wrapped (''create directory '' @ path @ '': '') (on_sys (k_mkdir_all kern path perm) w)"

definition remove_all :: "'k kernel \<Rightarrow> string \<Rightarrow> 'k world go_err" where
  "remove_all kern path w = wrapped (''remove '' @ path @ '': '') (on_sys (k_remove_all kern path) w)"

definition create_file :: "'k kernel \<Rightarrow> string \<Rightarrow> nat \<Rightarrow> 'k world go_err" where
  "create_file kern path perm w =
     (case on_sys (k_open_create kern path perm) w of
        (Some e, w1) \<Rightarrow> (Some (wrap_error (''create file '' @ path @ '': '') e), w1)
      | (None, w1) \<Rightarrow> wrapped (''close file '' @ path @ '': '') (on_sys (k_close kern path) w1))"

definition path_exists :: "'k kernel \<Rightarrow> string \<Rightarrow> ('k world, bool) go" where
  "path_exists kern path w =
     (case on_sys (k_os_stat kern path) w of
        (Inr _, w1) \<Rightarrow> (Inr True, w1)
      | (Inl e, w1) \<Rightarrow> if errors_is (KErrno errno_ENOENT) e then (Inr False, w1) else (Inl e, w1))"

definition get_filesystem_stats :: "'k kernel \<Rightarrow> string \<Rightarrow> ('k world, fs_stats) go" where
  "get_filesystem_stats kern path w =
     (case on_sys (k_statfs kern path) w of
        (Inl e, w1) \<Rightarrow> (Inl (wrap_error (''statfs '' @ path @ '': '') e), w1)
      | (Inr st, w1) \<Rightarrow>
          (let total = st_blocks st * st_bsize st;
               available = st_bavail st * st_bsize st
           in (Inr \<lparr>total_bytes = total, available_bytes = available, used_bytes_of = total - available,
                    total_inodes = st_files st, available_inodes = st_ffree st,
                    used_inodes = st_files st - st_ffree st\<rparr>, w1)))"

definition is_filesystem_corruption :: "go_error option \<Rightarrow> bool" where
  "is_filesystem_corruption err =
     (case err of
        None \<Rightarrow> False
      | Some e \<Rightarrow>
          (case err_kind e of
             KErrno n \<Rightarrow> n = errno_EINVAL \<or> n = errno_EIO \<or> n = errno_EUCLEAN
           | _ \<Rightarrow> False))"

text \<open>\<open>UnixOperations\<close> as an implementation of the interface.\<close>

definition unix_operations :: "'k runtime \<Rightarrow> 'k kernel \<Rightarrow> i64 \<Rightarrow> 'k fs_ops" where
  "unix_operations rt kern interval =
     \<lparr>fs_wait_for_device = wait_for_device rt kern interval,
      fs_is_device_formatted = is_device_formatted kern,
      fs_format_device = format_device kern,
      fs_repair_filesystem = repair_filesystem kern,
      fs_resize_filesystem = resize_filesystem kern,
      fs_is_block_device = is_block_device kern,
      fs_mount = mount_op kern,
      fs_unmount = unmount_op kern,
      fs_is_mount_point = is_mount_point kern,
      fs_find_device_for_path = find_device_for_path kern,
      fs_mkdir_all = mkdir_all kern,
      fs_remove_all = remove_all kern,
      fs_create_file = create_file kern,
      fs_path_exists = path_exists kern,
      fs_get_stats = get_filesystem_stats kern\<rparr>"

end
