(* ===== verification/Node.thy ===== *)
theory Node
  imports Filesystem Csi
begin

text \<open>
  The CSI node service (\<open>pkg/node/node.go\<close>): staging, publishing, statistics and expansion of
  volumes on a machine, over the interface \<open>Operations\<close> of the theory \<open>Filesystem\<close> and the
  Kubernetes API. The state of a handler is the machine with the metrics and the clock.
\<close>

section \<open>The service\<close>

record volume_attachment =
  va_node_name :: string
  va_pv_name :: "string option"
  va_metadata :: "string \<rightharpoonup> string"

text \<open>The reads of the Kubernetes API: the labels of a node, the CSI volume handle of a
  persistent volume (if it has a CSI source), the volume attachments.\<close>

record 'k kube_client =
  kube_get_node :: "string \<Rightarrow> ('k, string \<rightharpoonup> string) go"
  kube_get_pv :: "string \<Rightarrow> ('k, string option) go"
  kube_list_vas :: "('k, volume_attachment list) go"

record 'k node_service =
  node_fs :: "'k fs_ops"
  node_os_stat :: "string \<Rightarrow> ('k, bool) go"
  node_root :: "'k root_ops"
  node_runtime :: "'k runtime"
  kube :: "'k kube_client"
  node_id :: string
  device_by_id_path :: string
  node_max_volumes :: i64
  device_scan_timeout :: i64
  device_scan_interval :: i64

definition default_device_by_id_path :: string where
  "default_device_by_id_path = ''/dev/disk/by-id''"

definition default_fs_type :: string where
  "default_fs_type = ''ext4''"

definition qemu_scsi_disk_prefix :: string where
  "qemu_scsi_disk_prefix = ''scsi-0QEMU_QEMU_HARDDISK_''"

definition max_volumes_per_node_default :: i64 where
  "max_volumes_per_node_default = 128"

text \<open>\<open>NewNodeService\<close>: a nil file system or Kubernetes client is a panic (\<open>None\<close>).\<close>

definition new_node_service ::
  "string \<Rightarrow> 'k fs_ops option \<Rightarrow> (string \<Rightarrow> ('k, bool) go) \<Rightarrow> 'k root_ops \<Rightarrow> 'k runtime \<Rightarrow> i64 \<Rightarrow> i64 \<Rightarrow> i64 \<Rightarrow>
     'k kube_client option \<Rightarrow> 'k node_service option"
where
  "new_node_service nid fs stat root rt max_volumes scan_timeout scan_interval kc =
     (case fs of
        None \<Rightarrow> None
      | Some f \<Rightarrow>
          (case kc of
             None \<Rightarrow> None
           | Some k \<Rightarrow>
               Some \<lparr>node_fs = f, node_os_stat = stat, node_root = root, node_runtime = rt, kube = k,
                     node_id = nid, device_by_id_path = default_device_by_id_path,
                     node_max_volumes = max_volumes, device_scan_timeout = scan_timeout,
                     device_scan_interval = scan_interval\<rparr>))"

definition set_device_by_id_path :: "string \<Rightarrow> 'k node_service \<Rightarrow> 'k node_service" where
  "set_device_by_id_path path s = s\<lparr>device_by_id_path := path\<rparr>"

definition device_path_of :: "'k node_service \<Rightarrow> string \<Rightarrow> string" where
  "device_path_of s serial = filepath_join (device_by_id_path s) (qemu_scsi_disk_prefix @ serial)"

text \<open>The calls of the mount checks: an error of \<open>IsMountPoint\<close> is logged and counts as not mounted.\<close>

definition mounted_or_false :: "'k node_service \<Rightarrow> string \<Rightarrow> 'k world \<Rightarrow> bool \<times> 'k world" where
  "mounted_or_false s path w =
     (case fs_is_mount_point (node_fs s) path w of
        (Inl _, w1) \<Rightarrow> (False, w1)
      | (Inr m, w1) \<Rightarrow> (m, w1))"

definition record_node_error :: "string \<Rightarrow> string \<Rightarrow> 'k world \<Rightarrow> 'k world" where
  "record_node_error operation error_type = on_metrics (record_node_operation_error operation error_type)"

definition internal_error :: "string \<Rightarrow> go_error \<Rightarrow> go_error" where
  "internal_error what e = status_error Internal (what @ error_text e)"

section \<open>Staging\<close>

record stage_request =
  sg_volume_id :: string
  sg_staging_path :: string
  sg_capability :: "volume_capability option"
  sg_publish_context :: "string \<rightharpoonup> string"

definition dir_perm :: nat where "dir_perm = 488"
definition file_perm :: nat where "file_perm = 432"

definition prepare_block_target :: "'k node_service \<Rightarrow> string \<Rightarrow> 'k world go_err" where
  "prepare_block_target s staging w =
     (case on_sys (node_os_stat s staging) w of
        (Inr True, w1) \<Rightarrow>
          (case on_sys (remove_within_kubelet_root (node_root s) staging) w1 of
             (Some e, w2) \<Rightarrow> (Some (internal_error ''remove existing directory: '' e), w2)
           | (None, w2) \<Rightarrow> (None, w2))
      | (_, w1) \<Rightarrow> (None, w1))"

definition stage_block :: "'k node_service \<Rightarrow> string \<Rightarrow> string \<Rightarrow> 'k world go_err" where
  "stage_block s device staging w =
     (case prepare_block_target s staging w of
        (Some e, w1) \<Rightarrow> (Some e, w1)
      | (None, w1) \<Rightarrow>
          (case fs_mkdir_all (node_fs s) (filepath_dir staging) dir_perm w1 of
             (Some e, w2) \<Rightarrow> (Some (internal_error ''create staging parent dir: '' e), w2)
           | (None, w2) \<Rightarrow>
               (case fs_create_file (node_fs s) staging file_perm w2 of
                  (Some e, w3) \<Rightarrow> (Some (internal_error ''create staging file: '' e), w3)
                | (None, w3) \<Rightarrow>
                    (case fs_mount (node_fs s) device staging '''' ms_bind '''' w3 of
                       (Some e, w4) \<Rightarrow>
                         (Some (internal_error ''bind mount block device: '' e),
                          record_node_error ''stage'' ''mount_failed'' w4)
                     | (None, w4) \<Rightarrow> (None, w4)))))"

text \<open>A device with a file system that does not mount: repair, and mount again.\<close>

definition unrecoverable :: "string \<Rightarrow> string \<Rightarrow> string \<Rightarrow> go_error" where
  "unrecoverable volume device fs_type =
     status_error FailedPrecondition
       (''volume '' @ volume @ '' is corrupted and cannot be mounted or repaired automatically. '' @
        ''The volume may contain user data. Manual recovery required. '' @
        ''Admin should attempt data recovery before reformatting. '' @
        ''Device: '' @ device @ '', FSType: '' @ fs_type)"

definition repair_and_mount :: "'k node_service \<Rightarrow> string \<Rightarrow> string \<Rightarrow> string \<Rightarrow> string \<Rightarrow> 'k world go_err" where
  "repair_and_mount s volume device staging fs_type w =
     (case fs_repair_filesystem (node_fs s) device fs_type w of
        (None, w1) \<Rightarrow>
          (case fs_mount (node_fs s) device staging fs_type 0 '''' w1 of
             (None, w2) \<Rightarrow> (None, w2)
           | (Some _, w2) \<Rightarrow>
               (Some (unrecoverable volume device fs_type),
                record_node_error ''stage'' ''corruption_unrecoverable'' w2))
      | (Some _, w1) \<Rightarrow>
          (case rt_ctx_err (node_runtime s) (sys w1) of
             Some ctx_err \<Rightarrow>
               (Some (status_error DeadlineExceeded (''repair operation failed: '' @ error_text ctx_err)),
                record_node_error ''stage'' ''repair_context_error'' w1)
           | None \<Rightarrow>
               (Some (unrecoverable volume device fs_type),
                record_node_error ''stage'' ''corruption_unrecoverable'' w1)))"

text \<open>A device taken for new: format, and mount.\<close>

definition format_and_mount :: "'k node_service \<Rightarrow> string \<Rightarrow> string \<Rightarrow> string \<Rightarrow> 'k world go_err" where
  "format_and_mount s device staging fs_type w =
     (case fs_format_device (node_fs s) device fs_type w of
        (Some e, w1) \<Rightarrow> (Some (internal_error ''format device: '' e), w1)
      | (None, w1) \<Rightarrow>
          (case fs_mount (node_fs s) device staging fs_type 0 '''' w1 of
             (Some e, w2) \<Rightarrow>
               (Some (internal_error ''mount device after format: '' e),
                record_node_error ''stage'' ''mount_failed'' w2)
           | (None, w2) \<Rightarrow> (None, w2)))"

definition stage_filesystem ::
  "'k node_service \<Rightarrow> string \<Rightarrow> string \<Rightarrow> string \<Rightarrow> string \<Rightarrow> 'k world go_err"
where
  "stage_filesystem s volume device staging fs_type w =
     (case fs_mkdir_all (node_fs s) staging dir_perm w of
        (Some e, w1) \<Rightarrow> (Some (internal_error ''create staging path: '' e), w1)
      | (None, w1) \<Rightarrow>
          (case fs_mount (node_fs s) device staging fs_type 0 '''' w1 of
             (None, w2) \<Rightarrow> (None, w2)
           | (Some e, w2) \<Rightarrow>
               if \<not> is_filesystem_corruption (Some e) then
                 (Some (internal_error ''mount failed: '' e), record_node_error ''stage'' ''mount_failed'' w2)
               else
                 (case fs_is_device_formatted (node_fs s) device w2 of
                    (r, w3) \<Rightarrow>
                      if r = Inr True then repair_and_mount s volume device staging fs_type w3
                      else format_and_mount s device staging fs_type w3)))"

definition check_stage_request :: "stage_request \<Rightarrow> go_error option" where
  "check_stage_request req =
     (case validate_required_field (sg_volume_id req) ''volume ID'' of
        Some e \<Rightarrow> Some e
      | None \<Rightarrow>
          (case validate_path (sg_staging_path req) ''staging target path'' of
             Some e \<Rightarrow> Some e
           | None \<Rightarrow>
               if sg_capability req = None then
                 Some (status_error InvalidArgument ''volume capability is required'')
               else None))"

definition wants_block :: "volume_capability option \<Rightarrow> bool" where
  "wants_block cap = (case cap of None \<Rightarrow> False | Some c \<Rightarrow> cap_is_block c)"

text \<open>\<open>NodeStageVolume\<close> once the path is known not to be mounted: find the device and stage it.\<close>

definition stage_device :: "'k node_service \<Rightarrow> stage_request \<Rightarrow> string \<Rightarrow> ('k world, unit) go" where
  "stage_device s req serial w =
     (let device = device_path_of s serial; staging = sg_staging_path req
      in case fs_wait_for_device (node_fs s) device (device_scan_timeout s) w of
           (Some e, w1) \<Rightarrow>
             (Inl (status_error Unavailable (''device not found at '' @ device @ '': '' @ error_text e)), w1)
         | (None, w1) \<Rightarrow>
             (case (if wants_block (sg_capability req) then stage_block s device staging w1
                    else stage_filesystem s (sg_volume_id req) device staging
                           (cap_fs_type default_fs_type (sg_capability req)) w1) of
                (Some e, w2) \<Rightarrow> (Inl e, w2)
              | (None, w2) \<Rightarrow> (Inr (), on_metrics (record_node_operation ''stage'') w2)))"

definition node_stage_volume :: "'k node_service \<Rightarrow> stage_request \<Rightarrow> ('k world, unit) go" where
  "node_stage_volume s req w =
     (case check_stage_request req of
        Some e \<Rightarrow> (Inl e, w)
      | None \<Rightarrow>
          (case mounted_or_false s (sg_staging_path req) w of
             (True, w1) \<Rightarrow> (Inr (), w1)
           | (False, w1) \<Rightarrow>
               (case sg_publish_context req ''serial'' of
                  None \<Rightarrow> (Inl (status_error InvalidArgument ''serial number not found in PublishContext''), w1)
                | Some serial \<Rightarrow>
                    if serial = '''' then
                      (Inl (status_error InvalidArgument ''serial number not found in PublishContext''), w1)
                    else stage_device s req serial w1)))"

text \<open>Unmount if mounted, then remove the path; a failed removal is only logged.\<close>

definition unmount_and_remove :: "'k node_service \<Rightarrow> string \<Rightarrow> string \<Rightarrow> string \<Rightarrow> ('k world, unit) go" where
  "unmount_and_remove s operation text path w =
     (case mounted_or_false s path w of
        (m, w1) \<Rightarrow>
          (case (if m then fs_unmount (node_fs s) path 0 w1 else (None, w1)) of
             (Some e, w2) \<Rightarrow> (Inl (internal_error text e), record_node_error operation ''unmount_failed'' w2)
           | (None, w2) \<Rightarrow>
               (case fs_remove_all (node_fs s) path w2 of
                  (_, w3) \<Rightarrow> (Inr (), on_metrics (record_node_operation operation) w3))))"

definition node_unstage_volume :: "'k node_service \<Rightarrow> string \<Rightarrow> string \<Rightarrow> ('k world, unit) go" where
  "node_unstage_volume s volume staging w =
     (case validate_required_field volume ''volume ID'' of
        Some e \<Rightarrow> (Inl e, w)
      | None \<Rightarrow>
          (case validate_path staging ''staging target path'' of
             Some e \<Rightarrow> (Inl e, w)
           | None \<Rightarrow> unmount_and_remove s ''unstage'' ''unmount staging path: '' staging w))"

section \<open>Publishing\<close>

record node_publish_request =
  np_volume_id :: string
  np_target_path :: string
  np_staging_path :: string
  np_capability :: "volume_capability option"
  np_readonly :: bool

definition check_node_publish_request :: "node_publish_request \<Rightarrow> go_error option" where
  "check_node_publish_request req =
     (case validate_required_field (np_volume_id req) ''volume ID'' of
        Some e \<Rightarrow> Some e
      | None \<Rightarrow>
          (case validate_path (np_target_path req) ''target path'' of
             Some e \<Rightarrow> Some e
           | None \<Rightarrow>
               (case (if np_staging_path req \<noteq> '''' then validate_path (np_staging_path req) ''staging target path''
                      else None) of
                  Some e \<Rightarrow> Some e
                | None \<Rightarrow>
                    if np_capability req = None then
                      Some (status_error InvalidArgument ''volume capability is required'')
                    else None)))"

definition publish_block :: "'k node_service \<Rightarrow> string \<Rightarrow> string \<Rightarrow> 'k world go_err" where
  "publish_block s staging target w =
     (case fs_mkdir_all (node_fs s) (filepath_dir target) dir_perm w of
        (Some e, w1) \<Rightarrow>
          (Some (internal_error ''create parent dir: '' e), record_node_error ''publish'' ''create_dir_failed'' w1)
      | (None, w1) \<Rightarrow>
          (case fs_create_file (node_fs s) target file_perm w1 of
             (Some e, w2) \<Rightarrow>
               (Some (internal_error ''create target file: '' e),
                record_node_error ''publish'' ''create_file_failed'' w2)
           | (None, w2) \<Rightarrow>
               (case fs_mount (node_fs s) staging target '''' ms_bind '''' w2 of
                  (Some e, w3) \<Rightarrow>
                    (Some (internal_error ''bind mount block device: '' e),
                     record_node_error ''publish'' ''mount_failed'' w3)
                | (None, w3) \<Rightarrow> (None, w3))))"

definition publish_flags :: "bool \<Rightarrow> i64" where
  "publish_flags readonly = (if readonly then or ms_bind ms_rdonly else ms_bind)"

definition remount_flags :: i64 where
  "remount_flags = or (or ms_bind ms_remount) ms_rdonly"

text \<open>A failed read-only remount is only logged.\<close>

definition publish_filesystem :: "'k node_service \<Rightarrow> string \<Rightarrow> string \<Rightarrow> bool \<Rightarrow> 'k world go_err" where
  "publish_filesystem s staging target readonly w =
     (case fs_mkdir_all (node_fs s) target dir_perm w of
        (Some e, w1) \<Rightarrow>
          (Some (internal_error ''create target path: '' e), record_node_error ''publish'' ''create_dir_failed'' w1)
      | (None, w1) \<Rightarrow>
          (case fs_mount (node_fs s) staging target '''' (publish_flags readonly) '''' w1 of
             (Some e, w2) \<Rightarrow>
               (Some (internal_error ''bind mount staging to target: '' e),
                record_node_error ''publish'' ''mount_failed'' w2)
           | (None, w2) \<Rightarrow>
               if readonly then
                 (case fs_mount (node_fs s) '''' target '''' remount_flags '''' w2 of (_, w3) \<Rightarrow> (None, w3))
               else (None, w2)))"

definition node_publish_volume :: "'k node_service \<Rightarrow> node_publish_request \<Rightarrow> ('k world, unit) go" where
  "node_publish_volume s req w =
     (case check_node_publish_request req of
        Some e \<Rightarrow> (Inl e, w)
      | None \<Rightarrow>
          (case mounted_or_false s (np_target_path req) w of
             (True, w1) \<Rightarrow> (Inr (), w1)
           | (False, w1) \<Rightarrow>
               if wants_block (np_capability req) \<and> np_readonly req then
                 (Inl (status_error InvalidArgument ''readonly access mode is not supported for block volumes''), w1)
               else
                 (case (if wants_block (np_capability req)
                        then publish_block s (np_staging_path req) (np_target_path req) w1
                        else publish_filesystem s (np_staging_path req) (np_target_path req) (np_readonly req) w1) of
                    (Some e, w2) \<Rightarrow> (Inl e, w2)
                  | (None, w2) \<Rightarrow> (Inr (), on_metrics (record_node_operation ''publish'') w2))))"

definition node_unpublish_volume :: "'k node_service \<Rightarrow> string \<Rightarrow> string \<Rightarrow> ('k world, unit) go" where
  "node_unpublish_volume s volume target w =
     (case validate_required_field volume ''volume ID'' of
        Some e \<Rightarrow> (Inl e, w)
      | None \<Rightarrow>
          (case validate_path target ''target path'' of
             Some e \<Rightarrow> (Inl e, w)
           | None \<Rightarrow> unmount_and_remove s ''unpublish'' ''unmount target: '' target w))"

section \<open>Statistics\<close>

record volume_condition =
  abnormal :: bool
  condition_text :: string

text \<open>
  The shares of used bytes and inodes are \<open>float64\<close> in the code; here they are compared as exact
  fractions, and \<open>percent_text\<close> is the share with one decimal (\<open>%.1f%%\<close>).
\<close>

definition over_95 :: "i64 \<Rightarrow> i64 \<Rightarrow> bool" where
  "over_95 used whole \<longleftrightarrow> 0 < sint whole \<and> 95 * sint whole < 100 * sint used"

definition percent_text :: "i64 \<Rightarrow> i64 \<Rightarrow> string" where
  "percent_text used whole =
     (let tenths = (2000 * sint used + sint whole) div (2 * sint whole)
      in itoa (tenths div 10) @ ''.'' @ itoa (tenths mod 10) @ ''%'')"

definition check_volume_health :: "'k node_service \<Rightarrow> string \<Rightarrow> fs_stats \<Rightarrow> 'k world \<Rightarrow> volume_condition \<times> 'k world" where
  "check_volume_health s path st w =
     (case fs_is_mount_point (node_fs s) path w of
        (Inl e, w1) \<Rightarrow>
          (\<lparr>abnormal = True, condition_text = ''Failed to check mount status: '' @ error_text e\<rparr>, w1)
      | (Inr m, w1) \<Rightarrow>
          (if \<not> m then \<lparr>abnormal = True, condition_text = ''Volume is not mounted''\<rparr>
           else if over_95 (used_bytes_of st) (total_bytes st) then
             \<lparr>abnormal = True, condition_text =
                ''Volume is critically full ('' @ percent_text (used_bytes_of st) (total_bytes st) @ '' used)''\<rparr>
           else if over_95 (used_inodes st) (total_inodes st) then
             \<lparr>abnormal = True, condition_text =
                ''Volume inodes critically low ('' @ percent_text (used_inodes st) (total_inodes st) @ '' used)''\<rparr>
           else \<lparr>abnormal = False, condition_text = ''Volume is healthy''\<rparr>, w1))"

text \<open>The response: the statistics, absent if they could not be read, and the condition.\<close>

definition node_get_volume_stats ::
  "'k node_service \<Rightarrow> string \<Rightarrow> string \<Rightarrow> ('k world, fs_stats option \<times> volume_condition) go"
where
  "node_get_volume_stats s volume path w =
     (case validate_required_field volume ''volume ID'' of
        Some e \<Rightarrow> (Inl e, w)
      | None \<Rightarrow>
          (case validate_required_field path ''volume path'' of
             Some e \<Rightarrow> (Inl e, w)
           | None \<Rightarrow>
               (case fs_path_exists (node_fs s) path w of
                  (Inl e, w1) \<Rightarrow> (Inl (internal_error (''failed to check path '' @ path @ '': '') e), w1)
                | (Inr False, w1) \<Rightarrow> (Inl (status_error NotFound (''volume path does not exist: '' @ path)), w1)
                | (Inr True, w1) \<Rightarrow>
                    (case fs_get_stats (node_fs s) path w1 of
                       (Inl e, w2) \<Rightarrow>
                         (Inr (None, \<lparr>abnormal = True, condition_text =
                            ''Failed to get volume statistics: '' @ error_text e @
                            ''. Volume may be corrupted or unmounted.''\<rparr>), w2)
                     | (Inr st, w2) \<Rightarrow>
                         (case check_volume_health s path st w2 of (c, w3) \<Rightarrow> (Inr (Some st, c), w3))))))"

datatype node_capability =
    StageUnstageVolume | GetVolumeStats | VolumeConditionCap | NodeExpandVolumeCap

definition node_capabilities :: "node_capability list" where
  "node_capabilities = [StageUnstageVolume, GetVolumeStats, VolumeConditionCap, NodeExpandVolumeCap]"

section \<open>Zone and node information\<close>

definition get_node_zone_from_kubernetes :: "'k kube_client \<Rightarrow> string \<Rightarrow> ('k world, string) go" where
  "get_node_zone_from_kubernetes kc nid w =
     (case on_sys (kube_get_node kc nid) w of
        (Inl e, w1) \<Rightarrow> (Inl (wrap_error (''failed to get node '' @ nid @ '' from Kubernetes API: '') e), w1)
      | (Inr labels, w1) \<Rightarrow>
          (case labels zone_key of
             Some z \<Rightarrow>
               if z = '''' then (Inl (plain_error (''node '' @ nid @
                 '' missing topology.kubernetes.io/zone label - zone information is required for multi-zone deployments'')), w1)
               else (Inr z, w1)
           | None \<Rightarrow> (Inl (plain_error (''node '' @ nid @
               '' missing topology.kubernetes.io/zone label - zone information is required for multi-zone deployments'')), w1)))"

definition get_node_zone :: "'k node_service \<Rightarrow> ('k world, string) go" where
  "get_node_zone s = get_node_zone_from_kubernetes (kube s) (node_id s)"

record node_info =
  info_node_id :: string
  info_max_volumes :: i64
  info_topology :: "string \<rightharpoonup> string"

definition node_get_info :: "'k node_service \<Rightarrow> ('k world, node_info) go" where
  "node_get_info s w =
     (case get_node_zone s w of
        (Inl e, w1) \<Rightarrow> (Inl (status_error FailedPrecondition (''zone information required: '' @ error_text e)), w1)
      | (Inr zone, w1) \<Rightarrow>
          (Inr \<lparr>info_node_id = node_id s, info_max_volumes = node_max_volumes s,
                info_topology = [zone_key \<mapsto> zone]\<rparr>, w1))"

section \<open>Expansion\<close>

fun attachment_serial :: "string \<Rightarrow> string \<Rightarrow> volume_attachment list \<Rightarrow> string option" where
  "attachment_serial nid pv [] = None"
| "attachment_serial nid pv (va # rest) =
     (if va_node_name va \<noteq> nid then attachment_serial nid pv rest
      else if va_pv_name va \<noteq> Some pv then attachment_serial nid pv rest
      else (case va_metadata va ''serial'' of
              None \<Rightarrow> attachment_serial nid pv rest
            | Some serial \<Rightarrow> if serial = '''' then attachment_serial nid pv rest else Some serial))"

definition resolve_device_from_volume_attachment :: "'k node_service \<Rightarrow> string \<Rightarrow> ('k world, string) go" where
  "resolve_device_from_volume_attachment s volume w =
     (let pv = trim_prefix volume ''csi-''
      in if pv = volume \<or> pv = '''' then
           (Inl (plain_error (''cannot derive PV name from volume ID '' @ quoted volume @
              '' (missing '' @ quoted ''csi-'' @ '' prefix)'')), w)
         else
           (case on_sys (kube_get_pv (kube s) pv) w of
              (Inl e, w1) \<Rightarrow>
                (Inl (wrap_error (''get persistent volume '' @ pv @ '' for volume '' @ volume @ '': '') e), w1)
            | (Inr handle, w1) \<Rightarrow>
                if handle \<noteq> Some volume then
                  (Inl (plain_error (''persistent volume '' @ pv @ '' handle '' @
                     quoted (case handle of None \<Rightarrow> '''' | Some h \<Rightarrow> h) @
                     '' does not match volume '' @ quoted volume)), w1)
                else
                  (case on_sys (kube_list_vas (kube s)) w1 of
                     (Inl e, w2) \<Rightarrow> (Inl (wrap_error ''list volume attachments: '' e), w2)
                   | (Inr vas, w2) \<Rightarrow>
                       (case attachment_serial (node_id s) pv vas of
                          Some serial \<Rightarrow> (Inr (device_path_of s serial), w2)
                        | None \<Rightarrow>
                            (Inl (plain_error (''no volume attachment with a disk serial found for volume '' @
                               volume @ '' on node '' @ node_id s)), w2)))))"

record node_expand_request =
  ne_volume_id :: string
  ne_volume_path :: string
  ne_staging_path :: string
  ne_capacity_range :: "capacity_range option"
  ne_capability :: "volume_capability option"

definition check_node_expand_request :: "node_expand_request \<Rightarrow> go_error option" where
  "check_node_expand_request req =
     (case validate_required_field (ne_volume_id req) ''volume ID'' of
        Some e \<Rightarrow> Some e
      | None \<Rightarrow>
          (case validate_required_field (ne_volume_path req) ''volume path'' of
             Some e \<Rightarrow> Some e
           | None \<Rightarrow>
               if ne_staging_path req \<noteq> '''' then validate_path (ne_staging_path req) ''staging target path''
               else None))"

text \<open>The backing device: of the mount if it is visible, else of the volume attachment.\<close>

definition backing_device :: "'k node_service \<Rightarrow> string \<Rightarrow> string \<Rightarrow> ('k world, string) go" where
  "backing_device s volume lookup_path w =
     (case fs_find_device_for_path (node_fs s) lookup_path w of
        (Inr device, w1) \<Rightarrow> (Inr device, w1)
      | (Inl _, w1) \<Rightarrow>
          (case resolve_device_from_volume_attachment s volume w1 of
             (Inr device, w2) \<Rightarrow> (Inr device, w2)
           | (Inl e, w2) \<Rightarrow>
               (Inl (status_error FailedPrecondition
                  (''could not resolve backing device for volume '' @ volume @ '' at '' @ lookup_path @ '': '' @
                   error_text e)),
                record_node_error ''expand'' ''device_resolve_failed'' w2)))"

definition expand_filesystem :: "'k node_service \<Rightarrow> node_expand_request \<Rightarrow> 'k world go_err" where
  "expand_filesystem s req w =
     (let lookup_path = (if ne_staging_path req \<noteq> '''' then ne_staging_path req else ne_volume_path req)
      in case backing_device s (ne_volume_id req) lookup_path w of
           (Inl e, w1) \<Rightarrow> (Some e, w1)
         | (Inr device, w1) \<Rightarrow>
             (case fs_resize_filesystem (node_fs s) device lookup_path
                      (cap_fs_type default_fs_type (ne_capability req)) w1 of
                (Some e, w2) \<Rightarrow>
                  (Some (internal_error (''resize filesystem on '' @ device @ '': '') e),
                   record_node_error ''expand'' ''resize_failed'' w2)
              | (None, w2) \<Rightarrow> (None, w2)))"

definition node_expand_volume :: "'k node_service \<Rightarrow> node_expand_request \<Rightarrow> ('k world, i64) go" where
  "node_expand_volume s req w =
     (case check_node_expand_request req of
        Some e \<Rightarrow> (Inl e, w)
      | None \<Rightarrow>
          (case fs_path_exists (node_fs s) (ne_volume_path req) w of
             (Inl e, w1) \<Rightarrow>
               (Inl (internal_error (''failed to check volume path '' @ ne_volume_path req @ '': '') e),
                record_node_error ''expand'' ''path_check_failed'' w1)
           | (Inr False, w1) \<Rightarrow>
               (Inl (status_error NotFound (''volume path does not exist: '' @ ne_volume_path req)),
                record_node_error ''expand'' ''volume_not_found'' w1)
           | (Inr True, w1) \<Rightarrow>
               (case (if wants_block (ne_capability req) then (None, w1) else expand_filesystem s req w1) of
                  (Some e, w2) \<Rightarrow> (Inl e, w2)
                | (None, w2) \<Rightarrow>
                    (Inr (range_bytes (ne_capacity_range req)), on_metrics (record_node_operation ''expand'') w2))))"

end
