(* ===== verification/Proc_Mounts.thy ===== *)
theory Proc_Mounts
  imports Filesystem
begin

text \<open>
  The text of \<open>/proc/mounts\<close>, which \<open>IsMountPoint\<close> and \<open>FindDeviceForPath\<close> read: one line per
  mount with the source, the target and the rest, the white space inside a name written as an
  octal escape (\<open>proc(5)\<close>, \<open>show_vfsmnt\<close> in the kernel: space, tab, newline and backslash, in the source
  also the hash). The lemmas relate the driver's reading of that text to the table
  of mounts it was written from.
\<close>

section \<open>Writing the table\<close>

record mount_entry =
  me_source :: string
  me_target :: string
  me_rest :: string

definition escaped_chars :: "char set" where
  "escaped_chars = {CHR '' '', CHR 0x09, CHR 0x0A, CHR 0x5C}"

definition source_escaped_chars :: "char set" where
  "source_escaped_chars = insert (CHR ''#'') escaped_chars"

definition octal_escape :: "char \<Rightarrow> string" where
  "octal_escape c =
     (let n = of_char c :: nat
      in [CHR 0x5C, digit_char (n div 64), digit_char (n div 8 mod 8), digit_char (n mod 8)])"

definition escape_char :: "char set \<Rightarrow> char \<Rightarrow> string" where
  "escape_char E c = (if c \<in> E then octal_escape c else [c])"

definition escape :: "char set \<Rightarrow> string \<Rightarrow> string" where
  "escape E s = concat (map (escape_char E) s)"

abbreviation escape_source :: "string \<Rightarrow> string" where
  "escape_source \<equiv> escape source_escaped_chars"

abbreviation escape_target :: "string \<Rightarrow> string" where
  "escape_target \<equiv> escape escaped_chars"

definition render_line :: "mount_entry \<Rightarrow> string" where
  "render_line e = escape_source (me_source e) @ CHR '' '' # escape_target (me_target e) @ CHR '' '' # me_rest e"

definition render_mounts :: "mount_entry list \<Rightarrow> string" where
  "render_mounts es = concat (map (\<lambda>e. render_line e @ [newline]) es)"

text \<open>
  Names the kernel writes without the other kinds of white space, and a rest on one line. Fields are
  split at the white space of ASCII; white space of other scripts in a name is not modelled.
\<close>

definition name_ok :: "string \<Rightarrow> bool" where
  "name_ok s \<longleftrightarrow> s \<noteq> '''' \<and> (\<forall>c \<in> set s. c \<notin> {CHR 0x0B, CHR 0x0C, CHR 0x0D})"

definition entry_ok :: "mount_entry \<Rightarrow> bool" where
  "entry_ok e \<longleftrightarrow> name_ok (me_source e) \<and> name_ok (me_target e) \<and> newline \<notin> set (me_rest e)"

definition plain_name :: "string \<Rightarrow> bool" where
  "plain_name s \<longleftrightarrow> (\<forall>c \<in> set s. c \<notin> escaped_chars)"

section \<open>Reading it back\<close>

lemma string_fields_word:
  assumes "\<forall>c \<in> set wd. \<not> is_space c" "is_space sp" "wd \<noteq> [] \<or> cur \<noteq> []"
  shows "string_fields_acc cur (wd @ sp # rest) = (rev cur @ wd) # string_fields_acc [] rest"
  using assms
proof (induction wd arbitrary: cur)
  case (Cons c wd)
  then show ?case using Cons.IH [of "c # cur"] by simp
qed simp

lemma escape_sets:
  "escaped_chars \<subseteq> source_escaped_chars" "source_escaped_chars \<subseteq> source_escaped_chars"
  by (auto simp: source_escaped_chars_def)

lemma octal_escape_values:
  "octal_escape (CHR '' '') = [CHR 0x5C, CHR ''0'', CHR ''4'', CHR ''0'']"
  "octal_escape (CHR 0x09) = [CHR 0x5C, CHR ''0'', CHR ''1'', CHR ''1'']"
  "octal_escape (CHR 0x0A) = [CHR 0x5C, CHR ''0'', CHR ''1'', CHR ''2'']"
  "octal_escape (CHR 0x5C) = [CHR 0x5C, CHR ''1'', CHR ''3'', CHR ''4'']"
  "octal_escape (CHR ''#'') = [CHR 0x5C, CHR ''0'', CHR ''4'', CHR ''3'']"
  by code_simp+

abbreviation octal_chars :: "char set" where
  "octal_chars \<equiv> {CHR 0x5C, CHR ''0'', CHR ''1'', CHR ''2'', CHR ''3'', CHR ''4''}"

lemma escape_char_set:
  assumes "c \<in> E" "E \<subseteq> source_escaped_chars"
  shows "set (escape_char E c) \<subseteq> octal_chars \<and> CHR 0x5C \<in> set (escape_char E c)"
proof -
  from assms have "c \<in> source_escaped_chars" by blast
  then have "set (octal_escape c) \<subseteq> octal_chars \<and> CHR 0x5C \<in> set (octal_escape c)"
    unfolding source_escaped_chars_def escaped_chars_def
    by (elim insertE emptyE) (simp_all only: octal_escape_values list.set insert_subset empty_subsetI insert_iff simp_thms)
  with assms(1) show ?thesis by (simp add: escape_char_def)
qed

lemma escape_char_other: "c \<notin> E \<Longrightarrow> escape_char E c = [c]"
  by (simp add: escape_char_def)

lemma escape_char_Nil [simp]: "escape_char E c \<noteq> []"
  by (simp add: escape_char_def octal_escape_def Let_def)

lemma in_escape_char:
  assumes "x \<in> set (escape_char E c)" "E \<subseteq> source_escaped_chars"
  shows "x = c \<and> c \<notin> E \<or> x \<in> octal_chars"
  using assms escape_char_set [of c E] escape_char_other [of c E] by (cases "c \<in> E") auto

lemma octal_not_space: "x \<in> octal_chars \<Longrightarrow> \<not> is_space x"
  by (elim insertE emptyE) (simp_all add: is_space_def)

lemma octal_escaped: "x \<in> octal_chars \<Longrightarrow> x \<in> escaped_chars \<Longrightarrow> x = CHR 0x5C"
  by (elim insertE emptyE) (simp_all add: escaped_chars_def)

lemma escape_no_space:
  assumes "name_ok s" "escaped_chars \<subseteq> E" "E \<subseteq> source_escaped_chars"
  shows "\<forall>x \<in> set (escape E s). \<not> is_space x"
proof
  fix x assume "x \<in> set (escape E s)"
  then obtain c where c: "c \<in> set s" "x \<in> set (escape_char E c)" by (auto simp: escape_def)
  from in_escape_char [OF c(2) assms(3)] show "\<not> is_space x"
  proof
    assume "x = c \<and> c \<notin> E"
    with c(1) assms(1,2) show ?thesis by (auto simp: name_ok_def is_space_def escaped_chars_def)
  qed (rule octal_not_space)
qed

lemma escape_Nil: "escape E s = '''' \<longleftrightarrow> s = ''''"
  by (cases s) (simp_all add: escape_def)

lemma escape_plain: "plain_name s \<Longrightarrow> escape_target s = s"
  by (induction s) (auto simp: escape_def plain_name_def escape_char_def)

lemma escape_eq_plain:
  assumes "escape_target t = p" "CHR 0x5C \<notin> set p"
  shows "t = p"
proof -
  have "c \<notin> escaped_chars" if "c \<in> set t" for c
  proof
    assume "c \<in> escaped_chars"
    from escape_char_set [OF this escape_sets(1)] that have "CHR 0x5C \<in> set (escape_target t)" by (auto simp: escape_def)
    with assms show False by simp
  qed
  then have "plain_name t" by (simp add: plain_name_def)
  with assms(1) show ?thesis by (simp add: escape_plain)
qed

lemma escape_special:
  assumes "x \<in> set (escape_target t)" "x \<in> escaped_chars"
  shows "x = CHR 0x5C"
proof -
  from assms(1) obtain c where "x \<in> set (escape_char escaped_chars c)" by (auto simp: escape_def)
  from in_escape_char [OF this escape_sets(1)] assms(2) octal_escaped show ?thesis by blast
qed

lemma names_no_space:
  assumes "name_ok s"
  shows "\<forall>x \<in> set (escape_source s). \<not> is_space x" "\<forall>x \<in> set (escape_target s). \<not> is_space x"
  using escape_no_space [OF assms escape_sets(1,2)] escape_no_space [OF assms subset_refl escape_sets(1)] by blast+

lemma fields_render_line:
  assumes "entry_ok e"
  shows "string_fields (render_line e) =
    escape_source (me_source e) # escape_target (me_target e) # string_fields (me_rest e)"
proof -
  have sp: "is_space (CHR '' '')" by (simp add: is_space_def)
  have s: "string_fields_acc [] (escape_source (me_source e) @ CHR '' '' # r) = escape_source (me_source e) # string_fields_acc [] r"
    and t: "string_fields_acc [] (escape_target (me_target e) @ CHR '' '' # r) = escape_target (me_target e) # string_fields_acc [] r"
    for r
    using assms string_fields_word [OF names_no_space(1) sp, of _ "[]"] string_fields_word [OF names_no_space(2) sp, of _ "[]"]
    by (simp_all add: entry_ok_def escape_Nil name_ok_def)
  show ?thesis by (simp add: string_fields_def render_line_def s t)
qed

lemma escape_no_newline: "name_ok s \<Longrightarrow> newline \<notin> set (escape_source s) \<and> newline \<notin> set (escape_target s)"
  using names_no_space by (fastforce simp: newline_def is_space_def)

lemma split_render:
  assumes "\<forall>e \<in> set es. entry_ok e"
  shows "split_on newline (render_mounts es) = map render_line es @ ['''']"
  using assms
proof (induction es)
  case (Cons e es)
  have "newline \<notin> set (render_line e)"
    using Cons.prems escape_no_newline
    by (auto simp: render_line_def entry_ok_def newline_def)
  then show ?case
    using Cons by (simp add: render_mounts_def split_on_append_sep split_on_no_sep)
qed (simp add: render_mounts_def)

lemma find_line_render:
  assumes "\<forall>e \<in> set es. entry_ok e"
  shows "find_mount_line p (split_on newline (render_mounts es)) =
     map_option (\<lambda>e. escape_source (me_source e) # escape_target (me_target e) # string_fields (me_rest e))
       (find (\<lambda>e. escape_target (me_target e) = p) es)"
  unfolding split_render [OF assms] using assms
proof (induction es)
  case Nil
  then show ?case by (simp add: string_fields_def)
next
  case (Cons e es)
  then show ?case by (simp add: fields_render_line Let_def)
qed

text \<open>For a name without escapes the first line found is that of a mount on it.\<close>

lemma find_target:
  assumes "plain_name p"
  shows "find (\<lambda>e. escape_target (me_target e) = p) es = find (\<lambda>e. me_target e = p) es"
proof -
  have "CHR 0x5C \<notin> set p" using assms by (auto simp: plain_name_def escaped_chars_def)
  then have "escape_target t = p \<longleftrightarrow> t = p" for t
    using escape_eq_plain [of t p] escape_plain [OF assms] by auto
  then show ?thesis by simp
qed

text \<open>A name with white space is never found, mounted or not.\<close>

lemma find_special:
  assumes "c \<in> set p" "c \<in> escaped_chars" "c \<noteq> CHR 0x5C"
  shows "find (\<lambda>e. escape_target (me_target e) = p) es = None"
  using assms escape_special by (fastforce simp: find_None_iff)

end
