(* ===== verification/Fs_Contract.thy ===== *)
theory Fs_Contract
  imports Proc_Mounts
begin

text \<open>
  The contract of the interface \<open>Operations\<close> of \<open>pkg/filesystem\<close>: what the operations may do to
  the mounts of the machine and to the file systems on its devices. \<open>UnixOperations\<close> meets it on
  every kernel with the documented behaviour of the system calls and of \<open>blkid\<close>, \<open>mkfs.ext4\<close>,
  \<open>fsck.ext4\<close>, \<open>resize2fs\<close> and \<open>xfs_growfs\<close> (the locale \<open>unix_kernel\<close>).
\<close>

section \<open>The contract\<close>

text \<open>
  How often a path is mounted on, whether a device carries a file system, and how often the
  device has been formatted. \<open>good\<close> are the paths for which a mount is found under the name it was
  asked for; only for them are the operations on mounts exact.
\<close>

record fs_view =
  fv_mounts :: "string \<Rightarrow> nat"
  fv_formatted :: "string \<Rightarrow> bool"
  fv_formats :: "string \<Rightarrow> nat"

locale fs_contract =
  fixes ops :: "'k fs_ops" and fv :: "'k \<Rightarrow> fs_view" and good :: "string \<Rightarrow> bool"
  assumes silent [simp]:
      "fv (sys (snd (fs_wait_for_device ops d t w))) = fv (sys w)"
      "fv (sys (snd (fs_is_device_formatted ops d w))) = fv (sys w)"
      "fv (sys (snd (fs_is_block_device ops d w))) = fv (sys w)"
      "fv (sys (snd (fs_is_mount_point ops p w))) = fv (sys w)"
      "fv (sys (snd (fs_find_device_for_path ops p w))) = fv (sys w)"
      "fv (sys (snd (fs_mkdir_all ops p perm w))) = fv (sys w)"
      "fv (sys (snd (fs_remove_all ops p w))) = fv (sys w)"
      "fv (sys (snd (fs_create_file ops p perm w))) = fv (sys w)"
      "fv (sys (snd (fs_path_exists ops p w))) = fv (sys w)"
      "fv (sys (snd (fs_get_stats ops p w))) = fv (sys w)"
    and repair [simp]:
      "fv_mounts (fv (sys (snd (fs_repair_filesystem ops d ft w)))) = fv_mounts (fv (sys w))"
      "fv_formats (fv (sys (snd (fs_repair_filesystem ops d ft w)))) = fv_formats (fv (sys w))"
    and resize [simp]:
      "fv_mounts (fv (sys (snd (fs_resize_filesystem ops d p ft w)))) = fv_mounts (fv (sys w))"
      "fv_formats (fv (sys (snd (fs_resize_filesystem ops d p ft w)))) = fv_formats (fv (sys w))"
    and format_mounts [simp]:
      "fv_mounts (fv (sys (snd (fs_format_device ops d ft w)))) = fv_mounts (fv (sys w))"
    and format_other:
      "e \<noteq> d \<Longrightarrow> fv_formats (fv (sys (snd (fs_format_device ops d ft w)))) e = fv_formats (fv (sys w)) e"
    and is_formatted_ok:
      "fst (fs_is_device_formatted ops d w) = Inr b \<Longrightarrow> b = fv_formatted (fv (sys w)) d"
    and is_mount_point_ok:
      "good p \<Longrightarrow> fst (fs_is_mount_point ops p w) = Inr b \<Longrightarrow> b = (0 < fv_mounts (fv (sys w)) p)"
    and mount_formats [simp]:
      "fv_formats (fv (sys (snd (fs_mount ops src tgt ft fl opt w)))) = fv_formats (fv (sys w))"
      "fv_formatted (fv (sys (snd (fs_mount ops src tgt ft fl opt w)))) = fv_formatted (fv (sys w))"
    and mount_ok:
      "good tgt \<Longrightarrow> and fl ms_remount = 0 \<Longrightarrow> fst (fs_mount ops src tgt ft fl opt w) = None \<Longrightarrow>
         fv_mounts (fv (sys (snd (fs_mount ops src tgt ft fl opt w)))) =
           (fv_mounts (fv (sys w)))(tgt := Suc (fv_mounts (fv (sys w)) tgt))"
    and mount_failed:
      "fst (fs_mount ops src tgt ft fl opt w) = Some er \<Longrightarrow>
         fv_mounts (fv (sys (snd (fs_mount ops src tgt ft fl opt w)))) = fv_mounts (fv (sys w))"
    and remount:
      "and fl ms_remount \<noteq> 0 \<Longrightarrow>
         fv_mounts (fv (sys (snd (fs_mount ops src tgt ft fl opt w)))) = fv_mounts (fv (sys w))"
    and unmount_formats [simp]:
      "fv_formats (fv (sys (snd (fs_unmount ops tgt uf w)))) = fv_formats (fv (sys w))"
    and unmount_ok:
      "good tgt \<Longrightarrow> fst (fs_unmount ops tgt uf w) = None \<Longrightarrow>
         fv_mounts (fv (sys (snd (fs_unmount ops tgt uf w)))) =
           (fv_mounts (fv (sys w)))(tgt := fv_mounts (fv (sys w)) tgt - 1)"
    and unmount_failed:
      "fst (fs_unmount ops tgt uf w) = Some er \<Longrightarrow>
         fv_mounts (fv (sys (snd (fs_unmount ops tgt uf w)))) = fv_mounts (fv (sys w))"

section \<open>The kernel\<close>

record machine_view =
  mv_table :: "mount_entry list"
  mv_formatted :: "string \<Rightarrow> bool"
  mv_formats :: "string \<Rightarrow> nat"

definition mounts_on :: "mount_entry list \<Rightarrow> string \<Rightarrow> nat" where
  "mounts_on es p = length (filter (\<lambda>e. me_target e = p) es)"

definition fs_view_of :: "machine_view \<Rightarrow> fs_view" where
  "fs_view_of v =
     \<lparr>fv_mounts = mounts_on (mv_table v), fv_formatted = mv_formatted v, fv_formats = mv_formats v\<rparr>"

text \<open>
  \<open>canon\<close> are the paths the kernel records in its table as they are given: absolute and clean, with no
  symbolic link among their components. A mount on another path is recorded under the name it
  resolves to, so the laws of \<open>k_mount\<close> and \<open>k_unmount\<close> say nothing of the name there. The table is that
  of one mount namespace, without mount propagation between its own paths.
\<close>

locale unix_kernel =
  fixes rt :: "'k runtime" and kern :: "'k kernel" and interval :: i64 and mv :: "'k \<Rightarrow> machine_view"
    and canon :: "string \<Rightarrow> bool"
  assumes k_silent [simp]:
      "mv (snd (k_stat kern p k)) = mv k" "mv (snd (k_os_stat kern p k)) = mv k"
      "mv (snd (k_read_mounts kern k)) = mv k" "mv (snd (k_statfs kern p k)) = mv k"
      "mv (snd (k_mkdir_all kern p perm k)) = mv k" "mv (snd (k_remove_all kern p k)) = mv k"
      "mv (snd (k_open_create kern p perm k)) = mv k" "mv (snd (k_close kern p k)) = mv k"
      "mv (snd (rt_after rt dl k)) = mv k"
    and run_table: "mv_table (mv (snd (k_run kern args k))) = mv_table (mv k)"
    and run_not_mkfs: "hd args \<noteq> ''mkfs.ext4'' \<Longrightarrow> mv_formats (mv (snd (k_run kern args k))) = mv_formats (mv k)"
    and run_mkfs: "e \<noteq> last args \<Longrightarrow> mv_formats (mv (snd (k_run kern args k))) e = mv_formats (mv k) e"
    and run_blkid: "hd args = ''blkid'' \<Longrightarrow> mv (snd (k_run kern args k)) = mv k"
    and blkid_none:
      "fst (k_run kern [''blkid'', ''-p'', ''-s'', ''TYPE'', ''-o'', ''value'', d] k) = (Some er, out) \<Longrightarrow>
         err_kind er = KExit 2 \<Longrightarrow> \<not> mv_formatted (mv k) d"
    and blkid_type:
      "fst (k_run kern [''blkid'', ''-p'', ''-s'', ''TYPE'', ''-o'', ''value'', d] k) = (None, out) \<Longrightarrow>
         mv_formatted (mv k) d \<longleftrightarrow> trim_space out \<noteq> ''''"
    and read_mounts_text: "fst (k_read_mounts kern k) = Inr text \<Longrightarrow> text = render_mounts (mv_table (mv k))"
    and table_entries: "en \<in> set (mv_table (mv k)) \<Longrightarrow> entry_ok en"
    and k_mount_formats [simp]:
      "mv_formats (mv (snd (k_mount kern src tgt ft fl opt k))) = mv_formats (mv k)"
      "mv_formatted (mv (snd (k_mount kern src tgt ft fl opt k))) = mv_formatted (mv k)"
    and k_mount_table:
      "canon tgt \<Longrightarrow> fst (k_mount kern src tgt ft fl opt k) = None \<Longrightarrow> and fl ms_remount = 0 \<Longrightarrow>
         mounts_on (mv_table (mv (snd (k_mount kern src tgt ft fl opt k)))) =
           (mounts_on (mv_table (mv k)))(tgt := Suc (mounts_on (mv_table (mv k)) tgt))"
    and k_mount_same:
      "fst (k_mount kern src tgt ft fl opt k) \<noteq> None \<or> and fl ms_remount \<noteq> 0 \<Longrightarrow>
         mounts_on (mv_table (mv (snd (k_mount kern src tgt ft fl opt k)))) = mounts_on (mv_table (mv k))"
    and k_unmount_formats [simp]:
      "mv_formats (mv (snd (k_unmount kern tgt uf k))) = mv_formats (mv k)"
    and k_unmount_table:
      "canon tgt \<Longrightarrow> fst (k_unmount kern tgt uf k) = None \<Longrightarrow>
         mounts_on (mv_table (mv (snd (k_unmount kern tgt uf k)))) =
           (mounts_on (mv_table (mv k)))(tgt := mounts_on (mv_table (mv k)) tgt - 1)"
    and k_unmount_same:
      "fst (k_unmount kern tgt uf k) \<noteq> None \<Longrightarrow>
         mounts_on (mv_table (mv (snd (k_unmount kern tgt uf k)))) = mounts_on (mv_table (mv k))"
    and k_unmount_einval:
      "canon tgt \<Longrightarrow> fst (k_unmount kern tgt uf k) = Some er \<Longrightarrow> errors_is (KErrno errno_EINVAL) er \<Longrightarrow>
         mounts_on (mv_table (mv k)) tgt = 0"
begin

lemma fs_view_simps [simp]:
  "fv_mounts (fs_view_of v) = mounts_on (mv_table v)"
  "fv_formatted (fs_view_of v) = mv_formatted v" "fv_formats (fs_view_of v) = mv_formats v"
  by (simp_all add: fs_view_of_def)

lemma is_block_view [simp]: "mv (sys (snd (is_block_device kern p w))) = mv (sys w)"
  by (simp add: is_block_device_def case_prod_beta split: sum.split)

lemma sleep_view [simp]: "mv (sys (snd (sleep_for rt i w))) = mv (sys w)"
  by (simp add: sleep_for_def)

lemma wait_view:
  "rt' = rt \<Longrightarrow> kern' = kern \<Longrightarrow>
     mv (sys (snd (wait_for_device_until rt' kern' i p deadline w))) = mv (sys w)"
proof (induction rt' kern' i p deadline w rule: wait_for_device_until.induct)
  case (1 rt' kern' i p deadline w)
  note IH = 1(1) [OF _ prod.collapse _ prod.collapse]
  show ?case
    by (subst wait_for_device_until.simps)
       (use 1(2,3) IH in \<open>auto simp: case_prod_beta split: option.split\<close>)
qed

lemma is_mount_point_view [simp]: "mv (sys (snd (is_mount_point kern p w))) = mv (sys w)"
  by (simp add: is_mount_point_def case_prod_beta split: sum.split)

lemma mount_source_view [simp]: "mv (sys (snd (mount_source kern p w))) = mv (sys w)"
  by (simp add: mount_source_def case_prod_beta split: sum.split option.split)

lemma find_hops_view [simp]: "mv (sys (snd (find_device_hops kern p n cur w))) = mv (sys w)"
proof (induction n arbitrary: cur w)
  case (Suc n)
  then show ?case by (auto simp: case_prod_beta split: sum.split bool.split)
qed simp

text \<open>The line found for a name without escapes belongs to the first mount on it.\<close>

lemma read_line:
  assumes "fst (k_read_mounts kern k) = Inr text" "plain_name p"
  shows "find_mount_line p (split_on newline text) =
    map_option (\<lambda>e. escape_source (me_source e) # escape_target (me_target e) # string_fields (me_rest e))
      (find (\<lambda>e. me_target e = p) (mv_table (mv k)))"
  using find_line_render [of "mv_table (mv k)" p] find_target [OF assms(2), of "mv_table (mv k)"] table_entries
  by (simp add: read_mounts_text [OF assms(1)])

lemma mounts_on_pos: "0 < mounts_on es p \<longleftrightarrow> find (\<lambda>e. me_target e = p) es \<noteq> None"
  by (auto simp: mounts_on_def find_None_iff filter_empty_conv)

lemma is_mount_point_Inr:
  assumes "plain_name p" "fst (is_mount_point kern p w) = Inr b"
  shows "b = (0 < mounts_on (mv_table (mv (sys w))) p)"
  using assms read_line [OF _ assms(1)]
  by (auto simp: is_mount_point_def case_prod_beta mounts_on_pos split: sum.splits)

lemma is_device_formatted_Inr:
  assumes "fst (is_device_formatted kern d w) = Inr b"
  shows "b = mv_formatted (mv (sys w)) d"
proof -
  let ?r = "k_run kern [''blkid'', ''-p'', ''-s'', ''TYPE'', ''-o'', ''value'', d] (sys w)"
  obtain err out where r: "fst ?r = (err, out)" by fastforce
  show ?thesis
  proof (cases err)
    case None
    with assms r blkid_type [of d "sys w" out] show ?thesis
      by (simp add: is_device_formatted_def run_cmd_def case_prod_beta)
  next
    case (Some e)
    with assms r blkid_none [of d "sys w" e out] show ?thesis
      by (simp add: is_device_formatted_def run_cmd_def case_prod_beta split: if_splits)
  qed
qed

lemma run_views [simp]:
  "mv_table (mv (sys (snd (run_cmd kern args w)))) = mv_table (mv (sys w))"
  by (simp add: run_cmd_def run_table)

lemma repair_formats [simp]:
  "mv_formats (mv (sys (snd (repair_filesystem kern d ft w)))) = mv_formats (mv (sys w))"
  by (auto simp: repair_filesystem_def run_cmd_def case_prod_beta run_not_mkfs split: sum.split)

lemma repair_table [simp]:
  "mv_table (mv (sys (snd (repair_filesystem kern d ft w)))) = mv_table (mv (sys w))"
  by (auto simp: repair_filesystem_def case_prod_beta split: sum.split)

lemma resize_formats [simp]:
  "mv_formats (mv (sys (snd (resize_filesystem kern d p ft w)))) = mv_formats (mv (sys w))"
  by (auto simp: resize_filesystem_def run_cmd_def case_prod_beta run_not_mkfs Let_def split: option.split)

lemma resize_table [simp]:
  "mv_table (mv (sys (snd (resize_filesystem kern d p ft w)))) = mv_table (mv (sys w))"
  by (auto simp: resize_filesystem_def case_prod_beta Let_def split: option.split)

lemma format_table [simp]:
  "mv_table (mv (sys (snd (format_device kern d ft w)))) = mv_table (mv (sys w))"
  by (auto simp: format_device_def case_prod_beta split: option.split)

lemma format_formats:
  "e \<noteq> d \<Longrightarrow> mv_formats (mv (sys (snd (format_device kern d ft w)))) e = mv_formats (mv (sys w)) e"
  using run_mkfs [of e "[''mkfs.ext4'', ''-F'', ''-m0'', d]" "sys w"]
  by (auto simp: format_device_def run_cmd_def case_prod_beta split: option.split)

lemma mount_op_simps [simp]:
  "sys (snd (mount_op kern src tgt ft fl opt w)) = snd (k_mount kern src tgt ft fl opt (sys w))"
  "fst (mount_op kern src tgt ft fl opt w) = None \<longleftrightarrow> fst (k_mount kern src tgt ft fl opt (sys w)) = None"
  by (simp_all add: mount_op_def wrapped_def)

lemma mount_op_Some:
  "fst (mount_op kern src tgt ft fl opt w) = Some er \<Longrightarrow> fst (k_mount kern src tgt ft fl opt (sys w)) \<noteq> None"
  by (auto simp: mount_op_def wrapped_def)

lemma unmount_op_sys [simp]: "sys (snd (unmount_op kern tgt uf w)) = snd (k_unmount kern tgt uf (sys w))"
  by (auto simp: unmount_op_def case_prod_beta split: option.split)

lemma unmount_op_table:
  assumes "canon tgt" "fst (unmount_op kern tgt uf w) = None"
  shows "mounts_on (mv_table (mv (snd (k_unmount kern tgt uf (sys w))))) =
     (mounts_on (mv_table (mv (sys w))))(tgt := mounts_on (mv_table (mv (sys w))) tgt - 1)"
proof (cases "fst (k_unmount kern tgt uf (sys w))")
  case None
  with assms(1) show ?thesis by (rule k_unmount_table)
next
  case (Some e)
  then have "errors_is (KErrno errno_EINVAL) e"
    using assms(2) by (simp add: unmount_op_def case_prod_beta split: if_splits)
  from k_unmount_einval [OF assms(1) Some this] k_unmount_same [of tgt uf "sys w"] Some show ?thesis
    by (simp add: fun_upd_idem)
qed

lemma unmount_op_Some: "fst (unmount_op kern tgt uf w) = Some er \<Longrightarrow> fst (k_unmount kern tgt uf (sys w)) \<noteq> None"
  by (auto simp: unmount_op_def case_prod_beta split: option.splits)

end

sublocale unix_kernel \<subseteq> unix_fs: fs_contract "unix_operations rt kern interval" "\<lambda>k. fs_view_of (mv k)"
  "\<lambda>p. plain_name p \<and> canon p"
proof (unfold_locales, goal_cases)
  case (1 d t w)
  show ?case using wait_view [OF refl refl] by (simp add: unix_operations_def wait_for_device_def)
next
  case (2 d w)
  show ?case
    by (simp add: unix_operations_def is_device_formatted_def run_cmd_def run_blkid case_prod_beta split: option.split)
next
  case (3 d w)
  show ?case by (simp add: unix_operations_def)
next
  case (4 p w)
  show ?case by (simp add: unix_operations_def)
next
  case (5 p w)
  show ?case by (simp add: unix_operations_def find_device_for_path_def)
next
  case (6 p perm w)
  show ?case by (simp add: unix_operations_def mkdir_all_def wrapped_def)
next
  case (7 p w)
  show ?case by (simp add: unix_operations_def remove_all_def wrapped_def)
next
  case (8 p perm w)
  show ?case by (simp add: unix_operations_def create_file_def wrapped_def case_prod_beta split: option.split)
next
  case (9 p w)
  show ?case by (simp add: unix_operations_def path_exists_def case_prod_beta split: sum.split)
next
  case (10 p w)
  show ?case by (simp add: unix_operations_def get_filesystem_stats_def case_prod_beta Let_def split: sum.split)
next
  case (15 d ft w)
  show ?case by (simp add: unix_operations_def)
next
  case (16 e d ft w)
  then show ?case by (simp add: unix_operations_def format_formats)
next
  case (17 d w b)
  then show ?case using is_device_formatted_Inr [of d w b] by (simp add: unix_operations_def)
next
  case (18 p w b)
  then show ?case using is_mount_point_Inr [of p w b] by (simp add: unix_operations_def)
next
  case (21 tgt fl src ft opt w)
  then show ?case by (simp add: unix_operations_def k_mount_table)
next
  case (22 src tgt ft fl opt w er)
  then show ?case using mount_op_Some [of src tgt ft fl opt w er] by (auto simp: unix_operations_def k_mount_same)
next
  case (23 fl src tgt ft opt w)
  then show ?case by (simp add: unix_operations_def k_mount_same)
next
  case (25 tgt uf w)
  then show ?case using unmount_op_table [of tgt uf w] by (simp add: unix_operations_def)
next
  case (26 tgt uf w er)
  then show ?case using unmount_op_Some [of tgt uf w er] by (simp add: unix_operations_def k_unmount_same)
qed (simp_all add: unix_operations_def)

end
