(* ===== verification/Node_Contract.thy ===== *)
theory Node_Contract
  imports Node Fs_Contract
begin

text \<open>
  The node service on a file system that meets its contract: when a device is formatted, what a
  successful publish or unpublish means for the mounts, and which paths the handlers accept.
\<close>

section \<open>Requests\<close>

lemma check_stage_request_None:
  "check_stage_request req = None \<longleftrightarrow>
     sg_volume_id req \<noteq> '''' \<and> validate_path (sg_staging_path req) ''staging target path'' = None \<and>
     sg_capability req \<noteq> None"
  by (auto simp: check_stage_request_def validate_required_field_def split: option.split)

lemma publish_flag_values:
  "and (publish_flags ro) ms_remount = 0" "and remount_flags ms_remount \<noteq> 0" "and ms_bind ms_remount = 0"
  "and 0 ms_remount = 0"
  by (simp_all add: publish_flags_def remount_flags_def ms_bind_def ms_remount_def ms_rdonly_def)

text \<open>The exact effect of a successful stage or publish call on the mounts: one mount on the path, unless it is mounted already.\<close>

definition mounted_once :: "string \<Rightarrow> (string \<Rightarrow> nat) \<Rightarrow> string \<Rightarrow> nat" where
  "mounted_once p m = m(p := max 1 (m p))"

section \<open>The node service on a machine\<close>

locale node_env = fs_contract ops fv good
  for ops :: "'k fs_ops" and fv :: "'k \<Rightarrow> fs_view" and good :: "string \<Rightarrow> bool" +
  fixes s :: "'k node_service"
  assumes node_fs_ops [simp]: "node_fs s = ops"
    and stat_silent [simp]: "fv (snd (node_os_stat s p k)) = fv k"
    and root_silent [simp]:
      "fv (snd (open_root (node_root s) p k)) = fv k"
      "fv (snd (root_remove (node_root s) p q k)) = fv k"
      "fv (snd (root_close (node_root s) p k)) = fv k"
begin

lemma remove_within_silent [simp]: "fv (snd (remove_within_kubelet_root (node_root s) p k)) = fv k"
  by (simp add: remove_within_kubelet_root_def remove_within_root_def case_prod_beta split: option.split)

lemma record_sys_node [simp]: "sys (record_node_error a b w) = sys w"
  by (simp add: record_node_error_def)

lemma mounted_or_false_view [simp]: "fv (sys (snd (mounted_or_false s p w))) = fv (sys w)"
  by (simp add: mounted_or_false_def case_prod_beta split: sum.split)

lemma mounted_or_false_True:
  assumes "good p" "fst (mounted_or_false s p w)"
  shows "0 < fv_mounts (fv (sys w)) p"
  using assms is_mount_point_ok [OF assms(1), of w True]
  by (auto simp: mounted_or_false_def case_prod_beta split: sum.splits)

lemma prepare_block_view [simp]: "fv (sys (snd (prepare_block_target s p w))) = fv (sys w)"
  by (simp add: prepare_block_target_def case_prod_beta split: sum.split option.split bool.split)

subsection \<open>Formatting\<close>

lemma stage_block_formats: "fv_formats (fv (sys (snd (stage_block s d p w)))) = fv_formats (fv (sys w))"
  by (simp add: stage_block_def case_prod_beta split: option.split)

lemma repair_and_mount_formats:
  "fv_formats (fv (sys (snd (repair_and_mount s v d p ft w)))) = fv_formats (fv (sys w))"
  by (simp add: repair_and_mount_def case_prod_beta split: option.split)

lemma format_and_mount_other:
  "e \<noteq> d \<Longrightarrow> fv_formats (fv (sys (snd (format_and_mount s d p ft w)))) e = fv_formats (fv (sys w)) e"
  by (simp add: format_and_mount_def case_prod_beta format_other split: option.split)

text \<open>A device is formatted only after its check said that it has no file system, or failed.\<close>

lemma stage_filesystem_formats:
  assumes "fv_formats (fv (sys (snd (stage_filesystem s v d p ft w)))) e \<noteq> fv_formats (fv (sys w)) e"
  shows "e = d \<and> (\<exists>w1. fv_formatted (fv (sys w1)) = fv_formatted (fv (sys w)) \<and>
                   fst (fs_is_device_formatted ops d w1) \<noteq> Inr True)"
proof -
  define w1 where "w1 = snd (fs_mkdir_all ops p dir_perm w)"
  define w2 where "w2 = snd (fs_mount ops d p ft 0 '''' w1)"
  define w3 where "w3 = snd (fs_is_device_formatted ops d w2)"
  have eq: "fv_formats (fv (sys w1)) = fv_formats (fv (sys w))" "fv_formats (fv (sys w2)) = fv_formats (fv (sys w))"
    "fv_formats (fv (sys w3)) = fv_formats (fv (sys w))" "fv_formatted (fv (sys w2)) = fv_formatted (fv (sys w))"
    by (simp_all add: w1_def w2_def w3_def)
  have "snd (stage_filesystem s v d p ft w) = snd (format_and_mount s d p ft w3) \<and>
        fst (fs_is_device_formatted ops d w2) \<noteq> Inr True"
    using assms eq repair_and_mount_formats [of v d p ft w3]
    by (auto simp: stage_filesystem_def case_prod_beta w1_def w2_def w3_def split: option.splits if_splits)
  moreover from this assms eq(3) have "e = d" using format_and_mount_other [of e d p ft w3] by auto
  ultimately show ?thesis using eq(4) by blast
qed

lemma stage_device_formats:
  assumes "fv_formats (fv (sys (snd (stage_device s req serial w)))) e \<noteq> fv_formats (fv (sys w)) e"
  shows "e = device_path_of s serial \<and>
     (\<exists>w1. fv_formatted (fv (sys w1)) = fv_formatted (fv (sys w)) \<and>
           fst (fs_is_device_formatted ops e w1) \<noteq> Inr True)"
proof -
  let ?d = "device_path_of s serial" and ?ft = "cap_fs_type default_fs_type (sg_capability req)"
  define w1 where "w1 = snd (fs_wait_for_device ops ?d (device_scan_timeout s) w)"
  have w1: "fv (sys w1) = fv (sys w)" by (simp add: w1_def)
  have "fv_formats (fv (sys (snd (stage_filesystem s (sg_volume_id req) ?d (sg_staging_path req) ?ft w1)))) e
      \<noteq> fv_formats (fv (sys w1)) e"
    using assms w1 stage_block_formats [of ?d "sg_staging_path req" w1]
    by (auto simp: stage_device_def Let_def case_prod_beta w1_def split: option.splits if_splits)
  from stage_filesystem_formats [OF this] show ?thesis unfolding w1 by auto
qed

lemma node_stage_formats:
  assumes "fv_formats (fv (sys (snd (node_stage_volume s req w)))) e \<noteq> fv_formats (fv (sys w)) e"
  shows "\<exists>serial w1. sg_publish_context req ''serial'' = Some serial \<and> e = device_path_of s serial \<and>
     fv_formatted (fv (sys w1)) = fv_formatted (fv (sys w)) \<and> fst (fs_is_device_formatted ops e w1) \<noteq> Inr True"
proof -
  define w1 where "w1 = snd (mounted_or_false s (sg_staging_path req) w)"
  have w1: "fv (sys w1) = fv (sys w)" by (simp add: w1_def)
  obtain serial where serial: "sg_publish_context req ''serial'' = Some serial"
    and c: "fv_formats (fv (sys (snd (stage_device s req serial w1)))) e \<noteq> fv_formats (fv (sys w1)) e"
    using assms w1
    by (auto simp: node_stage_volume_def case_prod_beta w1_def split: option.splits bool.splits if_splits)
  from stage_device_formats [OF c] serial show ?thesis unfolding w1 by blast
qed

subsection \<open>Mounts\<close>

lemma stage_block_mounts:
  assumes "fst (stage_block s d p w) = None" "good p"
  shows "0 < fv_mounts (fv (sys (snd (stage_block s d p w)))) p"
  using assms
  by (auto simp: stage_block_def case_prod_beta mount_ok publish_flag_values split: option.splits)

lemma mount_positive:
  "good p \<Longrightarrow> and fl ms_remount = 0 \<Longrightarrow> fst (fs_mount ops src p ft fl opt w) = None \<Longrightarrow>
     0 < fv_mounts (fv (sys (snd (fs_mount ops src p ft fl opt w)))) p"
  by (simp add: mount_ok)

lemma stage_filesystem_mounts:
  assumes "fst (stage_filesystem s v d p ft w) = None" "good p"
  shows "0 < fv_mounts (fv (sys (snd (stage_filesystem s v d p ft w)))) p"
  using assms
  by (auto simp: stage_filesystem_def repair_and_mount_def format_and_mount_def case_prod_beta
      mount_positive publish_flag_values split: option.splits if_splits)

lemma node_stage_mounts:
  assumes "fst (node_stage_volume s req w) = Inr u" "good (sg_staging_path req)"
  shows "0 < fv_mounts (fv (sys (snd (node_stage_volume s req w)))) (sg_staging_path req)"
  using assms mounted_or_false_True [OF assms(2), of w]
  by (auto simp: node_stage_volume_def stage_device_def case_prod_beta Let_def
      stage_block_mounts stage_filesystem_mounts split: option.splits bool.splits if_splits)

lemma publish_block_mounts:
  assumes "fst (publish_block s st t w) = None" "good t"
  shows "0 < fv_mounts (fv (sys (snd (publish_block s st t w)))) t"
  using assms
  by (auto simp: publish_block_def case_prod_beta mount_positive publish_flag_values split: option.splits)

lemma publish_filesystem_mounts:
  assumes "fst (publish_filesystem s st t ro w) = None" "good t"
  shows "0 < fv_mounts (fv (sys (snd (publish_filesystem s st t ro w)))) t"
  using assms
  by (auto simp: publish_filesystem_def case_prod_beta mount_positive publish_flag_values remount
      split: option.splits if_splits)

lemma node_publish_mounts:
  assumes "fst (node_publish_volume s req w) = Inr u" "good (np_target_path req)"
  shows "0 < fv_mounts (fv (sys (snd (node_publish_volume s req w)))) (np_target_path req)"
  using assms mounted_or_false_True [OF assms(2), of w]
  by (auto simp: node_publish_volume_def case_prod_beta publish_block_mounts publish_filesystem_mounts
      split: option.splits bool.splits if_splits)

lemma stage_block_adds:
  assumes "fst (stage_block s d p w) = None" "good p"
  shows "fv_mounts (fv (sys (snd (stage_block s d p w)))) = (fv_mounts (fv (sys w)))(p := Suc (fv_mounts (fv (sys w)) p))"
  using assms
  by (auto simp: stage_block_def case_prod_beta mount_ok publish_flag_values split: option.splits)

lemma stage_filesystem_adds:
  assumes "fst (stage_filesystem s v d p ft w) = None" "good p"
  shows "fv_mounts (fv (sys (snd (stage_filesystem s v d p ft w)))) =
     (fv_mounts (fv (sys w)))(p := Suc (fv_mounts (fv (sys w)) p))"
  using assms
  by (auto simp: stage_filesystem_def repair_and_mount_def format_and_mount_def case_prod_beta
      mount_ok mount_failed publish_flag_values split: option.splits if_splits)

lemma publish_block_adds:
  assumes "fst (publish_block s st t w) = None" "good t"
  shows "fv_mounts (fv (sys (snd (publish_block s st t w)))) = (fv_mounts (fv (sys w)))(t := Suc (fv_mounts (fv (sys w)) t))"
  using assms
  by (auto simp: publish_block_def case_prod_beta mount_ok publish_flag_values split: option.splits)

lemma publish_filesystem_adds:
  assumes "fst (publish_filesystem s st t ro w) = None" "good t"
  shows "fv_mounts (fv (sys (snd (publish_filesystem s st t ro w)))) =
     (fv_mounts (fv (sys w)))(t := Suc (fv_mounts (fv (sys w)) t))"
  using assms
  by (auto simp: publish_filesystem_def case_prod_beta mount_ok publish_flag_values remount
      split: option.splits if_splits)

lemma mounted_or_false_answer:
  assumes "good p" "fst (fs_is_mount_point ops p w) = Inr b"
  shows "fst (mounted_or_false s p w) = (0 < fv_mounts (fv (sys w)) p)"
  using assms is_mount_point_ok [OF assms] by (simp add: mounted_or_false_def case_prod_beta)

lemma node_stage_once:
  assumes "fst (node_stage_volume s req w) = Inr u" "good (sg_staging_path req)"
    and "fst (fs_is_mount_point ops (sg_staging_path req) w) = Inr b"
  shows "fv_mounts (fv (sys (snd (node_stage_volume s req w)))) =
    mounted_once (sg_staging_path req) (fv_mounts (fv (sys w)))"
proof -
  note m = mounted_or_false_answer [OF assms(2,3)]
  show ?thesis
  proof (cases "0 < fv_mounts (fv (sys w)) (sg_staging_path req)")
    case True
    with assms(1,2) m show ?thesis
      by (auto simp: node_stage_volume_def case_prod_beta mounted_once_def max_def fun_upd_idem split: option.splits)
  next
    case False
    with assms(1,2) m show ?thesis
      by (auto simp: node_stage_volume_def stage_device_def case_prod_beta Let_def mounted_once_def
          stage_block_adds stage_filesystem_adds split: option.splits if_splits)
  qed
qed

lemma node_publish_once:
  assumes "fst (node_publish_volume s req w) = Inr u" "good (np_target_path req)"
    and "fst (fs_is_mount_point ops (np_target_path req) w) = Inr b"
  shows "fv_mounts (fv (sys (snd (node_publish_volume s req w)))) =
    mounted_once (np_target_path req) (fv_mounts (fv (sys w)))"
proof -
  note m = mounted_or_false_answer [OF assms(2,3)]
  show ?thesis
  proof (cases "0 < fv_mounts (fv (sys w)) (np_target_path req)")
    case True
    with assms(1,2) m show ?thesis
      by (auto simp: node_publish_volume_def case_prod_beta mounted_once_def max_def fun_upd_idem split: option.splits)
  next
    case False
    with assms(1,2) m show ?thesis
      by (auto simp: node_publish_volume_def case_prod_beta mounted_once_def
          publish_block_adds publish_filesystem_adds split: option.splits if_splits)
  qed
qed

lemma unmount_and_remove_mounts:
  assumes "good p" and "\<exists>b. fst (fs_is_mount_point ops p w) = Inr b"
    and "fst (unmount_and_remove s op text p w) = Inr u"
  shows "fv_mounts (fv (sys (snd (unmount_and_remove s op text p w)))) =
     (fv_mounts (fv (sys w)))(p := fv_mounts (fv (sys w)) p - 1)"
proof -
  obtain b where b: "fst (fs_is_mount_point ops p w) = Inr b" using assms(2) by blast
  from is_mount_point_ok [OF assms(1) b] have bm: "b = (0 < fv_mounts (fv (sys w)) p)" .
  show ?thesis
  proof (cases b)
    case True
    with b assms(1,3) show ?thesis
      by (auto simp: unmount_and_remove_def mounted_or_false_def case_prod_beta unmount_ok split: option.splits)
  next
    case False
    with bm have "fv_mounts (fv (sys w)) p = 0" by simp
    then have "(fv_mounts (fv (sys w)))(p := fv_mounts (fv (sys w)) p - 1) = fv_mounts (fv (sys w))"
      by (simp add: fun_upd_idem)
    with False b show ?thesis
      by (simp add: unmount_and_remove_def mounted_or_false_def case_prod_beta)
  qed
qed

end

text \<open>The node service of the driver: on \<open>UnixOperations\<close> and the kernel's own calls.\<close>

locale unix_node = unix_kernel +
  fixes s :: "'a node_service"
  assumes node_unix: "node_fs s = unix_operations rt kern interval"
    and node_stat: "mv (snd (node_os_stat s p k)) = mv k"
    and node_root_ops:
      "mv (snd (open_root (node_root s) p k)) = mv k"
      "mv (snd (root_remove (node_root s) p q k)) = mv k"
      "mv (snd (root_close (node_root s) p k)) = mv k"

sublocale unix_node \<subseteq> node: node_env "unix_operations rt kern interval" "\<lambda>k. fs_view_of (mv k)"
  "\<lambda>p. plain_name p \<and> canon p" s
  by unfold_locales (simp_all add: node_unix node_stat node_root_ops)

end
