(* ===== verification/Ref_Machine.thy ===== *)
theory Ref_Machine
  imports Node_Contract
begin

text \<open>
  A reference machine: a concrete kernel that meets the laws of \<open>unix_kernel\<close>, without
  faults, with a \<open>blkid\<close> that always fails, or with an unreadable \<open>/proc/mounts\<close>. It stands for no code of the driver; it
  shows that the laws can hold, and properties are instantiated at it.
\<close>

record machine =
  m_table :: "mount_entry list"
  m_devices :: "string list"
  m_formatted :: "string list"
  m_format_log :: "string list"
  m_corrupt :: "string list"

datatype fault = NoFault | BlkidFails | MountsUnreadable

definition errno_error :: "nat \<Rightarrow> go_error" where
  "errno_error n = GoError (KErrno n) ''errno''"

definition ref_run :: "fault \<Rightarrow> string list \<Rightarrow> machine \<Rightarrow> (go_error option \<times> string) \<times> machine" where
  "ref_run fault args m =
     (let d = last args
      in if hd args = ''mkfs.ext4'' then
           ((None, ''''), m\<lparr>m_formatted := d # m_formatted m, m_format_log := d # m_format_log m,
                           m_corrupt := filter (\<lambda>x. x \<noteq> d) (m_corrupt m)\<rparr>)
         else if hd args = ''blkid'' then
           (if fault = BlkidFails then ((Some (GoError (KExit 1) ''exit status 1''), ''''), m)
            else if d \<in> set (m_formatted m) then ((None, ''ext4''), m)
            else ((Some (GoError (KExit 2) ''exit status 2''), ''''), m))
         else if hd args = ''fsck.ext4'' then
           ((Some (GoError (KExit 1) ''exit status 1''), ''''), m\<lparr>m_corrupt := filter (\<lambda>x. x \<noteq> d) (m_corrupt m)\<rparr>)
         else ((None, ''''), m))"

text \<open>The table holds the clean name of a target: a clean path is recorded as it is given.\<close>

definition ref_canon :: "string \<Rightarrow> bool" where
  "ref_canon p \<longleftrightarrow> filepath_clean p = p"

definition ref_entry :: "string \<Rightarrow> string \<Rightarrow> string \<Rightarrow> mount_entry" where
  "ref_entry src tgt ft = \<lparr>me_source = src, me_target = filepath_clean tgt, me_rest = ''rw 0 0''\<rparr>"

definition ref_mount :: "string \<Rightarrow> string \<Rightarrow> string \<Rightarrow> i64 \<Rightarrow> string \<Rightarrow> machine go_err" where
  "ref_mount src tgt ft fl opt m =
     (if and fl ms_remount \<noteq> 0 then (None, m)
      else if ft \<noteq> '''' \<and> src \<notin> set (m_formatted m) then (Some (errno_error errno_EINVAL), m)
      else if ft \<noteq> '''' \<and> src \<in> set (m_corrupt m) then (Some (errno_error errno_EUCLEAN), m)
      else if \<not> entry_ok (ref_entry src tgt ft) then (Some (errno_error errno_ENOENT), m)
      else (None, m\<lparr>m_table := ref_entry src tgt ft # m_table m\<rparr>))"

fun remove_first :: "string \<Rightarrow> mount_entry list \<Rightarrow> mount_entry list" where
  "remove_first t [] = []"
| "remove_first t (e # es) = (if me_target e = t \<and> entry_ok e then es else e # remove_first t es)"

definition good_table :: "machine \<Rightarrow> mount_entry list" where
  "good_table m = filter entry_ok (m_table m)"

definition ref_unmount :: "string \<Rightarrow> int \<Rightarrow> machine go_err" where
  "ref_unmount tgt fl m =
     (if mounts_on (good_table m) (filepath_clean tgt) = 0 then (Some (errno_error errno_EINVAL), m)
      else (None, m\<lparr>m_table := remove_first (filepath_clean tgt) (m_table m)\<rparr>))"

definition ref_kernel :: "fault \<Rightarrow> machine kernel" where
  "ref_kernel fault =
     \<lparr>k_stat = (\<lambda>p m. (if p \<in> set (m_devices m) then Inr s_ifblk else Inl (errno_error errno_ENOENT), m)),
      k_os_stat = (\<lambda>p m. (if p \<in> set (m_devices m) then Inr False else Inl (errno_error errno_ENOENT), m)),
      k_run = ref_run fault,
      k_mount = ref_mount,
      k_unmount = ref_unmount,
      k_read_mounts = (\<lambda>m. (if fault = MountsUnreadable then Inl (errno_error errno_EIO)
                             else Inr (render_mounts (good_table m)), m)),
      k_mkdir_all = (\<lambda>_ _ m. (None, m)),
      k_remove_all = (\<lambda>_ m. (None, m)),
      k_open_create = (\<lambda>_ _ m. (None, m)),
      k_close = (\<lambda>_ m. (None, m)),
      k_statfs = (\<lambda>_ m. (Inr \<lparr>st_blocks = 100, st_bavail = 50, st_bsize = 4096, st_files = 10, st_ffree = 5\<rparr>, m))\<rparr>"

definition machine_view_of :: "machine \<Rightarrow> machine_view" where
  "machine_view_of m =
     \<lparr>mv_table = good_table m, mv_formatted = (\<lambda>d. d \<in> set (m_formatted m)),
      mv_formats = count_list (m_format_log m)\<rparr>"

definition ref_root :: "machine root_ops" where
  "ref_root = \<lparr>open_root = (\<lambda>_ m. (None, m)), root_remove = (\<lambda>_ _ m. (None, m)), root_close = (\<lambda>_ m. (None, m))\<rparr>"

definition ref_kube :: "machine kube_client" where
  "ref_kube =
     \<lparr>kube_get_node = (\<lambda>_ m. (Inr [zone_key \<mapsto> ''se-sto-a''], m)),
      kube_get_pv = (\<lambda>pv m. (Inr (Some (''csi-'' @ pv)), m)),
      kube_list_vas = (\<lambda>m. (Inr [], m))\<rparr>"

definition ref_node :: "fault \<Rightarrow> machine node_service" where
  "ref_node fault =
     \<lparr>node_fs = unix_operations still_runtime (ref_kernel fault) 1, node_os_stat = k_os_stat (ref_kernel fault),
      node_root = ref_root, node_runtime = still_runtime, kube = ref_kube, node_id = ''node-1'',
      device_by_id_path = default_device_by_id_path, node_max_volumes = 128,
      device_scan_timeout = 10, device_scan_interval = 1\<rparr>"

section \<open>The laws\<close>

lemma mounts_on_remove_first:
  "0 < mounts_on (filter entry_ok es) t \<Longrightarrow>
     mounts_on (filter entry_ok (remove_first t es)) p =
       (if p = t then mounts_on (filter entry_ok es) t - 1 else mounts_on (filter entry_ok es) p)"
  by (induction es) (auto simp: mounts_on_def split: if_splits)

lemma good_mount:
  "ref_canon tgt \<Longrightarrow> entry_ok (ref_entry src tgt ft) \<Longrightarrow>
     mounts_on (good_table (m\<lparr>m_table := ref_entry src tgt ft # m_table m\<rparr>)) =
       (mounts_on (good_table m))(tgt := Suc (mounts_on (good_table m) tgt))"
  by (auto simp: good_table_def mounts_on_def fun_eq_iff ref_entry_def ref_canon_def)

lemma good_unmount:
  "0 < mounts_on (good_table m) tgt \<Longrightarrow>
     mounts_on (good_table (m\<lparr>m_table := remove_first tgt (m_table m)\<rparr>)) =
       (mounts_on (good_table m))(tgt := mounts_on (good_table m) tgt - 1)"
  by (auto simp: good_table_def fun_eq_iff mounts_on_remove_first)

lemma view_simps [simp]:
  "mv_table (machine_view_of m) = good_table m"
  "mv_formatted (machine_view_of m) = (\<lambda>d. d \<in> set (m_formatted m))"
  "mv_formats (machine_view_of m) = count_list (m_format_log m)"
  by (simp_all add: machine_view_of_def)

lemma good_table_simps [simp]:
  "good_table (m\<lparr>m_formatted := a\<rparr>) = good_table m" "good_table (m\<lparr>m_format_log := b\<rparr>) = good_table m"
  "good_table (m\<lparr>m_corrupt := a\<rparr>) = good_table m"
  by (simp_all add: good_table_def)

lemma ref_kernel_simps [simp]:
  "k_run (ref_kernel f) = ref_run f" "k_mount (ref_kernel f) = ref_mount" "k_unmount (ref_kernel f) = ref_unmount"
  by (simp_all add: ref_kernel_def)

lemma trimmed: "trim_space ''ext4'' = ''ext4''" "trim_space '''' = ''''"
  by code_simp+

interpretation ref_machine: unix_node still_runtime "ref_kernel f" 1 machine_view_of ref_canon "ref_node f" for f
proof (unfold_locales, goal_cases)
  case (10 args k)
  show ?case by (simp add: ref_run_def Let_def)
next
  case (11 args k)
  then show ?case by (simp add: ref_run_def Let_def)
next
  case (12 e args k)
  then show ?case by (simp add: ref_run_def Let_def)
next
  case (13 args k)
  then show ?case by (simp add: ref_run_def Let_def)
next
  case (14 d k er out)
  then show ?case by (auto simp: ref_run_def Let_def split: if_splits)
next
  case (15 d k out)
  then show ?case by (auto simp: ref_run_def Let_def trimmed split: if_splits)
next
  case (16 k content)
  then show ?case by (simp add: ref_kernel_def split: if_splits)
next
  case (17 en k)
  then show ?case by (simp add: good_table_def)
next
  case (18 src tgt ft fl opt k)
  show ?case by (simp add: ref_mount_def)
next
  case (19 src tgt ft fl opt k)
  show ?case by (simp add: ref_mount_def)
next
  case (20 tgt src ft fl opt k)
  then show ?case by (auto simp: ref_mount_def good_mount split: if_splits)
next
  case (21 src tgt ft fl opt k)
  then show ?case by (auto simp: ref_mount_def)
next
  case (22 tgt uf k)
  show ?case by (simp add: ref_unmount_def)
next
  case (23 tgt uf k)
  then show ?case by (auto simp: ref_unmount_def ref_canon_def good_unmount split: if_splits)
next
  case (24 tgt uf k)
  then show ?case by (auto simp: ref_unmount_def)
next
  case (25 tgt uf k er)
  then show ?case by (auto simp: ref_unmount_def ref_canon_def split: if_splits)
qed (simp_all add: ref_kernel_def still_runtime_def ref_node_def ref_root_def)

lemmas ref_machine_node = ref_machine.unix_node_axioms

end
