(* ===== verification/Node_Properties.thy ===== *)
theory Node_Properties
  imports Ref_Machine
begin

text \<open>
  Properties of the node service of \<open>pkg/node/node.go\<close> on \<open>UnixOperations\<close> and any kernel that
  meets the laws of \<open>unix_kernel\<close>: what staging and unstaging, publishing and unpublishing do to
  the data and the mounts of the machine, how devices are found, and what is reported of them.
  Each has an instance at the reference machine of \<open>Ref_Machine\<close>.
\<close>

section \<open>The contracts on the machine's view\<close>

context unix_node
begin

lemma stage_formats_view:
  assumes "mv_formats (mv (sys (snd (node_stage_volume s req w)))) d \<noteq> mv_formats (mv (sys w)) d"
  shows "\<exists>serial w1. sg_publish_context req ''serial'' = Some serial \<and> d = device_path_of s serial \<and>
     mv_formatted (mv (sys w1)) = mv_formatted (mv (sys w)) \<and> fst (is_device_formatted kern d w1) \<noteq> Inr True"
  using node.node_stage_formats [of req w d] assms by (simp add: unix_operations_def)

lemma stage_mounts_view:
  assumes "fst (node_stage_volume s req w) = Inr u" "plain_name (sg_staging_path req) \<and> canon (sg_staging_path req)"
  shows "0 < mounts_on (mv_table (mv (sys (snd (node_stage_volume s req w))))) (sg_staging_path req)"
  using node.node_stage_mounts [OF assms] by simp

lemma publish_mounts_view:
  assumes "fst (node_publish_volume s req w) = Inr u" "plain_name (np_target_path req) \<and> canon (np_target_path req)"
  shows "0 < mounts_on (mv_table (mv (sys (snd (node_publish_volume s req w))))) (np_target_path req)"
  using node.node_publish_mounts [OF assms] by simp

lemma answers_view:
  "fst (k_read_mounts kern (sys w)) = Inr content \<Longrightarrow>
     \<exists>b. fst (fs_is_mount_point (unix_operations rt kern interval) p w) = Inr b"
  by (simp add: unix_operations_def is_mount_point_def case_prod_beta)

lemma stage_once_view:
  assumes "fst (node_stage_volume s req w) = Inr u" "plain_name (sg_staging_path req) \<and> canon (sg_staging_path req)"
    and "fst (k_read_mounts kern (sys w)) = Inr content"
  shows "mounts_on (mv_table (mv (sys (snd (node_stage_volume s req w))))) =
    mounted_once (sg_staging_path req) (mounts_on (mv_table (mv (sys w))))"
  using node.node_stage_once [OF assms(1,2)] answers_view [OF assms(3)] by fastforce

lemma publish_once_view:
  assumes "fst (node_publish_volume s req w) = Inr u" "plain_name (np_target_path req) \<and> canon (np_target_path req)"
    and "fst (k_read_mounts kern (sys w)) = Inr content"
  shows "mounts_on (mv_table (mv (sys (snd (node_publish_volume s req w))))) =
    mounted_once (np_target_path req) (mounts_on (mv_table (mv (sys w))))"
  using node.node_publish_once [OF assms(1,2)] answers_view [OF assms(3)] by fastforce

lemma unmount_view:
  assumes "plain_name p \<and> canon p" "fst (k_read_mounts kern (sys w)) = Inr content"
    and "fst (unmount_and_remove s op what p w) = Inr u"
  shows "mounts_on (mv_table (mv (sys (snd (unmount_and_remove s op what p w))))) =
     (mounts_on (mv_table (mv (sys w))))(p := mounts_on (mv_table (mv (sys w))) p - 1)"
proof -
  have "\<exists>b. fst (fs_is_mount_point (unix_operations rt kern interval) p w) = Inr b"
    using assms(2) by (simp add: unix_operations_def is_mount_point_def case_prod_beta)
  from node.unmount_and_remove_mounts [OF assms(1) this assms(3)] show ?thesis by simp
qed

lemma unstage_view:
  assumes "fst (node_unstage_volume s vol p w) = Inr u" "plain_name p \<and> canon p"
    and "fst (k_read_mounts kern (sys w)) = Inr content"
  shows "mounts_on (mv_table (mv (sys (snd (node_unstage_volume s vol p w))))) =
    (mounts_on (mv_table (mv (sys w))))(p := mounts_on (mv_table (mv (sys w))) p - 1)"
  using assms(1) unmount_view [OF assms(2,3)]
  by (auto simp: node_unstage_volume_def validate_required_field_def split: option.splits if_splits)

lemma unpublish_view:
  assumes "fst (node_unpublish_volume s vol p w) = Inr u" "plain_name p \<and> canon p"
    and "fst (k_read_mounts kern (sys w)) = Inr content"
  shows "mounts_on (mv_table (mv (sys (snd (node_unpublish_volume s vol p w))))) =
    (mounts_on (mv_table (mv (sys w))))(p := mounts_on (mv_table (mv (sys w))) p - 1)"
  using assms(1) unmount_view [OF assms(2,3)]
  by (auto simp: node_unpublish_volume_def validate_required_field_def split: option.splits if_splits)

text \<open>Up to the check of the device nothing changes which devices carry a file system.\<close>

lemma formatted_view:
  assumes "mounted_or_false s p w = (False, w1)" "fs_wait_for_device (node_fs s) d t w1 = (None, w2)"
    and "fs_mkdir_all (node_fs s) p perm w2 = (None, w3)" "fs_mount (node_fs s) d p ft fl opt w3 = (Some e, w4)"
    and "fs_is_device_formatted (node_fs s) d w4 = (Inl e', w5)"
  shows "mv_formatted (mv (sys w5)) = mv_formatted (mv (sys w))"
  using node.mounted_or_false_view [of p w] unix_fs.silent(1) [of d t w1] unix_fs.silent(6) [of p perm w2]
    unix_fs.mount_formats(2) [of d p ft fl opt w3] unix_fs.silent(2) [of d w4] assms
  by (metis fs_view_simps(2) node_unix snd_conv)

lemma format_runs:
  "k_run kern [''mkfs.ext4'', ''-F'', ''-m0'', d] (sys w) = ((None, out), k) \<Longrightarrow>
     fs_format_device (node_fs s) d ''ext4'' w = (None, w\<lparr>sys := k\<rparr>)"
  by (simp add: node_unix unix_operations_def format_device_def run_cmd_def on_sys_def)

text \<open>Where the mounts cannot be read, nothing is unmounted.\<close>

lemma unreadable_view:
  assumes "fst (k_read_mounts kern (sys w)) = Inl e"
  shows "fst (unmount_and_remove s op what p w) = Inr ()"
    "mv (sys (snd (unmount_and_remove s op what p w))) = mv (sys w)"
  using assms
  by (simp_all add: unmount_and_remove_def mounted_or_false_def node_unix unix_operations_def is_mount_point_def
      remove_all_def wrapped_def case_prod_beta)

end

section \<open>Requests and states of the reference machine\<close>

definition ref_capability :: volume_capability where
  "ref_capability = \<lparr>cap_access_type = Some (MountAccess ''ext4''), cap_access_mode = Some SingleNodeWriter\<rparr>"

definition ref_stage :: "string \<Rightarrow> stage_request" where
  "ref_stage staging =
     \<lparr>sg_volume_id = ''csi-pv-1'', sg_staging_path = staging, sg_capability = Some ref_capability,
      sg_publish_context = [''serial'' \<mapsto> ''s1'']\<rparr>"

definition ref_node_publish :: "string \<Rightarrow> bool \<Rightarrow> node_publish_request" where
  "ref_node_publish target readonly =
     \<lparr>np_volume_id = ''csi-pv-1'', np_target_path = target, np_staging_path = ''/staging'',
      np_capability = Some ref_capability, np_readonly = readonly\<rparr>"

definition ref_device :: string where
  "ref_device = ''/dev/disk/by-id/scsi-0QEMU_QEMU_HARDDISK_s1''"

definition ref_machine_state :: machine where
  "ref_machine_state =
     \<lparr>m_table = [\<lparr>me_source = ref_device, me_target = ''/staging'', me_rest = ''ext4 rw 0 0''\<rparr>],
      m_devices = [ref_device], m_formatted = [ref_device], m_format_log = [], m_corrupt = []\<rparr>"

definition ref_machine_world :: "machine \<Rightarrow> machine world" where
  "ref_machine_world m = \<lparr>sys = m, mtr = initialize_metrics, clock = 0\<rparr>"

lemma ref_device_path: "device_path_of (ref_node f) ''s1'' = ref_device"
  by code_simp

section \<open>Staging\<close>

text \<open>
  C3: \<open>NodeStageVolume\<close> does not destroy data. Whatever it returns, the only device it can
  format is the one the publish context names, and if that device carries a file system and
  \<open>blkid\<close> answers when asked about it, it is not formatted either.
\<close>

theorem stage_preserves_data:
  assumes "unix_node rt kern interval mv canon s"
    and "sg_publish_context req ''serial'' \<noteq> None \<Longrightarrow>
           d = device_path_of s (the (sg_publish_context req ''serial'')) \<Longrightarrow>
           mv_formatted (mv (sys w)) d \<and> (\<forall>w1. \<exists>b. fst (is_device_formatted kern d w1) = Inr b)"
  shows "mv_formats (mv (sys (snd (node_stage_volume s req w)))) d = mv_formats (mv (sys w)) d"
proof (rule ccontr)
  assume "mv_formats (mv (sys (snd (node_stage_volume s req w)))) d \<noteq> mv_formats (mv (sys w)) d"
  from unix_node.stage_formats_view [OF assms(1) this] obtain serial w1 where
      serial: "sg_publish_context req ''serial'' = Some serial" "d = device_path_of s serial"
    and w1: "mv_formatted (mv (sys w1)) = mv_formatted (mv (sys w))" "fst (is_device_formatted kern d w1) \<noteq> Inr True"
    by blast
  from assms(2) serial obtain b where "mv_formatted (mv (sys w)) d" "fst (is_device_formatted kern d w1) = Inr b"
    by auto
  with unix_kernel.is_device_formatted_Inr [OF unix_node.axioms(1) [OF assms(1)], of d w1 b] w1
  show False by simp
qed

definition ref_corrupt :: machine where
  "ref_corrupt = ref_machine_state\<lparr>m_table := [], m_corrupt := [ref_device]\<rparr>"

lemma ref_check_answers: "\<exists>b. fst (is_device_formatted (ref_kernel NoFault) d w) = Inr b"
  by (auto simp: is_device_formatted_def run_cmd_def ref_run_def case_prod_beta Let_def split: option.split)

lemma stage_preserves_data_witness:
  "mv_formats (machine_view_of (sys (snd (node_stage_volume (ref_node NoFault) (ref_stage ''/staging'')
      (ref_machine_world ref_corrupt))))) ref_device = 0"
proof -
  have "mv_formats (machine_view_of (sys (snd (node_stage_volume (ref_node NoFault) (ref_stage ''/staging'')
      (ref_machine_world ref_corrupt))))) ref_device =
    mv_formats (machine_view_of (sys (ref_machine_world ref_corrupt))) ref_device"
  proof (rule stage_preserves_data [OF ref_machine_node])
    have "mv_formatted (machine_view_of (sys (ref_machine_world ref_corrupt))) ref_device" by code_simp
    with ref_check_answers [of ref_device] show "mv_formatted (machine_view_of (sys (ref_machine_world ref_corrupt))) ref_device \<and>
        (\<forall>w1. \<exists>b. fst (is_device_formatted (ref_kernel NoFault) ref_device w1) = Inr b)" by blast
  qed
  also have "\<dots> = 0" by code_simp
  finally show ?thesis .
qed

text \<open>
  C34: \<open>NodeStageVolume\<close> can destroy data. On any machine, when a device with a file system does not
  mount for an error that counts as corruption and \<open>IsDeviceFormatted\<close> then fails, the error of the
  check is taken for "not formatted": \<open>mkfs.ext4 -F\<close> is run on the device, which still has its file
  system, and if it and the mount after it succeed, so does the call.
\<close>

theorem failed_check_formats:
  assumes "unix_node rt kern interval mv canon s" and "mv_formatted (mv (sys w)) dev"
    and req: "check_stage_request req = None" "\<not> wants_block (sg_capability req)"
      "sg_publish_context req ''serial'' = Some serial" "serial \<noteq> ''''" "dev = device_path_of s serial"
      "cap_fs_type default_fs_type (sg_capability req) = ''ext4''"
    and fresh: "mounted_or_false s (sg_staging_path req) w = (False, w1)"
      "fs_wait_for_device (node_fs s) dev (device_scan_timeout s) w1 = (None, w2)"
      "fs_mkdir_all (node_fs s) (sg_staging_path req) dir_perm w2 = (None, w3)"
    and mount: "fs_mount (node_fs s) dev (sg_staging_path req) ''ext4'' 0 '''' w3 = (Some e, w4)"
      "is_filesystem_corruption (Some e)"
    and check: "fs_is_device_formatted (node_fs s) dev w4 = (Inl e', w5)"
    and format: "k_run kern [''mkfs.ext4'', ''-F'', ''-m0'', dev] (sys w5) = ((None, out), k)"
      "fs_mount (node_fs s) dev (sg_staging_path req) ''ext4'' 0 '''' (w5\<lparr>sys := k\<rparr>) = (None, w6)"
  shows "mv_formatted (mv (sys w5)) dev \<and>
    node_stage_volume s req w = (Inr (), on_metrics (record_node_operation ''stage'') w6)"
proof
  show "mv_formatted (mv (sys w5)) dev"
    using unix_node.formatted_view [OF assms(1) fresh mount(1) check] assms(2) by simp
  have "fs_format_device (node_fs s) dev ''ext4'' w5 = (None, w5\<lparr>sys := k\<rparr>)"
    by (rule unix_node.format_runs [OF assms(1) format(1)])
  with req fresh mount check format(2)
  show "node_stage_volume s req w = (Inr (), on_metrics (record_node_operation ''stage'') w6)"
    by (simp add: node_stage_volume_def stage_device_def Let_def stage_filesystem_def format_and_mount_def)
qed

lemma fst_pair: "fst p = a \<Longrightarrow> p = (a, snd p)"
  by (simp add: prod_eq_iff)

lemma fst_pair_Some: "(case fst p of None \<Rightarrow> False | Some e \<Rightarrow> Q e) \<Longrightarrow> \<exists>e. p = (Some e, snd p) \<and> Q e"
  by (cases "fst p") (simp_all add: prod_eq_iff)

lemma fst_pair_Inl: "(case fst p of Inl e \<Rightarrow> True | Inr b \<Rightarrow> False) \<Longrightarrow> \<exists>e. p = (Inl e, snd p)"
  by (cases "fst p") (simp_all add: prod_eq_iff)

lemma failed_check_formats_witness:
  "mv_formatted (machine_view_of ref_corrupt) ref_device \<and>
   fst (node_stage_volume (ref_node BlkidFails) (ref_stage ''/staging'') (ref_machine_world ref_corrupt)) = Inr ()"
proof -
  let ?s = "ref_node BlkidFails" and ?k = "ref_kernel BlkidFails" and ?r = "ref_stage ''/staging''"
  let ?w = "ref_machine_world ref_corrupt"
  have f: "mv_formatted (machine_view_of (sys ?w)) ref_device" by code_simp
  have r: "check_stage_request ?r = None" "\<not> wants_block (sg_capability ?r)"
    "sg_publish_context ?r ''serial'' = Some ''s1''" "cap_fs_type default_fs_type (sg_capability ?r) = ''ext4''"
    by code_simp+
  let ?w1 = "snd (mounted_or_false ?s (sg_staging_path ?r) ?w)"
  let ?w2 = "snd (fs_wait_for_device (node_fs ?s) ref_device (device_scan_timeout ?s) ?w1)"
  let ?w3 = "snd (fs_mkdir_all (node_fs ?s) (sg_staging_path ?r) dir_perm ?w2)"
  let ?mnt = "fs_mount (node_fs ?s) ref_device (sg_staging_path ?r) ''ext4'' 0 ''''"
  let ?w5 = "snd (fs_is_device_formatted (node_fs ?s) ref_device (snd (?mnt ?w3)))"
  let ?mkfs = "k_run ?k [''mkfs.ext4'', ''-F'', ''-m0'', ref_device] (sys ?w5)"
  have "fst (mounted_or_false ?s (sg_staging_path ?r) ?w) = False"
      "fst (fs_wait_for_device (node_fs ?s) ref_device (device_scan_timeout ?s) ?w1) = None"
      "fst (fs_mkdir_all (node_fs ?s) (sg_staging_path ?r) dir_perm ?w2) = None"
    by code_simp+
  note m = this [THEN fst_pair]
  have "(case fst (?mnt ?w3) of None \<Rightarrow> False | Some e \<Rightarrow> is_filesystem_corruption (Some e))" by code_simp
  from fst_pair_Some [OF this] obtain e
    where e: "?mnt ?w3 = (Some e, snd (?mnt ?w3))" "is_filesystem_corruption (Some e)" by blast
  have "(case fst (fs_is_device_formatted (node_fs ?s) ref_device (snd (?mnt ?w3))) of Inl e \<Rightarrow> True | Inr b \<Rightarrow> False)"
    by code_simp
  from fst_pair_Inl [OF this] obtain e'
    where c: "fs_is_device_formatted (node_fs ?s) ref_device (snd (?mnt ?w3)) = (Inl e', ?w5)" by blast
  have "fst ?mkfs = (None, '''')" "fst (?mnt (?w5\<lparr>sys := snd ?mkfs\<rparr>)) = None" by code_simp+
  note x = this [THEN fst_pair]
  from failed_check_formats [OF ref_machine_node f r(1,2,3) _ ref_device_path [symmetric] r(4) m e c x] f
  show ?thesis by (simp add: ref_machine_world_def)
qed

section \<open>Mounting and unmounting\<close>

text \<open>
  C16: A successful \<open>NodeStageVolume\<close> or \<open>NodePublishVolume\<close> leaves the staging path or the target
  path mounted, on the first call and on a repeated one, for every path that the kernel records under
  its own name (\<open>canon\<close>) and that has no characters \<open>/proc/mounts\<close> escapes.
\<close>

theorem success_means_mounted:
  assumes "unix_node rt kern interval mv canon s"
  shows "(plain_name (sg_staging_path sreq) \<and> canon (sg_staging_path sreq) \<and> fst (node_stage_volume s sreq w) = Inr u \<longrightarrow>
      0 < mounts_on (mv_table (mv (sys (snd (node_stage_volume s sreq w))))) (sg_staging_path sreq)) \<and>
    (plain_name (np_target_path preq) \<and> canon (np_target_path preq) \<and> fst (node_publish_volume s preq w) = Inr u \<longrightarrow>
      0 < mounts_on (mv_table (mv (sys (snd (node_publish_volume s preq w))))) (np_target_path preq))"
  using unix_node.stage_mounts_view [OF assms, of sreq w u] unix_node.publish_mounts_view [OF assms, of preq w u]
  by blast

lemma success_means_mounted_witness:
  "0 < mounts_on (good_table (sys (snd (node_stage_volume (ref_node NoFault) (ref_stage ''/staging'')
      (ref_machine_world (ref_machine_state\<lparr>m_table := []\<rparr>)))))) ''/staging'' \<and>
   0 < mounts_on (good_table (sys (snd (node_publish_volume (ref_node NoFault) (ref_node_publish ''/target'' True)
      (ref_machine_world ref_machine_state))))) ''/target''"
proof
  let ?w = "ref_machine_world (ref_machine_state\<lparr>m_table := []\<rparr>)" and ?v = "ref_machine_world ref_machine_state"
  have p: "plain_name (sg_staging_path (ref_stage ''/staging'')) \<and> ref_canon (sg_staging_path (ref_stage ''/staging''))"
    "plain_name (np_target_path (ref_node_publish ''/target'' True)) \<and> ref_canon (np_target_path (ref_node_publish ''/target'' True))"
    by code_simp+
  have r: "fst (node_stage_volume (ref_node NoFault) (ref_stage ''/staging'') ?w) = Inr ()"
    "fst (node_publish_volume (ref_node NoFault) (ref_node_publish ''/target'' True) ?v) = Inr ()" by code_simp+
  show "0 < mounts_on (good_table (sys (snd (node_stage_volume (ref_node NoFault) (ref_stage ''/staging'') ?w)))) ''/staging''"
    using success_means_mounted [OF ref_machine_node, of "ref_stage ''/staging''"] p(1) r(1) by (simp add: ref_stage_def)
  show "0 < mounts_on (good_table (sys (snd (node_publish_volume (ref_node NoFault) (ref_node_publish ''/target'' True) ?v)))) ''/target''"
    using success_means_mounted [OF ref_machine_node, of _ _ _ _ "ref_node_publish ''/target'' True"] p(2) r(2)
    by (simp add: ref_node_publish_def)
qed

text \<open>
  C17: A successful \<open>NodeUnstageVolume\<close> or \<open>NodeUnpublishVolume\<close> that could read \<open>/proc/mounts\<close>, for a
  path the kernel records under its own name (\<open>canon\<close>) and without the characters \<open>/proc/mounts\<close>
  escapes, takes exactly one mount off the path if there is one, and no mount off any other path:
  calls repeated until one finds nothing mounted leave the path free. (Where these conditions fail it
  need not: C28 and C38.)
\<close>

theorem success_means_unmounted:
  assumes "unix_node rt kern interval mv canon s"
    and "plain_name path" "canon path" and "fst (k_read_mounts kern (sys w)) = Inr content"
    and "call = node_unstage_volume s vol path w \<or> call = node_unpublish_volume s vol path w"
    and "fst call = Inr u"
  shows "mounts_on (mv_table (mv (sys (snd call)))) =
    (mounts_on (mv_table (mv (sys w))))(path := mounts_on (mv_table (mv (sys w))) path - 1)"
  using assms(5,6) unix_node.unstage_view [OF assms(1) _ conjI [OF assms(2,3)] assms(4)]
    unix_node.unpublish_view [OF assms(1) _ conjI [OF assms(2,3)] assms(4)]
  by blast

lemma success_means_unmounted_witness:
  "mounts_on (good_table (sys (snd (node_unpublish_volume (ref_node NoFault) ''csi-pv-1'' ''/staging''
      (ref_machine_world ref_machine_state))))) ''/staging'' = 0"
proof -
  let ?w = "ref_machine_world ref_machine_state"
  have p: "plain_name ''/staging''" "ref_canon ''/staging''" by code_simp+
  have r: "fst (node_unpublish_volume (ref_node NoFault) ''csi-pv-1'' ''/staging'' ?w) = Inr ()" by code_simp
  have m: "fst (k_read_mounts (ref_kernel NoFault) (sys ?w)) = Inr (render_mounts (good_table ref_machine_state))"
    by (simp add: ref_kernel_def ref_machine_world_def ref_machine_state_def)
  have n: "mounts_on (good_table (sys ?w)) ''/staging'' = 1" by code_simp
  show ?thesis using success_means_unmounted [OF ref_machine_node p m disjI2 [OF refl] r] n by simp
qed

text \<open>The calls of the node service as a sequence, which stops at the first that fails.\<close>

datatype node_call =
    Stage stage_request
  | Publish node_publish_request
  | Unpublish string string
  | Unstage string string

fun node_step :: "'k node_service \<Rightarrow> node_call \<Rightarrow> ('k world, unit) go" where
  "node_step s (Stage req) = node_stage_volume s req"
| "node_step s (Publish req) = node_publish_volume s req"
| "node_step s (Unpublish vol path) = node_unpublish_volume s vol path"
| "node_step s (Unstage vol path) = node_unstage_volume s vol path"

fun node_run :: "'k node_service \<Rightarrow> node_call list \<Rightarrow> 'k world \<Rightarrow> 'k world option" where
  "node_run s [] w = Some w"
| "node_run s (c # cs) w = (case node_step s c w of (Inl e, w1) \<Rightarrow> None | (Inr u, w1) \<Rightarrow> node_run s cs w1)"

text \<open>What a call promises: its path, and the effect of success on how often paths are mounted.\<close>

fun call_path :: "node_call \<Rightarrow> string" where
  "call_path (Stage req) = sg_staging_path req"
| "call_path (Publish req) = np_target_path req"
| "call_path (Unpublish vol path) = path"
| "call_path (Unstage vol path) = path"

fun call_effect :: "node_call \<Rightarrow> (string \<Rightarrow> nat) \<Rightarrow> string \<Rightarrow> nat" where
  "call_effect (Stage req) m = m(sg_staging_path req := max 1 (m (sg_staging_path req)))"
| "call_effect (Publish req) m = m(np_target_path req := max 1 (m (np_target_path req)))"
| "call_effect (Unpublish vol path) m = m(path := m path - 1)"
| "call_effect (Unstage vol path) m = m(path := m path - 1)"

lemma node_step_effect:
  assumes "unix_node rt kern interval mv canon s" and "fst (node_step s c w) = Inr u"
    and "plain_name (call_path c) \<and> canon (call_path c)"
    and "fst (k_read_mounts kern (sys w)) = Inr content"
  shows "mounts_on (mv_table (mv (sys (snd (node_step s c w))))) = call_effect c (mounts_on (mv_table (mv (sys w))))"
  using assms(2-4) unix_node.stage_once_view [OF assms(1)] unix_node.publish_once_view [OF assms(1)]
    unix_node.unpublish_view [OF assms(1)] unix_node.unstage_view [OF assms(1)]
  by (cases c) (simp_all add: mounted_once_def)

text \<open>
  C18: Every sequence of successful calls of the node service refines its promise, if each of their
  paths is one the kernel records under its own name (\<open>canon\<close>) and has no characters \<open>/proc/mounts\<close>
  escapes, and \<open>/proc/mounts\<close> can be read throughout: how often each path is mounted afterwards is the
  composition of the effects of the calls: a stage or publish mounts its path once unless it is
  mounted, an unpublish or unstage takes one mount off, and no call touches any other path.
\<close>

theorem node_calls_refine_mounts:
  assumes "unix_node rt kern interval mv canon s" and "\<And>k. \<exists>content. fst (k_read_mounts kern k) = Inr content"
    and "list_all (\<lambda>c. plain_name (call_path c) \<and> canon (call_path c)) calls" and "node_run s calls w = Some w'"
  shows "mounts_on (mv_table (mv (sys w'))) = fold call_effect calls (mounts_on (mv_table (mv (sys w))))"
  using assms(3,4)
proof (induction calls arbitrary: w)
  case (Cons c cs)
  then obtain u where u: "fst (node_step s c w) = Inr u" and run: "node_run s cs (snd (node_step s c w)) = Some w'"
    by (auto split: prod.splits sum.splits)
  obtain content where "fst (k_read_mounts kern (sys w)) = Inr content" using assms(2) by blast
  from node_step_effect [OF assms(1) u _ this] Cons.IH [OF _ run] Cons.prems(1) show ?case by simp
qed simp

text \<open>The life of a volume, with a repeated stage and publish, leaves the mounts as they were.\<close>

definition ref_life :: "node_call list" where
  "ref_life =
     [Stage (ref_stage ''/staging''), Stage (ref_stage ''/staging''), Publish (ref_node_publish ''/target'' False),
      Publish (ref_node_publish ''/target'' False), Unpublish ''csi-pv-1'' ''/target'', Unstage ''csi-pv-1'' ''/staging'']"

lemma node_calls_refine_mounts_witness:
  "\<exists>w'. node_run (ref_node NoFault) ref_life (ref_machine_world (ref_machine_state\<lparr>m_table := []\<rparr>)) = Some w' \<and>
     mounts_on (good_table (sys w')) = (\<lambda>_. 0)"
proof -
  let ?w = "ref_machine_world (ref_machine_state\<lparr>m_table := []\<rparr>)"
  have "(case node_run (ref_node NoFault) ref_life ?w of None \<Rightarrow> False | Some _ \<Rightarrow> True)" by code_simp
  then obtain w' where run: "node_run (ref_node NoFault) ref_life ?w = Some w'" by (auto split: option.splits)
  have plain: "list_all (\<lambda>c. plain_name (call_path c) \<and> ref_canon (call_path c)) ref_life" by code_simp
  have read: "\<exists>content. fst (k_read_mounts (ref_kernel NoFault) k) = Inr content" for k by (simp add: ref_kernel_def)
  have zero: "mounts_on (good_table (sys ?w)) = (\<lambda>_. 0)"
    by (simp add: fun_eq_iff mounts_on_def good_table_def ref_machine_world_def)
  have "fold call_effect ref_life (\<lambda>_. 0) = (\<lambda>_. 0)"
    by (simp add: ref_life_def ref_stage_def ref_node_publish_def fun_eq_iff)
  with node_calls_refine_mounts [OF ref_machine_node read plain run] zero run show ?thesis by auto
qed

text \<open>
  C38: When \<open>/proc/mounts\<close> cannot be read, \<open>NodeUnpublishVolume\<close> and \<open>NodeUnstageVolume\<close> take every
  path for unmounted: on any machine, with a volume id and a valid path, they report success, and
  the mounts are as they were.
\<close>

theorem unreadable_mounts_stay:
  assumes "unix_node rt kern interval mv canon s" and "fst (k_read_mounts kern (sys w)) = Inl e"
    and "vol \<noteq> ''''" "validate_path path ''target path'' = None"
    and "call = node_unpublish_volume s vol path w \<or> call = node_unstage_volume s vol path w"
  shows "fst call = Inr () \<and> mv_table (mv (sys (snd call))) = mv_table (mv (sys w))"
proof -
  have "validate_path path f = None" for f using assms(4) by (simp add: validate_path_None)
  then have "\<exists>op what. call = unmount_and_remove s op what path w"
    using assms(3,5) by (auto simp: node_unpublish_volume_def node_unstage_volume_def validate_required_field_def)
  with unix_node.unreadable_view [OF assms(1,2)] show ?thesis by auto
qed

lemma unreadable_mounts_stay_witness:
  "fst (node_unpublish_volume (ref_node MountsUnreadable) ''csi-pv-1'' ''/staging'' (ref_machine_world ref_machine_state)) = Inr () \<and>
   0 < mounts_on (good_table (sys (snd (node_unpublish_volume (ref_node MountsUnreadable) ''csi-pv-1'' ''/staging''
     (ref_machine_world ref_machine_state))))) ''/staging''"
proof -
  let ?w = "ref_machine_world ref_machine_state"
  have e: "fst (k_read_mounts (ref_kernel MountsUnreadable) (sys ?w)) = Inl (errno_error errno_EIO)"
    by (simp add: ref_kernel_def)
  have v: "validate_path ''/staging'' ''target path'' = None" "0 < mounts_on (good_table (sys ?w)) ''/staging''" by code_simp+
  from unreadable_mounts_stay [OF ref_machine_node e _ v(1) disjI1 [OF refl], of "''csi-pv-1''"] v(2) show ?thesis by simp
qed

definition no_remount_node :: "machine node_service" where
  "no_remount_node = (ref_node NoFault)\<lparr>node_fs := (node_fs (ref_node NoFault))
     \<lparr>fs_mount := \<lambda>src tgt ft fl opt w.
        if and fl ms_remount \<noteq> 0 then (Some (errno_error errno_EINVAL), w)
        else mount_op (ref_kernel NoFault) src tgt ft fl opt w\<rparr>\<rparr>"

text \<open>
  A read-only publish can end writable: the bind mount succeeds, the read-only remount fails,
  and \<open>NodePublishVolume\<close> reports success with the target mounted.
\<close>

lemma readonly_publish_unprotected:
  "\<exists>w :: machine world.
     fst (fs_mount (node_fs no_remount_node) '''' ''/target'' '''' remount_flags ''''
            (snd (node_publish_volume no_remount_node (ref_node_publish ''/target'' True) w))) \<noteq> None \<and>
     fst (node_publish_volume no_remount_node (ref_node_publish ''/target'' True) w) = Inr () \<and>
     0 < mounts_on (good_table (sys (snd (node_publish_volume no_remount_node (ref_node_publish ''/target'' True) w)))) ''/target''"
proof (intro exI conjI)
  let ?w = "ref_machine_world ref_machine_state"
  show "fst (fs_mount (node_fs no_remount_node) '''' ''/target'' '''' remount_flags ''''
      (snd (node_publish_volume no_remount_node (ref_node_publish ''/target'' True) ?w))) \<noteq> None"
    by (simp add: no_remount_node_def remount_flags_def ms_remount_def ms_bind_def ms_rdonly_def)
  show "fst (node_publish_volume no_remount_node (ref_node_publish ''/target'' True) ?w) = Inr ()" by code_simp
  show "0 < mounts_on (good_table (sys (snd (node_publish_volume no_remount_node (ref_node_publish ''/target'' True) ?w)))) ''/target''"
    by code_simp
qed

end
