(* ===== verification/Device_Properties.thy ===== *)
theory Device_Properties
  imports Node_Properties
begin

text \<open>
  Properties of the reads of the node service: which path counts as a mount point
  (\<open>IsMountPoint\<close>), which device backs a path (\<open>FindDeviceForPath\<close>, and the look-up through the
  volume attachments of the Kubernetes API), which volume is reported healthy, and when
  \<open>WaitForDevice\<close> finds a device.
\<close>

section \<open>The chain of mounts\<close>

text \<open>The source of the first mount on a path, both as \<open>/proc/mounts\<close> spells them.\<close>

definition source_of :: "mount_entry list \<Rightarrow> string \<Rightarrow> string option" where
  "source_of es p = map_option (\<lambda>e. escape_source (me_source e)) (find (\<lambda>e. escape_target (me_target e) = p) es)"

fun follow :: "mount_entry list \<Rightarrow> nat \<Rightarrow> string \<Rightarrow> string option" where
  "follow es 0 p = Some p"
| "follow es (Suc n) p = (case source_of es p of None \<Rightarrow> None | Some q \<Rightarrow> follow es n q)"

context unix_kernel
begin

lemma is_mount_point_value:
  assumes "fst (k_read_mounts kern (sys w)) = Inr content"
  shows "fst (is_mount_point kern p w) = Inr (source_of (mv_table (mv (sys w))) p \<noteq> None)"
  using assms read_mounts_text [OF assms] find_line_render [of "mv_table (mv (sys w))" p] table_entries
  by (simp add: is_mount_point_def case_prod_beta source_of_def)

lemma mount_source_value:
  assumes "fst (mount_source kern p w) = Inr src"
  shows "source_of (mv_table (mv (sys w))) p = Some src"
proof -
  obtain content where c: "fst (k_read_mounts kern (sys w)) = Inr content"
    using assms by (auto simp: mount_source_def case_prod_beta split: sum.splits)
  then show ?thesis
    using assms read_mounts_text [OF c] find_line_render [of "mv_table (mv (sys w))" p] table_entries
    by (auto simp: mount_source_def case_prod_beta source_of_def split: option.splits)
qed

lemma find_hops_sound:
  assumes "fst (find_device_hops kern path n cur w) = Inr dev"
  shows "\<exists>m w1. 1 \<le> m \<and> m \<le> n \<and> follow (mv_table (mv (sys w))) m cur = Some dev \<and>
     fst (is_block_device kern dev w1) = Inr True"
  using assms
proof (induction n arbitrary: cur w)
  case 0
  then show ?case by simp
next
  case (Suc n)
  define w1 where "w1 = snd (mount_source kern cur w)"
  from Suc.prems obtain src where src: "fst (mount_source kern cur w) = Inr src"
    by (auto simp: case_prod_beta split: sum.splits)
  define w2 where "w2 = snd (is_block_device kern src w1)"
  have so: "source_of (mv_table (mv (sys w))) cur = Some src" by (rule mount_source_value [OF src])
  have v: "mv (sys w2) = mv (sys w)" by (simp add: w2_def w1_def)
  from Suc.prems src obtain b where b: "fst (is_block_device kern src w1) = Inr b"
    by (auto simp: case_prod_beta w1_def split: sum.splits)
  show ?case
  proof (cases b)
    case True
    with Suc.prems src b have "dev = src" by (simp add: case_prod_beta w1_def)
    with b so True show ?thesis
      by (intro exI [of _ 1] exI [of _ w1]) simp
  next
    case False
    with Suc.prems src b have "fst (find_device_hops kern path n src w2) = Inr dev"
      by (simp add: case_prod_beta w1_def w2_def)
    from Suc.IH [OF this] v obtain m w3 where
      "1 \<le> m" "m \<le> n" "follow (mv_table (mv (sys w))) m src = Some dev" "fst (is_block_device kern dev w3) = Inr True"
      by auto
    with so show ?thesis by (intro exI [of _ "Suc m"] exI [of _ w3]) simp
  qed
qed

end

section \<open>Mount points and devices\<close>

text \<open>
  C28: When \<open>/proc/mounts\<close> can be read, \<open>IsMountPoint\<close> is exact for paths without the characters that
  are escaped in targets, and it answers false, mounted or not, for a path with a space, a tab or a
  newline, which \<open>/proc/mounts\<close> writes as octal escapes.
\<close>

theorem mount_point_answers:
  assumes "unix_kernel rt kern mv canon" and "fst (k_read_mounts kern (sys w)) = Inr content"
  shows "(plain_name p \<longrightarrow>
      fst (is_mount_point kern p w) = Inr (0 < mounts_on (mv_table (mv (sys w))) p)) \<and>
    ((\<exists>c \<in> set p. c \<in> {CHR '' '', CHR 0x09, CHR 0x0A}) \<longrightarrow>
      fst (is_mount_point kern p w) = Inr False)"
proof (intro conjI impI)
  note v = unix_kernel.is_mount_point_value [OF assms, of p]
  show "fst (is_mount_point kern p w) = Inr (0 < mounts_on (mv_table (mv (sys w))) p)" if "plain_name p"
    unfolding v unix_kernel.mounts_on_pos [OF assms(1)]
    by (simp add: source_of_def find_target [OF that])
  show "fst (is_mount_point kern p w) = Inr False"
    if "\<exists>c \<in> set p. c \<in> {CHR '' '', CHR 0x09, CHR 0x0A}"
  proof -
    from that obtain c where "c \<in> set p" "c \<in> escaped_chars" "c \<noteq> CHR 0x5C"
      by (auto simp: escaped_chars_def)
    from find_special [OF this] show ?thesis unfolding v by (simp add: source_of_def)
  qed
qed

definition ref_spaced :: machine where
  "ref_spaced = ref_machine_state\<lparr>m_table := [\<lparr>me_source = ref_device, me_target = ''/a b'', me_rest = ''rw''\<rparr>]\<rparr>"

lemma mount_point_answers_witness:
  "fst (is_mount_point (ref_kernel NoFault) ''/a b'' (ref_machine_world ref_spaced)) = Inr False \<and>
   0 < mounts_on (good_table ref_spaced) ''/a b'' \<and>
   fst (is_mount_point (ref_kernel NoFault) ''/staging'' (ref_machine_world ref_machine_state)) = Inr True"
proof -
  have r: "fst (k_read_mounts (ref_kernel NoFault) (sys (ref_machine_world ref_spaced))) =
      Inr (render_mounts (good_table ref_spaced))"
    "fst (k_read_mounts (ref_kernel NoFault) (sys (ref_machine_world ref_machine_state))) =
      Inr (render_mounts (good_table ref_machine_state))"
    by (simp_all add: ref_kernel_def ref_machine_world_def ref_machine_state_def ref_spaced_def)
  have n: "0 < mounts_on (good_table ref_spaced) ''/a b''"
    "0 < mounts_on (good_table (sys (ref_machine_world ref_machine_state))) ''/staging''" "plain_name ''/staging''"
    by code_simp+
  show ?thesis
    using mount_point_answers [OF ref_machine.unix_kernel_axioms r(1), of "''/a b''"]
      mount_point_answers [OF ref_machine.unix_kernel_axioms r(2), of "''/staging''"] n
    by simp
qed

text \<open>
  C26: A device \<open>FindDeviceForPath\<close> returns is reached from the path by between one and ten steps
  from a mount's target to its source in the mount table, and \<open>IsBlockDevice\<close> held of it.
\<close>

theorem device_found_backs_path:
  assumes "unix_kernel rt kern mv canon" and "fst (find_device_for_path kern path w) = Inr dev"
  shows "\<exists>m w1. 1 \<le> m \<and> m \<le> 10 \<and> follow (mv_table (mv (sys w))) m path = Some dev \<and>
     fst (is_block_device kern dev w1) = Inr True"
  using unix_kernel.find_hops_sound [OF assms(1)] assms(2)
  by (simp add: find_device_for_path_def max_bind_mount_hops_def)

lemma device_found_backs_path_witness:
  "\<exists>m. 1 \<le> m \<and> m \<le> 10 \<and> follow (good_table ref_machine_state) m ''/staging'' = Some ref_device"
proof -
  have "fst (find_device_for_path (ref_kernel NoFault) ''/staging'' (ref_machine_world ref_machine_state)) = Inr ref_device"
    by code_simp
  from device_found_backs_path [OF ref_machine.unix_kernel_axioms this] show ?thesis
    by (auto simp: ref_machine_world_def)
qed

text \<open>
  C40: \<open>IsBlockDevice\<close> tests a bit of the mode that the types of a file share: it answers true for
  every directory, character device and socket, and when the source of the first mount on a path is
  one of them, \<open>FindDeviceForPath\<close> returns it instead of going on to the device below it.
\<close>

definition s_ifmt :: i32 where "s_ifmt = 0xF000"
definition s_ifdir :: i32 where "s_ifdir = 0x4000"
definition s_ifchr :: i32 where "s_ifchr = 0x2000"
definition s_ifsock :: i32 where "s_ifsock = 0xC000"

lemma shares_bit:
  assumes "and mode s_ifmt \<in> {s_ifdir, s_ifchr, s_ifsock}"
  shows "and mode s_ifblk \<noteq> 0"
proof
  assume z: "and mode s_ifblk = 0"
  have "and s_ifmt s_ifblk = s_ifblk" by (simp add: s_ifmt_def s_ifblk_def)
  then have "and (and mode s_ifmt) s_ifblk = 0" using z by (simp add: and.assoc)
  moreover have "and s_ifdir s_ifblk \<noteq> 0" "and s_ifchr s_ifblk \<noteq> 0" "and s_ifsock s_ifblk \<noteq> 0"
    by (simp_all add: s_ifdir_def s_ifchr_def s_ifsock_def s_ifblk_def)
  ultimately show False using assms by auto
qed

theorem directory_taken_for_device:
  assumes "fst (mount_source kern path w) = Inr src"
    and "fst (k_stat kern src (sys (snd (mount_source kern path w)))) = Inr mode"
    and "and mode s_ifmt \<in> {s_ifdir, s_ifchr, s_ifsock}"
  shows "fst (is_block_device kern src (snd (mount_source kern path w))) = Inr True \<and>
    fst (find_device_for_path kern path w) = Inr src"
proof
  show b: "fst (is_block_device kern src (snd (mount_source kern path w))) = Inr True"
    using assms(2) shares_bit [OF assms(3)] by (simp add: is_block_device_def case_prod_beta)
  have "find_device_for_path kern path w = find_device_hops kern path (Suc 9) path w"
    by (simp add: find_device_for_path_def max_bind_mount_hops_def)
  with assms(1) b show "fst (find_device_for_path kern path w) = Inr src"
    by (simp only: find_device_hops.simps) (simp add: case_prod_beta)
qed

text \<open>A bind mount of the staging directory, whose device is the next in the chain.\<close>

definition dir_kernel :: "machine kernel" where
  "dir_kernel = (ref_kernel NoFault)\<lparr>k_stat := \<lambda>p m.
     (if p = ''/staging'' then Inr s_ifdir else if p \<in> set (m_devices m) then Inr s_ifblk
      else Inl (errno_error errno_ENOENT), m)\<rparr>"

definition ref_bound :: machine where
  "ref_bound = ref_machine_state\<lparr>m_table :=
     \<lparr>me_source = ''/staging'', me_target = ''/target'', me_rest = ''none rw,bind 0 0''\<rparr> # m_table ref_machine_state\<rparr>"

lemma directory_taken_for_device_witness:
  "follow (good_table ref_bound) 2 ''/target'' = Some ref_device \<and>
   fst (find_device_for_path dir_kernel ''/target'' (ref_machine_world ref_bound)) = Inr ''/staging''"
proof -
  let ?w = "ref_machine_world ref_bound"
  have s: "fst (mount_source dir_kernel ''/target'' ?w) = Inr ''/staging''"
    "fst (k_stat dir_kernel ''/staging'' (sys (snd (mount_source dir_kernel ''/target'' ?w)))) = Inr s_ifdir"
    "and s_ifdir s_ifmt \<in> {s_ifdir, s_ifchr, s_ifsock}"
    by code_simp+
  have "follow (good_table ref_bound) 2 ''/target'' = Some ref_device" by code_simp
  with directory_taken_for_device [OF s] show ?thesis by blast
qed

section \<open>Devices from volume attachments\<close>

lemma attachment_serial_Some:
  assumes "attachment_serial nid pv vas = Some serial"
  shows "\<exists>pre va post. vas = pre @ va # post \<and> va_node_name va = nid \<and> va_pv_name va = Some pv \<and>
    va_metadata va ''serial'' = Some serial \<and> serial \<noteq> '''' \<and> attachment_serial nid pv pre = None"
  using assms
proof (induction vas)
  case Nil
  then show ?case by simp
next
  case (Cons v vs)
  show ?case
  proof (cases "attachment_serial nid pv [v]")
    case None
    then have miss: "attachment_serial nid pv (v # r) = attachment_serial nid pv r" for r
      by (auto split: option.splits if_splits)
    from Cons.IH Cons.prems obtain pre va post where
      "vs = pre @ va # post" "va_node_name va = nid" "va_pv_name va = Some pv"
      "va_metadata va ''serial'' = Some serial" "serial \<noteq> ''''" "attachment_serial nid pv pre = None"
      unfolding miss by blast
    then show ?thesis by (intro exI [of _ "v # pre"] exI [of _ va] exI [of _ post]) (simp del: attachment_serial.simps add: miss)
  next
    case (Some x)
    with Cons.prems show ?thesis
      by (intro exI [of _ "[]"] exI [of _ v] exI [of _ vs]) (auto split: option.splits if_splits)
  qed
qed

text \<open>
  C27: The device resolved through the Kubernetes API belongs to the volume on this node: the
  volume id is \<open>csi-\<close> and the name of a persistent volume whose CSI handle is the id, and the
  serial in the device path is that of the first attachment of that volume to this node with one.
\<close>

theorem resolved_device_is_attached:
  assumes "fst (resolve_device_from_volume_attachment s volume w) = Inr dev"
  shows "\<exists>pv k vas pre va post serial. volume = ''csi-'' @ pv \<and> pv \<noteq> '''' \<and>
     fst (kube_get_pv (kube s) pv (sys w)) = Inr (Some volume) \<and>
     fst (kube_list_vas (kube s) k) = Inr vas \<and> vas = pre @ va # post \<and>
     va_node_name va = node_id s \<and> va_pv_name va = Some pv \<and> va_metadata va ''serial'' = Some serial \<and>
     serial \<noteq> '''' \<and> attachment_serial (node_id s) pv pre = None \<and>
     dev = filepath_join (device_by_id_path s) (''scsi-0QEMU_QEMU_HARDDISK_'' @ serial)"
proof -
  define pv where "pv = trim_prefix volume ''csi-''"
  have pv: "pv \<noteq> volume" "pv \<noteq> ''''"
    and get: "fst (kube_get_pv (kube s) pv (sys w)) = Inr (Some volume)"
    using assms by (auto simp: resolve_device_from_volume_attachment_def Let_def pv_def case_prod_beta
        split: if_splits sum.splits)
  then have vol: "volume = ''csi-'' @ pv"
    by (auto simp: trim_prefix_def pv_def prefix_def split: if_splits)
  define k where "k = snd (kube_get_pv (kube s) pv (sys w))"
  obtain vas serial where vas: "fst (kube_list_vas (kube s) k) = Inr vas"
    and se: "attachment_serial (node_id s) pv vas = Some serial" "dev = device_path_of s serial"
    using assms pv get
    by (auto simp: resolve_device_from_volume_attachment_def Let_def pv_def [symmetric] k_def case_prod_beta
        split: sum.splits option.splits)
  from attachment_serial_Some [OF se(1)] obtain pre va post where
    "vas = pre @ va # post" "va_node_name va = node_id s" "va_pv_name va = Some pv"
    "va_metadata va ''serial'' = Some serial" "serial \<noteq> ''''" "attachment_serial (node_id s) pv pre = None" by blast
  with vol pv(2) get vas se(2) show ?thesis
    unfolding device_path_of_def qemu_scsi_disk_prefix_def by blast
qed

definition attached_node :: "machine node_service" where
  "attached_node = (ref_node NoFault)\<lparr>kube := ref_kube\<lparr>kube_list_vas := \<lambda>m. (Inr
     [\<lparr>va_node_name = ''node-2'', va_pv_name = Some ''pv-1'', va_metadata = [''serial'' \<mapsto> ''s2'']\<rparr>,
      \<lparr>va_node_name = ''node-1'', va_pv_name = Some ''pv-1'', va_metadata = [''serial'' \<mapsto> ''s1'']\<rparr>], m)\<rparr>\<rparr>"

lemma resolved_device_is_attached_witness:
  "\<exists>pv serial. ''csi-pv-1'' = ''csi-'' @ pv \<and>
     ref_device = filepath_join ''/dev/disk/by-id'' (''scsi-0QEMU_QEMU_HARDDISK_'' @ serial)"
proof -
  have "fst (resolve_device_from_volume_attachment attached_node ''csi-pv-1''
      (ref_machine_world ref_machine_state)) = Inr ref_device"
    by code_simp
  from resolved_device_is_attached [OF this] show ?thesis
    by (auto simp: attached_node_def ref_node_def default_device_by_id_path_def)
qed

section \<open>Statistics and expansion\<close>

context unix_node
begin

lemma volume_stats_view:
  assumes "plain_name path" "fst (node_get_volume_stats s vol path w) = Inr (Some st, c)"
  shows "abnormal c \<longleftrightarrow>
      prefix ''Failed to check mount status'' (condition_text c) \<or> mounts_on (mv_table (mv (sys w))) path = 0 \<or>
      over_95 (used_bytes_of st) (total_bytes st) \<or> over_95 (used_inodes st) (total_inodes st)"
    and "\<exists>k raw. fst (k_statfs kern path k) = Inr raw \<and> total_bytes st = st_blocks raw * st_bsize raw \<and>
      used_bytes_of st = st_blocks raw * st_bsize raw - st_bavail raw * st_bsize raw"
proof -
  define w1 where "w1 = snd (path_exists kern path w)"
  define w2 where "w2 = snd (get_filesystem_stats kern path w1)"
  have v: "mv (sys w2) = mv (sys w)"
    by (simp add: w1_def w2_def path_exists_def get_filesystem_stats_def case_prod_beta Let_def split: sum.split)
  have st: "fst (get_filesystem_stats kern path w1) = Inr st" and c: "c = fst (check_volume_health s path st w2)"
    using assms(2)
    by (auto simp: node_get_volume_stats_def node_unix unix_operations_def case_prod_beta w1_def w2_def
        split: option.splits sum.splits bool.splits)
  from st show "\<exists>k raw. fst (k_statfs kern path k) = Inr raw \<and> total_bytes st = st_blocks raw * st_bsize raw \<and>
      used_bytes_of st = st_blocks raw * st_bsize raw - st_bavail raw * st_bsize raw"
    by (auto simp: get_filesystem_stats_def case_prod_beta Let_def split: sum.splits intro!: exI [of _ "sys w1"])
  show "abnormal c \<longleftrightarrow>
      prefix ''Failed to check mount status'' (condition_text c) \<or> mounts_on (mv_table (mv (sys w))) path = 0 \<or>
      over_95 (used_bytes_of st) (total_bytes st) \<or> over_95 (used_inodes st) (total_inodes st)"
  proof (cases "fst (is_mount_point kern path w2)")
    case (Inl e)
    then show ?thesis unfolding c by (simp add: check_volume_health_def node_unix unix_operations_def case_prod_beta)
  next
    case (Inr b)
    from is_mount_point_Inr [OF assms(1) Inr] v have b: "b = (0 < mounts_on (mv_table (mv (sys w))) path)" by simp
    show ?thesis
      unfolding c using Inr b
      by (auto simp: check_volume_health_def node_unix unix_operations_def case_prod_beta)
  qed
qed

end

text \<open>
  The condition \<open>NodeGetVolumeStats\<close> reports with its statistics is abnormal exactly when the
  path is not mounted, more than 95 percent of the bytes or of the inodes are used, or the mount
  check itself failed, which the text says.
\<close>

lemma volume_condition_reported:
  assumes "unix_node rt kern interval mv canon s" and "plain_name path"
    and "fst (node_get_volume_stats s vol path w) = Inr (Some st, c)"
  shows "abnormal c \<longleftrightarrow>
      prefix ''Failed to check mount status'' (condition_text c) \<or> mounts_on (mv_table (mv (sys w))) path = 0 \<or>
      (0 < sint (total_bytes st) \<and> 95 * sint (total_bytes st) < 100 * sint (used_bytes_of st)) \<or>
      (0 < sint (total_inodes st) \<and> 95 * sint (total_inodes st) < 100 * sint (used_inodes st))"
  using unix_node.volume_stats_view(1) [OF assms] by (simp add: over_95_def)

definition ref_stats_world :: "machine world" where
  "ref_stats_world = ref_machine_world (ref_machine_state\<lparr>m_devices := [''/staging'']\<rparr>)"

lemma volume_condition_reported_witness:
  "\<exists>st c. fst (node_get_volume_stats (ref_node NoFault) ''csi-pv-1'' ''/staging'' ref_stats_world) = Inr (Some st, c) \<and>
     \<not> abnormal c \<and> sint (total_bytes st) = 409600"
proof -
  have "(case fst (node_get_volume_stats (ref_node NoFault) ''csi-pv-1'' ''/staging'' ref_stats_world) of
      Inr (Some st, c) \<Rightarrow> total_bytes st = 409600 \<and> used_bytes_of st = 204800 \<and> total_inodes st = 10 \<and> used_inodes st = 5 \<and>
        condition_text c = ''Volume is healthy'' | _ \<Rightarrow> False)"
    by code_simp
  then obtain st c where r: "fst (node_get_volume_stats (ref_node NoFault) ''csi-pv-1'' ''/staging'' ref_stats_world) = Inr (Some st, c)"
    and v: "total_bytes st = 409600" "used_bytes_of st = 204800" "total_inodes st = 10" "used_inodes st = 5"
      "condition_text c = ''Volume is healthy''"
    by (auto split: sum.splits option.splits)
  have m: "mounts_on (good_table (sys ref_stats_world)) ''/staging'' = 1" "plain_name ''/staging''" by code_simp+
  from volume_condition_reported [OF ref_machine_node m(2) r] v m(1) have "\<not> abnormal c" by simp
  with r v show ?thesis by auto
qed

definition lookup_path_of :: "node_expand_request \<Rightarrow> string" where
  "lookup_path_of req = (if ne_staging_path req \<noteq> '''' then ne_staging_path req else ne_volume_path req)"

text \<open>
  A successful \<open>NodeExpandVolume\<close> answers with the requested bytes. For a volume with a file
  system it has run the resize without error, on the device found below the path or else on the
  device of the volume's attachment; for a block volume it has run nothing.
\<close>

lemma node_expand_resizes:
  assumes "fst (node_expand_volume s req w) = Inr b"
  shows "b = range_bytes (ne_capacity_range req) \<and>
    (if wants_block (ne_capability req)
     then sys (snd (node_expand_volume s req w)) = sys (snd (fs_path_exists (node_fs s) (ne_volume_path req) w))
     else (\<exists>dev w1 w2. (fst (fs_find_device_for_path (node_fs s) (lookup_path_of req) w1) = Inr dev \<or>
              fst (resolve_device_from_volume_attachment s (ne_volume_id req) w1) = Inr dev) \<and>
            fst (fs_resize_filesystem (node_fs s) dev (lookup_path_of req)
                   (cap_fs_type default_fs_type (ne_capability req)) w2) = None))"
proof -
  let ?w = "snd (fs_path_exists (node_fs s) (ne_volume_path req) w)"
  have c: "check_node_expand_request req = None" "fst (fs_path_exists (node_fs s) (ne_volume_path req) w) = Inr True"
    using assms by (auto simp: node_expand_volume_def case_prod_beta split: option.splits sum.splits bool.splits)
  have b: "b = range_bytes (ne_capacity_range req)"
    using assms by (auto simp: node_expand_volume_def case_prod_beta split: option.splits sum.splits bool.splits)
  show ?thesis
  proof (cases "wants_block (ne_capability req)")
    case True
    with b c show ?thesis by (simp add: node_expand_volume_def case_prod_beta)
  next
    case False
    with assms c have x: "fst (expand_filesystem s req ?w) = None"
      by (auto simp: node_expand_volume_def case_prod_beta split: option.splits)
    then obtain dev where d: "fst (backing_device s (ne_volume_id req) (lookup_path_of req) ?w) = Inr dev"
      and r: "fst (fs_resize_filesystem (node_fs s) dev (lookup_path_of req) (cap_fs_type default_fs_type (ne_capability req))
          (snd (backing_device s (ne_volume_id req) (lookup_path_of req) ?w))) = None"
      by (auto simp: expand_filesystem_def lookup_path_of_def case_prod_beta Let_def split: sum.splits option.splits)
    from d have "\<exists>w1. fst (fs_find_device_for_path (node_fs s) (lookup_path_of req) w1) = Inr dev \<or>
        fst (resolve_device_from_volume_attachment s (ne_volume_id req) w1) = Inr dev"
      by (auto simp: backing_device_def case_prod_beta split: sum.splits)
    with b r False show ?thesis by auto
  qed
qed

definition ref_expand :: node_expand_request where
  "ref_expand =
     \<lparr>ne_volume_id = ''csi-pv-1'', ne_volume_path = ''/staging'', ne_staging_path = ''/staging'',
      ne_capacity_range = Some \<lparr>required_bytes = 4096, limit_bytes = 0\<rparr>, ne_capability = Some ref_capability\<rparr>"

definition ref_expand_world :: "machine world" where
  "ref_expand_world = ref_machine_world (ref_machine_state\<lparr>m_devices := [''/staging'', ref_device]\<rparr>)"

lemma node_expand_resizes_witness:
  "\<exists>dev w1 w2. (fst (find_device_for_path (ref_kernel NoFault) ''/staging'' w1) = Inr dev \<or>
       fst (resolve_device_from_volume_attachment (ref_node NoFault) ''csi-pv-1'' w1) = Inr dev) \<and>
     fst (resize_filesystem (ref_kernel NoFault) dev ''/staging'' ''ext4'' w2) = None"
proof -
  have "fst (node_expand_volume (ref_node NoFault) ref_expand ref_expand_world) = Inr 4096" by code_simp
  from node_expand_resizes [OF this] show ?thesis
    by (simp add: ref_expand_def wants_block_def ref_capability_def cap_is_block_def lookup_path_of_def
        ref_node_def unix_operations_def cap_fs_type_def)
qed

section \<open>Waiting for a device\<close>

lemma sleep_clock: "clock w < clock (snd (sleep_for rt i w))"
  by (simp add: sleep_for_def elapse_clock)

text \<open>A turn of the loop that goes on: the device is not there before the deadline, and the wait ends.\<close>

definition wait_turn ::
  "'k runtime \<Rightarrow> 'k kernel \<Rightarrow> i64 \<Rightarrow> string \<Rightarrow> int \<Rightarrow> 'k world \<Rightarrow> 'k world \<Rightarrow> bool"
where
  "wait_turn rt kern i p deadline w w' \<longleftrightarrow> clock w < deadline \<and>
     (\<exists>r w1. is_block_device kern p w = (r, w1) \<and> r \<noteq> Inr True \<and> sleep_for rt i w1 = (None, w'))"

lemma wait_until_outcome:
  assumes "wait_for_device_until rt kern i p deadline w = (r, w')"
  shows "\<exists>w1. (wait_turn rt kern i p deadline)\<^sup>*\<^sup>* w w1 \<and>
    (case r of
       None \<Rightarrow> clock w1 < deadline \<and> is_block_device kern p w1 = (Inr True, w')
     | Some e \<Rightarrow> deadline \<le> clock w1 \<and> w' = w1 \<or>
         clock w1 < deadline \<and> fst (is_block_device kern p w1) \<noteq> Inr True \<and>
         sleep_for rt i (snd (is_block_device kern p w1)) = (Some e, w'))"
  using assms
proof (induction rt kern i p deadline w rule: wait_for_device_until.induct)
  case (1 rt kern i p deadline w)
  obtain b w1 where b: "is_block_device kern p w = (b, w1)" by fastforce
  obtain s w2 where s: "sleep_for rt i w1 = (s, w2)" by fastforce
  show ?case
  proof (cases "clock w < deadline \<and> b \<noteq> Inr True \<and> s = None")
    case True
    then have turn: "wait_turn rt kern i p deadline w w2" using b s by (auto simp: wait_turn_def)
    have "wait_for_device_until rt kern i p deadline w2 = (r, w')"
      using 1(2) True b s by (subst (asm) wait_for_device_until.simps) simp
    from 1(1) [OF _ b [symmetric] _ s [symmetric] _ this] True turn show ?thesis
      by (meson converse_rtranclp_into_rtranclp)
  next
    case False
    then show ?thesis
      using 1(2) b s
      by (intro exI [of _ w], subst (asm) wait_for_device_until.simps) (auto split: option.splits if_splits)
  qed
qed

lemma block_device_now:
  assumes "\<And>k. now (snd (k_stat kern p k)) = now k"
  shows "now (sys (snd (is_block_device kern p w))) = now (sys w)"
  using assms by (simp add: is_block_device_def case_prod_beta split: sum.split)

lemma wait_until_finds:
  assumes sleep: "\<And>k. fst (fst (rt_after rt i k)) = None \<and> snd (fst (rt_after rt i k)) \<le> slack \<and>
      now (snd (rt_after rt i k)) = now k + 1 + int (snd (fst (rt_after rt i k)))"
    and stat: "\<And>k. now (snd (k_stat kern p k)) = now k"
    and there: "\<And>k. arrival \<le> now k \<Longrightarrow> \<exists>mode. fst (k_stat kern p k) = Inr mode \<and> and mode s_ifblk \<noteq> 0"
    and "now (sys w) = clock w" "clock w < deadline" "arrival + int slack < deadline"
  shows "fst (wait_for_device_until rt kern i p deadline w) = None"
  using assms(4,5)
proof (induction "nat (deadline - clock w)" arbitrary: w rule: less_induct)
  case less
  define w1 where "w1 = snd (is_block_device kern p w)"
  have c1: "clock w1 = clock w" by (metis w1_def is_block_device_clock prod.collapse)
  have n1: "now (sys w1) = clock w" using less.prems(1) block_device_now [of now kern p w, OF stat] by (simp add: w1_def)
  define w2 where "w2 = snd (sleep_for rt i w1)"
  have s: "fst (sleep_for rt i w1) = None" using sleep by (simp add: sleep_for_def elapse_def case_prod_beta)
  have c2: "clock w2 = clock w + 1 + int (snd (fst (rt_after rt i (sys w1))))"
    by (simp add: w2_def sleep_for_def elapse_def case_prod_beta c1)
  have n2: "now (sys w2) = clock w2"
    using sleep [of "sys w1"] by (simp add: c2 n1) (simp add: w2_def sleep_for_def elapse_def case_prod_beta n1)
  show ?case
  proof (cases "fst (is_block_device kern p w) = Inr True")
    case True
    with less.prems(2) show ?thesis by (subst wait_for_device_until.simps) (simp add: case_prod_beta)
  next
    case False
    have "clock w < arrival"
    proof (rule ccontr)
      assume "\<not> clock w < arrival"
      with less.prems(1) there [of "sys w"] False show False
        by (auto simp: is_block_device_def case_prod_beta split: sum.splits)
    qed
    with c2 sleep [of "sys w1"] assms(6) have "clock w2 < deadline" by linarith
    with less.hyps [of w2] n2 c2 less.prems(2)
    have "fst (wait_for_device_until rt kern i p deadline w2) = None" by linarith
    with less.prems(2) False s show ?thesis
      by (subst wait_for_device_until.simps) (simp add: case_prod_beta w1_def w2_def split: option.split)
  qed
qed

text \<open>
  What an early arrival means: the context does not end, no wait oversleeps by more than a slack, and
  from some time on, which with the slack is before the deadline, the device is there.
\<close>

definition arrives_in_time ::
  "('k \<Rightarrow> int) \<Rightarrow> nat \<Rightarrow> int \<Rightarrow> 'k runtime \<Rightarrow> 'k kernel \<Rightarrow> i64 \<Rightarrow> string \<Rightarrow> int \<Rightarrow> 'k world \<Rightarrow> bool"
where
  "arrives_in_time now slack arrival rt kern interval path deadline w \<longleftrightarrow>
     (\<forall>k. fst (fst (rt_after rt interval k)) = None \<and> snd (fst (rt_after rt interval k)) \<le> slack \<and>
          now (snd (rt_after rt interval k)) = now k + 1 + int (snd (fst (rt_after rt interval k)))) \<and>
     (\<forall>k. now (snd (k_stat kern path k)) = now k) \<and>
     (\<forall>k. arrival \<le> now k \<longrightarrow> (\<exists>mode. fst (k_stat kern path k) = Inr mode \<and> and mode s_ifblk \<noteq> 0)) \<and>
     now (sys w) = clock w \<and> clock w < deadline \<and> arrival + int slack < deadline"

text \<open>
  C19: \<open>WaitForDevice\<close> always returns, after turns in which the device was not there. On any machine it
  reports success only if \<open>IsBlockDevice\<close> held for the device before the deadline, and this was its last
  look; an error means that the deadline had passed or that the context ended a wait. And it does
  report success for a device that appears early enough (\<open>arrives_in_time\<close>).
\<close>

theorem device_wait_finds:
  "(\<exists>r w' w1. wait_for_device rt kern interval path timeout w = (r, w') \<and>
      (wait_turn rt kern interval path (clock w + sint timeout))\<^sup>*\<^sup>* w w1 \<and>
      (case r of
         None \<Rightarrow> clock w1 < clock w + sint timeout \<and> is_block_device kern path w1 = (Inr True, w')
       | Some e \<Rightarrow> clock w + sint timeout \<le> clock w1 \<and> w' = w1 \<or>
           clock w1 < clock w + sint timeout \<and> fst (is_block_device kern path w1) \<noteq> Inr True \<and>
           sleep_for rt interval (snd (is_block_device kern path w1)) = (Some e, w'))) \<and>
   (arrives_in_time now slack arrival rt kern interval path (clock w + sint timeout) w \<longrightarrow>
      fst (wait_for_device rt kern interval path timeout w) = None)"
proof (intro conjI impI)
  obtain r w' where "wait_for_device_until rt kern interval path (clock w + sint timeout) w = (r, w')" by fastforce
  with wait_until_outcome [OF this]
  show "\<exists>r w' w1. wait_for_device rt kern interval path timeout w = (r, w') \<and>
      (wait_turn rt kern interval path (clock w + sint timeout))\<^sup>*\<^sup>* w w1 \<and>
      (case r of
         None \<Rightarrow> clock w1 < clock w + sint timeout \<and> is_block_device kern path w1 = (Inr True, w')
       | Some e \<Rightarrow> clock w + sint timeout \<le> clock w1 \<and> w' = w1 \<or>
           clock w1 < clock w + sint timeout \<and> fst (is_block_device kern path w1) \<noteq> Inr True \<and>
           sleep_for rt interval (snd (is_block_device kern path w1)) = (Some e, w'))"
    unfolding wait_for_device_def by blast
next
  assume a: "arrives_in_time now slack arrival rt kern interval path (clock w + sint timeout) w"
  show "fst (wait_for_device rt kern interval path timeout w) = None"
    unfolding wait_for_device_def
    by (rule wait_until_finds [where now = now and slack = slack and arrival = arrival])
       (use a in \<open>auto simp: arrives_in_time_def\<close>)
qed

text \<open>A machine that is only its time, on which a device appears at time 3.\<close>

definition ref_appears :: "int kernel" where
  "ref_appears =
     \<lparr>k_stat = (\<lambda>p t. (if 3 \<le> t then Inr s_ifblk else Inl (errno_error errno_ENOENT), t)),
      k_os_stat = (\<lambda>p t. (if 3 \<le> t then Inr False else Inl (errno_error errno_ENOENT), t)),
      k_run = (\<lambda>_ t. ((None, ''''), t)), k_mount = (\<lambda>_ _ _ _ _ t. (None, t)), k_unmount = (\<lambda>_ _ t. (None, t)),
      k_read_mounts = (\<lambda>t. (Inr '''', t)), k_mkdir_all = (\<lambda>_ _ t. (None, t)), k_remove_all = (\<lambda>_ t. (None, t)),
      k_open_create = (\<lambda>_ _ t. (None, t)), k_close = (\<lambda>_ t. (None, t)),
      k_statfs = (\<lambda>_ t. (Inr \<lparr>st_blocks = 1, st_bavail = 1, st_bsize = 1, st_files = 1, st_ffree = 1\<rparr>, t))\<rparr>"

definition ref_ticking :: "int runtime" where
  "ref_ticking =
     \<lparr>rt_after = (\<lambda>_ t. ((None, 1), t + 2)), rt_tick = (\<lambda>_ t. ((None, 1), t + 2)), rt_ctx_err = (\<lambda>_. None)\<rparr>"

lemma device_wait_finds_witness:
  "fst (wait_for_device ref_ticking ref_appears 1 ref_device 10 \<lparr>sys = 0, mtr = initialize_metrics, clock = 0\<rparr>) = None"
proof -
  have "arrives_in_time (\<lambda>t. t) 1 3 ref_ticking ref_appears 1 ref_device 10 \<lparr>sys = 0, mtr = initialize_metrics, clock = 0\<rparr>"
    by (auto simp: arrives_in_time_def ref_ticking_def ref_appears_def s_ifblk_def)
  with device_wait_finds [where rt = ref_ticking and kern = ref_appears and interval = 1 and path = ref_device
      and timeout = 10 and w = "\<lparr>sys = 0, mtr = initialize_metrics, clock = 0\<rparr>"]
  show ?thesis by (simp only: world.simps) simp
qed

end
