(* ===== verification/Config.thy ===== *)
theory Config
  imports Go_Prelude
begin

text \<open>
  The package \<open>pkg/config\<close>: the configuration file, its defaults and its validation. The
  configuration types of the evroc SDK are given by the fields the driver reads; the SDK's
  \<open>SetDefaults\<close> and \<open>Validate\<close>, the file read and the YAML parser are parameters.
\<close>

section \<open>The configuration\<close>

record auth_config =
  token_url :: string
  client_id :: string
  username :: string
  password :: string
  token :: string
  refresh_token :: string
  scopes :: "string list"
  service_account_id :: string
  service_account_secret :: string

record context_config =
  ctx_organization :: string
  ctx_project :: string
  ctx_region :: string

record sdk_config =
  sdk_auth :: auth_config
  sdk_base_url :: string
  sdk_context :: context_config

record evroc_config =
  rest_url :: string
  organization :: string
  project :: string

record csi_config =
  csi_identifier :: string
  csi_vm_owner_label :: string
  csi_max_volumes_per_node :: i64
  csi_total_capacity_gb :: i64
  csi_device_scan_timeout :: i64
  csi_device_scan_interval :: i64
  csi_attachment_poll_timeout :: i64
  csi_disk_resize_poll_timeout :: i64
  csi_disk_resize_poll_interval :: i64
  csi_metrics_collection_interval :: i64
  csi_rest_api_max_retries :: int
  csi_rest_api_retry_initial_delay :: i64
  csi_rest_api_retry_max_delay :: i64
  csi_rest_api_timeout :: i64

record config =
  cfg_evroc :: evroc_config
  cfg_base_url :: string
  cfg_context :: context_config
  cfg_auth :: auth_config
  cfg_infra_region :: string
  cfg_csi :: csi_config

definition second :: i64 where "second = 1000000000"
definition default_max_volumes_per_node :: i64 where "default_max_volumes_per_node = 128"
definition default_total_capacity_gb :: i64 where "default_total_capacity_gb = 1000"
definition default_device_scan_timeout :: i64 where "default_device_scan_timeout = 30 * second"
definition default_device_scan_interval :: i64 where "default_device_scan_interval = 2 * second"
definition default_attachment_poll_timeout :: i64 where "default_attachment_poll_timeout = 120 * second"
definition default_disk_resize_poll_timeout :: i64 where "default_disk_resize_poll_timeout = 120 * second"
definition default_disk_resize_poll_interval :: i64 where "default_disk_resize_poll_interval = 5 * second"
definition default_metrics_collection_interval :: i64 where "default_metrics_collection_interval = 30 * second"
definition default_rest_api_max_retries :: int where "default_rest_api_max_retries = 3"
definition default_rest_api_retry_initial_delay :: i64 where "default_rest_api_retry_initial_delay = 1 * second"
definition default_rest_api_retry_max_delay :: i64 where "default_rest_api_retry_max_delay = 10 * second"
definition default_rest_api_timeout :: i64 where "default_rest_api_timeout = 30 * second"

lemmas default_values =
  second_def default_max_volumes_per_node_def default_total_capacity_gb_def
  default_device_scan_timeout_def default_device_scan_interval_def default_attachment_poll_timeout_def
  default_disk_resize_poll_timeout_def default_disk_resize_poll_interval_def
  default_metrics_collection_interval_def default_rest_api_max_retries_def
  default_rest_api_retry_initial_delay_def default_rest_api_retry_max_delay_def default_rest_api_timeout_def

section \<open>Defaults\<close>

definition positive_or :: "i64 \<Rightarrow> i64 \<Rightarrow> i64" where
  "positive_or d v = (if go_leq v 0 then d else v)"

definition apply_csi_defaults :: "csi_config \<Rightarrow> csi_config" where
  "apply_csi_defaults c =
     c\<lparr>csi_max_volumes_per_node :=
         (if csi_max_volumes_per_node c = 0 then default_max_volumes_per_node else csi_max_volumes_per_node c),
       csi_total_capacity_gb := positive_or default_total_capacity_gb (csi_total_capacity_gb c),
       csi_device_scan_timeout := positive_or default_device_scan_timeout (csi_device_scan_timeout c),
       csi_device_scan_interval := positive_or default_device_scan_interval (csi_device_scan_interval c),
       csi_attachment_poll_timeout := positive_or default_attachment_poll_timeout (csi_attachment_poll_timeout c),
       csi_disk_resize_poll_timeout :=
         positive_or default_disk_resize_poll_timeout (csi_disk_resize_poll_timeout c),
       csi_disk_resize_poll_interval :=
         positive_or default_disk_resize_poll_interval (csi_disk_resize_poll_interval c),
       csi_metrics_collection_interval :=
         positive_or default_metrics_collection_interval (csi_metrics_collection_interval c),
       csi_rest_api_max_retries :=
         (if csi_rest_api_max_retries c \<le> 0 then default_rest_api_max_retries else csi_rest_api_max_retries c),
       csi_rest_api_retry_initial_delay :=
         positive_or default_rest_api_retry_initial_delay (csi_rest_api_retry_initial_delay c),
       csi_rest_api_retry_max_delay :=
         positive_or default_rest_api_retry_max_delay (csi_rest_api_retry_max_delay c),
       csi_rest_api_timeout := positive_or default_rest_api_timeout (csi_rest_api_timeout c)\<rparr>"

text \<open>\<open>applyDefaults\<close>: of the SDK's defaults the authentication and the endpoint are kept.\<close>

definition apply_defaults :: "(sdk_config \<Rightarrow> sdk_config) \<Rightarrow> config \<Rightarrow> config" where
  "apply_defaults set_defaults c =
     (let sdk = set_defaults \<lparr>sdk_auth = cfg_auth c, sdk_base_url = cfg_base_url c, sdk_context = cfg_context c\<rparr>
      in c\<lparr>cfg_auth := sdk_auth sdk, cfg_base_url := sdk_base_url sdk, cfg_csi := apply_csi_defaults (cfg_csi c)\<rparr>)"

definition zero_csi :: csi_config where
  "zero_csi =
     \<lparr>csi_identifier = '''', csi_vm_owner_label = '''', csi_max_volumes_per_node = 0,
      csi_total_capacity_gb = 0, csi_device_scan_timeout = 0, csi_device_scan_interval = 0,
      csi_attachment_poll_timeout = 0, csi_disk_resize_poll_timeout = 0, csi_disk_resize_poll_interval = 0,
      csi_metrics_collection_interval = 0, csi_rest_api_max_retries = 0,
      csi_rest_api_retry_initial_delay = 0, csi_rest_api_retry_max_delay = 0, csi_rest_api_timeout = 0\<rparr>"

definition zero_config :: config where
  "zero_config =
     \<lparr>cfg_evroc = \<lparr>rest_url = '''', organization = '''', project = ''''\<rparr>, cfg_base_url = '''',
      cfg_context = \<lparr>ctx_organization = '''', ctx_project = '''', ctx_region = ''''\<rparr>,
      cfg_auth = \<lparr>token_url = '''', client_id = '''', username = '''', password = '''', token = '''',
        refresh_token = '''', scopes = [], service_account_id = '''', service_account_secret = ''''\<rparr>,
      cfg_infra_region = '''', cfg_csi = zero_csi\<rparr>"

definition new_with_defaults :: "(sdk_config \<Rightarrow> sdk_config) \<Rightarrow> config" where
  "new_with_defaults set_defaults = apply_defaults set_defaults zero_config"

section \<open>Validation\<close>

definition or_else :: "string \<Rightarrow> string \<Rightarrow> string" where
  "or_else v fallback = (if v = '''' then fallback else v)"

text \<open>\<open>SDKConfig\<close>: the deprecated fields fill the gaps.\<close>

definition sdk_config_of :: "(sdk_config \<Rightarrow> sdk_config) \<Rightarrow> config \<Rightarrow> sdk_config" where
  "sdk_config_of set_defaults c =
     set_defaults
       \<lparr>sdk_auth = cfg_auth c,
        sdk_base_url = or_else (cfg_base_url c) (rest_url (cfg_evroc c)),
        sdk_context =
          \<lparr>ctx_organization = or_else (ctx_organization (cfg_context c)) (organization (cfg_evroc c)),
           ctx_project = or_else (ctx_project (cfg_context c)) (project (cfg_evroc c)),
           ctx_region = or_else (ctx_region (cfg_context c)) (cfg_infra_region c)\<rparr>\<rparr>"

definition identifier_char :: "char \<Rightarrow> bool" where
  "identifier_char ch \<longleftrightarrow>
     (let n = of_char ch :: nat
      in 97 \<le> n \<and> n \<le> 122 \<or> 65 \<le> n \<and> n \<le> 90 \<or> 48 \<le> n \<and> n \<le> 57 \<or> ch = CHR ''_'' \<or> ch = CHR ''-'')"

text \<open>The regular expression \<open>^[a-zA-Z0-9_-]+$\<close>.\<close>

definition is_valid_identifier :: "string \<Rightarrow> bool" where
  "is_valid_identifier s \<longleftrightarrow> s \<noteq> '''' \<and> list_all identifier_char s"

definition validate_config ::
  "(sdk_config \<Rightarrow> sdk_config) \<Rightarrow> (sdk_config \<Rightarrow> go_error option) \<Rightarrow> config \<Rightarrow> go_error option"
where
  "validate_config set_defaults sdk_validate c =
     (case sdk_validate (sdk_config_of set_defaults c) of
        Some e \<Rightarrow> Some e
      | None \<Rightarrow>
          if csi_identifier (cfg_csi c) \<noteq> '''' \<and> \<not> is_valid_identifier (csi_identifier (cfg_csi c)) then
            Some (plain_error ''csi.identifier must contain only alphanumeric characters, hyphens, and underscores'')
          else if csi_vm_owner_label (cfg_csi c) \<noteq> '''' \<and> csi_identifier (cfg_csi c) = '''' then
            Some (plain_error ''csi.vmOwnerLabel requires csi.identifier'')
          else None)"

definition load_from_path ::
  "(string \<Rightarrow> go_error + string) \<Rightarrow> (string \<Rightarrow> go_error + config) \<Rightarrow> (sdk_config \<Rightarrow> sdk_config) \<Rightarrow>
     (sdk_config \<Rightarrow> go_error option) \<Rightarrow> string \<Rightarrow> go_error + config"
where
  "load_from_path read_file unmarshal set_defaults sdk_validate path =
     (case read_file path of
        Inl e \<Rightarrow> Inl (wrap_error (''failed to read config file '' @ path @ '': '') e)
      | Inr data \<Rightarrow>
          (case unmarshal data of
             Inl e \<Rightarrow> Inl (wrap_error ''failed to parse YAML config: '' e)
           | Inr parsed \<Rightarrow>
               (let c = apply_defaults set_defaults parsed
                in case validate_config set_defaults sdk_validate c of
                     Some e \<Rightarrow> Inl e
                   | None \<Rightarrow> Inr c)))"

definition config_path :: string where
  "config_path = ''/etc/evroc-csi''"

definition config_file_name :: string where
  "config_file_name = ''config.yaml''"

definition load_config ::
  "(string \<Rightarrow> go_error + string) \<Rightarrow> (string \<Rightarrow> go_error + config) \<Rightarrow> (sdk_config \<Rightarrow> sdk_config) \<Rightarrow>
     (sdk_config \<Rightarrow> go_error option) \<Rightarrow> go_error + config"
where
  "load_config read_file unmarshal set_defaults sdk_validate =
     load_from_path read_file unmarshal set_defaults sdk_validate (config_path @ ''/'' @ config_file_name)"

section \<open>The printed form\<close>

definition line :: "nat \<Rightarrow> string \<Rightarrow> string" where
  "line depth t = replicate depth (CHR 0x09) @ t @ [CHR 0x0A]"

definition redacted :: "string \<Rightarrow> string \<Rightarrow> string" where
  "redacted dash secret = ''<redacted'' @ dash @ itoa (int (length secret)) @ '' chars>''"

text \<open>\<open>String\<close>, which the log prints: of the secrets only their lengths.\<close>

definition config_string :: "config \<Rightarrow> string" where
  "config_string c =
     (let a = cfg_auth c; e = cfg_evroc c; x = cfg_context c; k = cfg_csi c
      in concat
        [line 0 ''Config{'',
         line 1 ''Auth: {'',
         line 2 (''TokenURL: '' @ token_url a @ '',''),
         line 2 (''ClientID: '' @ client_id a @ '',''),
         line 2 (''Username: '' @ username a @ '',''),
         line 2 (''Password: '' @ redacted '' - '' (password a) @ '',''),
         line 2 (''Token: '' @ redacted ''- '' (token a) @ '',''),
         line 2 (''RefreshToken: '' @ redacted ''- '' (refresh_token a) @ '',''),
         line 2 (''Scopes: ['' @ join_with '' '' (scopes a) @ ''],''),
         line 2 (''ServiceAccountId '' @ service_account_id a @ '', ''),
         line 2 (''ServiceAccountSecret: '' @ redacted '' - '' (service_account_secret a)),
         line 1 ''},'',
         line 1 ''Evroc: {'',
         line 2 (''RestURL: '' @ rest_url e @ '',''),
         line 2 (''Organization: '' @ organization e @ '',''),
         line 2 (''Project: '' @ project e),
         line 1 ''},'',
         line 1 ''Infrastructure: {'',
         line 2 (''Region: '' @ cfg_infra_region c),
         line 1 ''},'',
         line 1 ''API: {'',
         line 2 (''BaseURL: '' @ cfg_base_url c @ '',''),
         line 1 ''},'',
         line 1 ''Context: {'',
         line 2 (''Organization: '' @ ctx_organization x @ '',''),
         line 2 (''Project: '' @ ctx_project x @ '',''),
         line 2 (''Region: '' @ ctx_region x @ '',''),
         line 1 ''},'',
         line 1 ''CSI: {'',
         line 2 (''Identifier: '' @ csi_identifier k @ '',''),
         line 2 (''VMOwnerLabel: '' @ csi_vm_owner_label k),
         line 1 ''}'',
         ''}''])"

section \<open>Lemmas\<close>

lemma sint_second [simp]: "sint second = 1000000000"
  by (simp add: second_def)

lemma positive_or_positive: "go_less 0 d \<Longrightarrow> go_less 0 (positive_or d v)"
  by (auto simp: positive_or_def go_leq_def go_less_def)

lemma positive_or_keeps: "go_less 0 v \<Longrightarrow> positive_or d v = v"
  by (auto simp: positive_or_def go_leq_def go_less_def)

text \<open>What the services need of the settings: timeouts and intervals a ticker accepts, at least one
  retry, a limit of volumes that is set. A negative limit is allowed and means no limit (\<open>config.go:134\<close>).\<close>

definition usable_csi :: "csi_config \<Rightarrow> bool" where
  "usable_csi c \<longleftrightarrow>
     csi_max_volumes_per_node c \<noteq> 0 \<and> go_less 0 (csi_total_capacity_gb c) \<and>
     go_less 0 (csi_device_scan_timeout c) \<and> go_less 0 (csi_device_scan_interval c) \<and>
     go_less 0 (csi_attachment_poll_timeout c) \<and> go_less 0 (csi_disk_resize_poll_timeout c) \<and>
     go_less 0 (csi_disk_resize_poll_interval c) \<and> go_less 0 (csi_metrics_collection_interval c) \<and>
     0 < csi_rest_api_max_retries c \<and> go_less 0 (csi_rest_api_retry_initial_delay c) \<and>
     go_less 0 (csi_rest_api_retry_max_delay c) \<and> go_less 0 (csi_rest_api_timeout c)"

lemma defaults_positive:
  "go_less 0 default_total_capacity_gb" "go_less 0 default_device_scan_timeout"
  "go_less 0 default_device_scan_interval" "go_less 0 default_attachment_poll_timeout"
  "go_less 0 default_disk_resize_poll_timeout" "go_less 0 default_disk_resize_poll_interval"
  "go_less 0 default_metrics_collection_interval" "go_less 0 default_rest_api_retry_initial_delay"
  "go_less 0 default_rest_api_retry_max_delay" "go_less 0 default_rest_api_timeout"
  "default_max_volumes_per_node \<noteq> 0" "0 < default_rest_api_max_retries"
  by (simp_all add: go_less_def default_values)

lemma usable_after_defaults: "usable_csi (apply_csi_defaults c)"
  using defaults_positive by (auto simp: usable_csi_def apply_csi_defaults_def intro!: positive_or_positive)

lemma usable_unchanged: "usable_csi c \<Longrightarrow> apply_csi_defaults c = c"
  by (simp add: usable_csi_def apply_csi_defaults_def positive_or_keeps)

lemma identifier_char_plain:
  "identifier_char ch \<Longrightarrow> ch \<noteq> CHR '' '' \<and> ch \<noteq> CHR '','' \<and> ch \<noteq> CHR ''='' \<and> ch \<noteq> CHR ''/''"
  by (auto simp: identifier_char_def Let_def)

end
