(* ===== verification/Driver.thy ===== *)
theory Driver
  imports Controller Node Config
begin

text \<open>
  The packages \<open>pkg/driver\<close>, \<open>pkg/identity\<close> and \<open>pkg/version\<close>, the constructor of the SDK
  backend, and the start of the program (\<open>cmd/evroc-csi-driver/main.go\<close>): which services a mode
  brings up, with which settings, and when the program refuses to start. The outside is a
  record of functions: the SDK's client constructor, the runtimes, the kernel, the socket.
\<close>

section \<open>Identity and version\<close>

definition driver_name :: string where
  "driver_name = ''disk.csi.evroc.com''"

definition get_plugin_info :: "string \<Rightarrow> go_error + string \<times> string" where
  "get_plugin_info version =
     (if driver_name = '''' then Inl (status_error Unavailable ''driver name not configured'')
      else Inr (driver_name, version))"

datatype plugin_capability = ControllerServiceCap | VolumeAccessibilityConstraints

definition get_plugin_capabilities :: "plugin_capability list" where
  "get_plugin_capabilities = [ControllerServiceCap, VolumeAccessibilityConstraints]"

definition probe :: bool where
  "probe = True"

record version_info =
  version :: string
  git_commit :: string
  build_date :: string
  go_version :: string
  platform :: string

text \<open>\<open>Get\<close>: version, commit and date are set at build time, the rest is what package \<open>runtime\<close> says.\<close>

definition get_version :: "string \<Rightarrow> string \<Rightarrow> string \<Rightarrow> string \<Rightarrow> string \<Rightarrow> string \<Rightarrow> version_info" where
  "get_version ver commit date runtime_version goos goarch =
     \<lparr>version = ver, git_commit = commit, build_date = date, go_version = runtime_version,
      platform = goos @ ''/'' @ goarch\<rparr>"

definition version_string :: "version_info \<Rightarrow> string" where
  "version_string i =
     ''Version: '' @ version i @ '', GitCommit: '' @ git_commit i @ '', BuildDate: '' @ build_date i @
     '', GoVersion: '' @ go_version i @ '', Platform: '' @ platform i"

section \<open>The driver\<close>

definition controller_mode :: string where "controller_mode = ''controller''"
definition node_mode :: string where "node_mode = ''node''"
definition all_mode :: string where "all_mode = ''all''"

lemmas mode_defs = controller_mode_def node_mode_def all_mode_def

definition validate_mode :: "string \<Rightarrow> go_error option" where
  "validate_mode m =
     (if m = controller_mode \<or> m = node_mode \<or> m = all_mode then None
      else Some (plain_error (''invalid mode '' @ quoted m @ '': must be '' @ quoted controller_mode @ '', '' @
                              quoted node_mode @ '', or '' @ quoted all_mode)))"

record ('c, 'k) host =
  h_new_client :: "sdk_config \<Rightarrow> go_error + 'c compute_client"
  h_set_defaults :: "sdk_config \<Rightarrow> sdk_config"
  h_cloud_runtime :: "'c runtime"
  h_machine_runtime :: "'k runtime"
  h_kernel :: "'k kernel"
  h_root :: "'k root_ops"

definition new_sdk_storage_backend :: "('c, 'k) host \<Rightarrow> config \<Rightarrow> go_error + 'c sdk_backend" where
  "new_sdk_storage_backend h cfg =
     (case h_new_client h (sdk_config_of (h_set_defaults h) cfg) of
        Inl e \<Rightarrow> Inl (wrap_error ''create evroc SDK client: '' e)
      | Inr cl \<Rightarrow>
          Inr \<lparr>client = cl,
               sdk_identifier = (if csi_identifier (cfg_csi cfg) = '''' then project (cfg_evroc cfg)
                                 else csi_identifier (cfg_csi cfg)),
               vm_owner_label = csi_vm_owner_label (cfg_csi cfg),
               attachment_poll_timeout = csi_attachment_poll_timeout (cfg_csi cfg),
               disk_resize_poll_timeout = csi_disk_resize_poll_timeout (cfg_csi cfg),
               disk_resize_poll_interval = csi_disk_resize_poll_interval (cfg_csi cfg)\<rparr>)"

record ('c, 'k) driver_config =
  dc_has_logger :: bool
  dc_evroc_config :: "config option"
  dc_storage :: "'c storage_backend option"
  dc_fs :: "'k fs_ops option"
  dc_kube :: "'k kube_client option"
  dc_metrics :: bool
  dc_endpoint :: string
  dc_node_id :: string
  dc_device_by_id_path :: string
  dc_mode :: string

record ('c, 'k) driver =
  dr_endpoint :: string
  dr_mode :: string
  dr_controller :: "'c controller option"
  dr_node :: "'k node_service option"
  dr_listening :: bool
  dr_serving :: bool

text \<open>The storage backend of the controller: the injected one, or one on the SDK.\<close>

definition driver_storage :: "('c, 'k) host \<Rightarrow> ('c, 'k) driver_config \<Rightarrow> config \<Rightarrow> go_error + 'c storage_backend" where
  "driver_storage h dc cfg =
     (case dc_storage dc of
        Some sb \<Rightarrow> Inr sb
      | None \<Rightarrow>
          (case new_sdk_storage_backend h cfg of
             Inl e \<Rightarrow> Inl (wrap_error ''failed to create SDK storage backend: '' e)
           | Inr b \<Rightarrow> Inr (sdk_storage_backend (h_cloud_runtime h) b)))"

text \<open>A result \<open>None\<close> is a panic of one of the constructors.\<close>

definition driver_controller ::
  "('c, 'k) host \<Rightarrow> ('c, 'k) driver_config \<Rightarrow> config \<Rightarrow> (go_error + 'c controller) option"
where
  "driver_controller h dc cfg =
     (case driver_storage h dc cfg of
        Inl e \<Rightarrow> Some (Inl e)
      | Inr sb \<Rightarrow>
          (case new_controller_service (Some sb) (h_cloud_runtime h) (csi_total_capacity_gb (cfg_csi cfg))
                  (csi_max_volumes_per_node (cfg_csi cfg)) (csi_metrics_collection_interval (cfg_csi cfg))
                  (csi_rest_api_max_retries (cfg_csi cfg)) (csi_rest_api_retry_initial_delay (cfg_csi cfg))
                  (csi_rest_api_retry_max_delay (cfg_csi cfg)) (dc_metrics dc) of
             None \<Rightarrow> None
           | Some (s, _) \<Rightarrow> Some (Inr s)))"

definition driver_node ::
  "('c, 'k) host \<Rightarrow> ('c, 'k) driver_config \<Rightarrow> config \<Rightarrow> (go_error + 'k node_service) option"
where
  "driver_node h dc cfg =
     (let fs = (case dc_fs dc of
                  Some f \<Rightarrow> f
                | None \<Rightarrow> unix_operations (h_machine_runtime h) (h_kernel h) (csi_device_scan_interval (cfg_csi cfg)));
          max_volumes = (if go_less 0 (csi_max_volumes_per_node (cfg_csi cfg))
                         then csi_max_volumes_per_node (cfg_csi cfg) else max_volumes_per_node_default)
      in case dc_kube dc of
           None \<Rightarrow> Some (Inl (plain_error ''KubeClient is required for node mode''))
         | Some kc \<Rightarrow>
             (case new_node_service (dc_node_id dc) (Some fs) (k_os_stat (h_kernel h)) (h_root h)
                     (h_machine_runtime h) max_volumes (csi_device_scan_timeout (cfg_csi cfg))
                     (csi_device_scan_interval (cfg_csi cfg)) (Some kc) of
                None \<Rightarrow> None
              | Some n \<Rightarrow>
                  Some (Inr (if dc_device_by_id_path dc \<noteq> '''' then set_device_by_id_path (dc_device_by_id_path dc) n
                             else n))))"

definition check_driver_config :: "('c, 'k) driver_config \<Rightarrow> go_error option" where
  "check_driver_config dc =
     (if dc_endpoint dc = '''' then Some (plain_error ''endpoint is required'')
      else if dc_node_id dc = '''' then Some (plain_error ''node ID is required'')
      else if \<not> dc_has_logger dc then Some (plain_error ''logger is required'')
      else None)"

definition new_driver ::
  "('c, 'k) host \<Rightarrow> ('c, 'k) driver_config \<Rightarrow> (go_error + ('c, 'k) driver) option"
where
  "new_driver h dc =
     (case check_driver_config dc of
        Some e \<Rightarrow> Some (Inl e)
      | None \<Rightarrow>
          (let m = (if dc_mode dc = '''' then all_mode else dc_mode dc)
           in case validate_mode m of
                Some e \<Rightarrow> Some (Inl e)
              | None \<Rightarrow>
                  (let cfg = (case dc_evroc_config dc of None \<Rightarrow> new_with_defaults (h_set_defaults h) | Some c \<Rightarrow> c)
                   in case (if m = controller_mode \<or> m = all_mode
                            then map_option (map_sum id Some) (driver_controller h dc cfg)
                            else Some (Inr None)) of
                        None \<Rightarrow> None
                      | Some (Inl e) \<Rightarrow> Some (Inl e)
                      | Some (Inr ctl) \<Rightarrow>
                          (case (if m = node_mode \<or> m = all_mode
                                 then map_option (map_sum id Some) (driver_node h dc cfg)
                                 else Some (Inr None)) of
                             None \<Rightarrow> None
                           | Some (Inl e) \<Rightarrow> Some (Inl e)
                           | Some (Inr nd) \<Rightarrow>
                               Some (Inr \<lparr>dr_endpoint = dc_endpoint dc, dr_mode = m, dr_controller = ctl,
                                          dr_node = nd, dr_listening = False, dr_serving = False\<rparr>)))))"

section \<open>Running and stopping\<close>

text \<open>The socket and the gRPC server, on the state of the process.\<close>

record 'p process_ops =
  p_mkdir_all :: "string \<Rightarrow> nat \<Rightarrow> 'p go_err"
  p_remove :: "string \<Rightarrow> 'p go_err"
  p_listen :: "string \<Rightarrow> 'p go_err"
  p_serve :: "string list \<Rightarrow> 'p go_err"
  p_graceful_stop :: "'p \<Rightarrow> 'p"
  p_close_listener :: "'p go_err"

definition socket_path :: "('c, 'k) driver \<Rightarrow> string" where
  "socket_path d = trim_prefix (dr_endpoint d) ''unix://''"

definition registered_services :: "('c, 'k) driver \<Rightarrow> string list" where
  "registered_services d =
     [''Identity''] @ (if dr_controller d \<noteq> None then [''Controller''] else []) @
     (if dr_node d \<noteq> None then [''Node''] else [])"

definition socket_dir_perm :: nat where
  "socket_dir_perm = 493"

definition driver_run ::
  "'p process_ops \<Rightarrow> ('c, 'k) driver \<Rightarrow> 'p \<Rightarrow> go_error option \<times> ('c, 'k) driver \<times> 'p"
where
  "driver_run po d p =
     (let path = socket_path d
      in case p_mkdir_all po (filepath_dir path) socket_dir_perm p of
           (Some e, p1) \<Rightarrow>
             (Some (wrap_error (''failed to create socket directory '' @ filepath_dir path @ '': '') e), d, p1)
         | (None, p1) \<Rightarrow>
             (case p_remove po path p1 of
                (rm, p2) \<Rightarrow>
                  (case (case rm of Some e \<Rightarrow> if errors_is (KErrno errno_ENOENT) e then None else Some e | None \<Rightarrow> None) of
                     Some e \<Rightarrow> (Some (wrap_error ''failed to remove existing socket: '' e), d, p2)
                   | None \<Rightarrow>
                       (case p_listen po path p2 of
                          (Some e, p3) \<Rightarrow> (Some (wrap_error (''failed to listen on '' @ path @ '': '') e), d, p3)
                        | (None, p3) \<Rightarrow>
                            (case p_serve po (registered_services d) p3 of
                               (err, p4) \<Rightarrow>
                                 (map_option (wrap_error ''failed to serve: '') err,
                                  d\<lparr>dr_listening := True, dr_serving := True\<rparr>, p4))))))"

text \<open>Failures to close the listener or to remove the socket are only logged.\<close>

definition driver_stop :: "'p process_ops \<Rightarrow> ('c, 'k) driver \<Rightarrow> 'p \<Rightarrow> 'p" where
  "driver_stop po d p =
     (let p1 = (if dr_serving d then p_graceful_stop po p else p);
          p2 = (if dr_listening d then snd (p_close_listener po p1) else p1)
      in snd (p_remove po (socket_path d) p2))"

section \<open>The program\<close>

record flags =
  fl_show_version :: bool
  fl_endpoint :: string
  fl_node_id :: string
  fl_mode :: string
  fl_config_path :: string
  fl_metrics_port :: int

datatype log_level = LevelDebug | LevelInfo | LevelWarn | LevelError

definition to_lower_char :: "char \<Rightarrow> char" where
  "to_lower_char c =
     (let n = of_char c :: nat in if 65 \<le> n \<and> n \<le> 90 then char_of (n + 32) else c)"

definition setup_log_level :: "string \<Rightarrow> log_level" where
  "setup_log_level level =
     (let l = map to_lower_char level
      in if l = ''debug'' then LevelDebug
         else if l = ''info'' then LevelInfo
         else if l = ''warn'' \<or> l = ''warning'' then LevelWarn
         else if l = ''error'' then LevelError
         else LevelInfo)"

text \<open>The HTTP server of the metrics; what it answers on its path is the registry of the manager.\<close>

record 'm metrics_server =
  ms_manager :: 'm
  ms_addr :: string
  ms_path :: string
  ms_open_metrics :: bool
  ms_read_header_timeout :: i64
  ms_read_timeout :: i64
  ms_write_timeout :: i64

definition default_metrics_port :: int where "default_metrics_port = 9090"
definition default_metrics_path :: string where "default_metrics_path = ''/metrics''"

definition new_metrics_server :: "'m \<Rightarrow> int \<Rightarrow> 'm metrics_server" where
  "new_metrics_server manager port =
     (let p = (if port = 0 then default_metrics_port else port)
      in \<lparr>ms_manager = manager, ms_addr = '':'' @ itoa p, ms_path = default_metrics_path, ms_open_metrics = True,
          ms_read_header_timeout = 5 * second, ms_read_timeout = 10 * second, ms_write_timeout = 10 * second\<rparr>)"

text \<open>What the program asks of the system at start: host name, configuration, Kubernetes client.\<close>

record ('c, 'k) start_env =
  se_host :: "('c, 'k) host"
  se_hostname :: "go_error + string"
  se_load_config :: "string \<Rightarrow> go_error + config"
  se_kube_client :: "go_error + 'k kube_client"

text \<open>The driver configuration \<open>main\<close> arrives at; \<open>Inl\<close> is an exit with status 1.\<close>

definition main_setup ::
  "('c, 'k) start_env \<Rightarrow> flags \<Rightarrow> 'k world \<Rightarrow> (nat + ('c, 'k) driver_config) \<times> 'k world"
where
  "main_setup se fl w =
     (case (if fl_node_id fl = '''' then se_hostname se else Inr (fl_node_id fl)) of
        Inl _ \<Rightarrow> (Inl 1, w)
      | Inr nid \<Rightarrow>
          (let m = fl_mode fl; h = se_host se;
               cfg = (if m = controller_mode \<or> m = all_mode then
                        (case se_load_config se (fl_config_path fl) of Inl _ \<Rightarrow> Inl (1 :: nat) | Inr c \<Rightarrow> Inr (Some c))
                      else if m = node_mode then Inr (Some (new_with_defaults (h_set_defaults h)))
                      else Inr None)
           in case cfg of
                Inl c \<Rightarrow> (Inl c, w)
              | Inr cf \<Rightarrow>
                  (case (if m = controller_mode \<or> m = all_mode then
                           (case cf of
                              None \<Rightarrow> Inl 1
                            | Some c \<Rightarrow>
                                (case new_sdk_storage_backend h c of
                                   Inl _ \<Rightarrow> Inl 1
                                 | Inr b \<Rightarrow> Inr (Some (sdk_storage_backend (h_cloud_runtime h) b))))
                         else Inr None) of
                     Inl c \<Rightarrow> (Inl c, w)
                   | Inr sb \<Rightarrow>
                       (let base = \<lparr>dc_has_logger = True, dc_evroc_config = cf, dc_storage = sb, dc_fs = None,
                                    dc_kube = None, dc_metrics = True, dc_endpoint = fl_endpoint fl,
                                    dc_node_id = nid, dc_device_by_id_path = '''', dc_mode = m\<rparr>
                        in if m = node_mode \<or> m = all_mode then
                             (case se_kube_client se of
                                Inl _ \<Rightarrow> (Inl 1, w)
                              | Inr kc \<Rightarrow>
                                  (case get_node_zone_from_kubernetes kc nid w of
                                     (Inl _, w1) \<Rightarrow> (Inl 1, w1)
                                   | (Inr zone, w1) \<Rightarrow>
                                       (Inr (base\<lparr>dc_kube := Some kc,
                                          dc_fs := map_option (\<lambda>c. unix_operations (h_machine_runtime h) (h_kernel h)
                                            (csi_device_scan_interval (cfg_csi c))) cf\<rparr>), w1)))
                           else (Inr base, w)))))"

definition main_start ::
  "('c, 'k) start_env \<Rightarrow> flags \<Rightarrow> 'k world \<Rightarrow> (nat + ('c, 'k) driver) option \<times> 'k world"
where
  "main_start se fl w =
     (if fl_show_version fl then (Some (Inl 0), w)
      else
        (case main_setup se fl w of
           (Inl c, w1) \<Rightarrow> (Some (Inl c), w1)
         | (Inr dc, w1) \<Rightarrow> (map_option (map_sum (\<lambda>_. 1) id) (new_driver (se_host se) dc), w1)))"

text \<open>The end of \<open>main\<close>: a shutdown signal (\<open>None\<close>) or the return of \<open>Run\<close> gives the exit status.\<close>

definition main_wait :: "go_error option option \<Rightarrow> nat" where
  "main_wait event = (case event of None \<Rightarrow> 0 | Some err \<Rightarrow> if err \<noteq> None then 1 else 0)"

end
