(* ===== verification/Driver_Properties.thy ===== *)
theory Driver_Properties
  imports Driver Ref_Cloud Ref_Machine
begin

text \<open>
  Properties of the configuration (\<open>pkg/config\<close>) and of the start of the program (\<open>pkg/driver\<close>,
  \<open>cmd/evroc-csi-driver/main.go\<close>): what a loaded configuration guarantees to the services, what its
  printed form reveals, which services a mode brings up and when the program refuses to start.
\<close>

section \<open>The configuration\<close>


definition ref_file :: "string \<Rightarrow> go_error + string" where
  "ref_file path = Inr ''context: {project: p-1}''"

text \<open>A file in the new form: the project is in \<open>context\<close>, the deprecated section is empty.\<close>

definition ref_parsed :: config where
  "ref_parsed = zero_config\<lparr>cfg_context := \<lparr>ctx_organization = ''org'', ctx_project = ''p-1'', ctx_region = ''se-sto''\<rparr>\<rparr>"

definition ref_sdk_validate :: "sdk_config \<Rightarrow> go_error option" where
  "ref_sdk_validate c =
     (if ctx_project (sdk_context c) = '''' then Some (plain_error ''project is required'') else None)"

definition ref_config :: config where
  "ref_config = apply_defaults id ref_parsed"

lemma ref_config_loads: "load_from_path ref_file (\<lambda>_. Inr ref_parsed) id ref_sdk_validate ''c.yaml'' = Inr ref_config"
  by (simp add: load_from_path_def ref_file_def ref_config_def Let_def validate_config_def ref_sdk_validate_def
      sdk_config_of_def apply_defaults_def ref_parsed_def or_else_def apply_csi_defaults_def zero_config_def zero_csi_def)


text \<open>
  The printed form of a configuration, which the program logs, depends on the four secrets only
  through their lengths.
\<close>

lemma config_string_hides_secrets:
  assumes "length pw = length (password (cfg_auth c))" and "length tk = length (token (cfg_auth c))"
    and "length rf = length (refresh_token (cfg_auth c))" and "length sec = length (service_account_secret (cfg_auth c))"
  shows "config_string (c\<lparr>cfg_auth := (cfg_auth c)
      \<lparr>password := pw, token := tk, refresh_token := rf, service_account_secret := sec\<rparr>\<rparr>) = config_string c"
  by (simp add: config_string_def redacted_def Let_def assms)

lemma config_string_hides_secrets_witness:
  "config_string (ref_config\<lparr>cfg_auth := (cfg_auth ref_config)\<lparr>password := ''hunter2''\<rparr>\<rparr>) =
   config_string (ref_config\<lparr>cfg_auth := (cfg_auth ref_config)\<lparr>password := ''letmein''\<rparr>\<rparr>)"
  using config_string_hides_secrets [of "''hunter2''"
      "ref_config\<lparr>cfg_auth := (cfg_auth ref_config)\<lparr>password := ''letmein''\<rparr>\<rparr>"
      "token (cfg_auth ref_config)" "refresh_token (cfg_auth ref_config)" "service_account_secret (cfg_auth ref_config)"]
  by simp

text \<open>
  C36: The deprecated endpoint \<open>evroc.restURL\<close> is documented as the fallback for \<open>api.base_url\<close>, but a
  loaded configuration loses it: \<open>applyDefaults\<close> has already filled an absent \<open>api.base_url\<close>, with the
  SDK's default endpoint, when \<open>SDKConfig\<close> looks whether it is empty.
\<close>

theorem rest_url_fallback_lost:
  assumes "\<And>k. sdk_base_url (set_defaults k) = or_else (sdk_base_url k) default_url" and "default_url \<noteq> ''''"
    and "read_file path = Inr content" and "unmarshal content = Inr parsed" and "cfg_base_url parsed = ''''"
    and "load_from_path read_file unmarshal set_defaults sdk_validate path = Inr c"
  shows "rest_url (cfg_evroc c) = rest_url (cfg_evroc parsed) \<and>
    sdk_base_url (sdk_config_of set_defaults c) = default_url"
proof -
  have "c = apply_defaults set_defaults parsed"
    using assms(3,4,6) by (auto simp: load_from_path_def Let_def split: option.splits)
  then show ?thesis
    using assms(1,2,5) by (simp add: apply_defaults_def sdk_config_of_def or_else_def Let_def)
qed

definition ref_set_defaults :: "sdk_config \<Rightarrow> sdk_config" where
  "ref_set_defaults k = k\<lparr>sdk_base_url := or_else (sdk_base_url k) ''https://api.evroc.com''\<rparr>"

definition ref_private :: config where
  "ref_private = ref_parsed\<lparr>cfg_evroc := \<lparr>rest_url = ''https://evroc.example.com'', organization = '''', project = ''''\<rparr>\<rparr>"

lemma rest_url_fallback_lost_witness:
  "\<exists>c. load_from_path ref_file (\<lambda>_. Inr ref_private) ref_set_defaults ref_sdk_validate ''c.yaml'' = Inr c \<and>
     rest_url (cfg_evroc c) = ''https://evroc.example.com'' \<and>
     sdk_base_url (sdk_config_of ref_set_defaults c) = ''https://api.evroc.com''"
proof -
  have "load_from_path ref_file (\<lambda>_. Inr ref_private) ref_set_defaults ref_sdk_validate ''c.yaml'' =
      Inr (apply_defaults ref_set_defaults ref_private)"
    by (simp add: load_from_path_def ref_file_def Let_def validate_config_def ref_sdk_validate_def ref_set_defaults_def
        sdk_config_of_def apply_defaults_def ref_private_def ref_parsed_def or_else_def apply_csi_defaults_def
        zero_config_def zero_csi_def)
  from rest_url_fallback_lost [OF _ _ _ _ _ this, of "''https://api.evroc.com''" "''context: {project: p-1}''" ref_private] this
  show ?thesis by (auto simp: ref_set_defaults_def ref_file_def ref_private_def ref_parsed_def zero_config_def)
qed

section \<open>Services and modes\<close>

lemma driver_controller_cases:
  "driver_controller h dc cfg \<noteq> None"
  by (simp add: driver_controller_def new_controller_service_def split: sum.split)

lemma driver_node_cases: "driver_node h dc cfg \<noteq> None"
  by (simp add: driver_node_def new_node_service_def Let_def split: option.split)

text \<open>The services of a driver, from the outcome of the two constructors.\<close>

definition driver_mode :: "('c, 'k) driver_config \<Rightarrow> string" where
  "driver_mode dc = (if dc_mode dc = '''' then all_mode else dc_mode dc)"

definition config_or_defaults :: "('c, 'k) host \<Rightarrow> ('c, 'k) driver_config \<Rightarrow> config" where
  "config_or_defaults h dc =
     (case dc_evroc_config dc of None \<Rightarrow> new_with_defaults (h_set_defaults h) | Some c \<Rightarrow> c)"

definition optional_service :: "bool \<Rightarrow> (go_error + 's) option \<Rightarrow> (go_error + 's option) option" where
  "optional_service wanted r = (if wanted then map_option (map_sum id Some) r else Some (Inr None))"

lemma optional_service_Inr:
  "optional_service wanted r = Some (Inr x) \<Longrightarrow> (x \<noteq> None) = wanted"
  "r \<noteq> None \<Longrightarrow> optional_service wanted r \<noteq> None"
proof -
  show "(x \<noteq> None) = wanted" if a: "optional_service wanted r = Some (Inr x)"
  proof (cases wanted)
    case True
    with a obtain z where "r = Some z" "map_sum id Some z = Inr x" by (auto simp: optional_service_def)
    then have "x \<noteq> None" by (cases z) auto
    with True show ?thesis by simp
  qed (use a in \<open>simp add: optional_service_def\<close>)
qed (simp add: optional_service_def)

lemma new_driver_eq:
  "new_driver h dc =
     (case check_driver_config dc of
        Some e \<Rightarrow> Some (Inl e)
      | None \<Rightarrow>
          (case validate_mode (driver_mode dc) of
             Some e \<Rightarrow> Some (Inl e)
           | None \<Rightarrow>
               (case optional_service (driver_mode dc = controller_mode \<or> driver_mode dc = all_mode)
                       (driver_controller h dc (config_or_defaults h dc)) of
                  None \<Rightarrow> None
                | Some (Inl e) \<Rightarrow> Some (Inl e)
                | Some (Inr ctl) \<Rightarrow>
                    (case optional_service (driver_mode dc = node_mode \<or> driver_mode dc = all_mode)
                            (driver_node h dc (config_or_defaults h dc)) of
                       None \<Rightarrow> None
                     | Some (Inl e) \<Rightarrow> Some (Inl e)
                     | Some (Inr nd) \<Rightarrow>
                         Some (Inr \<lparr>dr_endpoint = dc_endpoint dc, dr_mode = driver_mode dc, dr_controller = ctl,
                                    dr_node = nd, dr_listening = False, dr_serving = False\<rparr>)))))"
  unfolding new_driver_def driver_mode_def config_or_defaults_def optional_service_def Let_def ..

lemma new_driver_Inr:
  assumes "new_driver h dc = Some (Inr d)"
  shows "check_driver_config dc = None" "validate_mode (driver_mode dc) = None" "dr_mode d = driver_mode dc"
    "optional_service (driver_mode dc = controller_mode \<or> driver_mode dc = all_mode)
       (driver_controller h dc (config_or_defaults h dc)) = Some (Inr (dr_controller d))"
    "optional_service (driver_mode dc = node_mode \<or> driver_mode dc = all_mode)
       (driver_node h dc (config_or_defaults h dc)) = Some (Inr (dr_node d))"
  using assms unfolding new_driver_eq by (auto split: option.splits sum.splits)

lemma new_driver_no_panic: "new_driver h dc \<noteq> None"
  unfolding new_driver_eq
  by (simp add: optional_service_Inr(2) [OF driver_controller_cases]
      optional_service_Inr(2) [OF driver_node_cases] split: option.split sum.split)

text \<open>
  \<open>NewDriver\<close> never panics, and a driver it returns serves exactly the services of its mode: the
  identity service always, the controller service in the modes controller and all, the node
  service in the modes node and all; no mode given means all, any other text is refused.
\<close>

lemma driver_serves_mode:
  "new_driver h dc \<noteq> None \<and>
   (\<forall>d. new_driver h dc = Some (Inr d) \<longrightarrow>
     dr_mode d = (if dc_mode dc = '''' then all_mode else dc_mode dc) \<and>
     dr_mode d \<in> {controller_mode, node_mode, all_mode} \<and>
     registered_services d = [''Identity''] @ (if dr_mode d \<noteq> node_mode then [''Controller''] else []) @
       (if dr_mode d \<noteq> controller_mode then [''Node''] else []))"
proof (intro conjI allI impI)
  show "new_driver h dc \<noteq> None" by (rule new_driver_no_panic)
  fix d assume "new_driver h dc = Some (Inr d)"
  note r = new_driver_Inr [OF this]
  show "dr_mode d = (if dc_mode dc = '''' then all_mode else dc_mode dc)" by (simp add: r(3) driver_mode_def)
  from r(2,3) show m: "dr_mode d \<in> {controller_mode, node_mode, all_mode}"
    by (simp add: validate_mode_def split: if_splits)
  have modes: "controller_mode \<noteq> node_mode" "controller_mode \<noteq> all_mode" "node_mode \<noteq> all_mode"
    by (simp_all add: mode_defs)
  from optional_service_Inr(1) [OF r(4)] optional_service_Inr(1) [OF r(5)] m modes
  show "registered_services d = [''Identity''] @ (if dr_mode d \<noteq> node_mode then [''Controller''] else []) @
      (if dr_mode d \<noteq> controller_mode then [''Node''] else [])"
    unfolding registered_services_def r(3) [symmetric] by auto
qed

definition ref_host :: "(cloud, machine) host" where
  "ref_host =
     \<lparr>h_new_client = \<lambda>_. Inr ref_client, h_set_defaults = id, h_cloud_runtime = still_runtime,
      h_machine_runtime = still_runtime, h_kernel = ref_kernel NoFault, h_root = ref_root\<rparr>"

definition ref_driver_config :: "(cloud, machine) driver_config" where
  "ref_driver_config =
     \<lparr>dc_has_logger = True, dc_evroc_config = Some ref_config, dc_storage = None, dc_fs = None,
      dc_kube = Some ref_kube, dc_metrics = True, dc_endpoint = ''unix:///csi.sock'', dc_node_id = ''node-1'',
      dc_device_by_id_path = '''', dc_mode = ''''\<rparr>"

lemma driver_serves_mode_witness:
  "\<exists>d :: (cloud, machine) driver. new_driver ref_host ref_driver_config = Some (Inr d) \<and>
     registered_services d = [''Identity'', ''Controller'', ''Node'']"
proof -
  have "(case new_driver ref_host ref_driver_config of Some (Inr d) \<Rightarrow> True | _ \<Rightarrow> False)" by code_simp
  then obtain d where d: "new_driver ref_host ref_driver_config = Some (Inr d)"
    by (auto split: option.splits sum.splits)
  with driver_serves_mode [of ref_host ref_driver_config] show ?thesis
    by (auto simp: ref_driver_config_def mode_defs)
qed

section \<open>The start of the program\<close>

definition uses_controller :: "string \<Rightarrow> bool" where
  "uses_controller m \<longleftrightarrow> m = controller_mode \<or> m = all_mode"

definition uses_node :: "string \<Rightarrow> bool" where
  "uses_node m \<longleftrightarrow> m = node_mode \<or> m = all_mode"

lemma main_setup_Inl: "fst (main_setup se fl w) = Inl c \<Longrightarrow> c = 1"
  by (auto simp: main_setup_def Let_def split: sum.splits if_splits option.splits prod.splits)

lemma mode_distinct:
  "controller_mode \<noteq> node_mode" "controller_mode \<noteq> all_mode" "node_mode \<noteq> all_mode"
  "node_mode \<noteq> controller_mode" "all_mode \<noteq> controller_mode" "all_mode \<noteq> node_mode"
  "controller_mode \<noteq> ''''" "node_mode \<noteq> ''''" "all_mode \<noteq> ''''"
  by (simp_all add: mode_defs)

lemma main_setup_Inr:
  assumes "fst (main_setup se fl w) = Inr dc"
  shows "dc_mode dc = fl_mode fl"
    and "uses_controller (fl_mode fl) \<Longrightarrow>
      \<exists>c b. se_load_config se (fl_config_path fl) = Inr c \<and> new_sdk_storage_backend (se_host se) c = Inr b \<and>
        dc_evroc_config dc = Some c \<and> dc_storage dc = Some (sdk_storage_backend (h_cloud_runtime (se_host se)) b)"
    and "uses_node (fl_mode fl) \<Longrightarrow>
      \<exists>kc zone w1. se_kube_client se = Inr kc \<and> get_node_zone_from_kubernetes kc (dc_node_id dc) w = (Inr zone, w1) \<and>
        dc_kube dc = Some kc"
    and "\<not> uses_node (fl_mode fl) \<Longrightarrow> dc_kube dc = None"
    and "(if fl_node_id fl = '''' then se_hostname se else Inr (fl_node_id fl)) = Inr (dc_node_id dc)"
  using assms mode_distinct
  by (auto simp: main_setup_def uses_controller_def uses_node_def Let_def
      split: sum.splits if_splits option.splits prod.splits)

text \<open>Without a Kubernetes client there is no driver with a node service.\<close>

lemma new_driver_needs_kube:
  assumes "new_driver h dc = Some (Inr d)" and "uses_node (driver_mode dc)"
  shows "dc_kube dc \<noteq> None"
proof
  assume "dc_kube dc = None"
  then have "driver_node h dc c = Some (Inl (plain_error ''KubeClient is required for node mode''))" for c
    by (simp add: driver_node_def Let_def)
  with new_driver_Inr(5) [OF assms(1)] assms(2) show False
    by (simp add: uses_node_def optional_service_def)
qed

text \<open>The services hold what the driver configuration says.\<close>

lemma driver_controller_settings:
  assumes "new_driver h dc = Some (Inr d)" and "uses_controller (driver_mode dc)"
    and "dc_storage dc = Some sb" "dc_evroc_config dc = Some c"
  shows "\<exists>ctl. dr_controller d = Some ctl \<and> storage ctl = sb \<and>
    ctl_max_volumes ctl = csi_max_volumes_per_node (cfg_csi c)"
  using new_driver_Inr(4) [OF assms(1)] assms(2-4)
  by (auto simp: optional_service_def uses_controller_def config_or_defaults_def driver_controller_def
      driver_storage_def new_controller_service_def eq_commute [of "Some x" "dr_controller d" for x])

lemma driver_node_settings:
  assumes "new_driver h dc = Some (Inr d)" and "uses_node (driver_mode dc)" and "dc_kube dc = Some kc"
  shows "\<exists>n. dr_node d = Some n \<and> node_id n = dc_node_id dc \<and> kube n = kc"
  using new_driver_Inr(5) [OF assms(1)] assms(2,3)
  by (auto simp: optional_service_def uses_node_def driver_node_def new_node_service_def set_device_by_id_path_def Let_def
      eq_commute [of "Some x" "dr_node d" for x] split: option.splits if_splits)

lemma main_driver_mode:
  assumes "fst (main_setup se fl w) = Inr dc" and "new_driver h dc = Some (Inr d)"
  shows "fl_mode fl \<in> {controller_mode, node_mode, all_mode}"
proof -
  have v: "driver_mode dc \<in> {controller_mode, node_mode, all_mode}"
    using new_driver_Inr(2) [OF assms(2)] by (simp add: validate_mode_def split: if_splits)
  have "fl_mode fl \<noteq> ''''"
  proof
    assume empty: "fl_mode fl = ''''"
    then have "driver_mode dc = all_mode" by (simp add: driver_mode_def main_setup_Inr(1) [OF assms(1)])
    with new_driver_needs_kube [OF assms(2)] main_setup_Inr(4) [OF assms(1)] empty mode_distinct
    show False by (simp add: uses_node_def)
  qed
  with v show ?thesis by (simp add: driver_mode_def main_setup_Inr(1) [OF assms(1)])
qed

lemma main_start_Inr:
  assumes "fst (main_start se fl w) = Some (Inr d)"
  shows "\<not> fl_show_version fl \<and>
    (\<exists>dc. fst (main_setup se fl w) = Inr dc \<and> new_driver (se_host se) dc = Some (Inr d))"
proof -
  have v: "\<not> fl_show_version fl" using assms by (auto simp: main_start_def)
  obtain r w1 where m: "main_setup se fl w = (r, w1)" by fastforce
  show ?thesis
  proof (cases r)
    case (Inl c)
    with assms v m show ?thesis by (simp add: main_start_def)
  next
    case (Inr dc)
    with assms v m obtain x where x: "new_driver (se_host se) dc = Some x" "map_sum (\<lambda>_. 1 :: nat) id x = Inr d"
      by (auto simp: main_start_def)
    then have "x = Inr d" by (cases x) auto
    with Inr m v x show ?thesis by simp
  qed
qed

lemma main_start_Inl:
  assumes "fst (main_start se fl w) = Some (Inl c)"
  shows "c = (if fl_show_version fl then 0 else 1)"
proof (cases "fl_show_version fl")
  case False
  obtain r w1 where m: "main_setup se fl w = (r, w1)" by fastforce
  show ?thesis
  proof (cases r)
    case (Inl c')
    with main_setup_Inl [of se fl w c'] m assms False show ?thesis by (simp add: main_start_def)
  next
    case (Inr dc)
    obtain x where x: "new_driver (se_host se) dc = Some x" using new_driver_no_panic by blast
    with assms False m Inr show ?thesis by (cases x) (simp_all add: main_start_def)
  qed
qed (use assms in \<open>simp add: main_start_def\<close>)

text \<open>
  C23: \<open>main\<close> either exits, with status 0 for the version and 1 otherwise, or reaches a driver, and never
  panics on the way. With a driver the mode is one of the three. In the modes controller and all, the
  configuration file was loaded, and the driver has a controller service on the SDK backend made of
  it, with its limit of volumes. In the modes node and all, it has a node service for this node (the
  node of the flag, or the host name if there is none), and the Kubernetes API has a zone label for
  the same node.
\<close>

theorem main_reaches_driver:
  "fst (main_start se fl w) \<noteq> None \<and>
   (\<forall>d. fst (main_start se fl w) = Some (Inr d) \<longrightarrow>
      fl_mode fl \<in> {controller_mode, node_mode, all_mode} \<and>
      (fl_mode fl \<noteq> node_mode \<longrightarrow>
         (\<exists>c b ctl. se_load_config se (fl_config_path fl) = Inr c \<and> new_sdk_storage_backend (se_host se) c = Inr b \<and>
            dr_controller d = Some ctl \<and> storage ctl = sdk_storage_backend (h_cloud_runtime (se_host se)) b \<and>
            ctl_max_volumes ctl = csi_max_volumes_per_node (cfg_csi c))) \<and>
      (fl_mode fl \<noteq> controller_mode \<longrightarrow>
         (\<exists>kc nid zone n. (if fl_node_id fl = '''' then se_hostname se = Inr nid else nid = fl_node_id fl) \<and>
            se_kube_client se = Inr kc \<and> fst (get_node_zone_from_kubernetes kc nid w) = Inr zone \<and>
            dr_node d = Some n \<and> node_id n = nid \<and> kube n = kc))) \<and>
   (\<forall>c. fst (main_start se fl w) = Some (Inl c) \<longrightarrow> c = (if fl_show_version fl then 0 else 1))"
proof (intro conjI allI impI)
  show "fst (main_start se fl w) \<noteq> None"
    by (simp add: main_start_def new_driver_no_panic [unfolded not_None_eq] split: prod.split sum.split)
next
  fix d assume "fst (main_start se fl w) = Some (Inr d)"
  from main_start_Inr [OF this] obtain dc where
    dc: "fst (main_setup se fl w) = Inr dc" "new_driver (se_host se) dc = Some (Inr d)" by blast
  show mode: "fl_mode fl \<in> {controller_mode, node_mode, all_mode}" by (rule main_driver_mode [OF dc])
  then have dm: "driver_mode dc = fl_mode fl"
    using main_setup_Inr(1) [OF dc(1)] mode_distinct by (auto simp: driver_mode_def)
  show "\<exists>c b ctl. se_load_config se (fl_config_path fl) = Inr c \<and> new_sdk_storage_backend (se_host se) c = Inr b \<and>
      dr_controller d = Some ctl \<and> storage ctl = sdk_storage_backend (h_cloud_runtime (se_host se)) b \<and>
      ctl_max_volumes ctl = csi_max_volumes_per_node (cfg_csi c)"
    if "fl_mode fl \<noteq> node_mode"
  proof -
    from mode that have u: "uses_controller (fl_mode fl)" by (auto simp: uses_controller_def)
    from main_setup_Inr(2) [OF dc(1) u] driver_controller_settings [OF dc(2)] u show ?thesis
      unfolding dm by blast
  qed
  show "\<exists>kc nid zone n. (if fl_node_id fl = '''' then se_hostname se = Inr nid else nid = fl_node_id fl) \<and>
      se_kube_client se = Inr kc \<and> fst (get_node_zone_from_kubernetes kc nid w) = Inr zone \<and>
      dr_node d = Some n \<and> node_id n = nid \<and> kube n = kc"
    if "fl_mode fl \<noteq> controller_mode"
  proof -
    from mode that have u: "uses_node (fl_mode fl)" by (auto simp: uses_node_def)
    obtain kc zone w1 where z: "se_kube_client se = Inr kc" "get_node_zone_from_kubernetes kc (dc_node_id dc) w = (Inr zone, w1)"
      "dc_kube dc = Some kc"
      using main_setup_Inr(3) [OF dc(1) u] by blast
    from driver_node_settings [OF dc(2) _ z(3)] u obtain n
      where n: "dr_node d = Some n" "node_id n = dc_node_id dc" "kube n = kc"
      unfolding dm by blast
    from main_setup_Inr(5) [OF dc(1)] have "if fl_node_id fl = '''' then se_hostname se = Inr (dc_node_id dc) else dc_node_id dc = fl_node_id fl"
      by (auto split: if_splits)
    with z n show ?thesis
      by (intro exI [of _ kc] exI [of _ "dc_node_id dc"] exI [of _ zone] exI [of _ n]) simp
  qed
next
  fix c assume "fst (main_start se fl w) = Some (Inl c)"
  then show "c = (if fl_show_version fl then 0 else 1)" by (rule main_start_Inl)
qed

definition ref_node_world :: "machine world" where
  "ref_node_world =
     \<lparr>sys = \<lparr>m_table = [], m_devices = [], m_formatted = [], m_format_log = [], m_corrupt = []\<rparr>, mtr = initialize_metrics, clock = 0\<rparr>"

definition ref_start :: "(cloud, machine) start_env" where
  "ref_start =
     \<lparr>se_host = ref_host, se_hostname = Inr ''node-1'', se_load_config = (\<lambda>_. Inr ref_config),
      se_kube_client = Inr ref_kube\<rparr>"

definition ref_flags :: flags where
  "ref_flags =
     \<lparr>fl_show_version = False, fl_endpoint = ''/tmp/csi.sock'', fl_node_id = '''', fl_mode = ''all'',
      fl_config_path = ''c.yaml'', fl_metrics_port = 9090\<rparr>"

lemma main_reaches_driver_witness:
  "\<exists>d n zone. fst (main_start ref_start ref_flags (ref_node_world)) = Some (Inr d) \<and>
     dr_node d = Some n \<and> node_id n = ''node-1'' \<and>
     fst (get_node_zone_from_kubernetes ref_kube ''node-1'' ref_node_world) = Inr zone"
proof -
  have "(case fst (main_start ref_start ref_flags ref_node_world) of Some (Inr d) \<Rightarrow> True | _ \<Rightarrow> False)" by code_simp
  then obtain d where d: "fst (main_start ref_start ref_flags ref_node_world) = Some (Inr d)"
    by (auto split: option.splits sum.splits)
  have "fl_mode ref_flags \<noteq> controller_mode" by (simp add: ref_flags_def mode_defs)
  with main_reaches_driver [of ref_start ref_flags ref_node_world] d show ?thesis
    by (auto simp: ref_start_def ref_flags_def)
qed

definition ref_identity_backend :: "cloud sdk_backend" where
  "ref_identity_backend =
     (case new_sdk_storage_backend ref_host ref_config of Inr b \<Rightarrow> b | Inl _ \<Rightarrow> ref_backend)"

definition unlabelled_world :: "cloud world" where
  "unlabelled_world = ref_world\<lparr>sys := ref_state\<lparr>c_disks :=
     (''precious'', (ref_disk ''precious'' '''')\<lparr>disk_labels := None\<rparr>) # c_disks ref_state\<rparr>\<rparr>"

text \<open>
  C35: Without \<open>csi.identifier\<close> the backend takes the deprecated project name only. With a file that has
  neither, as in the new form with the project in \<open>context\<close>, a configuration that loads gives a
  backend with the empty identifier, and then a disk without the driver's label counts as the
  driver's own: \<open>EnsureDiskDeleted\<close> has the API delete it, and if it is then gone reports success.
\<close>

theorem empty_identifier_deletes_unlabelled:
  assumes "load_from_path read_file unmarshal set_defaults sdk_validate path = Inr c"
    and "read_file path = Inr content" "unmarshal content = Inr parsed"
    and "csi_identifier (cfg_csi parsed) = ''''" "project (cfg_evroc parsed) = ''''"
    and "new_sdk_storage_backend h c = Inr b"
    and "disks_get (client b) name (sys w) = (Inr d, k)" "sdk_user_labels (disk_labels d) ''managed-by'' = None"
    and "disks_delete (client b) name k = (None, k1)"
    and "disks_get (client b) name k1 = (Inl e, k2)" "errors_is KNotFound e"
  shows "sdk_identifier b = '''' \<and> fst (sdk_ensure_disk_deleted b name w) = None \<and>
    sys (snd (sdk_ensure_disk_deleted b name w)) = k2"
proof
  have "c = apply_defaults set_defaults parsed"
    using assms(1-3) by (auto simp: load_from_path_def Let_def split: option.splits)
  then show id: "sdk_identifier b = ''''"
    using assms(4-6)
    by (auto simp: apply_defaults_def apply_csi_defaults_def new_sdk_storage_backend_def Let_def split: sum.splits)
  show "fst (sdk_ensure_disk_deleted b name w) = None \<and> sys (snd (sdk_ensure_disk_deleted b name w)) = k2"
    using assms(7-) id
    by (simp add: sdk_ensure_disk_deleted_def confirm_disk_deleted_def on_sys_def validate_ownership_def
        label_value_def managed_by_label_def case_prod_beta)
qed

lemma empty_identifier_deletes_unlabelled_witness:
  "\<exists>b. new_sdk_storage_backend ref_host ref_config = Inr b \<and>
     map_of (c_disks (sys unlabelled_world)) ''precious'' \<noteq> None \<and>
     map_of (c_disks (sys (snd (sdk_ensure_disk_deleted b ''precious'' unlabelled_world)))) ''precious'' = None"
proof -
  let ?b = ref_identity_backend and ?k = "sys unlabelled_world"
  let ?k1 = "?k\<lparr>c_disks := AList.delete ''precious'' (c_disks ?k)\<rparr>"
  have b: "new_sdk_storage_backend ref_host ref_config = Inr ?b"
    by (simp add: ref_identity_backend_def new_sdk_storage_backend_def ref_host_def)
  have c: "client ?b = ref_client"
    by (simp add: ref_identity_backend_def new_sdk_storage_backend_def ref_host_def)
  have p: "csi_identifier (cfg_csi ref_parsed) = ''''" "project (cfg_evroc ref_parsed) = ''''"
    by (simp_all add: ref_parsed_def zero_config_def zero_csi_def)
  let ?d = "(ref_disk ''precious'' '''')\<lparr>disk_labels := None\<rparr>"
  have g: "disks_get (client ?b) ''precious'' ?k = (Inr ?d, ?k)"
    "disks_delete (client ?b) ''precious'' ?k = (None, ?k1)"
    "disks_get (client ?b) ''precious'' ?k1 = (Inl (api_error KNotFound ''not found''), ?k1)"
    by (simp_all add: c ref_client_def cloud_get_def unlabelled_world_def delete_conv)
  have "sys (snd (sdk_ensure_disk_deleted ?b ''precious'' unlabelled_world)) = ?k1"
    using empty_identifier_deletes_unlabelled [OF ref_config_loads _ _ p b g(1) _ g(2,3)]
    by (simp add: ref_file_def sdk_user_labels_def)
  with b show ?thesis by (simp add: unlabelled_world_def delete_conv)
qed

text \<open>
  A negative limit of volumes switches the check of the controller off, as the configuration's
  comment says; the node service still reports 128 to Kubernetes.
\<close>

lemma negative_limit_differs:
  assumes "go_less (csi_max_volumes_per_node (cfg_csi cfg)) 0"
  shows "driver_controller h dc cfg = Some (Inr c) \<Longrightarrow> check_attach_limit c node w = (None, w)"
    and "driver_node h dc cfg = Some (Inr n) \<Longrightarrow> node_max_volumes n = 128"
proof -
  have neg: "\<not> go_less 0 (csi_max_volumes_per_node (cfg_csi cfg))" using assms by (simp add: go_less_def)
  show "check_attach_limit c node w = (None, w)" if "driver_controller h dc cfg = Some (Inr c)"
    using that neg
    by (auto simp: driver_controller_def new_controller_service_def check_attach_limit_def split: sum.splits option.splits)
  show "node_max_volumes n = 128" if "driver_node h dc cfg = Some (Inr n)"
    using that neg
    by (auto simp: driver_node_def new_node_service_def Let_def set_device_by_id_path_def
        max_volumes_per_node_default_def split: option.splits if_splits)
qed

end
