(* ===== verification/Node_Locks.thy ===== *)
theory Node_Locks
  imports Controller_Contract Handlers
begin

text \<open>
  Concurrent publish and unpublish calls. gRPC runs every call in its own goroutine; the
  handlers of one node exclude each other by the mutex of that node (\<open>acquireNodeLock\<close>), so
  that the count and the attach of \<open>ControllerPublishVolume\<close> are not separated by another
  attach to the node. A thread is a call with the point it has reached; a step is one
  call of the backend (or one wait), and the steps of all threads interleave freely, with the
  other handlers of the controller in between: each of their backend calls, waits and updates of
  the metrics is a step of its own, and \<open>other_handler_steps\<close> shows that every such handler is a
  run of these steps.
\<close>

section \<open>Threads\<close>

datatype thread =
    PubStart publish_request
  | PubCount publish_request
  | PubAttach publish_request int
  | PubSerial publish_request
  | PubDone publish_request "go_error + (string \<rightharpoonup> string)"
  | UnpStart string string
  | UnpDetach string string int
  | UnpDone string string "go_error + unit"

text \<open>The node whose mutex a thread holds.\<close>

fun holds :: "thread \<Rightarrow> string option" where
  "holds (PubCount req) = Some (pb_node_id req)"
| "holds (PubAttach req _) = Some (pb_node_id req)"
| "holds (PubSerial req) = Some (pb_node_id req)"
| "holds (UnpDetach _ node _) = Some node"
| "holds _ = None"

fun request_of :: "thread \<Rightarrow> string \<times> string" where
  "request_of (PubStart req) = (pb_volume_id req, pb_node_id req)"
| "request_of (PubCount req) = (pb_volume_id req, pb_node_id req)"
| "request_of (PubAttach req _) = (pb_volume_id req, pb_node_id req)"
| "request_of (PubSerial req) = (pb_volume_id req, pb_node_id req)"
| "request_of (PubDone req _) = (pb_volume_id req, pb_node_id req)"
| "request_of (UnpStart vid node) = (vid, node)"
| "request_of (UnpDetach vid node _) = (vid, node)"
| "request_of (UnpDone vid node _) = (vid, node)"

record 'c service =
  locks :: node_locks
  threads :: "nat \<rightharpoonup> thread"
  world :: "'c world"

text \<open>One attempt of a retried call: done, to be repeated, or failed for good.\<close>

datatype attempt = Succeeded | Again | Failed go_error

definition attempt_outcome :: "'c controller \<Rightarrow> string \<Rightarrow> int \<Rightarrow> go_error option \<Rightarrow> attempt" where
  "attempt_outcome s operation k err =
     (case err of
        None \<Rightarrow> Succeeded
      | Some e \<Rightarrow>
          if \<not> is_transient_error (Some e) then Failed e
          else if k < max_retries (rest_api_retry s) then Again
          else (case retry_exhausted operation (max_retries (rest_api_retry s)) (Some e) of
                  None \<Rightarrow> Succeeded | Some e' \<Rightarrow> Failed e'))"

definition finish :: "nat \<Rightarrow> thread \<Rightarrow> string \<Rightarrow> 'c world \<Rightarrow> 'c service \<Rightarrow> 'c service" where
  "finish t th node w' st =
     \<lparr>locks = release_node_lock node (locks st), threads = (threads st)(t \<mapsto> th), world = w'\<rparr>"

definition move_on :: "nat \<Rightarrow> thread \<Rightarrow> 'c world \<Rightarrow> 'c service \<Rightarrow> 'c service" where
  "move_on t th w' st = st\<lparr>threads := (threads st)(t \<mapsto> th), world := w'\<rparr>"

inductive service_step :: "'c controller \<Rightarrow> 'c service \<Rightarrow> 'c service \<Rightarrow> bool" for s where
  pub_invalid:
    "threads st t = Some (PubStart req) \<Longrightarrow> check_publish_request req = Some e \<Longrightarrow>
       service_step s st (move_on t (PubDone req (Inl e)) (world st) st)"
| pub_lock:
    "threads st t = Some (PubStart req) \<Longrightarrow> check_publish_request req = None \<Longrightarrow>
       acquire_node_lock (pb_node_id req) (locks st) = Some ls \<Longrightarrow>
       service_step s st (move_on t (PubCount req) (world st) (st\<lparr>locks := ls\<rparr>))"
| pub_no_room:
    "threads st t = Some (PubCount req) \<Longrightarrow>
       check_attach_limit s (pb_node_id req) (world st) = (Some e, w') \<Longrightarrow>
       service_step s st (finish t (PubDone req (Inl e)) (pb_node_id req) w' st)"
| pub_room:
    "threads st t = Some (PubCount req) \<Longrightarrow>
       check_attach_limit s (pb_node_id req) (world st) = (None, w') \<Longrightarrow>
       service_step s st (move_on t (PubAttach req 0) w' st)"
| pub_attach:
    "threads st t = Some (PubAttach req k) \<Longrightarrow>
       ensure_attachment_created (storage s) (pb_volume_id req) (pb_node_id req) (world st) = (err, w') \<Longrightarrow>
       attempt_outcome s ''create attachment'' k err = Succeeded \<Longrightarrow>
       service_step s st (move_on t (PubSerial req) w' st)"
| pub_again:
    "threads st t = Some (PubAttach req k) \<Longrightarrow>
       ensure_attachment_created (storage s) (pb_volume_id req) (pb_node_id req) (world st) = (err, w') \<Longrightarrow>
       attempt_outcome s ''create attachment'' k err = Again \<Longrightarrow>
       service_step s st (move_on t (PubAttach req (k + 1)) w' st)"
| pub_failed:
    "threads st t = Some (PubAttach req k) \<Longrightarrow>
       ensure_attachment_created (storage s) (pb_volume_id req) (pb_node_id req) (world st) = (err, w') \<Longrightarrow>
       attempt_outcome s ''create attachment'' k err = Failed e \<Longrightarrow>
       service_step s st (finish t (PubDone req (Inl (grpc_error ''failed to create disk attachment: '' e)))
         (pb_node_id req) (on_metrics (record_volume_operation_error ''attach'' ''internal'') w') st)"
| pub_cancelled:
    "threads st t = Some (PubAttach req k) \<Longrightarrow> 0 < k \<Longrightarrow>
       sleep_for (ctl_runtime s) d (world st) = (Some e, w') \<Longrightarrow>
       service_step s st (finish t (PubDone req (Inl (grpc_error ''failed to create disk attachment: '' e)))
         (pb_node_id req) (on_metrics (record_volume_operation_error ''attach'' ''internal'') w') st)"
| pub_serial:
    "threads st t = Some (PubSerial req) \<Longrightarrow>
       publish_serial s (pb_volume_id req) (pb_node_id req) (world st) = (r, w') \<Longrightarrow>
       service_step s st (finish t (PubDone req r) (pb_node_id req) w' st)"
| unp_invalid:
    "threads st t = Some (UnpStart vid node) \<Longrightarrow> check_unpublish_request vid node = Some e \<Longrightarrow>
       service_step s st (move_on t (UnpDone vid node (Inl e)) (world st) st)"
| unp_lock:
    "threads st t = Some (UnpStart vid node) \<Longrightarrow> check_unpublish_request vid node = None \<Longrightarrow>
       acquire_node_lock node (locks st) = Some ls \<Longrightarrow>
       service_step s st (move_on t (UnpDetach vid node 0) (world st) (st\<lparr>locks := ls\<rparr>))"
| unp_detach:
    "threads st t = Some (UnpDetach vid node k) \<Longrightarrow>
       ensure_attachment_deleted (storage s) vid node (world st) = (err, w') \<Longrightarrow>
       attempt_outcome s ''delete attachment'' k err = Succeeded \<Longrightarrow>
       service_step s st (finish t (UnpDone vid node (Inr ())) node
         (on_metrics (update_attachment_state ''attached'' (-1) \<circ> record_volume_operation ''detach'') w') st)"
| unp_again:
    "threads st t = Some (UnpDetach vid node k) \<Longrightarrow>
       ensure_attachment_deleted (storage s) vid node (world st) = (err, w') \<Longrightarrow>
       attempt_outcome s ''delete attachment'' k err = Again \<Longrightarrow>
       service_step s st (move_on t (UnpDetach vid node (k + 1)) w' st)"
| unp_failed:
    "threads st t = Some (UnpDetach vid node k) \<Longrightarrow>
       ensure_attachment_deleted (storage s) vid node (world st) = (err, w') \<Longrightarrow>
       attempt_outcome s ''delete attachment'' k err = Failed e \<Longrightarrow>
       service_step s st
         (finish t (UnpDone vid node (Inl (status_error Internal (''failed to delete disk attachment: '' @ error_text e))))
           node (on_metrics (record_volume_operation_error ''detach'' ''internal'') w') st)"
| unp_cancelled:
    "threads st t = Some (UnpDetach vid node k) \<Longrightarrow> 0 < k \<Longrightarrow>
       sleep_for (ctl_runtime s) d (world st) = (Some e, w') \<Longrightarrow>
       service_step s st
         (finish t (UnpDone vid node (Inl (status_error Internal (''failed to delete disk attachment: '' @ error_text e))))
           node (on_metrics (record_volume_operation_error ''detach'' ''internal'') w') st)"
| waiting:
    "service_step s st (st\<lparr>world := snd (sleep_for (ctl_runtime s) d (world st))\<rparr>)"
| other_call:
    "\<not> changes_attachments c \<Longrightarrow> service_step s st (st\<lparr>world := storage_step (storage s) c (world st)\<rparr>)"
| other_metrics:
    "service_step s st (st\<lparr>world := on_metrics f (world st)\<rparr>)"

section \<open>The other handlers\<close>

lemma steps_within:
  "kept_others s (\<lambda>w. (service_step s)\<^sup>*\<^sup>* st (st\<lparr>world := w\<rparr>))"
proof (unfold_locales, goal_cases)
  case (1 c w)
  from other_call [OF 1(1), of s "st\<lparr>world := w\<rparr>"] 1(2) show ?case
    by (simp add: rtranclp.rtrancl_into_rtrancl)
next
  case (2 w d)
  from waiting [of s "st\<lparr>world := w\<rparr>" d] 2 show ?case by (simp add: rtranclp.rtrancl_into_rtrancl)
next
  case (3 w f)
  from other_metrics [of s "st\<lparr>world := w\<rparr>" f] 3(1) show ?case by (simp add: rtranclp.rtrancl_into_rtrancl)
qed

lemma other_handler_steps:
  assumes "takes_no_lock r"
  shows "(service_step s)\<^sup>*\<^sup>* st (st\<lparr>world := rpc_step ready s r (world st)\<rparr>)"
  by (rule kept_others.other_step [OF steps_within assms]) simp

section \<open>Mutual exclusion\<close>

definition exclusive :: "'c service \<Rightarrow> bool" where
  "exclusive st \<longleftrightarrow>
     (\<forall>t th n. threads st t = Some th \<longrightarrow> holds th = Some n \<longrightarrow> locks st n = Some True) \<and>
     (\<forall>t t' th th' n. threads st t = Some th \<longrightarrow> threads st t' = Some th' \<longrightarrow>
        holds th = Some n \<longrightarrow> holds th' = Some n \<longrightarrow> t = t')"

lemma exclusive_world [simp]: "exclusive (st\<lparr>world := w'\<rparr>) = exclusive st"
  by (simp add: exclusive_def)

lemma exclusive_move:
  assumes "exclusive st" "threads st t = Some th" "holds th' = holds th"
  shows "exclusive (move_on t th' w' st)"
  using assms unfolding exclusive_def move_on_def by (auto split: if_splits; metis)

lemma exclusive_finish:
  assumes "exclusive st" "threads st t = Some th" "holds th = Some n" "holds th' = None"
  shows "exclusive (finish t th' n w' st)"
  using assms unfolding exclusive_def finish_def release_node_lock_def
  by (auto split: if_splits; metis)

lemma exclusive_acquire:
  assumes "exclusive st" "acquire_node_lock n (locks st) = Some ls" "holds th' = Some n"
  shows "exclusive (move_on t th' w' (st\<lparr>locks := ls\<rparr>))"
  using assms unfolding exclusive_def move_on_def acquire_node_lock_def
  by (auto split: if_splits; metis)

lemma exclusive_step: "service_step s st st' \<Longrightarrow> exclusive st \<Longrightarrow> exclusive st'"
  by (induction rule: service_step.induct)
     (auto intro: exclusive_move exclusive_finish exclusive_acquire)

lemma exclusive_run: "(service_step s)\<^sup>*\<^sup>* st st' \<Longrightarrow> exclusive st \<Longrightarrow> exclusive st'"
  by (induction rule: rtranclp_induct) (auto intro: exclusive_step)

section \<open>The attach limit\<close>

definition plain_requests :: "'c service \<Rightarrow> bool" where
  "plain_requests st \<longleftrightarrow>
     (\<forall>t th. threads st t = Some th \<longrightarrow> no_slash (fst (request_of th)) \<and> no_slash (snd (request_of th)))"

lemma plain_step: "service_step s st st' \<Longrightarrow> plain_requests st \<Longrightarrow> plain_requests st'"
  by (induction rule: service_step.induct)
     (fastforce simp: plain_requests_def move_on_def finish_def)+

text \<open>Every node is within its limit, and a thread about to attach still has room for its disk.\<close>

definition room_kept :: "int \<Rightarrow> (string \<times> string) set \<Rightarrow> 'c service \<Rightarrow> bool" where
  "room_kept m A st \<longleftrightarrow>
     (\<forall>n. within_limit m A n) \<and>
     (\<forall>t req k. threads st t = Some (PubAttach req k) \<longrightarrow>
        within_limit m (insert (pb_volume_id req, pb_node_id req) A) (pb_node_id req))"

lemma room_keptD:
  "room_kept m A st \<Longrightarrow> within_limit m A n"
  "room_kept m A st \<Longrightarrow> threads st t = Some (PubAttach req k) \<Longrightarrow>
     within_limit m (insert (pb_volume_id req, pb_node_id req) A) (pb_node_id req)"
  unfolding room_kept_def by blast+

lemma within_limit_cong: "within_limit m A n \<Longrightarrow> disks_on A' n = disks_on A n \<Longrightarrow> within_limit m A' n"
  by (simp add: within_limit_def)

lemma room_kept_mono:
  assumes "room_kept m A st" "A' \<subseteq> A"
    and "\<And>t req k. threads st' t = Some (PubAttach req k) \<Longrightarrow>
      (\<exists>j. threads st t = Some (PubAttach req j)) \<or>
      within_limit m (insert (pb_volume_id req, pb_node_id req) A) (pb_node_id req)"
  shows "room_kept m A' st'"
  unfolding room_kept_def
proof (intro conjI allI impI)
  show "within_limit m A' n" for n
    using assms(1,2) by (auto simp: room_kept_def intro: within_limit_mono)
  fix t req k assume "threads st' t = Some (PubAttach req k)"
  with assms(3) room_keptD(2) [OF assms(1)]
  have "within_limit m (insert (pb_volume_id req, pb_node_id req) A) (pb_node_id req)" by blast
  then show "within_limit m (insert (pb_volume_id req, pb_node_id req) A') (pb_node_id req)"
    by (rule within_limit_mono) (use assms(2) in auto)
qed

text \<open>An attach fills the room of its own thread; the mutex keeps the others off the node.\<close>

lemma room_kept_attach:
  assumes "room_kept m A st" "exclusive st" "threads st t = Some (PubAttach req k)"
    and "A' \<subseteq> insert (pb_volume_id req, pb_node_id req) A"
    and "threads st' = (threads st)(t \<mapsto> th)"
    and "\<And>r j. th = PubAttach r j \<Longrightarrow> r = req"
  shows "room_kept m A' st'"
proof -
  let ?p = "(pb_volume_id req, pb_node_id req)"
  have own: "within_limit m (insert ?p A) (pb_node_id req)" by (rule room_keptD(2) [OF assms(1,3)])
  have all: "within_limit m (insert ?p A) n" for n
  proof (cases "n = pb_node_id req")
    case False
    then have "disks_on (insert ?p A) n = disks_on A n" by (simp add: disks_on_insert)
    with room_keptD(1) [OF assms(1)] show ?thesis by (rule within_limit_cong)
  qed (use own in simp)
  have "room_kept m (insert ?p A) st'"
    unfolding room_kept_def
  proof (intro conjI allI impI all)
    fix t' r j assume t': "threads st' t' = Some (PubAttach r j)"
    show "within_limit m (insert (pb_volume_id r, pb_node_id r) (insert ?p A)) (pb_node_id r)"
    proof (cases "t' = t")
      case True
      with t' assms(5,6) have "r = req" by auto
      then show ?thesis using own by simp
    next
      case False
      with t' assms(5) have old: "threads st t' = Some (PubAttach r j)" by simp
      have "pb_node_id r \<noteq> pb_node_id req"
        using assms(2,3) old False unfolding exclusive_def by fastforce
      then have "disks_on (insert (pb_volume_id r, pb_node_id r) (insert ?p A)) (pb_node_id r)
          = disks_on (insert (pb_volume_id r, pb_node_id r) A) (pb_node_id r)"
        by (simp add: disks_on_insert)
      with room_keptD(2) [OF assms(1) old] show ?thesis by (rule within_limit_cong)
    qed
  qed
  from room_kept_mono [OF this assms(4)] show ?thesis by blast
qed

lemma thread_simps [simp]:
  "threads (move_on t th w' st) = (threads st)(t \<mapsto> th)" "world (move_on t th w' st) = w'"
  "threads (finish t th n w' st) = (threads st)(t \<mapsto> th)" "world (finish t th n w' st) = w'"
  by (simp_all add: move_on_def finish_def)

context controller_env
begin

lemma sleep_att: "att (sys (snd (sleep_for (ctl_runtime s) d w))) \<subseteq> att (sys w)"
  using after_att [of d "sys w"] by (simp add: sleep_for_def)

lemma service_room:
  assumes step: "service_step s st st'" and lim: "go_less 0 (ctl_max_volumes s)"
    and room: "room_kept (sint (ctl_max_volumes s)) (att (sys (world st))) st"
    and "exclusive st" "plain_requests st"
  shows "room_kept (sint (ctl_max_volumes s)) (att (sys (world st'))) st'"
  using step
proof (cases rule: service_step.cases)
  case (pub_room t req w')
  then have w': "w' = snd (check_attach_limit s (pb_node_id req) (world st))" by simp
  have "within_limit (sint (ctl_max_volumes s))
      (insert (pb_volume_id req, pb_node_id req) (att (sys (world st)))) (pb_node_id req)"
    by (rule check_attach_limit_insert) (use pub_room lim in simp_all)
  with room show ?thesis
    unfolding pub_room(1) w' by (intro room_kept_mono [OF room]) (auto simp: check_attach_limit_att split: if_splits)
next
  case (pub_no_room t req e w')
  then have "w' = snd (check_attach_limit s (pb_node_id req) (world st))" by simp
  then show ?thesis
    unfolding pub_no_room(1) by (intro room_kept_mono [OF room]) (auto simp: check_attach_limit_att split: if_splits)
next
  case (pub_attach t req k err w')
  have "att (sys w') \<subseteq> insert (pb_volume_id req, pb_node_id req) (att (sys (world st)))"
    using attach_bound [of "pb_volume_id req" "pb_node_id req" "world st"] pub_attach(2,3) assms(5)
    by (fastforce simp: plain_requests_def)
  then show ?thesis
    unfolding pub_attach(1) by (intro room_kept_attach [OF room assms(4) pub_attach(2)]) auto
next
  case (pub_again t req k err w')
  have "att (sys w') \<subseteq> insert (pb_volume_id req, pb_node_id req) (att (sys (world st)))"
    using attach_bound [of "pb_volume_id req" "pb_node_id req" "world st"] pub_again(2,3) assms(5)
    by (fastforce simp: plain_requests_def)
  then show ?thesis
    unfolding pub_again(1) by (intro room_kept_attach [OF room assms(4) pub_again(2)]) auto
next
  case (pub_failed t req k err w' e)
  have "att (sys w') \<subseteq> insert (pb_volume_id req, pb_node_id req) (att (sys (world st)))"
    using attach_bound [of "pb_volume_id req" "pb_node_id req" "world st"] pub_failed(2,3) assms(5)
    by (fastforce simp: plain_requests_def)
  then show ?thesis
    unfolding pub_failed(1) by (intro room_kept_attach [OF room assms(4) pub_failed(2)]) auto
next
  case (pub_cancelled t req k d e w')
  then have "att (sys w') \<subseteq> att (sys (world st))" using sleep_att [of d "world st"] by simp
  then show ?thesis
    unfolding pub_cancelled(1) by (intro room_kept_mono [OF room]) (auto split: if_splits)
next
  case (pub_serial t req r w')
  then have "att (sys w') = att (sys (world st))"
    using publish_serial_att [of "pb_volume_id req" "pb_node_id req" "world st"] by simp
  then show ?thesis
    unfolding pub_serial(1) by (intro room_kept_mono [OF room]) (auto split: if_splits)
next
  case (unp_detach t vid node k err w')
  then have "att (sys w') \<subseteq> att (sys (world st))" using detach_bound [of vid node "world st"] by simp
  then show ?thesis
    unfolding unp_detach(1) by (intro room_kept_mono [OF room]) (auto split: if_splits)
next
  case (unp_again t vid node k err w')
  then have "att (sys w') \<subseteq> att (sys (world st))" using detach_bound [of vid node "world st"] by simp
  then show ?thesis
    unfolding unp_again(1) by (intro room_kept_mono [OF room]) (auto split: if_splits)
next
  case (unp_failed t vid node k err w' e)
  then have "att (sys w') \<subseteq> att (sys (world st))" using detach_bound [of vid node "world st"] by simp
  then show ?thesis
    unfolding unp_failed(1) by (intro room_kept_mono [OF room]) (auto split: if_splits)
next
  case (unp_cancelled t vid node k d e w')
  then have "att (sys w') \<subseteq> att (sys (world st))" using sleep_att [of d "world st"] by simp
  then show ?thesis
    unfolding unp_cancelled(1) by (intro room_kept_mono [OF room]) (auto split: if_splits)
next
  case (waiting d)
  show ?thesis unfolding waiting(1) by (intro room_kept_mono [OF room]) (auto dest: subsetD [OF sleep_att])
next
  case (other_call c)
  then show ?thesis
    unfolding other_call(1) by (intro room_kept_mono [OF room]) (auto simp: other_call_att)
qed (auto intro!: room_kept_mono [OF room] split: if_splits)

lemma service_run:
  assumes "(service_step s)\<^sup>*\<^sup>* st st'" and "go_less 0 (ctl_max_volumes s)"
    and "exclusive st" "plain_requests st" "room_kept (sint (ctl_max_volumes s)) (att (sys (world st))) st"
  shows "exclusive st' \<and> plain_requests st' \<and> room_kept (sint (ctl_max_volumes s)) (att (sys (world st'))) st'"
  using assms
proof (induction rule: rtranclp_induct)
  case (step y z)
  then show ?case using exclusive_step plain_step service_room by blast
qed simp

end

section \<open>Starting, and progress\<close>

text \<open>No call has started yet and no mutex is held.\<close>

definition fresh_service :: "'c service \<Rightarrow> bool" where
  "fresh_service st \<longleftrightarrow>
     (\<forall>t th. threads st t = Some th \<longrightarrow> (\<exists>req. th = PubStart req) \<or> (\<exists>vid node. th = UnpStart vid node)) \<and>
     (\<forall>n. locks st n \<noteq> Some True)"

lemma fresh_exclusive: "fresh_service st \<Longrightarrow> exclusive st"
  unfolding fresh_service_def exclusive_def by fastforce

lemma fresh_room: "fresh_service st \<Longrightarrow> (\<And>n. within_limit m A n) \<Longrightarrow> room_kept m A st"
  unfolding fresh_service_def room_kept_def by fastforce

text \<open>A mutex is locked only while some thread holds it.\<close>

definition owned :: "'c service \<Rightarrow> bool" where
  "owned st \<longleftrightarrow> (\<forall>n. locks st n = Some True \<longrightarrow> (\<exists>t th. threads st t = Some th \<and> holds th = Some n))"

lemma owned_world [simp]: "owned (st\<lparr>world := w'\<rparr>) = owned st"
  by (simp add: owned_def)

lemma owned_move:
  assumes "owned st" "threads st t = Some th" "holds th' = holds th"
  shows "owned (move_on t th' w' st)"
  unfolding owned_def
proof (intro allI impI)
  fix n assume "locks (move_on t th' w' st) n = Some True"
  with assms(1) obtain u thu where u: "threads st u = Some thu" "holds thu = Some n"
    by (auto simp: owned_def move_on_def)
  show "\<exists>t1 th1. threads (move_on t th' w' st) t1 = Some th1 \<and> holds th1 = Some n"
  proof (cases "u = t")
    case True
    then have "holds th' = Some n" using u assms(2,3) by simp
    then show ?thesis by (intro exI [of _ t] exI [of _ th']) simp
  next
    case False
    then show ?thesis using u by (intro exI [of _ u] exI [of _ thu]) simp
  qed
qed

lemma owned_acquire:
  assumes "owned st" "threads st t = Some th" "holds th = None" "holds th' = Some m"
    "acquire_node_lock m (locks st) = Some ls"
  shows "owned (move_on t th' w' (st\<lparr>locks := ls\<rparr>))"
  unfolding owned_def
proof (intro allI impI)
  fix n assume n: "locks (move_on t th' w' (st\<lparr>locks := ls\<rparr>)) n = Some True"
  show "\<exists>t1 th1. threads (move_on t th' w' (st\<lparr>locks := ls\<rparr>)) t1 = Some th1 \<and> holds th1 = Some n"
  proof (cases "n = m")
    case True
    then show ?thesis using assms(4) by (intro exI [of _ t] exI [of _ th']) simp
  next
    case False
    with n assms(5) have "locks st n = Some True"
      by (auto simp: move_on_def acquire_node_lock_def split: if_splits)
    with assms(1) obtain u thu where u: "threads st u = Some thu" "holds thu = Some n"
      by (auto simp: owned_def)
    with assms(2,3) have "u \<noteq> t" by auto
    with u show ?thesis by (intro exI [of _ u] exI [of _ thu]) simp
  qed
qed

lemma owned_finish:
  assumes "owned st" "threads st t = Some th" "holds th = Some m"
  shows "owned (finish t th' m w' st)"
  unfolding owned_def
proof (intro allI impI)
  fix n assume n: "locks (finish t th' m w' st) n = Some True"
  then have nm: "n \<noteq> m" and "locks st n = Some True"
    by (auto simp: finish_def release_node_lock_def split: if_splits)
  with assms(1) obtain u thu where u: "threads st u = Some thu" "holds thu = Some n"
    by (auto simp: owned_def)
  with assms(2,3) nm have "u \<noteq> t" by auto
  with u show "\<exists>t1 th1. threads (finish t th' m w' st) t1 = Some th1 \<and> holds th1 = Some n"
    by (intro exI [of _ u] exI [of _ thu]) simp
qed

lemma owned_step: "service_step s st st' \<Longrightarrow> owned st \<Longrightarrow> owned st'"
  by (induction rule: service_step.induct)
     (auto intro: owned_move owned_acquire owned_finish)

lemma owned_run: "(service_step s)\<^sup>*\<^sup>* st st' \<Longrightarrow> owned st \<Longrightarrow> owned st'"
  by (induction rule: rtranclp_induct) (auto intro: owned_step)

fun finished :: "thread \<Rightarrow> bool" where
  "finished (PubDone _ _) = True"
| "finished (UnpDone _ _ _) = True"
| "finished _ = False"

text \<open>A thread that holds a mutex is never blocked.\<close>

definition can_move :: "'c controller \<Rightarrow> 'c service \<Rightarrow> nat \<Rightarrow> bool" where
  "can_move s st t \<longleftrightarrow> (\<exists>st'. service_step s st st' \<and> threads st' t \<noteq> threads st t)"

lemma can_moveI: "service_step s st st' \<Longrightarrow> threads st' t \<noteq> threads st t \<Longrightarrow> can_move s st t"
  by (auto simp: can_move_def)

lemma holder_moves:
  assumes "threads st t = Some th" "holds th = Some n"
  shows "can_move s st t"
proof (cases th)
  case (PubCount req)
  obtain err w' where c: "check_attach_limit s (pb_node_id req) (world st) = (err, w')" by fastforce
  show ?thesis
  proof (cases err)
    case None
    with c assms PubCount show ?thesis by (intro can_moveI [OF pub_room]) auto
  next
    case (Some e)
    with c assms PubCount show ?thesis by (intro can_moveI [OF pub_no_room]) auto
  qed
next
  case (PubAttach req k)
  obtain err w' where c:
    "ensure_attachment_created (storage s) (pb_volume_id req) (pb_node_id req) (world st) = (err, w')"
    by fastforce
  show ?thesis
  proof (cases "attempt_outcome s ''create attachment'' k err")
    case Succeeded
    with c assms PubAttach show ?thesis by (intro can_moveI [OF pub_attach]) auto
  next
    case Again
    with c assms PubAttach show ?thesis by (intro can_moveI [OF pub_again]) auto
  next
    case (Failed e)
    with c assms PubAttach show ?thesis by (intro can_moveI [OF pub_failed]) auto
  qed
next
  case (PubSerial req)
  obtain r w' where "publish_serial s (pb_volume_id req) (pb_node_id req) (world st) = (r, w')" by fastforce
  with assms PubSerial show ?thesis by (intro can_moveI [OF pub_serial]) auto
next
  case (UnpDetach vid node k)
  obtain err w' where c: "ensure_attachment_deleted (storage s) vid node (world st) = (err, w')" by fastforce
  show ?thesis
  proof (cases "attempt_outcome s ''delete attachment'' k err")
    case Succeeded
    with c assms UnpDetach show ?thesis by (intro can_moveI [OF unp_detach]) auto
  next
    case Again
    with c assms UnpDetach show ?thesis by (intro can_moveI [OF unp_again]) auto
  next
    case (Failed e)
    with c assms UnpDetach show ?thesis by (intro can_moveI [OF unp_failed]) auto
  qed
qed (use assms in auto)

lemma starter_moves:
  assumes "owned st" "threads st t = Some th" "\<not> finished th" "holds th = None"
  shows "\<exists>u. can_move s st u"
proof (cases th)
  case (PubStart req)
  show ?thesis
  proof (cases "check_publish_request req")
    case None
    show ?thesis
    proof (cases "acquire_node_lock (pb_node_id req) (locks st)")
      case lock: None
      then have "locks st (pb_node_id req) = Some True" by (auto simp: acquire_node_lock_def split: if_splits)
      with assms(1) holder_moves show ?thesis unfolding owned_def by blast
    next
      case (Some ls)
      with None PubStart assms(2) have "can_move s st t" by (intro can_moveI [OF pub_lock]) auto
      then show ?thesis by blast
    qed
  next
    case (Some e)
    with PubStart assms(2) have "can_move s st t" by (intro can_moveI [OF pub_invalid]) auto
    then show ?thesis by blast
  qed
next
  case (UnpStart vid node)
  show ?thesis
  proof (cases "check_unpublish_request vid node")
    case None
    show ?thesis
    proof (cases "acquire_node_lock node (locks st)")
      case lock: None
      then have "locks st node = Some True" by (auto simp: acquire_node_lock_def split: if_splits)
      with assms(1) holder_moves show ?thesis unfolding owned_def by blast
    next
      case (Some ls)
      with None UnpStart assms(2) have "can_move s st t" by (intro can_moveI [OF unp_lock]) auto
      then show ?thesis by blast
    qed
  next
    case (Some e)
    with UnpStart assms(2) have "can_move s st t" by (intro can_moveI [OF unp_invalid]) auto
    then show ?thesis by blast
  qed
qed (use assms in auto)

lemma unfinished_moves:
  assumes "owned st" "threads st t = Some th" "\<not> finished th"
  shows "\<exists>u. can_move s st u"
  using starter_moves [OF assms] holder_moves [OF assms(2)] by (cases "holds th") blast+

lemma fresh_owned: "fresh_service st \<Longrightarrow> owned st"
  by (simp add: fresh_service_def owned_def)

end
