(* ===== verification/Node_Runs.thy ===== *)
theory Node_Runs
  imports Node_Locks
begin

text \<open>
  The handlers as runs of the interleaving model: what \<open>ControllerPublishVolume\<close> and
  \<open>ControllerUnpublishVolume\<close> compute in one go, their thread of the step relation computes step
  by step, the retries and the waits included. So what holds in every run of the step relation
  holds of the handlers.
\<close>

section \<open>The handlers as runs\<close>

text \<open>
  The retry loop of a thread: \<open>at k w\<close> is the state before attempt \<open>k\<close>, \<open>fin w\<close> after success, and
  \<open>fail e w\<close> after the error the loop returns.
\<close>

lemma retry_run:
  assumes wait: "\<And>k d w w1. sleep d w = (None, w1) \<Longrightarrow> R (at k w) (at k w1)"
    and cancel: "\<And>k d w w1 e. 0 < k \<Longrightarrow> sleep d w = (Some e, w1) \<Longrightarrow> R (at k w) (fail e w1)"
    and ok: "\<And>k w w1. fn w = (None, w1) \<Longrightarrow> R (at k w) (fin w1)"
    and again: "\<And>k w w1 err. fn w = (err, w1) \<Longrightarrow> attempt_outcome s n k err = Again \<Longrightarrow> R (at k w) (at (k + 1) w1)"
    and failed: "\<And>k w w1 err e. fn w = (err, w1) \<Longrightarrow> attempt_outcome s n k err = Failed e \<Longrightarrow> R (at k w) (fail e w1)"
  shows "k \<le> max_retries (rest_api_retry s) \<Longrightarrow>
     retry_from sleep (rest_api_retry s) n fn k delay err w = (r, w') \<Longrightarrow>
     R\<^sup>*\<^sup>* (at k w) (case r of None \<Rightarrow> fin w' | Some e \<Rightarrow> fail e w')"
proof (induction "nat (max_retries (rest_api_retry s) - k)" arbitrary: k delay err w rule: less_induct)
  case less
  let ?pol = "rest_api_retry s"
  obtain c w1 where s: "(if 0 < k then sleep delay w else (None, w)) = (c, w1)" by fastforce
  show ?case
  proof (cases c)
    case (Some e)
    with s less.prems have "R (at k w) (fail e w1)" "r = Some e" "w' = w1"
      by (auto simp: retry_from_unfold intro: cancel split: if_splits)
    then show ?thesis by simp
  next
    case None
    with s have start: "R\<^sup>*\<^sup>* (at k w) (at k w1)" by (auto intro: wait split: if_splits)
    obtain f w2 where f: "fn w1 = (f, w2)" by fastforce
    let ?delay = "if 0 < k then next_delay (max_delay ?pol) delay else delay"
    have rest: "(r, w') = (case f of None \<Rightarrow> (None, w2)
        | Some e \<Rightarrow> if \<not> is_transient_error (Some e) then (Some e, w2)
                  else retry_from sleep ?pol n fn (k + 1) ?delay (Some e) w2)"
      using less.prems s None f by (simp add: retry_from_unfold [of _ _ _ _ k] split: option.split)
    consider (success) "f = None" | (permanent) e where "f = Some e" "\<not> is_transient_error (Some e)"
      | (repeat) e where "f = Some e" "is_transient_error (Some e)" "k < max_retries ?pol"
      | (over) e where "f = Some e" "is_transient_error (Some e)" "k = max_retries ?pol"
      using less.prems(1) by (cases f) force+
    then show ?thesis
    proof cases
      case success
      with rest f ok [of w1 w2 k] start show ?thesis by (simp add: rtranclp.rtrancl_into_rtrancl)
    next
      case permanent
      then have "attempt_outcome s n k f = Failed e" by (simp add: attempt_outcome_def)
      from failed [OF f this] permanent rest start show ?thesis by (simp add: rtranclp.rtrancl_into_rtrancl)
    next
      case repeat
      then have "attempt_outcome s n k f = Again" by (simp add: attempt_outcome_def)
      from start again [OF f this] have "R\<^sup>*\<^sup>* (at k w) (at (k + 1) w2)" by (rule rtranclp.rtrancl_into_rtrancl)
      also have "R\<^sup>*\<^sup>* (at (k + 1) w2) (case r of None \<Rightarrow> fin w' | Some e \<Rightarrow> fail e w')"
        by (rule less.hyps [of _ ?delay "Some e"]) (use repeat rest in simp_all)
      finally show ?thesis .
    next
      case over
      obtain e' where e': "retry_exhausted n (max_retries ?pol) (Some e) = Some e'"
        using retry_exhausted_transient [OF over(2)] by blast
      with over have "attempt_outcome s n k f = Failed e'" by (simp add: attempt_outcome_def)
      note fail = failed [OF f this]
      have "retry_from sleep ?pol n fn (k + 1) ?delay (Some e) w2 = (Some e', w2)"
        by (subst retry_from_unfold) (simp add: over e')
      with rest over have "r = Some e'" "w' = w2" by simp_all
      with start fail show ?thesis by (simp add: rtranclp.rtrancl_into_rtrancl)
    qed
  qed
qed

definition at_point :: "'c service \<Rightarrow> node_locks \<Rightarrow> nat \<Rightarrow> thread \<Rightarrow> 'c world \<Rightarrow> 'c service" where
  "at_point st ls t th w = st\<lparr>locks := ls, threads := (threads st)(t \<mapsto> th), world := w\<rparr>"

lemma at_point_simps [simp]:
  "locks (at_point st ls t th w) = ls" "threads (at_point st ls t th w) t = Some th" "world (at_point st ls t th w) = w"
  "move_on t th' w' (at_point st ls t th w) = at_point st ls t th' w'"
  "finish t th' n w' (at_point st ls t th w) = at_point st (release_node_lock n ls) t th' w'"
  "at_point st ls t th w\<lparr>world := w'\<rparr> = at_point st ls t th w'"
  by (simp_all add: at_point_def move_on_def finish_def)

lemma waits: "sleep_for (ctl_runtime s) d w = (None, w1) \<Longrightarrow> service_step s (at_point st ls t th w) (at_point st ls t th w1)"
  using waiting [of s "at_point st ls t th w" d] by simp

lemma attach_run:
  assumes "0 \<le> max_retries (rest_api_retry s)" and "attach_volume s (pb_volume_id req) (pb_node_id req) w = (r, w')"
  shows "(service_step s)\<^sup>*\<^sup>* (at_point st ls t (PubAttach req 0) w)
    (case r of None \<Rightarrow> at_point st ls t (PubSerial req) w'
     | Some e \<Rightarrow> at_point st (release_node_lock (pb_node_id req) ls) t (PubDone req (Inl e)) w')"
proof -
  let ?n = "''create attachment''" and ?fn = "ensure_attachment_created (storage s) (pb_volume_id req) (pb_node_id req)"
  let ?fail = "\<lambda>e w. at_point st (release_node_lock (pb_node_id req) ls) t
      (PubDone req (Inl (grpc_error ''failed to create disk attachment: '' e)))
      (on_metrics (record_volume_operation_error ''attach'' ''internal'') w)"
  obtain q w1 where q: "retry s ?n ?fn w = (q, w1)" by fastforce
  have "(service_step s)\<^sup>*\<^sup>* (at_point st ls t (PubAttach req 0) w)
      (case q of None \<Rightarrow> at_point st ls t (PubSerial req) w1 | Some e \<Rightarrow> ?fail e w1)"
  proof (rule retry_run [where at = "\<lambda>k. at_point st ls t (PubAttach req k)" and fin = "at_point st ls t (PubSerial req)"
        and fail = ?fail and sleep = "sleep_for (ctl_runtime s)" and fn = ?fn and n = ?n and R = "service_step s" and s = s], goal_cases)
    case (1 k d w w1)
    then show ?case by (rule waits)
  next
    case (2 k d w w1 e)
    then show ?case
      using pub_cancelled [of "at_point st ls t (PubAttach req k) w" t req k s d e w1] by simp
  next
    case (3 k w w1)
    then show ?case
      using pub_attach [of "at_point st ls t (PubAttach req k) w" t req k s None w1]
      by (simp add: attempt_outcome_def)
  next
    case (4 k w w1 err)
    then show ?case
      using pub_again [of "at_point st ls t (PubAttach req k) w" t req k s err w1] by simp
  next
    case (5 k w w1 err e)
    then show ?case
      using pub_failed [of "at_point st ls t (PubAttach req k) w" t req k s err w1 e] by simp
  qed (use assms(1) q in \<open>simp_all add: retry_def retry_on_transient_def\<close>)
  with assms(2) q show ?thesis by (auto simp: attach_volume_def split: option.splits)
qed

lemma detach_run:
  assumes "0 \<le> max_retries (rest_api_retry s)" and "unpublish_locked s vid node w = (r, w')"
  shows "(service_step s)\<^sup>*\<^sup>* (at_point st ls t (UnpDetach vid node 0) w)
    (at_point st (release_node_lock node ls) t (UnpDone vid node r) w')"
proof -
  let ?n = "''delete attachment''" and ?fn = "ensure_attachment_deleted (storage s) vid node"
  let ?goal = "\<lambda>r w. at_point st (release_node_lock node ls) t (UnpDone vid node r) w"
  let ?fin = "\<lambda>w. ?goal (Inr ()) (on_metrics (update_attachment_state ''attached'' (-1) \<circ> record_volume_operation ''detach'') w)"
  let ?fail = "\<lambda>e w. ?goal (Inl (status_error Internal (''failed to delete disk attachment: '' @ error_text e)))
      (on_metrics (record_volume_operation_error ''detach'' ''internal'') w)"
  obtain q w1 where q: "retry s ?n ?fn w = (q, w1)" by fastforce
  have "(service_step s)\<^sup>*\<^sup>* (at_point st ls t (UnpDetach vid node 0) w) (case q of None \<Rightarrow> ?fin w1 | Some e \<Rightarrow> ?fail e w1)"
  proof (rule retry_run [where at = "\<lambda>k. at_point st ls t (UnpDetach vid node k)" and fin = ?fin
        and fail = ?fail and sleep = "sleep_for (ctl_runtime s)" and fn = ?fn and n = ?n
        and R = "service_step s" and s = s], goal_cases)
    case (1 k d w w1)
    then show ?case by (rule waits)
  next
    case (2 k d w w1 e)
    then show ?case
      using unp_cancelled [of "at_point st ls t (UnpDetach vid node k) w" t vid node k s d e w1] by simp
  next
    case (3 k w w1)
    then show ?case
      using unp_detach [of "at_point st ls t (UnpDetach vid node k) w" t vid node k s None w1]
      by (simp add: attempt_outcome_def)
  next
    case (4 k w w1 err)
    then show ?case
      using unp_again [of "at_point st ls t (UnpDetach vid node k) w" t vid node k s err w1] by simp
  next
    case (5 k w w1 err e)
    then show ?case
      using unp_failed [of "at_point st ls t (UnpDetach vid node k) w" t vid node k s err w1 e] by simp
  qed (use assms(1) q in \<open>simp_all add: retry_def retry_on_transient_def\<close>)
  with assms(2) q show ?thesis by (auto simp: unpublish_locked_def split: option.splits)
qed

lemma start_point: "threads st t = Some th \<Longrightarrow> at_point st (locks st) t th (world st) = st"
  by (simp add: at_point_def fun_upd_idem)

lemma publish_is_a_run:
  assumes "0 \<le> max_retries (rest_api_retry s)" and "threads st t = Some (PubStart req)"
    and "controller_publish_volume s req (locks st, world st) = Some (r, ls, w')"
  shows "(service_step s)\<^sup>*\<^sup>* st (at_point st ls t (PubDone req r) w')"
proof (cases "check_publish_request req")
  case (Some e)
  from pub_invalid [OF assms(2) Some, of s] Some assms(3) show ?thesis
    by (auto simp: controller_publish_volume_def move_on_def at_point_def)
next
  case None
  then obtain ls1 where l: "acquire_node_lock (pb_node_id req) (locks st) = Some ls1"
    and body: "publish_locked s req (world st) = (r, w')" "ls = release_node_lock (pb_node_id req) ls1"
    using assms(3) by (auto simp: controller_publish_volume_def with_node_lock_def split: option.splits prod.splits)
  let ?at = "at_point st ls1 t" and ?goal = "at_point st ls t (PubDone req r) w'"
  have start: "service_step s st (?at (PubCount req) (world st))"
    using pub_lock [OF assms(2) None l, of s] by (simp add: at_point_def move_on_def)
  obtain c w1 where c: "check_attach_limit s (pb_node_id req) (world st) = (c, w1)" by fastforce
  have "(service_step s)\<^sup>*\<^sup>* (?at (PubCount req) (world st)) ?goal"
  proof (cases c)
    case (Some e)
    then show ?thesis
      using pub_no_room [of "?at (PubCount req) (world st)" t req s e w1] c body by (auto simp: publish_locked_def)
  next
    case room: None
    obtain a w2 where a: "attach_volume s (pb_volume_id req) (pb_node_id req) w1 = (a, w2)" by fastforce
    have "service_step s (?at (PubCount req) (world st)) (?at (PubAttach req 0) w1)"
      using pub_room [of "?at (PubCount req) (world st)" t req s w1] c room by simp
    moreover note attach_run [OF assms(1) a, of st ls1 t]
    moreover have "(service_step s)\<^sup>*\<^sup>* (?at (PubSerial req) w2) ?goal" if "a = None"
      using pub_serial [of "?at (PubSerial req) w2" t req s r w'] that c room a body by (auto simp: publish_locked_def)
    ultimately show ?thesis
      using c room a body by (auto simp: publish_locked_def split: option.splits)
  qed
  with start show ?thesis by (rule converse_rtranclp_into_rtranclp)
qed

lemma unpublish_is_a_run:
  assumes "0 \<le> max_retries (rest_api_retry s)" and "threads st t = Some (UnpStart vid node)"
    and "controller_unpublish_volume s vid node (locks st, world st) = Some (r, ls, w')"
  shows "(service_step s)\<^sup>*\<^sup>* st (at_point st ls t (UnpDone vid node r) w')"
proof (cases "check_unpublish_request vid node")
  case (Some e)
  from unp_invalid [OF assms(2) Some, of s] Some assms(3) show ?thesis
    by (auto simp: controller_unpublish_volume_def move_on_def at_point_def)
next
  case None
  then obtain ls1 where l: "acquire_node_lock node (locks st) = Some ls1"
    and body: "unpublish_locked s vid node (world st) = (r, w')" "ls = release_node_lock node ls1"
    using assms(3) by (auto simp: controller_unpublish_volume_def with_node_lock_def split: option.splits prod.splits)
  have "service_step s st (at_point st ls1 t (UnpDetach vid node 0) (world st))"
    using unp_lock [OF assms(2) None l, of s] by (simp add: at_point_def move_on_def)
  with detach_run [OF assms(1) body(1), of st ls1 t] body(2) show ?thesis
    by (simp add: converse_rtranclp_into_rtranclp)
qed

end
