(* ===== verification/Mock_Storage.thy ===== *)
theory Mock_Storage
  imports Storage Sha256 Validation
begin

text \<open>
  The in-memory backend of the sanity tests (\<open>test/mocks/storage.go\<close>, \<open>test/mocks/device.go\<close>),
  the second implementation of \<open>StorageBackend\<close>. Its maps are association lists (Go visits them
  in any order); the files of the mock devices are made with the functions of the package \<open>os\<close>,
  a record of functions on the state of the machine. The backend meets \<open>storage_contract\<close>, so
  what the theory \<open>Controller_Contract\<close> proves from that contract holds on it as well.
\<close>

section \<open>The device manager\<close>

record 'k file_ops =
  os_stat :: "string \<Rightarrow> 'k go_err"
  os_mkdir_all :: "string \<Rightarrow> nat \<Rightarrow> 'k go_err"
  os_remove :: "string \<Rightarrow> 'k go_err"
  os_remove_all :: "string \<Rightarrow> 'k go_err"
  os_create :: "string \<Rightarrow> 'k go_err"
  os_truncate :: "string \<Rightarrow> int \<Rightarrow> 'k go_err"
  os_close :: "string \<Rightarrow> 'k go_err"
  os_chmod :: "string \<Rightarrow> nat \<Rightarrow> 'k go_err"

record 'k mock =
  mk_disks :: "(string \<times> disk) list"
  mk_atts :: "(string \<times> attachment) list"
  mk_nodes :: "string list"
  mk_devices :: "(string \<times> string) list"
  mk_os :: 'k

definition on_os :: "('k \<Rightarrow> 'r \<times> 'k) \<Rightarrow> 'k mock \<Rightarrow> 'r \<times> 'k mock" where
  "on_os f m = (case f (mk_os m) of (r, k) \<Rightarrow> (r, m\<lparr>mk_os := k\<rparr>))"

definition is_not_exist :: "go_error \<Rightarrow> bool" where
  "is_not_exist e \<longleftrightarrow> errors_is (KErrno 2) e"

definition mock_dev_root :: string where
  "mock_dev_root = ''/tmp/csi-sanity-dev''"

definition mock_device_by_id_path :: string where
  "mock_device_by_id_path = ''/tmp/csi-sanity-dev/disk/by-id''"

definition dev_setup :: "'k file_ops \<Rightarrow> 'k mock go_err" where
  "dev_setup fo m =
     (case on_os (os_mkdir_all fo mock_device_by_id_path 493) m of
        (Some e, m1) \<Rightarrow> (Some (wrap_error ''failed to create mock device directory: '' e), m1)
      | (None, m1) \<Rightarrow>
          (case on_os (os_mkdir_all fo (filepath_join mock_dev_root ''disk'') 493) m1 of
             (Some e, m2) \<Rightarrow>
               (Some (wrap_error (''failed to create directory '' @ filepath_join mock_dev_root ''disk'' @ '': '') e), m2)
           | (None, m2) \<Rightarrow>
               (case on_os (os_mkdir_all fo (filepath_join mock_dev_root ''block'') 493) m2 of
                  (Some e, m3) \<Rightarrow>
                    (Some (wrap_error (''failed to create directory '' @ filepath_join mock_dev_root ''block'' @ '': '') e), m3)
                | (None, m3) \<Rightarrow> (None, m3))))"

definition volume_id_to_serial :: "string \<Rightarrow> string" where
  "volume_id_to_serial volume = take 20 (hex_text (sha256 volume))"

definition mock_device_path :: "string \<Rightarrow> string" where
  "mock_device_path volume =
     filepath_join mock_device_by_id_path (''scsi-0QEMU_QEMU_HARDDISK_'' @ volume_id_to_serial volume)"

definition create_mock_device :: "'k file_ops \<Rightarrow> string \<Rightarrow> ('k mock, string) go" where
  "create_mock_device fo volume m =
     (let path = mock_device_path volume
      in case on_os (os_create fo path) m of
           (Some e, m1) \<Rightarrow> (Inl (wrap_error ''failed to create mock device file: '' e), m1)
         | (None, m1) \<Rightarrow>
             (case on_os (os_truncate fo path (100 * 1024 * 1024)) m1 of
                (Some e, m2) \<Rightarrow> (Inl (wrap_error ''failed to allocate mock device space: '' e), m2)
              | (None, m2) \<Rightarrow>
                  (case on_os (os_close fo path) m2 of
                     (Some e, m3) \<Rightarrow> (Inl (wrap_error ''failed to close mock device file: '' e), m3)
                   | (None, m3) \<Rightarrow>
                       (case on_os (os_chmod fo path 432) m3 of
                          (Some e, m4) \<Rightarrow> (Inl (wrap_error ''failed to chmod mock device: '' e), m4)
                        | (None, m4) \<Rightarrow> (Inr path, m4\<lparr>mk_devices := (volume, path) # mk_devices m4\<rparr>)))))"

definition get_device_path :: "'k file_ops \<Rightarrow> string \<Rightarrow> ('k mock, string) go" where
  "get_device_path fo volume m =
     (case map_of (mk_devices m) volume of
        Some path \<Rightarrow> (Inr path, m)
      | None \<Rightarrow> create_mock_device fo volume m)"

definition drop_key :: "string \<Rightarrow> (string \<times> 'a) list \<Rightarrow> (string \<times> 'a) list" where
  "drop_key k xs = filter (\<lambda>(k', _). k' \<noteq> k) xs"

definition delete_mock_device :: "'k file_ops \<Rightarrow> string \<Rightarrow> 'k mock go_err" where
  "delete_mock_device fo volume m =
     (case map_of (mk_devices m) volume of
        None \<Rightarrow> (None, m)
      | Some path \<Rightarrow>
          (case on_os (os_remove fo path) m of
             (r, m1) \<Rightarrow>
               (case (case r of Some e \<Rightarrow> if is_not_exist e then None else Some e | None \<Rightarrow> None) of
                  Some e \<Rightarrow> (Some (wrap_error ''failed to remove mock device: '' e), m1)
                | None \<Rightarrow> (None, m1\<lparr>mk_devices := drop_key volume (mk_devices m1)\<rparr>))))"

fun delete_mock_devices :: "'k file_ops \<Rightarrow> string list \<Rightarrow> 'k mock go_err" where
  "delete_mock_devices fo [] m = (None, m)"
| "delete_mock_devices fo (v # vs) m =
     (case delete_mock_device fo v m of
        (Some e, m1) \<Rightarrow> (Some (wrap_error (''failed to delete mock device '' @ v @ '': '') e), m1)
      | (None, m1) \<Rightarrow> delete_mock_devices fo vs m1)"

definition dev_cleanup :: "'k file_ops \<Rightarrow> 'k mock go_err" where
  "dev_cleanup fo m =
     (case delete_mock_devices fo (map fst (mk_devices m)) m of
        (Some e, m1) \<Rightarrow> (Some e, m1)
      | (None, m1) \<Rightarrow>
          (case on_os (os_remove_all fo mock_dev_root) m1 of
             (r, m2) \<Rightarrow>
               (case (case r of Some e \<Rightarrow> if is_not_exist e then None else Some e | None \<Rightarrow> None) of
                  Some e \<Rightarrow> (Some (wrap_error ''failed to remove mock device directory: '' e), m2)
                | None \<Rightarrow> (None, m2))))"

section \<open>The backend\<close>

definition new_mock :: "'k \<Rightarrow> 'k mock" where
  "new_mock k = \<lparr>mk_disks = [], mk_atts = [], mk_nodes = [''test-node-1''], mk_devices = [], mk_os = k\<rparr>"

definition add_node :: "string \<Rightarrow> 'k mock \<Rightarrow> 'k mock" where
  "add_node vm m = m\<lparr>mk_nodes := vm # mk_nodes m\<rparr>"

definition mock_disk :: "string \<Rightarrow> i32 \<Rightarrow> disk" where
  "mock_disk name mb =
     \<lparr>disk_id = name, disk_labels = None, disk_spec_size = Some \<lparr>size_amount = mb, size_unit = MB\<rparr>,
      disk_zone = '''', disk_status_size = Some \<lparr>size_amount = mb, size_unit = MB\<rparr>\<rparr>"

definition mock_create_disk :: "string \<Rightarrow> i32 \<Rightarrow> string \<Rightarrow> string \<Rightarrow> ('k mock, bool) go" where
  "mock_create_disk name mb storage_class zone m =
     (case map_of (mk_disks m) name of
        Some existing \<Rightarrow>
          (case disk_spec_size existing of
             Some sz \<Rightarrow>
               if size_amount sz \<noteq> mb then
                 (Inl (status_error AlreadyExists
                    (''volume '' @ name @ '' already exists with different capacity (existing: '' @
                     itoa (sint (size_amount sz)) @ '' MB, requested: '' @ itoa (sint mb) @ '' MB)'')), m)
               else (Inr False, m)
           | None \<Rightarrow> (Inr False, m))
      | None \<Rightarrow> (Inr True, m\<lparr>mk_disks := (name, mock_disk name mb) # mk_disks m\<rparr>))"

definition mock_delete_disk :: "string \<Rightarrow> 'k mock go_err" where
  "mock_delete_disk name m =
     (case map_of (mk_disks m) name of
        None \<Rightarrow> (None, m)
      | Some _ \<Rightarrow> (None, m\<lparr>mk_disks := drop_key name (mk_disks m)\<rparr>))"

definition mock_get_disk :: "string \<Rightarrow> ('k mock, disk) go" where
  "mock_get_disk name m =
     (case map_of (mk_disks m) name of
        None \<Rightarrow> (Inl (status_error NotFound (''disk '' @ name @ '' not found'')), m)
      | Some d \<Rightarrow> (Inr d, m))"

definition mock_list_disks :: "('k mock, disk list) go" where
  "mock_list_disks m = (Inr (map snd (mk_disks m)), m)"

definition mock_get_attachment :: "string \<Rightarrow> string \<Rightarrow> ('k mock, attachment) go" where
  "mock_get_attachment disk_name vm_name m =
     (let key = disk_name @ ''-to-'' @ vm_name
      in case map_of (mk_atts m) key of
           None \<Rightarrow> (Inl (status_error NotFound (''attachment '' @ key @ '' not found'')), m)
         | Some a \<Rightarrow> (Inr a, m))"

definition mock_list_attachments :: "('k mock, attachment list) go" where
  "mock_list_attachments m = (Inr (map snd (mk_atts m)), m)"

definition mock_count :: "string \<Rightarrow> ('k mock, nat) go" where
  "mock_count vm_name m =
     (Inr (length (filter (\<lambda>a. extract_resource_name (att_vm_ref a) = vm_name) (map snd (mk_atts m)))), m)"

definition mock_disk_ref :: "string \<Rightarrow> string" where
  "mock_disk_ref d = ''/compute/projects/mock-project/regions/se-sto/disks/'' @ d"

definition mock_vm_ref :: "string \<Rightarrow> string" where
  "mock_vm_ref v = ''/compute/projects/mock-project/regions/se-sto/virtualMachines/'' @ v"

definition mock_attachment :: "string \<Rightarrow> string \<Rightarrow> attachment" where
  "mock_attachment d v =
     \<lparr>att_id = d @ ''-'' @ v, att_labels = None, att_disk_ref = mock_disk_ref d, att_vm_ref = mock_vm_ref v,
      att_serial = Some (take 20 (hex_text (sha256 d))), att_conditions = []\<rparr>"

definition mock_attach :: "'k file_ops \<Rightarrow> string \<Rightarrow> string \<Rightarrow> 'k mock go_err" where
  "mock_attach fo d v m =
     (let key = d @ ''-'' @ v
      in if map_of (mk_atts m) key \<noteq> None then (None, m)
         else if map_of (mk_disks m) d = None then
           (Some (status_error NotFound (''volume '' @ d @ '' does not exist'')), m)
         else if v \<notin> set (mk_nodes m) then
           (Some (status_error NotFound (''node '' @ v @ '' does not exist'')), m)
         else
           (case create_mock_device fo d (m\<lparr>mk_atts := (key, mock_attachment d v) # mk_atts m\<rparr>) of
              (Inl e, m1) \<Rightarrow> (Some (status_error Internal (''failed to create mock device: '' @ error_text e)), m1)
            | (Inr _, m1) \<Rightarrow> (None, m1)))"

definition mock_wait_serial :: "string \<Rightarrow> string \<Rightarrow> ('k mock, string) go" where
  "mock_wait_serial d v m =
     (let key = d @ ''-'' @ v
      in case map_of (mk_atts m) key of
           None \<Rightarrow> (Inl (status_error NotFound (''attachment '' @ key @ '' not found'')), m)
         | Some a \<Rightarrow>
             (case att_serial a of
                None \<Rightarrow> (Inl (status_error Unavailable (''serial not available for '' @ key)), m)
              | Some s \<Rightarrow> (Inr s, m)))"

text \<open>A failure to delete the mock device is only logged.\<close>

definition mock_detach :: "'k file_ops \<Rightarrow> string \<Rightarrow> string \<Rightarrow> 'k mock go_err" where
  "mock_detach fo d v m =
     (let key = d @ ''-'' @ v
      in if map_of (mk_atts m) key = None then (None, m)
         else
           (case delete_mock_device fo d (m\<lparr>mk_atts := drop_key key (mk_atts m)\<rparr>) of
              (_, m1) \<Rightarrow> (None, m1)))"

definition mock_disk_exists :: "string \<Rightarrow> 'k mock \<Rightarrow> bool" where
  "mock_disk_exists name m \<longleftrightarrow> map_of (mk_disks m) name \<noteq> None"

definition resized :: "i32 \<Rightarrow> disk \<Rightarrow> disk" where
  "resized mb d =
     d\<lparr>disk_spec_size := map_option (\<lambda>sz. sz\<lparr>size_amount := mb\<rparr>) (disk_spec_size d),
       disk_status_size := Some \<lparr>size_amount = mb, size_unit = MB\<rparr>\<rparr>"

definition mock_resize :: "string \<Rightarrow> i32 \<Rightarrow> 'k mock go_err" where
  "mock_resize name mb m =
     (case map_of (mk_disks m) name of
        Some d \<Rightarrow> (None, m\<lparr>mk_disks := (name, resized mb d) # drop_key name (mk_disks m)\<rparr>)
      | None \<Rightarrow> (Some (plain_error ''disk not found''), m))"

text \<open>\<open>MockStorageBackend\<close> as an implementation of the interface.\<close>

definition mock_storage_backend :: "'k file_ops \<Rightarrow> 'k mock storage_backend" where
  "mock_storage_backend fo =
     \<lparr>ensure_disk_created = (\<lambda>n mb sc z. on_sys (mock_create_disk n mb sc z)),
      ensure_disk_deleted = (\<lambda>n. on_sys (mock_delete_disk n)),
      get_disk_and_validate_ownership = (\<lambda>n. on_sys (mock_get_disk n)),
      list_disks = on_sys mock_list_disks,
      get_attachment = (\<lambda>d v. on_sys (mock_get_attachment d v)),
      list_attachments = on_sys mock_list_attachments,
      count_node_attachments = (\<lambda>v. on_sys (mock_count v)),
      ensure_attachment_created = (\<lambda>d v. on_sys (mock_attach fo d v)),
      wait_for_attachment_serial = (\<lambda>d v. on_sys (mock_wait_serial d v)),
      ensure_attachment_deleted = (\<lambda>d v. on_sys (mock_detach fo d v)),
      ensure_disk_resized = (\<lambda>n mb. on_sys (mock_resize n mb))\<rparr>"

section \<open>The contract\<close>

definition mock_att :: "'k mock \<Rightarrow> (string \<times> string) set" where
  "mock_att m =
     (\<lambda>(k, a). (extract_resource_name (att_disk_ref a), extract_resource_name (att_vm_ref a))) ` set (mk_atts m)"

definition mock_has_disk :: "'k mock \<Rightarrow> string \<Rightarrow> i32 \<Rightarrow> bool" where
  "mock_has_disk m n mb \<longleftrightarrow>
     (\<exists>d. map_of (mk_disks m) n = Some d \<and> (\<forall>sz. disk_spec_size d = Some sz \<longrightarrow> size_amount sz = mb))"

definition mock_no_disk :: "'k mock \<Rightarrow> string \<Rightarrow> bool" where
  "mock_no_disk m n \<longleftrightarrow> map_of (mk_disks m) n = None"

lemma map_of_drop_key: "map_of (drop_key k xs) n = (if n = k then None else map_of xs n)"
  by (induction xs) (auto simp: drop_key_def)

lemma on_os_simps [simp]:
  "mk_atts (snd (on_os f m)) = mk_atts m" "mk_disks (snd (on_os f m)) = mk_disks m"
  by (simp_all add: on_os_def split: prod.splits)

lemma device_keeps [simp]:
  "mk_atts (snd (create_mock_device fo d m)) = mk_atts m"
  "mk_atts (snd (delete_mock_device fo d m)) = mk_atts m"
  by (simp_all add: create_mock_device_def delete_mock_device_def case_prod_beta Let_def split: option.split)

lemma mock_att_same: "mk_atts m' = mk_atts m \<Longrightarrow> mock_att m' = mock_att m"
  by (simp add: mock_att_def)

lemma mock_ref_names:
  assumes "no_slash d"
  shows "extract_resource_name (mock_disk_ref d) = d" "extract_resource_name (mock_vm_ref d) = d"
  using extract_path [OF assms, of "''/compute/projects/mock-project/regions/se-sto/disks''"]
    extract_path [OF assms, of "''/compute/projects/mock-project/regions/se-sto/virtualMachines''"]
  by (simp_all add: mock_disk_ref_def mock_vm_ref_def)

lemma mock_attach_att:
  assumes "no_slash d" "no_slash v"
  shows "mock_att (snd (mock_attach fo d v m)) \<subseteq> insert (d, v) (mock_att m)"
  using mock_ref_names [OF assms(1)] mock_ref_names [OF assms(2)]
  by (auto simp: mock_attach_def mock_att_def mock_attachment_def case_prod_beta Let_def split: sum.split)

lemma mock_detach_att: "mock_att (snd (mock_detach fo d v m)) \<subseteq> mock_att m"
  by (auto simp: mock_detach_def mock_att_def case_prod_beta Let_def drop_key_def)

lemma mock_count_card:
  "finite {d. (d, v) \<in> mock_att m} \<and>
   card {d. (d, v) \<in> mock_att m} \<le>
     length (filter (\<lambda>a. extract_resource_name (att_vm_ref a) = v) (map snd (mk_atts m)))"
proof -
  let ?on = "filter (\<lambda>a. extract_resource_name (att_vm_ref a) = v) (map snd (mk_atts m))"
  let ?names = "map (\<lambda>a. extract_resource_name (att_disk_ref a)) ?on"
  have eq: "{d. (d, v) \<in> mock_att m} = set ?names"
    by (force simp: mock_att_def)
  show ?thesis unfolding eq using card_length [of ?names] by simp
qed

interpretation mock: storage_contract "mock_storage_backend fo" mock_att mock_has_disk mock_no_disk for fo
proof (unfold_locales, goal_cases)
  case (1 n mb sc z w b w')
  then show ?case
    by (auto simp: mock_storage_backend_def on_sys_eq mock_create_disk_def mock_has_disk_def mock_disk_def
        split: option.splits if_splits)
next
  case (2 n mb sc z w)
  show ?case
    by (auto simp: mock_storage_backend_def mock_create_disk_def intro!: mock_att_same split: option.split)
next
  case (3 m n mb sc z w k)
  then show ?case
    by (auto simp: mock_storage_backend_def mock_create_disk_def mock_has_disk_def split: option.split)
next
  case (4 n w w')
  then show ?case
    by (auto simp: mock_storage_backend_def on_sys_eq mock_delete_disk_def mock_no_disk_def map_of_drop_key
        split: option.splits)
next
  case (5 n w)
  show ?case
    by (auto simp: mock_storage_backend_def mock_delete_disk_def intro!: mock_att_same split: option.split)
next
  case (6 m n w k)
  then show ?case
    by (auto simp: mock_storage_backend_def mock_delete_disk_def mock_has_disk_def map_of_drop_key split: option.split)
next
  case (7 w items w' d v)
  then show ?case
    by (force simp: mock_storage_backend_def on_sys_eq mock_list_attachments_def mock_att_def)
next
  case (8 w)
  show ?case by (simp add: mock_storage_backend_def mock_list_attachments_def)
next
  case (9 v w cnt w')
  then show ?case
    using mock_count_card [of v "sys w"] by (auto simp: mock_storage_backend_def on_sys_eq mock_count_def)
next
  case (10 v w)
  show ?case by (simp add: mock_storage_backend_def mock_count_def)
next
  case (11 d v w)
  then show ?case using mock_attach_att [of d v fo "sys w"] by (simp add: mock_storage_backend_def)
next
  case (12 d v w)
  show ?case
    by (simp add: mock_storage_backend_def mock_wait_serial_def Let_def split: option.split)
next
  case (13 d v w)
  show ?case using mock_detach_att [of fo d v "sys w"] by (simp add: mock_storage_backend_def)
next
  case (14 n w)
  show ?case by (simp add: mock_storage_backend_def mock_get_disk_def split: option.split)
next
  case (15 w)
  show ?case by (simp add: mock_storage_backend_def mock_list_disks_def)
next
  case (16 d v w)
  show ?case by (simp add: mock_storage_backend_def mock_get_attachment_def Let_def split: option.split)
next
  case (17 n mb w)
  show ?case
    by (auto simp: mock_storage_backend_def mock_resize_def intro!: mock_att_same split: option.split)
qed

end
