(* ===== verification/Controller_Properties.thy ===== *)
theory Controller_Properties
  imports Node_Runs Listing Mock_Storage
begin

text \<open>
  The properties of the controller service on the SDK backend: what every RPC guarantees about
  the cloud, the attach limit under concurrent calls, and the listing. Each is instantiated at
  the reference cloud of the theory \<open>Ref_Cloud\<close>.
\<close>

section \<open>Publishing\<close>

definition ref_publish :: "string \<Rightarrow> string \<Rightarrow> publish_request" where
  "ref_publish d v =
     \<lparr>pb_volume_id = d, pb_node_id = v,
      pb_capability = Some \<lparr>cap_access_type = Some (MountAccess ''''), cap_access_mode = Some SingleNodeWriter\<rparr>\<rparr>"

lemma publish_split:
  assumes "controller_publish_volume s req (ls, w) = Some (Inr ctx, ls', w')"
  shows "fst (publish_locked s req w) = Inr ctx" "w' = snd (publish_locked s req w)"
    "ls' = ls(pb_node_id req \<mapsto> False)"
  using assms
  by (auto simp: controller_publish_volume_def with_node_lock_def acquire_node_lock_def release_node_lock_def
      split: option.splits prod.splits if_splits)

text \<open>C4: when \<open>ControllerPublishVolume\<close> succeeds, the volume is attached to the node of the
  request and, of the attachments of this driver, to no other node; the publish context holds a
  non-empty serial, and the mutex of the node is free again.\<close>

theorem publish_attaches:
  assumes "sdk_controller cl vd va rt b s"
    and "no_slash (pb_volume_id req)" "no_slash (pb_node_id req)"
    and "controller_publish_volume s req (ls, w) = Some (Inr ctx, ls', w')"
  shows "{n. (pb_volume_id req, n) \<in> own_attachments va b (sys w')} = {pb_node_id req} \<and>
         (\<exists>serial. ctx = [''serial'' \<mapsto> serial] \<and> serial \<noteq> '''') \<and> ls' (pb_node_id req) = Some False"
proof -
  note ok = exact_controller_env.publish_ok [OF sdk_exact [OF assms(1)] assms(2,3) publish_split(1) [OF assms(4)]]
  have "{n. (pb_volume_id req, n) \<in> own_attachments va b (sys w')} = {pb_node_id req}"
    unfolding publish_split(2) [OF assms(4)] using ok(1,2) by blast
  with ok(3) show ?thesis by (simp add: publish_split(3) [OF assms(4)])
qed

lemma ref_publish_ok:
  "\<exists>ctx ls w. controller_publish_volume ref_controller (ref_publish ''csi-a'' ''vm-1'') (Map.empty, ref_world)
     = Some (Inr ctx, ls, w)"
proof -
  have "case controller_publish_volume ref_controller (ref_publish ''csi-a'' ''vm-1'') (Map.empty, ref_world) of
      Some (Inr _, _) \<Rightarrow> True | _ \<Rightarrow> False"
    by code_simp
  then show ?thesis by (auto split: option.splits sum.splits)
qed

lemma ref_names_plain: "no_slash ''csi-a''" "no_slash ''vm-1''" "no_slash ''csi-b''" "no_slash ''vm-2''"
  by (simp_all add: no_slash_def)

lemma ref_publish_fields [simp]:
  "pb_volume_id (ref_publish d v) = d" "pb_node_id (ref_publish d v) = v"
  by (simp_all add: ref_publish_def)

theorem publish_attaches_witness:
  "\<exists>w' :: cloud world. {n. (''csi-a'', n) \<in> own_attachments ref_va ref_backend (sys w')} = {''vm-1''}"
proof -
  obtain ctx ls w where
    "controller_publish_volume ref_controller (ref_publish ''csi-a'' ''vm-1'') (Map.empty, ref_world)
       = Some (Inr ctx, ls, w)"
    using ref_publish_ok by blast
  note r = publish_attaches [OF ref_ctl_env _ _ this, unfolded ref_publish_fields, OF ref_names_plain(1,2)]
  show ?thesis by (rule exI [of _ w]) (rule conjunct1 [OF r])
qed

text \<open>C13: when \<open>ControllerUnpublishVolume\<close> succeeds, the volume is not attached to the node
  any more, and the mutex of the node is free again.\<close>

theorem unpublish_detaches:
  assumes "sdk_controller cl vd va rt b s" and "no_slash vid" "no_slash node"
    and "controller_unpublish_volume s vid node (ls, w) = Some (Inr u, ls', w')"
  shows "(vid, node) \<notin> own_attachments va b (sys w') \<and> ls' node = Some False"
proof -
  have r: "fst (unpublish_locked s vid node w) = Inr u" "w' = snd (unpublish_locked s vid node w)"
    "ls' = ls(node \<mapsto> False)"
    using assms(4)
    by (auto simp: controller_unpublish_volume_def with_node_lock_def acquire_node_lock_def
        release_node_lock_def split: option.splits prod.splits if_splits)
  from exact_controller_env.unpublish_ok [OF sdk_exact [OF assms(1)] assms(2,3) r(1)] r(2,3)
  show ?thesis by simp
qed

theorem unpublish_detaches_witness:
  "\<exists>ls w'. controller_unpublish_volume ref_controller ''csi-b'' ''vm-1'' (Map.empty, ref_world)
       = Some (Inr (), ls, w') \<and> (''csi-b'', ''vm-1'') \<notin> own_attachments ref_va ref_backend (sys w')"
proof -
  have "case controller_unpublish_volume ref_controller ''csi-b'' ''vm-1'' (Map.empty, ref_world) of
      Some (Inr _, _) \<Rightarrow> True | _ \<Rightarrow> False"
    by code_simp
  then obtain ls w where c:
    "controller_unpublish_volume ref_controller ''csi-b'' ''vm-1'' (Map.empty, ref_world) = Some (Inr (), ls, w)"
    by (auto split: option.splits sum.splits)
  from unpublish_detaches [OF ref_ctl_env ref_names_plain(3,2) c] c show ?thesis by blast
qed

text \<open>C32: a node that has reached its limit refuses every publish with \<open>ResourceExhausted\<close>
  before the backend is asked to attach, also the repeated publish of a volume that is
  already attached to it.\<close>

theorem publish_full_node:
  assumes "go_less 0 (ctl_max_volumes s)" and "check_publish_request req = None"
    and "ls (pb_node_id req) \<noteq> Some True"
    and "fst (count_node_attachments (storage s) (pb_node_id req) w) = Inr cnt"
    and "sint (ctl_max_volumes s) \<le> int cnt"
  shows "\<exists>e ls'. controller_publish_volume s req (ls, w) =
           Some (Inl e, ls', snd (count_node_attachments (storage s) (pb_node_id req) w)) \<and>
         status_code e = Some ResourceExhausted"
proof -
  have "fst (check_attach_limit s (pb_node_id req) w) = Some (status_error ResourceExhausted
      (''node '' @ pb_node_id req @ '' has reached maximum volume attach limit ('' @
       itoa (sint (ctl_max_volumes s)) @ '' volumes)''))"
    "snd (check_attach_limit s (pb_node_id req) w) = snd (count_node_attachments (storage s) (pb_node_id req) w)"
    using assms(1,4,5) by (simp_all add: check_attach_limit_def case_prod_beta)
  then show ?thesis
    using assms(2,3)
    by (simp add: controller_publish_volume_def with_node_lock_def acquire_node_lock_def publish_locked_def
        case_prod_beta)
qed

definition ref_controller_1 :: "cloud controller" where
  "ref_controller_1 = ref_controller\<lparr>ctl_max_volumes := 1\<rparr>"

theorem publish_full_node_witness:
  "\<exists>e ls' w'. controller_publish_volume ref_controller_1 (ref_publish ''csi-b'' ''vm-1'') (Map.empty, ref_world) =
     Some (Inl e, ls', w') \<and> status_code e = Some ResourceExhausted"
proof -
  have cnt: "fst (count_node_attachments (storage ref_controller_1) (pb_node_id (ref_publish ''csi-b'' ''vm-1'')) ref_world) = Inr 1"
    by code_simp
  have pos: "go_less 0 (ctl_max_volumes ref_controller_1)" "sint (ctl_max_volumes ref_controller_1) \<le> int 1"
    by (simp_all add: ref_controller_1_def go_less_def)
  have chk: "check_publish_request (ref_publish ''csi-b'' ''vm-1'') = None"
    by (simp add: check_publish_request_def ref_publish_def validate_required_field_def)
  from publish_full_node [OF pos(1) chk _ cnt pos(2), of Map.empty] show ?thesis by auto
qed

section \<open>Concurrent calls\<close>

text \<open>C1: however the publish and unpublish calls of any number of clients interleave with each
  other and with the other handlers, no node ever holds more volumes of this driver than the
  configured maximum.\<close>

theorem concurrent_attach_limit:
  assumes "sdk_controller cl vd va rt b s" and "go_less 0 (ctl_max_volumes s)"
    and "fresh_service st" "plain_requests st"
    and "\<And>n. within_limit (sint (ctl_max_volumes s)) (own_attachments va b (sys (world st))) n"
    and "(service_step s)\<^sup>*\<^sup>* st st'"
  shows "within_limit (sint (ctl_max_volumes s)) (own_attachments va b (sys (world st'))) n"
  using controller_env.service_run [OF sdk_base [OF assms(1)] assms(6,2) fresh_exclusive [OF assms(3)] assms(4)
      fresh_room [OF assms(3,5)]] room_keptD(1)
  by blast

definition ref_service :: "cloud service" where
  "ref_service =
     \<lparr>locks = Map.empty, threads = [0 \<mapsto> PubStart (ref_publish ''csi-a'' ''vm-1''), 1 \<mapsto> UnpStart ''csi-b'' ''vm-1''],
      world = ref_world\<rparr>"

lemma ref_own: "own_attachments ref_va ref_backend ref_state \<subseteq> {(''csi-b'', ''vm-1'')}"
  using ref_names [OF ref_names_plain(3)] ref_names [OF ref_names_plain(2)]
  by (auto simp: own_attachments_def ref_va_def ref_state_def targets_def ref_attachment_def split: if_splits)

lemma ref_service_limit: "within_limit 2 (own_attachments ref_va ref_backend (sys (world ref_service))) n"
proof -
  have "disks_on (own_attachments ref_va ref_backend ref_state) n \<subseteq> {''csi-b''}"
    using ref_own by (auto simp: disks_on_def)
  from card_mono [OF _ this] finite_subset [OF this]
  show ?thesis by (simp add: within_limit_def ref_service_def ref_world_def)
qed

lemma ref_service_simps:
  "fresh_service ref_service" "plain_requests ref_service"
  using ref_names_plain
  by (auto simp: fresh_service_def ref_service_def plain_requests_def split: if_splits)

definition ref_service_1 :: "cloud service" where
  "ref_service_1 = move_on 0 (PubCount (ref_publish ''csi-a'' ''vm-1'')) ref_world
     (ref_service\<lparr>locks := [''vm-1'' \<mapsto> True]\<rparr>)"

lemma ref_service_run: "(service_step ref_controller)\<^sup>*\<^sup>* ref_service ref_service_1"
proof (rule r_into_rtranclp)
  show "service_step ref_controller ref_service ref_service_1"
    unfolding ref_service_1_def
    using pub_lock [of ref_service 0 "ref_publish ''csi-a'' ''vm-1''" "[''vm-1'' \<mapsto> True]" ref_controller]
    by (simp add: ref_service_def acquire_node_lock_def check_publish_request_def ref_publish_def
        validate_required_field_def)
qed

theorem concurrent_attach_limit_witness:
  "within_limit 2 (own_attachments ref_va ref_backend (sys (world ref_service_1))) ''vm-1''"
proof -
  have m: "sint (ctl_max_volumes ref_controller) = 2" "go_less 0 (ctl_max_volumes ref_controller)"
    by (simp_all add: ref_controller_def go_less_def)
  show ?thesis
    by (rule concurrent_attach_limit [OF ref_ctl_env m(2) ref_service_simps _ ref_service_run, of "''vm-1''",
        unfolded m(1), OF ref_service_limit])
qed

text \<open>C8: the step relation of the concurrent model covers the handlers: whatever a whole call of
  \<open>ControllerPublishVolume\<close> or \<open>ControllerUnpublishVolume\<close> computes, with its retries and waits, the
  thread of the call reaches by steps, with the same result, locks and world; and every other
  handler is a run of the steps of others.\<close>

theorem handlers_are_runs:
  assumes "0 \<le> max_retries (rest_api_retry s)"
  shows "(threads st t = Some (PubStart req) \<and>
      controller_publish_volume s req (locks st, world st) = Some (r, ls, w') \<longrightarrow>
      (service_step s)\<^sup>*\<^sup>* st (at_point st ls t (PubDone req r) w')) \<and>
    (threads st t = Some (UnpStart vid node) \<and>
      controller_unpublish_volume s vid node (locks st, world st) = Some (u, ls, w') \<longrightarrow>
      (service_step s)\<^sup>*\<^sup>* st (at_point st ls t (UnpDone vid node u) w')) \<and>
    (takes_no_lock h \<longrightarrow> (service_step s)\<^sup>*\<^sup>* st (st\<lparr>world := rpc_step ready s h (world st)\<rparr>))"
  using publish_is_a_run [OF assms] unpublish_is_a_run [OF assms] other_handler_steps by blast

theorem handlers_are_runs_witness:
  "\<exists>ls w' ctx. (service_step ref_controller)\<^sup>*\<^sup>* ref_service
     (at_point ref_service ls 0 (PubDone (ref_publish ''csi-a'' ''vm-1'') (Inr ctx)) w')"
proof -
  obtain ctx ls w where "controller_publish_volume ref_controller (ref_publish ''csi-a'' ''vm-1'') (Map.empty, ref_world)
      = Some (Inr ctx, ls, w)"
    using ref_publish_ok by blast
  moreover have "0 \<le> max_retries (rest_api_retry ref_controller)" by (simp add: ref_controller_def)
  moreover have "threads ref_service 0 = Some (PubStart (ref_publish ''csi-a'' ''vm-1''))"
    "locks ref_service = Map.empty" "world ref_service = ref_world"
    by (simp_all add: ref_service_def)
  ultimately show ?thesis
    using handlers_are_runs [of ref_controller ref_service 0 "ref_publish ''csi-a'' ''vm-1''"] by fastforce
qed

text \<open>C7: the mutex of a node excludes: at no time do two calls hold it.\<close>

theorem node_lock_exclusive:
  assumes "fresh_service st" "(service_step s)\<^sup>*\<^sup>* st st'"
    and "threads st' t = Some th" "threads st' t' = Some th'" "holds th = Some n" "holds th' = Some n"
  shows "t = t'"
  using exclusive_run [OF assms(2) fresh_exclusive [OF assms(1)]] assms(3-6) unfolding exclusive_def by blast

theorem node_lock_exclusive_witness:
  "{t. \<exists>th. threads ref_service_1 t = Some th \<and> holds th = Some ''vm-1''} = {0}"
proof -
  have "t = 0" if "threads ref_service_1 t = Some th" "holds th = Some ''vm-1''" for t th
    by (rule node_lock_exclusive [OF ref_service_simps(1) ref_service_run,
        where th = th and th' = "PubCount (ref_publish ''csi-a'' ''vm-1'')" and n = "''vm-1''"])
       (use that in \<open>simp_all add: ref_service_1_def\<close>)
  moreover have "threads ref_service_1 0 = Some (PubCount (ref_publish ''csi-a'' ''vm-1''))"
    by (simp add: ref_service_1_def)
  then have "\<exists>th. threads ref_service_1 0 = Some th \<and> holds th = Some ''vm-1''"
    by (intro exI [of _ "PubCount (ref_publish ''csi-a'' ''vm-1'')"]) (simp add: ref_publish_def)
  ultimately show ?thesis by blast
qed

text \<open>C10: there is no deadlock: as long as a call is not finished, some call can take its next
  step.\<close>

theorem calls_never_stuck:
  assumes "fresh_service st" "(service_step s)\<^sup>*\<^sup>* st st'"
    and "threads st' t = Some th" "\<not> finished th"
  shows "\<exists>u. can_move s st' u"
  using unfinished_moves [OF owned_run [OF assms(2) fresh_owned [OF assms(1)]] assms(3,4)] .

theorem calls_never_stuck_witness: "\<exists>u. can_move ref_controller ref_service u"
  using calls_never_stuck [OF ref_service_simps(1) rtranclp.rtrancl_refl, of 1 "UnpStart ''csi-b'' ''vm-1''"]
  by (simp add: ref_service_def)

section \<open>Creating and deleting\<close>

text \<open>C11: when \<open>CreateVolume\<close> succeeds for a size between one byte and 2 PiB less 1 MiB, the disk
  \<open>csi-<name>\<close> exists. If there was none of that name, it carries the label of this driver, the size of
  the request rounded up to MiB and the zone of the request; if there was one, it is as it was, it
  carries the label, and its size is either that of the request or not given. The response names
  the disk with that size, which is at least what was asked for and less than 1 MiB more.\<close>

theorem create_volume_establishes:
  assumes "sdk_controller cl vd va rt b s" and "fst (create_volume s req w) = Inr v"
    and "0 < sint (range_bytes (cv_capacity_range req))" "sint (range_bytes (cv_capacity_range req)) \<le> max_bytes"
  shows "\<exists>d mb. vd (sys (snd (create_volume s req w))) (vol_id v) = Some d \<and>
         sint mb * 2 ^ 20 = sint (vol_capacity v) \<and> vol_id v = ''csi-'' @ cv_name req \<and>
         sint (range_bytes (cv_capacity_range req)) \<le> sint (vol_capacity v) \<and>
         sint (vol_capacity v) < sint (range_bytes (cv_capacity_range req)) + 2 ^ 20 \<and>
         (if vd (sys w) (vol_id v) = None
          then sdk_user_labels (disk_labels d) = [''managed-by'' \<mapsto> sdk_identifier b] \<and>
               disk_spec_size d = Some \<lparr>size_amount = mb, size_unit = MB\<rparr> \<and> disk_zone d = request_zone req
          else vd (sys w) (vol_id v) = Some d \<and> labelled b (disk_labels d) \<and>
               (\<forall>sz. disk_spec_size d = Some sz \<longrightarrow> size_amount sz = mb \<and> unit_text (size_unit sz) = ''MB''))"
proof -
  define mb where "mb = bytes_to_mb (range_bytes (cv_capacity_range req))"
  obtain mb' where c: "check_create_volume req = Inr mb'" "vol_id v = ''csi-'' @ cv_name req"
      "vol_capacity v = capacity_mb_to_bytes mb'"
    using create_volume_Inr [OF assms(2)] by metis
  then have chk: "check_create_volume req = Inr mb" and v: "vol_capacity v = capacity_mb_to_bytes mb"
    by (simp_all add: check_create_volume_Inr mb_def)
  obtain d where d: "vd (sys (snd (create_volume s req w))) (vol_id v) = Some d" "acceptable b mb d"
    using controller_env.create_volume_ok [OF sdk_base [OF assms(1)] assms(2)] c(2) by (auto simp: own_disk_def mb_def)
  have "sdk_identifier b \<noteq> ''''"
    by (rule sdk_env.identifier_set [OF sdk_controller.axioms(1) [OF assms(1)]])
  with d(2) have own: "labelled b (disk_labels d)" by (simp add: acceptable_def managed_labelled)
  from sdk_controller.create_volume_disk [OF assms(1,2) chk] d own
  show ?thesis
    using bytes_to_mb_bounds [OF assms(3,4)] c(2) v
    by (intro exI [of _ d] exI [of _ mb])
       (auto simp: created_disk managed_by_label_def acceptable_def sint_capacity_mb_to_bytes mb_def [symmetric])
qed

definition ref_create :: create_volume_request where
  "ref_create =
     \<lparr>cv_name = ''new'', cv_capacity_range = Some \<lparr>required_bytes = 1000000000, limit_bytes = 0\<rparr>,
      cv_capabilities = [\<lparr>cap_access_type = Some (MountAccess ''''), cap_access_mode = Some SingleNodeWriter\<rparr>],
      cv_parameters = Map.empty, cv_preferred = None\<rparr>"

theorem create_volume_establishes_witness:
  "\<exists>d. ref_vd (sys (snd (create_volume ref_controller ref_create ref_world))) ''csi-new'' = Some d \<and>
     disk_spec_size d = Some \<lparr>size_amount = 954, size_unit = MB\<rparr>"
proof -
  have "case fst (create_volume ref_controller ref_create ref_world) of Inr v \<Rightarrow> vol_id v = ''csi-new'' | _ \<Rightarrow> False"
    by code_simp
  then obtain v where v: "fst (create_volume ref_controller ref_create ref_world) = Inr v" "vol_id v = ''csi-new''"
    by (auto split: sum.splits)
  have r: "sint (range_bytes (cv_capacity_range ref_create)) = 1000000000"
    by (simp add: ref_create_def range_bytes_def)
  have "ref_vd (sys ref_world) ''csi-new'' = None" by code_simp
  with create_volume_establishes [OF ref_ctl_env v(1), unfolded r] v(2) obtain d mb where
      d: "ref_vd (sys (snd (create_volume ref_controller ref_create ref_world))) ''csi-new'' = Some d"
      "disk_spec_size d = Some \<lparr>size_amount = mb, size_unit = MB\<rparr>"
    and mb: "1000000000 \<le> sint mb * 2 ^ 20" "sint mb * 2 ^ 20 < 1000000000 + 2 ^ 20"
    by (auto simp: max_bytes_def)
  from mb have "sint mb = sint (954 :: i32)" by simp
  then have "mb = 954" by (rule signed_word_eqI)
  with d show ?thesis by blast
qed

text \<open>C6: a volume that is attached to some node is never deleted: \<open>DeleteVolume\<close> fails and does
  nothing but read the list of attachments.\<close>

theorem delete_volume_refuses_attached:
  assumes "sdk_controller cl vd va rt b s" and "(vid, node) \<in> own_attachments va b (sys w)" "vid \<noteq> ''''"
  shows "(\<exists>e. fst (delete_volume s vid w) = Inl e \<and> status_code e \<in> {Some FailedPrecondition, Some Internal}) \<and>
         snd (delete_volume s vid w) = snd (sdk_list_attachments b w)"
proof -
  have "storage s = sdk_storage_backend rt b" using assms(1) by (simp add: sdk_controller.storage_sdk)
  with controller_env.delete_volume_attached [OF sdk_base [OF assms(1)] assms(2,3)] show ?thesis
    by (simp add: sdk_storage_backend_def)
qed

lemma ref_attached: "(''csi-b'', ''vm-1'') \<in> own_attachments ref_va ref_backend (sys ref_world)"
proof -
  have "disk_ref ref_client ''csi-b'' = ''/compute/disks/csi-b''" "vm_ref ref_client ''vm-1'' = ''/compute/virtualMachines/vm-1''"
    by (simp_all add: ref_client_def)
  then show ?thesis
    using ref_names [OF ref_names_plain(3)] ref_names [OF ref_names_plain(2)]
    by (simp add: own_attachments_def ref_va_def ref_world_def ref_state_def targets_def ref_attachment_def
        labelled_def shown_def sdk_user_labels_def managed_by_label_def attachment_disk_label_def ref_backend_def)
qed

theorem delete_volume_refuses_attached_witness:
  "\<exists>e. fst (delete_volume ref_controller ''csi-b'' ref_world) = Inl e"
  using delete_volume_refuses_attached [OF ref_ctl_env ref_attached] by auto

text \<open>C12: when \<open>DeleteVolume\<close> succeeds, the disk is gone and no node had it attached. Whether it
  succeeds or fails, every attachment and every other disk is as it was.\<close>

theorem delete_volume_removes:
  assumes "sdk_controller cl vd va rt b s"
  shows "(\<forall>u. fst (delete_volume s vid w) = Inr u \<longrightarrow>
            vd (sys (snd (delete_volume s vid w))) vid = None \<and> (\<forall>n. (vid, n) \<notin> own_attachments va b (sys w))) \<and>
         va (sys (snd (delete_volume s vid w))) = va (sys w) \<and>
         (\<forall>m. m \<noteq> vid \<longrightarrow> vd (sys (snd (delete_volume s vid w))) m = vd (sys w) m)"
  using controller_env.delete_volume_ok [OF sdk_base [OF assms]] sdk_controller.delete_volume_views [OF assms]
  by (simp add: no_disk_def)

theorem delete_volume_removes_witness:
  "ref_vd (sys (snd (delete_volume ref_controller ''csi-a'' ref_world))) ''csi-a'' = None"
proof -
  have "case fst (delete_volume ref_controller ''csi-a'' ref_world) of Inr _ \<Rightarrow> True | _ \<Rightarrow> False"
    by code_simp
  then obtain u where "fst (delete_volume ref_controller ''csi-a'' ref_world) = Inr u"
    by (auto split: sum.splits)
  with delete_volume_removes [OF ref_ctl_env, of "''csi-a''" ref_world] show ?thesis by blast
qed

text \<open>C31: a \<open>CreateVolume\<close> request is accepted exactly if it has a name, a size and at least one
  capability, all of them single-node and none read-only on a block volume; every other
  request is refused with \<open>InvalidArgument\<close>, before the backend is called.\<close>

theorem create_volume_checks:
  "(\<exists>mb. check_create_volume req = Inr mb) =
     (cv_name req \<noteq> '''' \<and> cv_capabilities req \<noteq> [] \<and> list_all supported_capability (cv_capabilities req) \<and>
      range_bytes (cv_capacity_range req) \<noteq> 0) \<and>
   (case check_create_volume req of
      Inl e \<Rightarrow> create_volume s req w = (Inl e, w) \<and> status_code e = Some InvalidArgument
    | Inr mb \<Rightarrow> True)"
  using check_create_volume_Inr [of req]
  by (auto simp: create_volume_def check_create_volume_Inl split: sum.split)

section \<open>Listing\<close>

text \<open>C20: a client that follows the tokens of \<open>ListVolumes\<close> while the cloud holds still gets every
  volume of the driver exactly once and in order, whatever page size it asks for, and needs
  at most one call more than there are volumes.\<close>

theorem list_volumes_complete:
  assumes "steady (storage s) disks items P" "P w" "length disks < 2 ^ 63" "length disks < fuel"
  shows "\<exists>w'. list_all_volumes fuel ready s max_entries '''' w =
     Some (Inr (map (volume_entry_of (disk_to_vms ready items)) disks), w')"
  using list_all_from [OF assms(1,3,2), of "''''" 0 fuel ready max_entries] assms(4) by simp

lemma ref_steady:
  "steady (storage ref_controller) [ref_disk ''csi-a'' ''cluster-1'', ref_disk ''csi-b'' ''cluster-1'']
     [shown (attachment_name ''csi-b'' ''vm-1'') (ref_attachment ''csi-b'' ''vm-1'')] (\<lambda>w. sys w = ref_state)"
proof -
  have l: "fst (disks_list ref_client (managed_by_filter ref_backend) ref_state)
      = Inr [ref_disk ''csi-a'' ''cluster-1'', ref_disk ''csi-b'' ''cluster-1'']"
    by (simp add: ref_client_def managed_by_filter_def ref_state_def ref_disk_def sdk_user_labels_def
        ref_backend_def managed_by_label_def)
  have a: "fst (atts_list ref_client (managed_by_filter ref_backend) ref_state)
      = Inr [shown (attachment_name ''csi-b'' ''vm-1'') (ref_attachment ''csi-b'' ''vm-1'')]"
    by (simp add: ref_client_def managed_by_filter_def ref_state_def ref_attachment_def shown_def
        sdk_user_labels_def ref_backend_def managed_by_label_def attachment_disk_label_def)
  have s: "snd (disks_list ref_client f c) = c" "snd (atts_list ref_client f c) = c" for f c
    by (simp_all add: ref_client_def)
  have b: "client ref_backend = ref_client" by (simp add: ref_backend_def)
  show ?thesis
    using l a by (auto simp: steady_def ref_controller_def sdk_storage_backend_def sdk_list_disks_def
        sdk_list_attachments_def case_prod_beta b s split: sum.splits)
qed

theorem list_volumes_complete_witness:
  "\<exists>es w'. list_all_volumes 3 (\<lambda>_. True) ref_controller 1 '''' ref_world = Some (Inr es, w') \<and>
     map entry_volume_id es = [''csi-a'', ''csi-b'']"
  using list_volumes_complete [OF ref_steady, of ref_world 3 "\<lambda>_. True" 1]
  by (auto simp: ref_world_def volume_entry_of_def ref_disk_def)

text \<open>C33: \<open>ListVolumes\<close> keys the published nodes by the disk reference of an attachment but looks
  them up by the identifier of the disk, so with qualified references
  (\<open>/compute/.../disks/<id>\<close>) no volume is ever reported as published.\<close>

theorem qualified_refs_lose_published_nodes:
  assumes "no_slash (disk_id d)" and "\<forall>a \<in> set items. \<not> no_slash (att_disk_ref a)"
  shows "entry_published (volume_entry_of (disk_to_vms ready items) d) = None"
proof -
  have "disk_to_vms ready items (disk_id d) = []"
    using assms by (auto simp: disk_to_vms_def filter_empty_conv)
  then show ?thesis by (simp add: volume_entry_of_def)
qed

theorem qualified_refs_lose_published_nodes_witness:
  "entry_published (volume_entry_of (disk_to_vms (\<lambda>_. True) [ref_attachment ''csi-b'' ''vm-1''])
     (ref_disk ''csi-b'' ''cluster-1'')) = None"
  by (rule qualified_refs_lose_published_nodes)
     (simp_all add: ref_disk_def ref_attachment_def no_slash_def ref_client_def)

text \<open>\<open>GetCapacity\<close> reports what the disks of the driver leave of the quota, and zero when they
  exceed it.\<close>

lemma get_capacity_value:
  assumes "list_disks (storage s) w = (Inr disks, w1)"
    and "0 \<le> total_used disks" "total_used disks < 2 ^ 63"
    and "0 \<le> sint (total_capacity_gb s)" "sint (total_capacity_gb s) < 2 ^ 33"
  shows "\<exists>a. get_capacity s w = (Inr a, w1) \<and>
     sint a = max 0 (sint (total_capacity_gb s) * 2 ^ 30 - total_used disks)"
proof -
  let ?gb = "total_capacity_gb s"
  have "sint (?gb * 1024) = sint ?gb * 1024" using assms(4,5) by (subst sint64_mult) simp_all
  then have "sint (?gb * 1024 * 1024) = sint ?gb * 1048576" using assms(4,5) by (subst sint64_mult) simp_all
  then have t: "sint (?gb * 1024 * 1024 * 1024) = sint ?gb * 2 ^ 30"
    using assms(4,5) by (subst sint64_mult) simp_all
  have u: "sint (used_bytes disks) = total_used disks" by (rule sint_used_bytes [OF assms(2,3)])
  have d: "sint (?gb * 1024 * 1024 * 1024 - used_bytes disks) = sint ?gb * 2 ^ 30 - total_used disks"
    unfolding t [symmetric] u [symmetric]
    by (rule sint64_diff) (use assms in \<open>simp_all only: t u\<close>, simp_all)
  show ?thesis
    using d by (auto simp: get_capacity_def assms(1) Let_def go_less_def)
qed

lemma get_capacity_value_witness:
  "\<exists>a w'. get_capacity ref_controller ref_world = (Inr a, w') \<and> sint a = 1000 * 2 ^ 30 - 2 * 2 ^ 30"
proof -
  have l: "fst (list_disks (storage ref_controller) ref_world) = Inr [ref_disk ''csi-a'' ''cluster-1'', ref_disk ''csi-b'' ''cluster-1'']"
    using ref_steady by (simp add: steady_def ref_world_def)
  then have "list_disks (storage ref_controller) ref_world =
      (Inr [ref_disk ''csi-a'' ''cluster-1'', ref_disk ''csi-b'' ''cluster-1''], snd (list_disks (storage ref_controller) ref_world))"
    by (simp add: prod_eq_iff)
  from get_capacity_value [OF this] show ?thesis
    by (auto simp: total_used_def sint_disk_bytes ref_disk_def ref_controller_def)
qed

end
