(* ===== verification/Mock_Filesystem.thy ===== *)
theory Mock_Filesystem
  imports Mock_Storage Fs_Contract Node
begin

text \<open>
  The file system and the Kubernetes client of the sanity tests (\<open>test/mocks/filesystem.go\<close>,
  \<open>test/mocks/kubernetes.go\<close>): mounts and formats are kept in maps, files are real. The mock
  meets the part of \<open>fs_contract\<close> that a map from targets to sources can: it records one mount
  per target, so mounting twice and unmounting once leaves no mount.
\<close>

record 'k mock_fs =
  mf_formatted :: "(string \<times> string) list"
  mf_mounts :: "(string \<times> string) list"
  mf_os :: 'k

definition on_file :: "('k \<Rightarrow> 'r \<times> 'k) \<Rightarrow> 'k mock_fs \<Rightarrow> 'r \<times> 'k mock_fs" where
  "on_file f m = (case f (mf_os m) of (r, k) \<Rightarrow> (r, m\<lparr>mf_os := k\<rparr>))"

definition new_mock_fs :: "'k \<Rightarrow> 'k mock_fs" where
  "new_mock_fs k = \<lparr>mf_formatted = [], mf_mounts = [], mf_os = k\<rparr>"

definition mock_wait_for_device :: "'k file_ops \<Rightarrow> string \<Rightarrow> i64 \<Rightarrow> 'k mock_fs go_err" where
  "mock_wait_for_device fo path timeout m =
     (case on_file (os_stat fo path) m of
        (Some e, m1) \<Rightarrow>
          (Some (if is_not_exist e then plain_error (''device '' @ path @ '' not found'') else e), m1)
      | (None, m1) \<Rightarrow> (None, m1))"

definition mock_scan_for_device :: "'k file_ops \<Rightarrow> string \<Rightarrow> string \<Rightarrow> string \<Rightarrow> ('k mock_fs, string) go" where
  "mock_scan_for_device fo by_id serial pattern m =
     (let path = filepath_join by_id (pattern @ serial)
      in case on_file (os_stat fo path) m of
           (Some e, m1) \<Rightarrow>
             (Inl (if is_not_exist e then plain_error (''device with serial '' @ serial @ '' not found'') else e), m1)
         | (None, m1) \<Rightarrow> (Inr path, m1))"

definition mock_is_formatted :: "string \<Rightarrow> ('k mock_fs, bool) go" where
  "mock_is_formatted path m = (Inr (map_of (mf_formatted m) path \<noteq> None), m)"

definition mock_format :: "'k file_ops \<Rightarrow> string \<Rightarrow> string \<Rightarrow> 'k mock_fs go_err" where
  "mock_format fo path fs_type m =
     (case on_file (os_stat fo path) m of
        (Some e, m1) \<Rightarrow> (Some (wrap_error ''device does not exist: '' e), m1)
      | (None, m1) \<Rightarrow> (None, m1\<lparr>mf_formatted := (path, fs_type) # mf_formatted m1\<rparr>))"

definition mock_repair :: "'k file_ops \<Rightarrow> string \<Rightarrow> string \<Rightarrow> 'k mock_fs go_err" where
  "mock_repair fo path fs_type m =
     (case on_file (os_stat fo path) m of
        (Some e, m1) \<Rightarrow> (Some (wrap_error ''device does not exist: '' e), m1)
      | (None, m1) \<Rightarrow> (None, m1))"

definition mock_resize_fs :: "'k file_ops \<Rightarrow> string \<Rightarrow> string \<Rightarrow> string \<Rightarrow> 'k mock_fs go_err" where
  "mock_resize_fs fo path mount_path fs_type m =
     (case on_file (os_stat fo path) m of
        (Some e, m1) \<Rightarrow> (Some (wrap_error ''device does not exist: '' e), m1)
      | (None, m1) \<Rightarrow> (None, m1))"

definition mock_is_block :: "'k file_ops \<Rightarrow> string \<Rightarrow> ('k mock_fs, bool) go" where
  "mock_is_block fo path m =
     (if filepath_dir path = mock_device_by_id_path then
        (case on_file (os_stat fo path) m of (r, m1) \<Rightarrow> (Inr (r = None), m1))
      else (Inr False, m))"

definition mock_mount :: "'k file_ops \<Rightarrow> string \<Rightarrow> string \<Rightarrow> string \<Rightarrow> i64 \<Rightarrow> string \<Rightarrow> 'k mock_fs go_err" where
  "mock_mount fo source target fs_type flags options m =
     (case on_file (os_stat fo source) m of
        (Some e, m1) \<Rightarrow> (Some (wrap_error ''source does not exist: '' e), m1)
      | (None, m1) \<Rightarrow> (None, m1\<lparr>mf_mounts := (target, source) # drop_key target (mf_mounts m1)\<rparr>))"

definition mock_unmount :: "string \<Rightarrow> int \<Rightarrow> 'k mock_fs go_err" where
  "mock_unmount target flags m =
     (if map_of (mf_mounts m) target = None then (None, m)
      else (None, m\<lparr>mf_mounts := drop_key target (mf_mounts m)\<rparr>))"

definition mock_is_mount_point :: "string \<Rightarrow> ('k mock_fs, bool) go" where
  "mock_is_mount_point path m = (Inr (map_of (mf_mounts m) path \<noteq> None), m)"

definition mock_max_bind_mount_hops :: nat where
  "mock_max_bind_mount_hops = 10"

fun mock_find_hops :: "(string \<times> string) list \<Rightarrow> string \<Rightarrow> nat \<Rightarrow> string \<Rightarrow> go_error + string" where
  "mock_find_hops mounts path 0 current =
     Inl (plain_error (''could not resolve device for path '' @ path @ '' (bind-mount chain too deep)''))"
| "mock_find_hops mounts path (Suc n) current =
     (case map_of mounts current of
        None \<Rightarrow> Inl (plain_error (''mount point '' @ path @ '' not found''))
      | Some source \<Rightarrow>
          if map_of mounts source = None then Inr source else mock_find_hops mounts path n source)"

definition mock_find_device :: "string \<Rightarrow> ('k mock_fs, string) go" where
  "mock_find_device path m = (mock_find_hops (mf_mounts m) path mock_max_bind_mount_hops path, m)"

definition mock_mkdir_all :: "'k file_ops \<Rightarrow> string \<Rightarrow> nat \<Rightarrow> 'k mock_fs go_err" where
  "mock_mkdir_all fo path perm = on_file (os_mkdir_all fo path perm)"

definition mock_remove_all :: "'k file_ops \<Rightarrow> string \<Rightarrow> 'k mock_fs go_err" where
  "mock_remove_all fo path = on_file (os_remove_all fo path)"

definition mock_create_file :: "'k file_ops \<Rightarrow> string \<Rightarrow> nat \<Rightarrow> 'k mock_fs go_err" where
  "mock_create_file fo path perm m =
     (case on_file (os_mkdir_all fo (filepath_dir path) 493) m of
        (Some e, m1) \<Rightarrow> (Some (wrap_error ''failed to create parent directory: '' e), m1)
      | (None, m1) \<Rightarrow>
          (case on_file (os_create fo path) m1 of
             (Some e, m2) \<Rightarrow> (Some e, m2)
           | (None, m2) \<Rightarrow>
               (case on_file (os_close fo path) m2 of
                  (Some e, m3) \<Rightarrow> (Some (wrap_error ''failed to close file: '' e), m3)
                | (None, m3) \<Rightarrow> on_file (os_chmod fo path perm) m3)))"

definition mock_path_exists :: "'k file_ops \<Rightarrow> string \<Rightarrow> ('k mock_fs, bool) go" where
  "mock_path_exists fo path m =
     (if map_of (mf_mounts m) path \<noteq> None then (Inr True, m)
      else
        (case on_file (os_stat fo path) m of
           (None, m1) \<Rightarrow> (Inr True, m1)
         | (Some e, m1) \<Rightarrow> if is_not_exist e then (Inr False, m1) else (Inl e, m1)))"

definition mock_stats :: "string \<Rightarrow> ('k mock_fs, fs_stats) go" where
  "mock_stats path m =
     (Inr \<lparr>total_bytes = 100 * 1024 * 1024 * 1024, available_bytes = 50 * 1024 * 1024 * 1024,
           used_bytes_of = 50 * 1024 * 1024 * 1024, total_inodes = 1000000, available_inodes = 500000,
           used_inodes = 500000\<rparr>, m)"

text \<open>\<open>MockFilesystemOperations\<close> as an implementation of the interface.\<close>

definition mock_operations :: "'k file_ops \<Rightarrow> 'k mock_fs fs_ops" where
  "mock_operations fo =
     \<lparr>fs_wait_for_device = (\<lambda>p t. on_sys (mock_wait_for_device fo p t)),
      fs_is_device_formatted = (\<lambda>p. on_sys (mock_is_formatted p)),
      fs_format_device = (\<lambda>p t. on_sys (mock_format fo p t)),
      fs_repair_filesystem = (\<lambda>p t. on_sys (mock_repair fo p t)),
      fs_resize_filesystem = (\<lambda>p q t. on_sys (mock_resize_fs fo p q t)),
      fs_is_block_device = (\<lambda>p. on_sys (mock_is_block fo p)),
      fs_mount = (\<lambda>s t ft fl opt. on_sys (mock_mount fo s t ft fl opt)),
      fs_unmount = (\<lambda>t fl. on_sys (mock_unmount t fl)),
      fs_is_mount_point = (\<lambda>p. on_sys (mock_is_mount_point p)),
      fs_find_device_for_path = (\<lambda>p. on_sys (mock_find_device p)),
      fs_mkdir_all = (\<lambda>p perm. on_sys (mock_mkdir_all fo p perm)),
      fs_remove_all = (\<lambda>p. on_sys (mock_remove_all fo p)),
      fs_create_file = (\<lambda>p perm. on_sys (mock_create_file fo p perm)),
      fs_path_exists = (\<lambda>p. on_sys (mock_path_exists fo p)),
      fs_get_stats = (\<lambda>p. on_sys (mock_stats p))\<rparr>"

section \<open>The Kubernetes client\<close>

text \<open>A fake client set that holds one node, with or without a zone.\<close>

definition mock_kube :: "string \<Rightarrow> (string \<rightharpoonup> string) \<Rightarrow> 'k kube_client" where
  "mock_kube nid labels =
     \<lparr>kube_get_node = (\<lambda>n k. (if n = nid then Inr labels else Inl (plain_error ''node not found''), k)),
      kube_get_pv = (\<lambda>_ k. (Inl (plain_error ''persistent volume not found''), k)),
      kube_list_vas = (\<lambda>k. (Inr [], k))\<rparr>"

definition new_mock_kubernetes_client :: "string \<Rightarrow> string \<Rightarrow> 'k kube_client" where
  "new_mock_kubernetes_client nid zone = mock_kube nid [zone_key \<mapsto> zone]"

definition new_mock_kubernetes_client_without_zone :: "string \<Rightarrow> 'k kube_client" where
  "new_mock_kubernetes_client_without_zone nid = mock_kube nid Map.empty"

definition mock_get_node_zone :: "'k kube_client \<Rightarrow> string \<Rightarrow> 'k \<Rightarrow> string \<times> bool" where
  "mock_get_node_zone kc nid k =
     (case fst (kube_get_node kc nid k) of
        Inl _ \<Rightarrow> ('''', False)
      | Inr labels \<Rightarrow> (case labels zone_key of None \<Rightarrow> ('''', False) | Some z \<Rightarrow> (z, True)))"

section \<open>Lemmas\<close>

text \<open>The walk over the mounts ends at a source that is not itself a mount.\<close>

lemma mock_find_hops_Inr:
  "mock_find_hops mounts path n cur = Inr dev \<Longrightarrow>
     map_of mounts dev = None \<and> (\<exists>t. map_of mounts t = Some dev)"
  by (induction n arbitrary: cur) (auto split: option.splits if_splits)

lemma mock_mount_then_mounted:
  assumes "fst (mock_mount fo src tgt ft fl opt m) = None"
  shows "fst (mock_is_mount_point tgt (snd (mock_mount fo src tgt ft fl opt m))) = Inr True"
  using assms by (auto simp: mock_mount_def mock_is_mount_point_def split: prod.splits option.splits)

lemma mock_unmount_then_not_mounted:
  "fst (mock_is_mount_point tgt (snd (mock_unmount tgt fl m))) = Inr False"
  by (simp add: mock_unmount_def mock_is_mount_point_def map_of_drop_key)

end
