(* ===== verification/Collectors.thy ===== *)
theory Collectors
  imports Metrics Complex_Main "HOL-Library.Monad_Syntax" "HOL-Library.Sublist"
begin

text \<open>
  The Prometheus vectors behind the metrics manager (\<open>pkg/metrics/metrics.go\<close>): which vectors the
  manager creates, with which names, labels and buckets, how it registers them, and how each of its
  operations reaches a vector. \<open>WithLabelValues\<close> panics when the number of values is not the number of
  labels; a result \<open>None\<close> is that panic. Durations are exact fractions of a second and sizes
  integers, not float64. The refinement lemma shows that no operation of the manager panics and
  that together they are the operations of the theory \<open>Metrics\<close>, over which the services are modelled.
\<close>

section \<open>Vectors\<close>

datatype metric_kind = Counter | Gauge | Histogram "rat list"

record desc =
  d_kind :: metric_kind
  d_name :: string
  d_help :: string
  d_labels :: "string list"

record 'v vec =
  vec_desc :: desc
  vec_values :: "string list \<rightharpoonup> 'v"

definition new_vec :: "metric_kind \<Rightarrow> string \<Rightarrow> string \<Rightarrow> string list \<Rightarrow> 'v vec" where
  "new_vec k n h ls = \<lparr>vec_desc = \<lparr>d_kind = k, d_name = n, d_help = h, d_labels = ls\<rparr>, vec_values = Map.empty\<rparr>"

definition vec_value :: "'v \<Rightarrow> 'v vec \<Rightarrow> string list \<Rightarrow> 'v" where
  "vec_value zero v ls = (case vec_values v ls of None \<Rightarrow> zero | Some x \<Rightarrow> x)"

text \<open>\<open>WithLabelValues\<close> followed by an update; the metric of new label values starts at zero. A wrong
  number of values is a panic. The library also panics on a value that is not UTF-8, which the labels of
  this program (literals, error types, and volume names, which protobuf checks to be UTF-8) never are.\<close>

definition with_label_values :: "'v \<Rightarrow> string list \<Rightarrow> ('v \<Rightarrow> 'v) \<Rightarrow> 'v vec \<Rightarrow> 'v vec option" where
  "with_label_values zero ls f v =
     (if length ls = length (d_labels (vec_desc v))
      then Some (v\<lparr>vec_values := (vec_values v)(ls \<mapsto> f (vec_value zero v ls))\<rparr>) else None)"

definition inc_vec :: "string list \<Rightarrow> nat vec \<Rightarrow> nat vec option" where
  "inc_vec ls = with_label_values 0 ls Suc"

definition observe_vec :: "string list \<Rightarrow> rat \<Rightarrow> rat list vec \<Rightarrow> rat list vec option" where
  "observe_vec ls x = with_label_values [] ls (\<lambda>xs. xs @ [x])"

definition add_vec :: "string list \<Rightarrow> int \<Rightarrow> int vec \<Rightarrow> int vec option" where
  "add_vec ls d = with_label_values 0 ls (\<lambda>x. x + d)"

definition set_vec :: "string list \<Rightarrow> int \<Rightarrow> int vec \<Rightarrow> int vec option" where
  "set_vec ls y = with_label_values 0 ls (\<lambda>_. y)"

definition delete_label_values :: "string list \<Rightarrow> 'v vec \<Rightarrow> 'v vec" where
  "delete_label_values ls v =
     (if length ls = length (d_labels (vec_desc v)) then v\<lparr>vec_values := (vec_values v)(ls := None)\<rparr> else v)"

section \<open>The manager\<close>

record op_vecs =
  ov_total :: "nat vec"
  ov_duration :: "rat list vec"
  ov_errors :: "nat vec"

record 'r manager =
  registry :: 'r
  volume_vecs :: op_vecs
  node_vecs :: op_vecs
  api_vecs :: op_vecs
  auth_vecs :: op_vecs
  volumes_vec :: "int vec"
  volume_size_vec :: "int vec"
  attachments_vec :: "int vec"

definition metrics_namespace :: string where
  "metrics_namespace = ''evroc_csi''"

definition initialize_volume_vecs :: op_vecs where
  "initialize_volume_vecs =
     \<lparr>ov_total = new_vec Counter ''volume_operations_total''
        ''Total number of volume operations by type and status'' [''operation'', ''status''],
      ov_duration = new_vec (Histogram [1/10, 1/2, 1, 2, 5, 10, 30, 60, 120]) ''volume_operations_duration_seconds''
        ''Duration of volume operations in seconds'' [''operation''],
      ov_errors = new_vec Counter ''volume_operations_errors_total''
        ''Total number of volume operation errors by type'' [''operation'', ''error_type'']\<rparr>"

definition initialize_node_vecs :: op_vecs where
  "initialize_node_vecs =
     \<lparr>ov_total = new_vec Counter ''node_operations_total''
        ''Total number of node operations by type and status'' [''operation'', ''status''],
      ov_duration = new_vec (Histogram [1/100, 1/20, 1/10, 1/2, 1, 2, 5, 10]) ''node_operations_duration_seconds''
        ''Duration of node operations in seconds'' [''operation''],
      ov_errors = new_vec Counter ''node_operations_errors_total''
        ''Total number of node operation errors by type'' [''operation'', ''error_type'']\<rparr>"

definition initialize_api_vecs :: op_vecs where
  "initialize_api_vecs =
     \<lparr>ov_total = new_vec Counter ''api_calls_total''
        ''Total number of API calls by method and status'' [''method'', ''status''],
      ov_duration = new_vec (Histogram [1/100, 1/20, 1/10, 1/2, 1, 2, 5]) ''api_calls_duration_seconds''
        ''Duration of API calls in seconds'' [''method''],
      ov_errors = new_vec Counter ''api_calls_errors_total''
        ''Total number of API call errors by method and type'' [''method'', ''error_type'']\<rparr>"

definition initialize_auth_vecs :: op_vecs where
  "initialize_auth_vecs =
     \<lparr>ov_total = new_vec Counter ''auth_operations_total''
        ''Total number of authentication operations by operation type and status'' [''operation'', ''status''],
      ov_duration = new_vec (Histogram [1/100, 1/20, 1/10, 1/2, 1, 2, 5, 10, 30]) ''auth_operations_duration_seconds''
        ''Duration of authentication operations in seconds'' [''operation''],
      ov_errors = new_vec Counter ''auth_operations_errors_total''
        ''Total number of authentication operation errors by operation and error type'' [''operation'', ''error_type'']\<rparr>"

definition initialize_manager :: "'r \<Rightarrow> 'r manager" where
  "initialize_manager r =
     \<lparr>registry = r, volume_vecs = initialize_volume_vecs, node_vecs = initialize_node_vecs,
      api_vecs = initialize_api_vecs, auth_vecs = initialize_auth_vecs,
      volumes_vec = new_vec Gauge ''volumes_total'' ''Total number of volumes by state'' [''state''],
      volume_size_vec = new_vec Gauge ''volume_size_bytes'' ''Size of volumes in bytes'' [''volume_id''],
      attachments_vec =
        new_vec Gauge ''attachments_total'' ''Total number of volume attachments by state'' [''state'']\<rparr>"

lemmas initialize_vecs_defs =
  initialize_manager_def initialize_volume_vecs_def initialize_node_vecs_def initialize_api_vecs_def
  initialize_auth_vecs_def new_vec_def

section \<open>Registration\<close>

datatype collector = GoCollector | ProcessCollector | VecCollector desc

record 'r registry_ops =
  new_registry :: 'r
  reg_register :: "collector \<Rightarrow> 'r \<Rightarrow> 'r option"

fun must_register :: "'r registry_ops \<Rightarrow> collector list \<Rightarrow> 'r \<Rightarrow> 'r option" where
  "must_register ro [] r = Some r"
| "must_register ro (c # cs) r = (case reg_register ro c r of None \<Rightarrow> None | Some r1 \<Rightarrow> must_register ro cs r1)"

definition op_descs :: "op_vecs \<Rightarrow> desc list" where
  "op_descs v = [vec_desc (ov_total v), vec_desc (ov_duration v), vec_desc (ov_errors v)]"

definition manager_descs :: "'r manager \<Rightarrow> desc list" where
  "manager_descs m =
     op_descs (volume_vecs m) @ [vec_desc (volumes_vec m), vec_desc (volume_size_vec m)] @
     op_descs (node_vecs m) @ [vec_desc (attachments_vec m)] @ op_descs (api_vecs m) @ op_descs (auth_vecs m)"

definition new_manager :: "'r registry_ops \<Rightarrow> 'r manager option" where
  "new_manager ro =
     do { r1 \<leftarrow> must_register ro [GoCollector] (new_registry ro);
          r2 \<leftarrow> must_register ro [ProcessCollector] r1;
          let m = initialize_manager r2;
          r3 \<leftarrow> must_register ro (map VecCollector (manager_descs m)) r2;
          Some (m\<lparr>registry := r3\<rparr>) }"

definition new_no_op_manager :: "'r registry_ops \<Rightarrow> 'r manager" where
  "new_no_op_manager ro = initialize_manager (new_registry ro)"

definition fq_name :: "desc \<Rightarrow> string" where
  "fq_name d = metrics_namespace @ ''_'' @ d_name d"

text \<open>
  The contract of the registry: a registration succeeds if the registry has none of the names of
  the collector, and then has all of them. The names of the Go and of the process collector start with
  \<open>go_\<close> and \<open>process_\<close>.
\<close>

locale prometheus =
  fixes ro :: "'r registry_ops" and names :: "'r \<Rightarrow> string set" and describes :: "collector \<Rightarrow> string set"
  assumes empty_registry: "names (new_registry ro) = {}"
    and registers: "describes c \<inter> names r = {} \<Longrightarrow>
      \<exists>r'. reg_register ro c r = Some r' \<and> names r' = describes c \<union> names r"
    and vec_name: "describes (VecCollector d) = {fq_name d}"
    and go_names: "n \<in> describes GoCollector \<Longrightarrow> prefix ''go_'' n"
    and process_names: "n \<in> describes ProcessCollector \<Longrightarrow> prefix ''process_'' n"
begin

lemma register_vecs:
  assumes "distinct (map fq_name ds)" "fq_name ` set ds \<inter> names r = {}"
  shows "\<exists>r'. must_register ro (map VecCollector ds) r = Some r' \<and> names r' = fq_name ` set ds \<union> names r"
  using assms
proof (induction ds arbitrary: r)
  case (Cons d ds)
  from Cons.prems registers [of "VecCollector d" r]
  obtain r1 where r1: "reg_register ro (VecCollector d) r = Some r1" "names r1 = {fq_name d} \<union> names r"
    by (auto simp: vec_name)
  moreover have "fq_name ` set ds \<inter> names r1 = {}" using Cons.prems r1(2) by auto
  ultimately show ?case using Cons.IH [of r1] Cons.prems(1) by auto
qed simp

end

lemma manager_names_distinct: "distinct (map fq_name (manager_descs (initialize_manager r)))"
  by (simp add: manager_descs_def op_descs_def initialize_vecs_defs fq_name_def)

lemma manager_names_first: "n \<in> fq_name ` set (manager_descs m) \<Longrightarrow> hd n = CHR ''e''"
  by (auto simp: fq_name_def metrics_namespace_def)

lemma prefix_first: "prefix (c # p) n \<Longrightarrow> hd n = c"
  by (auto simp: prefix_def)

lemma manager_buckets_increase:
  "d \<in> set (manager_descs (initialize_manager r)) \<Longrightarrow> d_kind d = Histogram bs \<Longrightarrow> sorted_wrt (<) bs"
  by (auto simp: manager_descs_def op_descs_def initialize_vecs_defs)


context prometheus
begin

lemma new_manager_registers:
  "\<exists>r. new_manager ro = Some (initialize_manager r) \<and> fq_name ` set (manager_descs (initialize_manager r)) \<subseteq> names r"
proof -
  obtain r1 where r1: "must_register ro [GoCollector] (new_registry ro) = Some r1" "names r1 = describes GoCollector"
    using registers [of GoCollector "new_registry ro"] by (auto simp: empty_registry)
  have g: "hd n = CHR ''g''" if "n \<in> describes GoCollector" for n using go_names [OF that] by (rule prefix_first)
  have p: "hd n = CHR ''p''" if "n \<in> describes ProcessCollector" for n using process_names [OF that] by (rule prefix_first)
  have "n \<notin> names r1" if "n \<in> describes ProcessCollector" for n using g [of n] p [OF that] r1(2) by auto
  then have "describes ProcessCollector \<inter> names r1 = {}" by blast
  from registers [OF this] obtain r2 where r2: "must_register ro [ProcessCollector] r1 = Some r2"
    and n2: "names r2 = describes ProcessCollector \<union> describes GoCollector"
    using r1(2) by auto
  have "n \<notin> names r2" if "n \<in> fq_name ` set (manager_descs (initialize_manager r2))" for n
    using g [of n] p [of n] manager_names_first [OF that] n2 by auto
  then have "fq_name ` set (manager_descs (initialize_manager r2)) \<inter> names r2 = {}" by blast
  from register_vecs [OF manager_names_distinct this] obtain r3 where
    r3: "must_register ro (map VecCollector (manager_descs (initialize_manager r2))) r2 = Some r3"
      "names r3 = fq_name ` set (manager_descs (initialize_manager r2)) \<union> names r2" by blast
  have same: "initialize_manager r2\<lparr>registry := r3\<rparr> = initialize_manager r3"
    "manager_descs (initialize_manager r2) = manager_descs (initialize_manager r3)"
    by (simp_all add: initialize_manager_def manager_descs_def)
  show ?thesis
    using r1(1) r2 r3 same by (intro exI [of _ r3]) (simp add: new_manager_def Let_def del: must_register.simps)
qed

end

text \<open>A registry that is the list of its names.\<close>

fun ref_describes :: "collector \<Rightarrow> string list" where
  "ref_describes GoCollector = [''go_goroutines'', ''go_threads'']"
| "ref_describes ProcessCollector = [''process_open_fds'']"
| "ref_describes (VecCollector d) = [fq_name d]"

definition ref_registry :: "string list registry_ops" where
  "ref_registry =
     \<lparr>new_registry = [], reg_register = (\<lambda>c r. if list_ex (\<lambda>n. n \<in> set r) (ref_describes c) then None
                                             else Some (ref_describes c @ r))\<rparr>"

interpretation ref_prometheus: prometheus ref_registry set "\<lambda>c. set (ref_describes c)"
  by unfold_locales (auto simp: ref_registry_def list_ex_iff)

section \<open>The operations\<close>

definition vecs_success :: "string \<Rightarrow> rat \<Rightarrow> op_vecs \<Rightarrow> op_vecs option" where
  "vecs_success operation duration v =
     do { d \<leftarrow> observe_vec [operation] duration (ov_duration v);
          t \<leftarrow> inc_vec [operation, ''success''] (ov_total v);
          Some (v\<lparr>ov_duration := d, ov_total := t\<rparr>) }"

definition vecs_failure :: "string \<Rightarrow> rat \<Rightarrow> string \<Rightarrow> op_vecs \<Rightarrow> op_vecs option" where
  "vecs_failure operation duration error_type v =
     do { d \<leftarrow> observe_vec [operation] duration (ov_duration v);
          t \<leftarrow> inc_vec [operation, ''failure''] (ov_total v);
          e \<leftarrow> inc_vec [operation, error_type] (ov_errors v);
          Some (v\<lparr>ov_duration := d, ov_total := t, ov_errors := e\<rparr>) }"

datatype metric_call =
    VolumeOperation string rat
  | VolumeOperationError string rat string
  | NodeOperation string rat
  | NodeOperationError string rat string
  | APICall string rat
  | APICallError string rat string
  | AuthOperation string rat
  | AuthOperationError string rat string
  | AttachmentState string int
  | SetAttachmentState string int
  | VolumeState string int
  | SetVolumeSize string int
  | DeleteVolumeSize string

fun manager_step :: "metric_call \<Rightarrow> 'r manager \<Rightarrow> 'r manager option" where
  "manager_step (VolumeOperation o' d) m = map_option (\<lambda>v. m\<lparr>volume_vecs := v\<rparr>) (vecs_success o' d (volume_vecs m))"
| "manager_step (VolumeOperationError o' d e) m = map_option (\<lambda>v. m\<lparr>volume_vecs := v\<rparr>) (vecs_failure o' d e (volume_vecs m))"
| "manager_step (NodeOperation o' d) m = map_option (\<lambda>v. m\<lparr>node_vecs := v\<rparr>) (vecs_success o' d (node_vecs m))"
| "manager_step (NodeOperationError o' d e) m = map_option (\<lambda>v. m\<lparr>node_vecs := v\<rparr>) (vecs_failure o' d e (node_vecs m))"
| "manager_step (APICall o' d) m = map_option (\<lambda>v. m\<lparr>api_vecs := v\<rparr>) (vecs_success o' d (api_vecs m))"
| "manager_step (APICallError o' d e) m = map_option (\<lambda>v. m\<lparr>api_vecs := v\<rparr>) (vecs_failure o' d e (api_vecs m))"
| "manager_step (AuthOperation o' d) m = map_option (\<lambda>v. m\<lparr>auth_vecs := v\<rparr>) (vecs_success o' d (auth_vecs m))"
| "manager_step (AuthOperationError o' d e) m = map_option (\<lambda>v. m\<lparr>auth_vecs := v\<rparr>) (vecs_failure o' d e (auth_vecs m))"
| "manager_step (AttachmentState st d) m = map_option (\<lambda>v. m\<lparr>attachments_vec := v\<rparr>) (add_vec [st] d (attachments_vec m))"
| "manager_step (SetAttachmentState st y) m = map_option (\<lambda>v. m\<lparr>attachments_vec := v\<rparr>) (set_vec [st] y (attachments_vec m))"
| "manager_step (VolumeState st d) m = map_option (\<lambda>v. m\<lparr>volumes_vec := v\<rparr>) (add_vec [st] d (volumes_vec m))"
| "manager_step (SetVolumeSize vid y) m = map_option (\<lambda>v. m\<lparr>volume_size_vec := v\<rparr>) (set_vec [vid] y (volume_size_vec m))"
| "manager_step (DeleteVolumeSize vid) m = Some (m\<lparr>volume_size_vec := delete_label_values [vid] (volume_size_vec m)\<rparr>)"

fun manager_run :: "metric_call list \<Rightarrow> 'r manager \<Rightarrow> 'r manager option" where
  "manager_run [] m = Some m"
| "manager_run (c # cs) m = (case manager_step c m of None \<Rightarrow> None | Some m1 \<Rightarrow> manager_run cs m1)"

section \<open>Refinement\<close>

fun metric_effect :: "metric_call \<Rightarrow> metrics \<Rightarrow> metrics" where
  "metric_effect (VolumeOperation o' d) = record_volume_operation o'"
| "metric_effect (VolumeOperationError o' d e) = record_volume_operation_error o' e"
| "metric_effect (NodeOperation o' d) = record_node_operation o'"
| "metric_effect (NodeOperationError o' d e) = record_node_operation_error o' e"
| "metric_effect (APICall o' d) = record_api_call o'"
| "metric_effect (APICallError o' d e) = record_api_call_error o' e"
| "metric_effect (AuthOperation o' d) = record_auth_operation o'"
| "metric_effect (AuthOperationError o' d e) = record_auth_operation_error o' e"
| "metric_effect (AttachmentState st d) = update_attachment_state st d"
| "metric_effect (SetAttachmentState st y) = set_attachment_state st y"
| "metric_effect (VolumeState st d) = update_volume_state st d"
| "metric_effect (SetVolumeSize vid y) = set_volume_size vid y"
| "metric_effect (DeleteVolumeSize vid) = delete_volume_size vid"

definition abs_ops :: "op_vecs \<Rightarrow> op_metrics" where
  "abs_ops v =
     \<lparr>op_total = (\<lambda>(o', st). vec_value 0 (ov_total v) [o', st]),
      op_duration = (\<lambda>o'. length (vec_value [] (ov_duration v) [o'])),
      op_errors = (\<lambda>(o', e). vec_value 0 (ov_errors v) [o', e])\<rparr>"

definition abs_manager :: "'r manager \<Rightarrow> metrics" where
  "abs_manager m =
     \<lparr>volume_ops = abs_ops (volume_vecs m), node_ops = abs_ops (node_vecs m),
      api_calls = abs_ops (api_vecs m), auth_ops = abs_ops (auth_vecs m),
      volumes_total = (\<lambda>st. vec_value 0 (volumes_vec m) [st]),
      volume_size_bytes = (\<lambda>vid. vec_values (volume_size_vec m) [vid]),
      attachments_total = (\<lambda>st. vec_value 0 (attachments_vec m) [st])\<rparr>"

text \<open>The number of labels of each vector, which is what keeps \<open>WithLabelValues\<close> from panicking.\<close>

definition arity :: "nat \<Rightarrow> 'v vec \<Rightarrow> bool" where
  "arity n v \<longleftrightarrow> length (d_labels (vec_desc v)) = n"

definition ops_arity :: "op_vecs \<Rightarrow> bool" where
  "ops_arity v \<longleftrightarrow> arity 2 (ov_total v) \<and> arity 1 (ov_duration v) \<and> arity 2 (ov_errors v)"

definition manager_arity :: "'r manager \<Rightarrow> bool" where
  "manager_arity m \<longleftrightarrow> ops_arity (volume_vecs m) \<and> ops_arity (node_vecs m) \<and> ops_arity (api_vecs m) \<and>
     ops_arity (auth_vecs m) \<and> arity 1 (volumes_vec m) \<and> arity 1 (volume_size_vec m) \<and> arity 1 (attachments_vec m)"

lemma with_label_values_arity:
  "arity n v \<Longrightarrow> length ls = n \<Longrightarrow>
     with_label_values z ls f v = Some (v\<lparr>vec_values := (vec_values v)(ls \<mapsto> f (vec_value z v ls))\<rparr>)"
  by (simp add: with_label_values_def arity_def)

lemma arity_update [simp]: "arity n (v\<lparr>vec_values := vs\<rparr>) = arity n v"
  by (simp add: arity_def)

lemma vec_value_update [simp]:
  "vec_value z (v\<lparr>vec_values := (vec_values v)(ls \<mapsto> x)\<rparr>) ls' = (if ls' = ls then x else vec_value z v ls')"
  by (simp add: vec_value_def)

lemmas vec_step_defs = inc_vec_def observe_vec_def add_vec_def set_vec_def delete_label_values_def

lemma vecs_success_refines:
  "ops_arity v \<Longrightarrow> \<exists>v'. vecs_success o' d v = Some v' \<and> ops_arity v' \<and> abs_ops v' = op_success o' (abs_ops v)"
  by (auto simp: vecs_success_def vec_step_defs with_label_values_arity ops_arity_def abs_ops_def op_success_def
      count_up_def fun_eq_iff)

lemma vecs_failure_refines:
  "ops_arity v \<Longrightarrow> \<exists>v'. vecs_failure o' d e v = Some v' \<and> ops_arity v' \<and> abs_ops v' = op_failure o' e (abs_ops v)"
  by (auto simp: vecs_failure_def vec_step_defs with_label_values_arity ops_arity_def abs_ops_def op_failure_def
      count_up_def fun_eq_iff)

lemma manager_step_refines:
  assumes "manager_arity m"
  shows "\<exists>m'. manager_step c m = Some m' \<and> manager_arity m' \<and> abs_manager m' = metric_effect c (abs_manager m)"
proof -
  note arities = assms [unfolded manager_arity_def]
  note ok = vecs_success_refines vecs_failure_refines
  show ?thesis
  proof (cases c)
    case (VolumeOperation o' d)
    with arities ok(1) [of "volume_vecs m" o' d] show ?thesis by (auto simp: manager_arity_def abs_manager_def metrics_defs)
  next
    case (VolumeOperationError o' d e)
    with arities ok(2) [of "volume_vecs m" o' d e] show ?thesis by (auto simp: manager_arity_def abs_manager_def metrics_defs)
  next
    case (NodeOperation o' d)
    with arities ok(1) [of "node_vecs m" o' d] show ?thesis by (auto simp: manager_arity_def abs_manager_def metrics_defs)
  next
    case (NodeOperationError o' d e)
    with arities ok(2) [of "node_vecs m" o' d e] show ?thesis by (auto simp: manager_arity_def abs_manager_def metrics_defs)
  next
    case (APICall o' d)
    with arities ok(1) [of "api_vecs m" o' d] show ?thesis by (auto simp: manager_arity_def abs_manager_def metrics_defs)
  next
    case (APICallError o' d e)
    with arities ok(2) [of "api_vecs m" o' d e] show ?thesis by (auto simp: manager_arity_def abs_manager_def metrics_defs)
  next
    case (AuthOperation o' d)
    with arities ok(1) [of "auth_vecs m" o' d] show ?thesis by (auto simp: manager_arity_def abs_manager_def metrics_defs)
  next
    case (AuthOperationError o' d e)
    with arities ok(2) [of "auth_vecs m" o' d e] show ?thesis by (auto simp: manager_arity_def abs_manager_def metrics_defs)
  qed (use arities in \<open>auto simp: vec_step_defs with_label_values_arity manager_arity_def abs_manager_def metrics_defs
        fun_eq_iff arity_def\<close>)
qed

lemma initialize_refines:
  "manager_arity (initialize_manager r)" "abs_manager (initialize_manager r) = initialize_metrics"
  by (auto simp: manager_arity_def ops_arity_def arity_def initialize_vecs_defs abs_manager_def abs_ops_def
      initialize_metrics_def initialize_op_metrics_def vec_value_def fun_eq_iff)

lemma manager_run_refines:
  "manager_arity m \<Longrightarrow>
     \<exists>m'. manager_run calls m = Some m' \<and> abs_manager m' = fold metric_effect calls (abs_manager m)"
proof (induction calls arbitrary: m)
  case (Cons c cs)
  from manager_step_refines [OF Cons.prems, of c] obtain m1 where
    "manager_step c m = Some m1" "manager_arity m1" "abs_manager m1 = metric_effect c (abs_manager m)" by blast
  with Cons.IH [of m1] show ?case by auto
qed simp

text \<open>
  C30: The metrics manager never panics: every operation gives each vector as many label values as it
  has labels, and any sequence of operations has the effect of the abstract counters and gauges.
\<close>

theorem manager_refines_metrics:
  "\<exists>m. manager_run calls (initialize_manager r) = Some m \<and>
     abs_manager m = fold metric_effect calls initialize_metrics"
  using manager_run_refines [OF initialize_refines(1)] by (simp add: initialize_refines(2))

end
