(* ===== verification/Shutdown.thy ===== *)
theory Shutdown
  imports Driver
begin

text \<open>
  How the program ends (\<open>main.go\<close> and \<open>Driver.Run\<close>): the goroutine of \<open>main\<close> waits for a signal or
  the result of \<open>Run\<close>, the goroutine \<open>Run\<close> starts waits for its own copy of the signal and stops the driver, and
  the server answers calls meanwhile. A step relation interleaves them. Of the gRPC server it uses
  the documented behaviour: \<open>GracefulStop\<close> accepts no more calls and returns when all calls have
  ended, and \<open>Serve\<close> returns nil only after that. The state starts when the server is up and both
  goroutines wait.
\<close>

section \<open>The process\<close>

datatype main_pc = MainWaits | MainClosesMetrics | MainExited nat

datatype stop_pc = StopWaits | StopGraceful | StopCloses | StopRemoves | StopDone

datatype serve_pc = Serving | ServeReturned "go_error option"

record 'p process =
  main_at :: main_pc
  stop_at :: stop_pc
  serve_at :: serve_pc
  main_signal :: bool
  run_signal :: bool
  open_calls :: nat
  proc_os :: 'p

definition started :: "'p \<Rightarrow> 'p process" where
  "started os =
     \<lparr>main_at = MainWaits, stop_at = StopWaits, serve_at = Serving, main_signal = False, run_signal = False,
      open_calls = 0, proc_os = os\<rparr>"

fun exited :: "main_pc \<Rightarrow> bool" where
  "exited (MainExited n) = True"
| "exited _ = False"

text \<open>\<open>signal.Notify\<close> gives every registered channel a copy of the signal.\<close>

inductive process_step :: "'p process_ops \<Rightarrow> ('c, 'k) driver \<Rightarrow> 'p process \<Rightarrow> 'p process \<Rightarrow> bool" for po d where
  signal_arrives:
    "\<not> exited (main_at p) \<Longrightarrow> process_step po d p (p\<lparr>main_signal := True, run_signal := True\<rparr>)"
| call_begins:
    "\<not> exited (main_at p) \<Longrightarrow> serve_at p = Serving \<Longrightarrow> stop_at p = StopWaits \<Longrightarrow>
       process_step po d p (p\<lparr>open_calls := Suc (open_calls p)\<rparr>)"
| call_ends:
    "\<not> exited (main_at p) \<Longrightarrow> open_calls p = Suc n \<Longrightarrow> process_step po d p (p\<lparr>open_calls := n\<rparr>)"
| run_signalled:
    "\<not> exited (main_at p) \<Longrightarrow> run_signal p \<Longrightarrow> stop_at p = StopWaits \<Longrightarrow>
       process_step po d p (p\<lparr>run_signal := False, stop_at := StopGraceful\<rparr>)"
| graceful_stop:
    "\<not> exited (main_at p) \<Longrightarrow> stop_at p = StopGraceful \<Longrightarrow> open_calls p = 0 \<Longrightarrow>
       process_step po d p (p\<lparr>stop_at := StopCloses, proc_os := p_graceful_stop po (proc_os p)\<rparr>)"
| close_listener:
    "\<not> exited (main_at p) \<Longrightarrow> stop_at p = StopCloses \<Longrightarrow>
       process_step po d p (p\<lparr>stop_at := StopRemoves, proc_os := snd (p_close_listener po (proc_os p))\<rparr>)"
| remove_socket:
    "\<not> exited (main_at p) \<Longrightarrow> stop_at p = StopRemoves \<Longrightarrow>
       process_step po d p (p\<lparr>stop_at := StopDone, proc_os := snd (p_remove po (socket_path d) (proc_os p))\<rparr>)"
| serve_ends:
    "\<not> exited (main_at p) \<Longrightarrow> serve_at p = Serving \<Longrightarrow> stop_at p \<noteq> StopWaits \<Longrightarrow> stop_at p \<noteq> StopGraceful \<Longrightarrow>
       process_step po d p (p\<lparr>serve_at := ServeReturned None\<rparr>)"
| serve_fails:
    "\<not> exited (main_at p) \<Longrightarrow> serve_at p = Serving \<Longrightarrow> stop_at p = StopWaits \<Longrightarrow>
       process_step po d p (p\<lparr>serve_at := ServeReturned (Some e)\<rparr>)"
| main_signalled:
    "main_at p = MainWaits \<Longrightarrow> main_signal p \<Longrightarrow>
       process_step po d p (p\<lparr>main_signal := False, main_at := MainClosesMetrics\<rparr>)"
| metrics_closed:
    "main_at p = MainClosesMetrics \<Longrightarrow> process_step po d p (p\<lparr>main_at := MainExited (main_wait None)\<rparr>)"
| run_returned:
    "main_at p = MainWaits \<Longrightarrow> serve_at p = ServeReturned err \<Longrightarrow>
       process_step po d p (p\<lparr>main_at := MainExited (main_wait (Some err))\<rparr>)"

section \<open>The order of the shutdown\<close>

text \<open>
  The state of the process so far: the stop goroutine is past \<open>GracefulStop\<close> only when no call is
  open, and has by then done to the process what \<open>driver_stop\<close> says.
\<close>

definition stopped_so_far :: "'p process_ops \<Rightarrow> ('c, 'k) driver \<Rightarrow> 'p \<Rightarrow> stop_pc \<Rightarrow> 'p" where
  "stopped_so_far po d os pc =
     (let g = p_graceful_stop po os; c = snd (p_close_listener po g)
      in case pc of StopWaits \<Rightarrow> os | StopGraceful \<Rightarrow> os | StopCloses \<Rightarrow> g | StopRemoves \<Rightarrow> c
         | StopDone \<Rightarrow> snd (p_remove po (socket_path d) c))"

definition shutdown_ok :: "'p process_ops \<Rightarrow> ('c, 'k) driver \<Rightarrow> 'p \<Rightarrow> 'p process \<Rightarrow> bool" where
  "shutdown_ok po d os p \<longleftrightarrow>
     proc_os p = stopped_so_far po d os (stop_at p) \<and>
     (stop_at p \<noteq> StopWaits \<longrightarrow> stop_at p \<noteq> StopGraceful \<longrightarrow> open_calls p = 0) \<and>
     (serve_at p = ServeReturned None \<longrightarrow> stop_at p \<noteq> StopWaits \<and> stop_at p \<noteq> StopGraceful) \<and>
     (\<forall>n. main_at p = MainExited n \<longrightarrow> n = 1 \<longrightarrow> (\<exists>e. serve_at p = ServeReturned (Some e))) \<and>
     (\<forall>n. main_at p = MainExited n \<longrightarrow> n \<le> 1)"

lemma shutdown_ok_started: "shutdown_ok po d os (started os)"
  by (simp add: shutdown_ok_def started_def stopped_so_far_def Let_def)

lemma shutdown_ok_step:
  "process_step po d p q \<Longrightarrow> shutdown_ok po d os p \<Longrightarrow> shutdown_ok po d os q"
  by (induction rule: process_step.induct)
     (auto simp: shutdown_ok_def stopped_so_far_def Let_def main_wait_def)

lemma shutdown_ok_reachable:
  "(process_step po d)\<^sup>*\<^sup>* (started os) p \<Longrightarrow> shutdown_ok po d os p"
  by (induction rule: rtranclp_induct) (auto intro: shutdown_ok_started shutdown_ok_step)

lemma stop_done:
  assumes "dr_serving d" "dr_listening d" and "(process_step po d)\<^sup>*\<^sup>* (started os) p" "stop_at p = StopDone"
  shows "proc_os p = driver_stop po d os"
  using shutdown_ok_reachable [OF assms(3)] assms(1,2,4)
  by (simp add: shutdown_ok_def stopped_so_far_def driver_stop_def Let_def)

text \<open>After a signal the program can always go on to its end: no state is stuck.\<close>

lemma shutdown_ends:
  assumes "main_at p = MainWaits" "main_signal p"
  shows "\<exists>q. (process_step po d)\<^sup>*\<^sup>* p q \<and> main_at q = MainExited 0"
proof -
  let ?q = "p\<lparr>main_signal := False, main_at := MainClosesMetrics\<rparr>"
  have "process_step po d p ?q" using assms by (rule main_signalled)
  moreover have "process_step po d ?q (?q\<lparr>main_at := MainExited (main_wait None)\<rparr>)" by (rule metrics_closed) simp
  ultimately show ?thesis
    by (intro exI [of _ "?q\<lparr>main_at := MainExited (main_wait None)\<rparr>"])
       (simp add: main_wait_def rtranclp.rtrancl_into_rtrancl)
qed

text \<open>If \<open>main\<close> hears of the end from \<open>Run\<close>, the shutdown was graceful.\<close>

lemma run_result_graceful:
  assumes "(process_step po d)\<^sup>*\<^sup>* (started os) p" "serve_at p = ServeReturned None"
  shows "open_calls p = 0"
  using shutdown_ok_reachable [OF assms(1)] assms(2) by (simp add: shutdown_ok_def)

text \<open>
  C39: The shutdown may cut calls off: there is a run in which the program exits with status 0 while a
  call is still open and the driver still stops, because on a signal \<open>main\<close> waits for the metrics
  server only and not for \<open>Driver.Stop\<close>.
\<close>

theorem shutdown_cuts_calls:
  "\<exists>p. (process_step po d)\<^sup>*\<^sup>* (started os) p \<and> main_at p = MainExited 0 \<and> open_calls p = 1 \<and> stop_at p = StopGraceful"
proof -
  let ?call = "started os\<lparr>open_calls := 1\<rparr>"
  let ?signal = "?call\<lparr>main_signal := True, run_signal := True\<rparr>"
  let ?stop = "?signal\<lparr>run_signal := False, stop_at := StopGraceful\<rparr>"
  let ?main = "?stop\<lparr>main_signal := False, main_at := MainClosesMetrics\<rparr>"
  let ?exit = "?main\<lparr>main_at := MainExited (main_wait None)\<rparr>"
  have "process_step po d (started os) ?call" using call_begins [of "started os" po d] by (simp add: started_def)
  moreover have "process_step po d ?call ?signal" by (rule signal_arrives) (simp add: started_def)
  moreover have "process_step po d ?signal ?stop" by (rule run_signalled) (simp_all add: started_def)
  moreover have "process_step po d ?stop ?main" by (rule main_signalled) (simp_all add: started_def)
  moreover have "process_step po d ?main ?exit" by (rule metrics_closed) simp
  ultimately have "(process_step po d)\<^sup>*\<^sup>* (started os) ?exit" by (meson converse_rtranclp_into_rtranclp rtranclp.rtrancl_refl)
  then show ?thesis
    by (intro exI [of _ ?exit]) (simp add: main_wait_def)
qed

end
