(* ===== verification/Spec2Isabelle.thy ===== *)
theory Spec2Isabelle
  imports Base_Properties Sdk_Properties Device_Properties Driver_Properties Controller_Properties Mock_Filesystem
    Collectors Shutdown
begin

text \<open>
  A model of the evroc CSI driver, the Go program that creates, attaches, mounts and resizes
  volumes of the evroc cloud for Kubernetes, with the theorems that make it correct.

  The program. One binary (\<open>cmd/evroc-csi-driver/main.go\<close>) runs a gRPC server
  (\<open>pkg/driver/driver.go\<close>) with up to three services: identity, controller, node. The controller
  service (\<open>pkg/controller\<close>) owns the volumes: it calls the interface \<open>StorageBackend\<close>
  (\<open>pkg/evroc/storage.go\<close>), retries transient errors, and holds one mutex per node while it
  attaches or detaches. The interface is implemented on the evroc SDK (\<open>pkg/evroc/sdk/storage.go\<close>)
  and by a test double (\<open>test/mocks/storage.go\<close>). The node service (\<open>pkg/node\<close>) mounts the
  attached devices of its machine through the interface \<open>Operations\<close> (\<open>pkg/filesystem\<close>). The
  two services meet in the publish context: the controller returns the serial of the attached
  disk, the node service derives the device path from it.

  The model. A handler is a function from the request and a \<open>world\<close> (theory \<open>World\<close>: the outside
  system, the metrics, the clock) to its result and the new world. A result is a sum of an error
  and a value; an error is its kind and its text, with the gRPC code as one of the kinds. The
  outside system is a type parameter; what the program calls of it is a record of functions:
  \<open>compute_client\<close> for the evroc SDK, \<open>kernel\<close> for system calls, \<open>/proc/mounts\<close> and the commands
  the driver runs, \<open>kube_client\<close> for the Kubernetes API, \<open>runtime\<close> for waiting and the request
  context. What the documentation of that code promises is stated in locales, and each
  has an interpretation on a concrete system.

  The theories.
  \<^item> \<open>Go_Prelude\<close>: fixed-width integers as words, Go errors and status codes, strings, decimal text.
  \<^item> \<open>Validation\<close>, \<open>Capacity\<close>, \<open>Metrics\<close>, \<open>Retry\<close>: \<open>pkg/common/validation.go\<close> with the paths of
    \<open>path/filepath\<close>, \<open>pkg/controller/capacity.go\<close>, \<open>pkg/metrics/metrics.go\<close>, and the retry loop of
    \<open>controller.go\<close>.
  \<^item> \<open>Storage\<close>: the interface \<open>StorageBackend\<close> as a record and its contract as the locales
    \<open>storage_contract\<close> and \<open>exact_storage_contract\<close>; \<open>Sdk_Backend\<close> is \<open>sdk/storage.go\<close> (with SHA-256 in
    \<open>Sha256\<close>), and \<open>Sdk_Contract\<close> shows that it meets the contract on every API with the laws of
    \<open>compute_api\<close>; \<open>Ref_Cloud\<close> is such an API; \<open>Mock_Storage\<close> does the same for the test double.
  \<^item> \<open>Controller\<close> (messages in \<open>Csi\<close>): the controller service. \<open>Controller_Contract\<close> has its lemmas
    over the contract, \<open>Handlers\<close> the rule for what sequences of its calls keep, \<open>Node_Locks\<close> the
    interleaving of its calls and \<open>Node_Runs\<close> the proof that the handlers are runs of it, \<open>Listing\<close> the pages of
    \<open>ListVolumes\<close>, \<open>Accounting\<close> what the calls count in the metrics; \<open>Controller_Properties\<close> and
    \<open>Sdk_Properties\<close> hold the properties.
  \<^item> \<open>Filesystem\<close>: \<open>pkg/filesystem\<close>; \<open>Proc_Mounts\<close> relates the text of \<open>/proc/mounts\<close> to the table
    of mounts; \<open>Fs_Contract\<close> states the contract of \<open>Operations\<close> and proves it for
    \<open>UnixOperations\<close>; \<open>Mock_Filesystem\<close> is the test double.
  \<^item> \<open>Node\<close>: the node service; \<open>Node_Contract\<close> its lemmas over the contract, \<open>Ref_Machine\<close> a concrete
    machine, \<open>Node_Properties\<close> and \<open>Device_Properties\<close> the properties.
  \<^item> \<open>Config\<close>: \<open>pkg/config\<close>; \<open>Driver\<close>: \<open>pkg/driver\<close>, \<open>pkg/identity\<close>, \<open>pkg/version\<close>,
    \<open>pkg/metrics/server.go\<close>, the constructor of the SDK backend, and \<open>main.go\<close>; \<open>Shutdown\<close>: the end of the
    program, \<open>main\<close>, \<open>Driver.Run\<close> and \<open>Driver.Stop\<close> as interleaved goroutines.
  \<^item> \<open>Collectors\<close>: the vectors behind the metrics manager, with names, labels, buckets and registration;
    they refine \<open>Metrics\<close>, the counters and gauges the services are modelled over.

  State. The controller keeps the map of node locks (\<open>node_locks\<close>) and its settings
  (\<open>controller\<close>); the node service only settings (\<open>node_service\<close>); everything else is in the
  cloud, on the machine, or in the metrics. \<open>Node_Locks\<close> interleaves threads at the granularity of
  one backend call per step: every step of a retry loop and of the attach limit check is a step of
  its own, and the backend calls of other handlers may come between two steps. For the node service
  \<open>node_calls_refine_mounts\<close> composes any sequence of its calls: their effect on the mount table is
  that of a counter of mounts per path.

  Assumptions. Of the cloud (\<open>compute_api\<close>): what exists and who owns it changes by the driver's writes
  only, not between two reads; with \<open>serial_api\<close> also that \<open>WaitForReady\<close> shows the serial recorded for
  the attachment. The driver's identifier is not empty (\<open>sdk_env\<close>); a configuration without one loads
  too, and \<open>empty_identifier_deletes_unlabelled\<close> shows what then happens. Of the kernel (\<open>unix_kernel\<close>): a
  mount is recorded under the name it was asked for if the path is one of \<open>canon\<close> (clean, without symbolic
  links), and \<open>/proc/mounts\<close> is the table with some characters as octal escapes; the driver does not undo
  them, so the properties of mounts are about paths without such characters (\<open>plain_name\<close>).

  Loops. The retry loop ends by the number of attempts left; the polling loops of
  \<open>WaitForDevice\<close> and of \<open>waitForDiskResize\<close> end because every wait advances the clock by at least
  a nanosecond towards the deadline, so no fuel is used there. \<open>FindDeviceForPath\<close> makes ten hops,
  as in the code. The client of \<open>list_all_volumes\<close> gets one call more than there are volumes, which
  is proved to be enough.

  Not modelled: log output and the logging interceptor, durations printed in error texts, the
  Prometheus registry (a parameter with its laws) and \<open>net/http\<close>, the YAML parser, the defaults and checks inside the evroc SDK and its
  \<open>IsAttachmentReady\<close> (parameters), and the end-to-end test framework. Shares of used space are
  exact fractions where the code divides in \<open>float64\<close>. A nil map reads like an empty one.
\<close>

section \<open>The two backends\<close>

lemma sdk_backend_exact:
  "sdk_env cl vd va rt b \<Longrightarrow>
     exact_storage_contract (sdk_storage_backend rt b) (own_attachments va b) (own_disk vd b) (no_disk vd)"
  by (rule sdk_env.meets_contract)

lemma mock_backend_contract: "storage_contract (mock_storage_backend fo) mock_att mock_has_disk mock_no_disk"
  by (rule mock.storage_contract_axioms)

text \<open>
  C5: Both implementations of \<open>StorageBackend\<close> refine the contract the controller is verified
  against: the one on the evroc SDK the exact contract, for every API with the documented laws,
  the test double the contract without the exactness of attach and detach.
\<close>

theorem backends_meet_contract:
  assumes "sdk_env cl vd va rt b"
  shows "exact_storage_contract (sdk_storage_backend rt b) (own_attachments va b) (own_disk vd b) (no_disk vd) \<and>
    storage_contract (mock_storage_backend fo) mock_att mock_has_disk mock_no_disk"
  using sdk_backend_exact [OF assms] mock_backend_contract by blast

lemma backends_meet_contract_witness:
  "exact_storage_contract (sdk_storage_backend still_runtime ref_backend) (own_attachments ref_va ref_backend)
     (own_disk ref_vd ref_backend) (no_disk ref_vd)"
  using backends_meet_contract [OF ref_cloud_env] by blast

section \<open>From the controller to the node\<close>

lemma device_path_default:
  assumes "device_by_id_path s = default_device_by_id_path" and "no_slash serial"
  shows "device_path_of s serial = ''/dev/disk/by-id/scsi-0QEMU_QEMU_HARDDISK_'' @ serial"
proof -
  let ?x = "''scsi-0QEMU_QEMU_HARDDISK_'' @ serial"
  have x: "CHR ''/'' \<notin> set ?x" using assms(2) by (simp add: no_slash_def)
  have "split_on (CHR ''/'') (''/dev/disk/by-id'' @ ''/'' @ ?x) = ['''', ''dev'', ''disk'', ''by-id'', ?x]"
    using split_on_no_sep [OF x] by simp
  then have "path_comps (''/dev/disk/by-id'' @ ''/'' @ ?x) = [''dev'', ''disk'', ''by-id'', ?x]"
    by (simp add: path_comps_def is_abs_def)
  then have "filepath_clean (''/dev/disk/by-id'' @ ''/'' @ ?x) = ''/dev/disk/by-id/'' @ ?x"
    by (simp add: filepath_clean_def path_of_comps_def is_abs_def)
  then show ?thesis
    by (simp add: device_path_of_def assms(1) default_device_by_id_path_def qemu_scsi_disk_prefix_def filepath_join_def)
qed

text \<open>
  C9: The publish context carries a volume from the controller to the node: after a successful
  \<open>ControllerPublishVolume\<close> the volume is attached to the node, the context holds the serial the cloud
  has recorded for that attachment, and a valid \<open>NodeStageVolume\<close> with this context, for a path that is
  not mounted, never fails for want of a serial but stages the device
  \<open>/dev/disk/by-id/scsi-0QEMU_QEMU_HARDDISK_<serial>\<close> of the attachment.
\<close>

theorem publish_context_stages:
  assumes "serial_controller cl vd va rt b s sv"
    and "no_slash (pb_volume_id req)" "no_slash (pb_node_id req)"
    and "controller_publish_volume s req (ls, w) = Some (Inr ctx, ls', w')"
    and "sg_publish_context sreq = ctx" and "check_stage_request sreq = None"
    and "mounted_or_false n (sg_staging_path sreq) v = (False, v1)"
    and "device_by_id_path n = default_device_by_id_path"
  shows "\<exists>serial. ctx = [''serial'' \<mapsto> serial] \<and> serial \<noteq> '''' \<and>
    (pb_volume_id req, pb_node_id req) \<in> own_attachments va b (sys w') \<and>
    sv (sys w') (attachment_name (pb_volume_id req) (pb_node_id req)) = Some serial \<and>
    node_stage_volume n sreq v = stage_device n sreq serial v1 \<and>
    (no_slash serial \<longrightarrow> device_path_of n serial = ''/dev/disk/by-id/scsi-0QEMU_QEMU_HARDDISK_'' @ serial)"
proof -
  note ctl = serial_controller.axioms(1) [OF assms(1)]
  note p = publish_split [OF assms(4)]
  note ok = exact_controller_env.publish_ok [OF sdk_exact [OF ctl] assms(2,3) p(1)]
  from ok(3) obtain serial where c: "ctx = [''serial'' \<mapsto> serial]" "serial \<noteq> ''''" by blast
  then have "node_stage_volume n sreq v = stage_device n sreq serial v1"
    using assms(5-7) by (simp add: node_stage_volume_def)
  moreover have "sv (sys w') (attachment_name (pb_volume_id req) (pb_node_id req)) = Some serial"
    using serial_controller.publish_serial_recorded [OF assms(1)] p(1,2) c(1) by simp
  ultimately show ?thesis using c ok(1) p(2) device_path_default [OF assms(8)] by blast
qed

lemma publish_context_stages_witness:
  "\<exists>ctx serial v. \<exists>w' :: cloud world. ref_sv (sys w') (attachment_name ''csi-a'' ''vm-1'') = Some serial \<and>
    node_stage_volume (ref_node NoFault) ((ref_stage ''/staging'')\<lparr>sg_publish_context := ctx\<rparr>)
      (ref_machine_world (ref_machine_state\<lparr>m_table := []\<rparr>)) =
    stage_device (ref_node NoFault) ((ref_stage ''/staging'')\<lparr>sg_publish_context := ctx\<rparr>) serial v"
proof -
  obtain ctx ls w where p: "controller_publish_volume ref_controller (ref_publish ''csi-a'' ''vm-1'') (Map.empty, ref_world)
       = Some (Inr ctx, ls, w)"
    using ref_publish_ok by blast
  let ?sreq = "(ref_stage ''/staging'')\<lparr>sg_publish_context := ctx\<rparr>"
  let ?v = "ref_machine_world (ref_machine_state\<lparr>m_table := []\<rparr>)"
  have v: "validate_path ''/staging'' ''staging target path'' = None" by code_simp
  have ok: "check_stage_request ?sreq = None"
    by (simp add: check_stage_request_def ref_stage_def v validate_required_field_def)
  have "\<not> fst (mounted_or_false (ref_node NoFault) ''/staging'' ?v)" by code_simp
  then obtain v1 where m: "mounted_or_false (ref_node NoFault) (sg_staging_path ?sreq) ?v = (False, v1)"
    by (cases "mounted_or_false (ref_node NoFault) ''/staging'' ?v") (simp add: ref_stage_def)
  have d: "device_by_id_path (ref_node NoFault) = default_device_by_id_path" by (simp add: ref_node_def)
  from publish_context_stages [OF ref_serial_env _ _ p _ ok m d, unfolded ref_publish_fields, OF ref_names_plain(1,2)]
  obtain serial where "ref_sv (sys w) (attachment_name ''csi-a'' ''vm-1'') = Some serial"
    "node_stage_volume (ref_node NoFault) ?sreq ?v = stage_device (ref_node NoFault) ?sreq serial v1"
    by auto
  then show ?thesis by blast
qed


end
